(* ===== verification/Scd_Prelude.thy ===== *)
theory Scd_Prelude
  imports Main "HOL-Library.Word"
begin

text \<open>
  The shared ground of the development: the machine integer types of the driver, the named
  collections the component theories fill, and generic facts about words, bytes and lists that
  no component owns.

  Integers. \<open>uint8_t\<close>, \<open>uint16_t\<close>, \<open>uint32_t\<close> and \<open>uint64_t\<close> are words of their width, so
  every addition and subtraction of the source wraps here as it wraps there. \<open>int32_t\<close> values are
  only stored, compared and printed by the driver, never combined in a way that can overflow; they
  are mathematical integers, and the codec theory proves that what is stored fits. \<open>size_t\<close>
  counts are only compared with small constants and are natural numbers.
\<close>

unbundle bit_operations_syntax

type_synonym u8 = "8 word"
type_synonym u16 = "16 word"
type_synonym u32 = "32 word"
type_synonym u64 = "64 word"
type_synonym i32 = int

named_theorems frame_simps
  \<open>what an operation leaves alone, one equation per field\<close>
named_theorems driver_defs
  \<open>definitions of the driver's small helpers, unfolded together\<close>
named_theorems kind_defs
  \<open>the classification tables over operation kinds\<close>

subsection \<open>Saturating counters\<close>

definition incrementSaturating :: "'a::len word \<Rightarrow> 'a word" where
  "incrementSaturating v = (if v \<noteq> - 1 then v + 1 else v)"

lemma unat_minus_one_word_max: "unat (- 1 :: 'a::len word) = 2 ^ LENGTH('a) - 1"
  by (simp add: unsigned_minus_1_eq_mask mask_eq_exp_minus_1)

lemma unat_incrementSaturating:
  "unat (incrementSaturating (v :: 'a::len word)) = min (unat v + 1) (2 ^ LENGTH('a) - 1)"
proof (cases "v = - 1")
  case True
  then show ?thesis by (simp add: incrementSaturating_def unat_minus_one_word_max)
next
  case False
  then have "1 + v \<noteq> 0"
    by (metis add.commute add.right_inverse add_right_cancel)
  then have "unat (1 + v) = Suc (unat v)"
    by (rule unatSuc)
  moreover have "unat (1 + v) < 2 ^ LENGTH('a)"
    by simp
  ultimately show ?thesis
    using False by (simp add: incrementSaturating_def add.commute)
qed

lemma incrementSaturating_pos: "incrementSaturating (v :: 'a::len word) \<noteq> 0"
proof -
  have "0 < (2::nat) ^ LENGTH('a) - 1"
    using one_less_power [of "2::nat" "LENGTH('a)"] by simp
  then have "0 < unat (incrementSaturating v)"
    by (simp add: unat_incrementSaturating)
  then show ?thesis by (metis less_irrefl unat_0)
qed

lemma incrementSaturating_mono: "unat v \<le> unat (incrementSaturating (v :: 'a::len word))"
proof -
  have "unat v < 2 ^ LENGTH('a)"
    by (rule unsigned_less)
  then have "unat v \<le> 2 ^ LENGTH('a) - 1"
    by linarith
  then show ?thesis by (simp add: unat_incrementSaturating)
qed

subsection \<open>Bytes and 16-bit words\<close>

text \<open>\<open>static_cast<uint8_t>(w >> 8)\<close>, \<open>static_cast<uint8_t>(w & 0xFF)\<close> and their inverse.\<close>

definition highByte :: "u16 \<Rightarrow> u8" where
  "highByte w = ucast (drop_bit 8 w)"

definition lowByte :: "u16 \<Rightarrow> u8" where
  "lowByte w = ucast (w AND 0xFF)"

definition wordOfBytes :: "u8 \<Rightarrow> u8 \<Rightarrow> u16" where
  "wordOfBytes hi lo = (push_bit 8 (ucast hi) OR ucast lo)"

lemma byte_mask: "(0xFF :: u16) = mask 8"
  by (simp add: mask_eq_exp_minus_1)

lemma wordOfBytes_split [simp]: "wordOfBytes (highByte w) (lowByte w) = w"
  unfolding wordOfBytes_def highByte_def lowByte_def byte_mask
  by (rule bit_word_eqI) (auto simp: bit_simps)

lemma highByte_wordOfBytes [simp]: "highByte (wordOfBytes h l) = h"
  unfolding wordOfBytes_def highByte_def
  by (rule bit_word_eqI) (auto simp: bit_simps dest: bit_imp_le_length)

lemma lowByte_wordOfBytes [simp]: "lowByte (wordOfBytes h l) = l"
  unfolding wordOfBytes_def lowByte_def byte_mask
  by (rule bit_word_eqI) (auto simp: bit_simps dest: bit_imp_le_length)

subsection \<open>Fixed-size buffers\<close>

text \<open>
  A zero-initialised buffer of \<open>n\<close> bytes into which a callee has written \<open>bs\<close>: what it did not
  write stays 0, and it has no room for more than \<open>n\<close> bytes.
\<close>

definition fillBuffer :: "nat \<Rightarrow> u8 list \<Rightarrow> u8 list" where
  "fillBuffer n bs = take n (bs @ replicate n 0)"

lemma length_fillBuffer [simp]: "length (fillBuffer n bs) = n"
  by (simp add: fillBuffer_def)

lemma fillBuffer_exact: "length bs = n \<Longrightarrow> fillBuffer n bs = bs"
  by (simp add: fillBuffer_def)

end
