(* ===== verification/Scd_Status.thy ===== *)
theory Scd_Status
  imports Scd_Prelude
begin

text \<open>
  Status values (include/SCD41/Status.h). The enumeration \<open>Err\<close> with the source's enumerators
  (the two aliases \<open>CRC_ERROR\<close> and \<open>CONVERSION_NOT_READY\<close> are the same values as
  \<open>CRC_MISMATCH\<close> and \<open>MEASUREMENT_NOT_READY\<close>), the diagnostic names, and the three-field
  status record with its constructors. Enumerators carry the prefix of their enumeration, because
  several enumerations of the source share names such as \<open>OK\<close>, \<open>NONE\<close> and \<open>IDLE\<close>.
\<close>

datatype Err =
    Err_OK | Err_NOT_INITIALIZED | Err_INVALID_CONFIG | Err_I2C_ERROR | Err_TIMEOUT
  | Err_INVALID_PARAM | Err_DEVICE_NOT_FOUND | Err_CRC_MISMATCH | Err_MEASUREMENT_NOT_READY
  | Err_BUSY | Err_IN_PROGRESS | Err_COMMAND_FAILED | Err_UNSUPPORTED | Err_I2C_NACK_ADDR
  | Err_I2C_NACK_DATA | Err_I2C_NACK_READ | Err_I2C_TIMEOUT | Err_I2C_BUS | Err_OFFLINE
  | Err_RESULT_NOT_READY | Err_STALE_RESULT | Err_CANCELLED | Err_PARTIAL | Err_INDETERMINATE
  | Err_CONFIRMATION_REQUIRED | Err_RECONCILIATION_REQUIRED | Err_I2C_NACK
  | Err_I2C_SHORT_TRANSFER

fun errorName :: "Err \<Rightarrow> string" where
  "errorName Err_OK = ''OK''"
| "errorName Err_NOT_INITIALIZED = ''NOT_INITIALIZED''"
| "errorName Err_INVALID_CONFIG = ''INVALID_CONFIG''"
| "errorName Err_I2C_ERROR = ''I2C_ERROR''"
| "errorName Err_TIMEOUT = ''TIMEOUT''"
| "errorName Err_INVALID_PARAM = ''INVALID_PARAM''"
| "errorName Err_DEVICE_NOT_FOUND = ''DEVICE_NOT_FOUND''"
| "errorName Err_CRC_MISMATCH = ''CRC_MISMATCH''"
| "errorName Err_MEASUREMENT_NOT_READY = ''MEASUREMENT_NOT_READY''"
| "errorName Err_BUSY = ''BUSY''"
| "errorName Err_IN_PROGRESS = ''IN_PROGRESS''"
| "errorName Err_COMMAND_FAILED = ''COMMAND_FAILED''"
| "errorName Err_UNSUPPORTED = ''UNSUPPORTED''"
| "errorName Err_I2C_NACK_ADDR = ''I2C_NACK_ADDR''"
| "errorName Err_I2C_NACK_DATA = ''I2C_NACK_DATA''"
| "errorName Err_I2C_NACK_READ = ''I2C_NACK_READ''"
| "errorName Err_I2C_TIMEOUT = ''I2C_TIMEOUT''"
| "errorName Err_I2C_BUS = ''I2C_BUS''"
| "errorName Err_OFFLINE = ''OFFLINE''"
| "errorName Err_RESULT_NOT_READY = ''RESULT_NOT_READY''"
| "errorName Err_STALE_RESULT = ''STALE_RESULT''"
| "errorName Err_CANCELLED = ''CANCELLED''"
| "errorName Err_PARTIAL = ''PARTIAL''"
| "errorName Err_INDETERMINATE = ''INDETERMINATE''"
| "errorName Err_CONFIRMATION_REQUIRED = ''CONFIRMATION_REQUIRED''"
| "errorName Err_RECONCILIATION_REQUIRED = ''RECONCILIATION_REQUIRED''"
| "errorName Err_I2C_NACK = ''I2C_NACK''"
| "errorName Err_I2C_SHORT_TRANSFER = ''I2C_SHORT_TRANSFER''"

record Status =
  st_code :: Err
  st_detail :: i32
  st_msg :: string

definition ok :: "Status \<Rightarrow> bool" where
  "ok s \<longleftrightarrow> st_code s = Err_OK"

definition inProgress :: "Status \<Rightarrow> bool" where
  "inProgress s \<longleftrightarrow> st_code s = Err_IN_PROGRESS"

definition Status_Ok :: Status where
  "Status_Ok = \<lparr>st_code = Err_OK, st_detail = 0, st_msg = ''OK''\<rparr>"

text \<open>\<open>Status::Error(err, message, detailCode)\<close>; the default of the last argument is 0.\<close>

definition Status_Error :: "Err \<Rightarrow> string \<Rightarrow> i32 \<Rightarrow> Status" where
  "Status_Error err message detailCode =
     \<lparr>st_code = err, st_detail = detailCode, st_msg = message\<rparr>"

lemma st_code_Status [simp]:
  "st_code Status_Ok = Err_OK"
  "st_code (Status_Error e m d) = e"
  by (simp_all add: Status_Ok_def Status_Error_def)

lemma st_detail_Status [simp]:
  "st_detail Status_Ok = 0"
  "st_detail (Status_Error e m d) = d"
  by (simp_all add: Status_Ok_def Status_Error_def)

lemma ok_Status [simp]:
  "ok Status_Ok"
  "ok (Status_Error e m d) \<longleftrightarrow> e = Err_OK"
  by (simp_all add: ok_def)

lemma inProgress_Status [simp]:
  "\<not> inProgress Status_Ok"
  "inProgress (Status_Error e m d) \<longleftrightarrow> e = Err_IN_PROGRESS"
  by (simp_all add: inProgress_def)

lemma ok_not_inProgress: "ok s \<Longrightarrow> \<not> inProgress s"
  by (simp add: ok_def inProgress_def)

text \<open>The message is text for people; the simplifier has no business inside it.\<close>

lemma Status_Error_cong [cong]:
  "e = e' \<Longrightarrow> d = d' \<Longrightarrow> Status_Error e m d = Status_Error e' m d'"
  by simp

end
