(* ===== verification/Scd_Commands.thy ===== *)
theory Scd_Commands
  imports Scd_Prelude
begin

text \<open>
  The protocol constants (include/SCD41/CommandTable.h): addresses, response lengths, execution
  times, command words and encoded limits. Each constant is an abbreviation, so that the proofs
  and the evaluations see the number itself.
\<close>

abbreviation I2C_ADDRESS :: u8 where "I2C_ADDRESS \<equiv> 0x62"
abbreviation CRC_INIT :: u8 where "CRC_INIT \<equiv> 0xFF"
abbreviation CRC_POLY :: u8 where "CRC_POLY \<equiv> 0x31"

abbreviation DATA_WORD_WITH_CRC :: nat where "DATA_WORD_WITH_CRC \<equiv> 3"
abbreviation MEASUREMENT_RESPONSE_LEN :: nat where "MEASUREMENT_RESPONSE_LEN \<equiv> 9"

subsection \<open>Execution times in milliseconds\<close>

abbreviation EXECUTION_TIME_SHORT_MS :: u32 where "EXECUTION_TIME_SHORT_MS \<equiv> 1"
abbreviation EXECUTION_TIME_POWER_UP_MS :: u32 where "EXECUTION_TIME_POWER_UP_MS \<equiv> 30"
abbreviation POWER_UP_DELAY_MAX_MS :: u32 where "POWER_UP_DELAY_MAX_MS \<equiv> 1000"
abbreviation EXECUTION_TIME_REINIT_MS :: u32 where "EXECUTION_TIME_REINIT_MS \<equiv> 30"
abbreviation EXECUTION_TIME_SINGLE_SHOT_RHT_MS :: u32 where "EXECUTION_TIME_SINGLE_SHOT_RHT_MS \<equiv> 50"
abbreviation EXECUTION_TIME_FRC_MS :: u32 where "EXECUTION_TIME_FRC_MS \<equiv> 400"
abbreviation EXECUTION_TIME_STOP_PERIODIC_MS :: u32 where "EXECUTION_TIME_STOP_PERIODIC_MS \<equiv> 500"
abbreviation EXECUTION_TIME_SINGLE_SHOT_MS :: u32 where "EXECUTION_TIME_SINGLE_SHOT_MS \<equiv> 5000"
abbreviation EXECUTION_TIME_PERSIST_MS :: u32 where "EXECUTION_TIME_PERSIST_MS \<equiv> 800"
abbreviation EXECUTION_TIME_FACTORY_RESET_MS :: u32 where "EXECUTION_TIME_FACTORY_RESET_MS \<equiv> 1200"
abbreviation EXECUTION_TIME_SELF_TEST_MS :: u32 where "EXECUTION_TIME_SELF_TEST_MS \<equiv> 10000"

subsection \<open>Command words\<close>

abbreviation CMD_START_PERIODIC_MEASUREMENT :: u16 where "CMD_START_PERIODIC_MEASUREMENT \<equiv> 0x21B1"
abbreviation CMD_READ_MEASUREMENT :: u16 where "CMD_READ_MEASUREMENT \<equiv> 0xEC05"
abbreviation CMD_STOP_PERIODIC_MEASUREMENT :: u16 where "CMD_STOP_PERIODIC_MEASUREMENT \<equiv> 0x3F86"
abbreviation CMD_SET_TEMPERATURE_OFFSET :: u16 where "CMD_SET_TEMPERATURE_OFFSET \<equiv> 0x241D"
abbreviation CMD_GET_TEMPERATURE_OFFSET :: u16 where "CMD_GET_TEMPERATURE_OFFSET \<equiv> 0x2318"
abbreviation CMD_SET_SENSOR_ALTITUDE :: u16 where "CMD_SET_SENSOR_ALTITUDE \<equiv> 0x2427"
abbreviation CMD_GET_SENSOR_ALTITUDE :: u16 where "CMD_GET_SENSOR_ALTITUDE \<equiv> 0x2322"
abbreviation CMD_SET_AMBIENT_PRESSURE :: u16 where "CMD_SET_AMBIENT_PRESSURE \<equiv> 0xE000"
abbreviation CMD_GET_AMBIENT_PRESSURE :: u16 where "CMD_GET_AMBIENT_PRESSURE \<equiv> 0xE000"
abbreviation CMD_PERFORM_FORCED_RECALIBRATION :: u16 where
  "CMD_PERFORM_FORCED_RECALIBRATION \<equiv> 0x362F"
abbreviation CMD_SET_ASC_ENABLED :: u16 where "CMD_SET_ASC_ENABLED \<equiv> 0x2416"
abbreviation CMD_GET_ASC_ENABLED :: u16 where "CMD_GET_ASC_ENABLED \<equiv> 0x2313"
abbreviation CMD_SET_ASC_TARGET :: u16 where "CMD_SET_ASC_TARGET \<equiv> 0x243A"
abbreviation CMD_GET_ASC_TARGET :: u16 where "CMD_GET_ASC_TARGET \<equiv> 0x233F"
abbreviation CMD_START_LOW_POWER_PERIODIC_MEASUREMENT :: u16 where
  "CMD_START_LOW_POWER_PERIODIC_MEASUREMENT \<equiv> 0x21AC"
abbreviation CMD_GET_DATA_READY_STATUS :: u16 where "CMD_GET_DATA_READY_STATUS \<equiv> 0xE4B8"
abbreviation CMD_PERSIST_SETTINGS :: u16 where "CMD_PERSIST_SETTINGS \<equiv> 0x3615"
abbreviation CMD_GET_SERIAL_NUMBER :: u16 where "CMD_GET_SERIAL_NUMBER \<equiv> 0x3682"
abbreviation CMD_PERFORM_SELF_TEST :: u16 where "CMD_PERFORM_SELF_TEST \<equiv> 0x3639"
abbreviation CMD_PERFORM_FACTORY_RESET :: u16 where "CMD_PERFORM_FACTORY_RESET \<equiv> 0x3632"
abbreviation CMD_REINIT :: u16 where "CMD_REINIT \<equiv> 0x3646"
abbreviation CMD_GET_SENSOR_VARIANT :: u16 where "CMD_GET_SENSOR_VARIANT \<equiv> 0x202F"
abbreviation CMD_SET_ASC_INITIAL_PERIOD :: u16 where "CMD_SET_ASC_INITIAL_PERIOD \<equiv> 0x2445"
abbreviation CMD_GET_ASC_INITIAL_PERIOD :: u16 where "CMD_GET_ASC_INITIAL_PERIOD \<equiv> 0x2340"
abbreviation CMD_SET_ASC_STANDARD_PERIOD :: u16 where "CMD_SET_ASC_STANDARD_PERIOD \<equiv> 0x244E"
abbreviation CMD_GET_ASC_STANDARD_PERIOD :: u16 where "CMD_GET_ASC_STANDARD_PERIOD \<equiv> 0x234B"
abbreviation CMD_MEASURE_SINGLE_SHOT :: u16 where "CMD_MEASURE_SINGLE_SHOT \<equiv> 0x219D"
abbreviation CMD_MEASURE_SINGLE_SHOT_RHT_ONLY :: u16 where
  "CMD_MEASURE_SINGLE_SHOT_RHT_ONLY \<equiv> 0x2196"
abbreviation CMD_POWER_DOWN :: u16 where "CMD_POWER_DOWN \<equiv> 0x36E0"
abbreviation CMD_WAKE_UP :: u16 where "CMD_WAKE_UP \<equiv> 0x36F6"

subsection \<open>Response encoding and value ranges\<close>

abbreviation DATA_READY_MASK :: u16 where "DATA_READY_MASK \<equiv> 0x07FF"
abbreviation FRC_FAILED :: u16 where "FRC_FAILED \<equiv> 0xFFFF"
abbreviation FRC_OFFSET_BIAS :: u16 where "FRC_OFFSET_BIAS \<equiv> 0x8000"
abbreviation SELF_TEST_PASS :: u16 where "SELF_TEST_PASS \<equiv> 0x0000"
abbreviation SENSOR_VARIANT_MASK :: u16 where "SENSOR_VARIANT_MASK \<equiv> 0xF000"
abbreviation SENSOR_VARIANT_SHIFT :: nat where "SENSOR_VARIANT_SHIFT \<equiv> 12"
abbreviation SENSOR_VARIANT_SCD40 :: u8 where "SENSOR_VARIANT_SCD40 \<equiv> 0x0"
abbreviation SENSOR_VARIANT_SCD41 :: u8 where "SENSOR_VARIANT_SCD41 \<equiv> 0x1"
abbreviation SENSOR_VARIANT_SCD43 :: u8 where "SENSOR_VARIANT_SCD43 \<equiv> 0x5"

abbreviation ALTITUDE_MAX_M :: nat where "ALTITUDE_MAX_M \<equiv> 3000"
abbreviation AMBIENT_PRESSURE_MIN_PA :: u32 where "AMBIENT_PRESSURE_MIN_PA \<equiv> 70000"
abbreviation AMBIENT_PRESSURE_MAX_PA :: u32 where "AMBIENT_PRESSURE_MAX_PA \<equiv> 120000"
abbreviation AMBIENT_PRESSURE_MIN_WORD :: u16 where "AMBIENT_PRESSURE_MIN_WORD \<equiv> 700"
abbreviation AMBIENT_PRESSURE_MAX_WORD :: u16 where "AMBIENT_PRESSURE_MAX_WORD \<equiv> 1200"
abbreviation ASC_PERIOD_STEP_HOURS :: nat where "ASC_PERIOD_STEP_HOURS \<equiv> 4"

end
