(* ===== verification/Scd_Transport.thy ===== *)
theory Scd_Transport
  imports Scd_Status Scd_Commands
begin

text \<open>
  The transport boundary (include/SCD41/Config.h): the intent, code and disposition of one physical
  transfer, the request the driver hands to the application's callback, the result it gets back,
  and the configuration that carries the callback.

  The callback is the application's, so it is a value of the configuration and not a definition: a
  function from the request, the opaque context pointer and the state \<open>'w\<close> of the world behind it
  to a result, the bytes it left in the read buffer and the world afterwards. Nothing is assumed
  of it here. \<open>TransferCode\<close> and \<open>TransferDisposition\<close> are 8-bit enumerations that an adapter
  can return with a value no enumerator has, and the driver checks for that; the constructors
  \<open>TransferCode_INVALID\<close> and \<open>Disp_INVALID\<close> stand for all such values, which the source treats
  alike.
\<close>

datatype TransferIntent = Intent_NORMAL | Intent_EXPECTED_WRITE_NACK

datatype TransferCode =
    TransferCode_OK | TransferCode_NACK | TransferCode_TIMEOUT | TransferCode_BUS_ERROR
  | TransferCode_SHORT_TRANSFER | TransferCode_FAILED | TransferCode_INVALID

datatype TransferDisposition =
    Disp_NOT_STARTED | Disp_NO_EFFECT | Disp_COMPLETE | Disp_INDETERMINATE | Disp_INVALID

text \<open>The underlying values; the driver compares them with that of the last enumerator.\<close>

primrec transferCodeValue :: "TransferCode \<Rightarrow> nat" where
  "transferCodeValue TransferCode_OK = 0"
| "transferCodeValue TransferCode_NACK = 1"
| "transferCodeValue TransferCode_TIMEOUT = 2"
| "transferCodeValue TransferCode_BUS_ERROR = 3"
| "transferCodeValue TransferCode_SHORT_TRANSFER = 4"
| "transferCodeValue TransferCode_FAILED = 5"
| "transferCodeValue TransferCode_INVALID = 6"

primrec dispositionValue :: "TransferDisposition \<Rightarrow> nat" where
  "dispositionValue Disp_NOT_STARTED = 0"
| "dispositionValue Disp_NO_EFFECT = 1"
| "dispositionValue Disp_COMPLETE = 2"
| "dispositionValue Disp_INDETERMINATE = 3"
| "dispositionValue Disp_INVALID = 4"

lemma inj_transferCodeValue: "transferCodeValue a = transferCodeValue b \<Longrightarrow> a = b"
  by (cases a; cases b) simp_all

lemma inj_dispositionValue: "dispositionValue a = dispositionValue b \<Longrightarrow> a = b"
  by (cases a; cases b) simp_all

text \<open>The order of the enumerators, as \<open>static_cast<uint8_t>\<close> gives it.\<close>

instantiation TransferCode :: linorder
begin

definition less_eq_TransferCode :: "TransferCode \<Rightarrow> TransferCode \<Rightarrow> bool" where
  "a \<le> b \<longleftrightarrow> transferCodeValue a \<le> transferCodeValue b"

definition less_TransferCode :: "TransferCode \<Rightarrow> TransferCode \<Rightarrow> bool" where
  "a < b \<longleftrightarrow> transferCodeValue a < transferCodeValue b"

instance
  by standard (auto simp: less_eq_TransferCode_def less_TransferCode_def intro: inj_transferCodeValue)

end

instantiation TransferDisposition :: linorder
begin

definition less_eq_TransferDisposition ::
    "TransferDisposition \<Rightarrow> TransferDisposition \<Rightarrow> bool" where
  "a \<le> b \<longleftrightarrow> dispositionValue a \<le> dispositionValue b"

definition less_TransferDisposition ::
    "TransferDisposition \<Rightarrow> TransferDisposition \<Rightarrow> bool" where
  "a < b \<longleftrightarrow> dispositionValue a < dispositionValue b"

instance
  by standard
    (auto simp: less_eq_TransferDisposition_def less_TransferDisposition_def
      intro: inj_dispositionValue)

end

lemma invalid_code_iff: "TransferCode_FAILED < c \<longleftrightarrow> c = TransferCode_INVALID"
  by (cases c) (simp_all add: less_TransferCode_def)

lemma invalid_disposition_iff: "Disp_INDETERMINATE < d \<longleftrightarrow> d = Disp_INVALID"
  by (cases d) (simp_all add: less_TransferDisposition_def)

text \<open>
  The read buffer of the source is a pointer with a length; the request carries the length and the
  callback returns the bytes it stored.
\<close>

record TransferRequest =
  tq_address :: u8
  tq_writeData :: "u8 list"
  tq_readLength :: nat
  tq_timeoutMs :: u32
  tq_intent :: TransferIntent

record TransferResult =
  tr_code :: TransferCode
  tr_disposition :: TransferDisposition
  tr_detail :: i32
  tr_bytesTransferred :: nat
  tr_completedMs :: u32

definition TransferResult_Ok :: "nat \<Rightarrow> u32 \<Rightarrow> TransferResult" where
  "TransferResult_Ok bytes completedAtMs =
     \<lparr>tr_code = TransferCode_OK, tr_disposition = Disp_COMPLETE, tr_detail = 0,
      tr_bytesTransferred = bytes, tr_completedMs = completedAtMs\<rparr>"

type_synonym 'w I2cTransferFn =
  "TransferRequest \<Rightarrow> nat \<Rightarrow> 'w \<Rightarrow> TransferResult \<times> u8 list \<times> 'w"

record 'w Config =
  cfg_transfer :: "'w I2cTransferFn option"
  cfg_transferUser :: nat
  cfg_transferTimeoutMs :: u32
  cfg_powerUpDelayMs :: u16
  cfg_offlineThreshold :: u8
  cfg_strictVariantCheck :: bool

definition Config_init :: "'w Config" where
  "Config_init = \<lparr>cfg_transfer = None, cfg_transferUser = 0, cfg_transferTimeoutMs = 50,
     cfg_powerUpDelayMs = 30, cfg_offlineThreshold = 5, cfg_strictVariantCheck = True\<rparr>"

text \<open>\<open>transferStatus\<close> of src/SCD41.cpp: the status a transfer code maps to.\<close>

definition transferStatus :: "TransferResult \<Rightarrow> Status" where
  "transferStatus result =
     (case tr_code result of
        TransferCode_OK \<Rightarrow> Status_Ok
      | TransferCode_NACK \<Rightarrow> Status_Error Err_I2C_NACK ''I2C NACK'' (tr_detail result)
      | TransferCode_TIMEOUT \<Rightarrow> Status_Error Err_I2C_TIMEOUT ''I2C timeout'' (tr_detail result)
      | TransferCode_BUS_ERROR \<Rightarrow> Status_Error Err_I2C_BUS ''I2C bus error'' (tr_detail result)
      | TransferCode_SHORT_TRANSFER \<Rightarrow>
          Status_Error Err_I2C_SHORT_TRANSFER ''I2C short transfer'' (tr_detail result)
      | TransferCode_FAILED \<Rightarrow>
          Status_Error Err_I2C_ERROR ''I2C transfer failed'' (tr_detail result)
      | TransferCode_INVALID \<Rightarrow> Status_Error Err_I2C_ERROR ''Unknown I2C result'' 0)"

lemma ok_transferStatus [simp]: "ok (transferStatus r) \<longleftrightarrow> tr_code r = TransferCode_OK"
  by (cases "tr_code r") (simp_all add: transferStatus_def)

lemma not_inProgress_transferStatus [simp]: "\<not> inProgress (transferStatus r)"
  by (cases "tr_code r") (simp_all add: transferStatus_def)

lemma transferStatus_not_timeout [simp]: "st_code (transferStatus r) \<noteq> Err_TIMEOUT"
  by (cases "tr_code r") (simp_all add: transferStatus_def)

end
