(* ===== verification/Scd_Types.thy ===== *)
theory Scd_Types
  imports Scd_Transport
begin

text \<open>
  The public and private data types of include/SCD41/SCD41.h, with the source's enumerators and
  members. Every member carries a short prefix that names its struct, because record selectors
  share one name space: \<open>a_\<close> for ActiveOperation, \<open>rq_\<close> OperationRequest, \<open>op_\<close>
  OperationOptions, \<open>res_\<close> OperationResult, \<open>pr_\<close> PollResult, \<open>ov_\<close> OperationValue, \<open>idn_\<close>
  Identity, \<open>cs_\<close> ConfigurationSnapshot, \<open>fs_\<close> FixedSample, \<open>hs_\<close> HealthSnapshot, \<open>rs_\<close>
  RuntimeSnapshot, \<open>lim_\<close> OperationLimits. The constants \<open>X_init\<close> are the default member
  initialisers, the value of \<open>X{}\<close>.

  \<open>Kind_INVALID\<close> stands for the values of the 8-bit \<open>OperationKind\<close> that no enumerator has;
  admission is tested against them.
\<close>

subsection \<open>Enumerations\<close>

datatype DriverState = State_UNINIT | State_READY | State_DEGRADED | State_OFFLINE

datatype SensorVariant =
  Variant_UNKNOWN | Variant_SCD40 | Variant_SCD41 | Variant_SCD42 | Variant_SCD43

datatype OperatingMode =
  Mode_UNKNOWN | Mode_IDLE | Mode_PERIODIC | Mode_LOW_POWER_PERIODIC | Mode_POWER_DOWN

datatype ModeEvidence = Evidence_UNKNOWN | Evidence_ACKNOWLEDGED | Evidence_VERIFIED

datatype OperationClass =
  Class_STEADY_STATE | Class_RUNTIME | Class_MAINTENANCE | Class_DIAGNOSTIC

datatype OperationKind =
    Kind_NONE | Kind_ATTACH | Kind_READ_IDENTITY | Kind_START_PERIODIC
  | Kind_START_LOW_POWER_PERIODIC | Kind_STOP_PERIODIC | Kind_READ_DATA_READY
  | Kind_FETCH_SAMPLE | Kind_SINGLE_SHOT | Kind_SINGLE_SHOT_RHT_ONLY
  | Kind_READ_TEMPERATURE_OFFSET | Kind_SET_TEMPERATURE_OFFSET
  | Kind_READ_SENSOR_ALTITUDE | Kind_SET_SENSOR_ALTITUDE
  | Kind_READ_AMBIENT_PRESSURE | Kind_SET_AMBIENT_PRESSURE
  | Kind_READ_ASC_ENABLED | Kind_SET_ASC_ENABLED
  | Kind_READ_ASC_TARGET | Kind_SET_ASC_TARGET
  | Kind_READ_ASC_INITIAL_PERIOD | Kind_SET_ASC_INITIAL_PERIOD
  | Kind_READ_ASC_STANDARD_PERIOD | Kind_SET_ASC_STANDARD_PERIOD
  | Kind_READ_CONFIGURATION | Kind_POWER_DOWN | Kind_WAKE_UP | Kind_REINIT | Kind_SELF_TEST
  | Kind_FORCED_RECALIBRATION | Kind_PERSIST_SETTINGS | Kind_FACTORY_RESET
  | Kind_DIAGNOSTIC_READ_WORDS | Kind_DIAGNOSTIC_WRITE_COMMAND | Kind_DIAGNOSTIC_WRITE_WORD
  | Kind_READ_SENSOR_VARIANT | Kind_INVALID

datatype OperationState = Slot_IDLE | Slot_ACTIVE | Slot_RESULT_PENDING

datatype OperationOutcome =
    Outcome_SUCCEEDED | Outcome_NO_DATA | Outcome_FAILED | Outcome_CANCELLED
  | Outcome_TIMED_OUT | Outcome_PARTIAL | Outcome_INDETERMINATE

datatype EffectState =
    Effect_NONE | Effect_NOT_ATTEMPTED | Effect_ATTEMPTED | Effect_ACKNOWLEDGED
  | Effect_VERIFIED | Effect_UNKNOWN

datatype OperationPhase =
    Phase_NONE | Phase_WAIT_POWER_UP | Phase_SEND_WAKE | Phase_WAIT_WAKE | Phase_SEND_STOP
  | Phase_WAIT_STOP | Phase_SEND_COMMAND | Phase_WAIT_EXECUTION | Phase_SEND_READY_COMMAND
  | Phase_READ_READY_RESPONSE | Phase_SEND_READ_COMMAND | Phase_READ_RESPONSE
  | Phase_SEND_VERIFY_COMMAND | Phase_READ_VERIFY_RESPONSE | Phase_READ_DEFERRED_RESULT

datatype MaintenanceConfirmation =
  Confirm_NONE | Confirm_FORCED_RECALIBRATION | Confirm_PERSIST_SETTINGS | Confirm_FACTORY_RESET

datatype ConfigurationField =
    Field_NONE | Field_TEMPERATURE_OFFSET | Field_SENSOR_ALTITUDE | Field_AMBIENT_PRESSURE
  | Field_ASC_ENABLED | Field_ASC_TARGET | Field_ASC_INITIAL_PERIOD | Field_ASC_STANDARD_PERIOD

primrec configurationFieldMask :: "ConfigurationField \<Rightarrow> u16" where
  "configurationFieldMask Field_NONE = 0"
| "configurationFieldMask Field_TEMPERATURE_OFFSET = 1"
| "configurationFieldMask Field_SENSOR_ALTITUDE = 2"
| "configurationFieldMask Field_AMBIENT_PRESSURE = 4"
| "configurationFieldMask Field_ASC_ENABLED = 8"
| "configurationFieldMask Field_ASC_TARGET = 16"
| "configurationFieldMask Field_ASC_INITIAL_PERIOD = 32"
| "configurationFieldMask Field_ASC_STANDARD_PERIOD = 64"

definition ALL_CONFIGURATION_FIELDS :: u16 where
  "ALL_CONFIGURATION_FIELDS =
     configurationFieldMask Field_TEMPERATURE_OFFSET OR
     configurationFieldMask Field_SENSOR_ALTITUDE OR
     configurationFieldMask Field_AMBIENT_PRESSURE OR
     configurationFieldMask Field_ASC_ENABLED OR
     configurationFieldMask Field_ASC_TARGET OR
     configurationFieldMask Field_ASC_INITIAL_PERIOD OR
     configurationFieldMask Field_ASC_STANDARD_PERIOD"

definition PERSISTABLE_CONFIGURATION_FIELDS :: u16 where
  "PERSISTABLE_CONFIGURATION_FIELDS =
     ALL_CONFIGURATION_FIELDS AND NOT (configurationFieldMask Field_AMBIENT_PRESSURE)"

lemma ALL_CONFIGURATION_FIELDS_eq: "ALL_CONFIGURATION_FIELDS = 0x7F"
  by (simp add: ALL_CONFIGURATION_FIELDS_def)

lemma PERSISTABLE_CONFIGURATION_FIELDS_eq: "PERSISTABLE_CONFIGURATION_FIELDS = 0x7B"
  by (simp add: PERSISTABLE_CONFIGURATION_FIELDS_def ALL_CONFIGURATION_FIELDS_eq)

text \<open>Sample flags.\<close>

abbreviation SAMPLE_NONE :: u16 where "SAMPLE_NONE \<equiv> 0"
abbreviation SAMPLE_CO2_VALID :: u16 where "SAMPLE_CO2_VALID \<equiv> 1"
abbreviation SAMPLE_TEMPERATURE_VALID :: u16 where "SAMPLE_TEMPERATURE_VALID \<equiv> 2"
abbreviation SAMPLE_HUMIDITY_VALID :: u16 where "SAMPLE_HUMIDITY_VALID \<equiv> 4"
abbreviation SAMPLE_FRESH :: u16 where "SAMPLE_FRESH \<equiv> 8"

subsection \<open>Requests, options, limits\<close>

record OperationId =
  oid_requestId :: u32
  oid_generation :: u32

definition OperationId_init :: OperationId where
  "OperationId_init = \<lparr>oid_requestId = 0, oid_generation = 0\<rparr>"

record OperationOptions =
  op_requestId :: u32
  op_nowMs :: u32
  op_deadlineMs :: u32

record OperationRequest =
  rq_kind :: OperationKind
  rq_signedValue :: i32
  rq_value :: u32
  rq_command :: u16
  rq_wordCount :: u8
  rq_confirmation :: MaintenanceConfirmation

definition OperationRequest_init :: OperationRequest where
  "OperationRequest_init = \<lparr>rq_kind = Kind_NONE, rq_signedValue = 0, rq_value = 0,
     rq_command = 0, rq_wordCount = 0, rq_confirmation = Confirm_NONE\<rparr>"

text \<open>The builders.\<close>

definition makeRequest :: "OperationKind \<Rightarrow> OperationRequest" where
  "makeRequest operation = OperationRequest_init\<lparr>rq_kind := operation\<rparr>"

definition setTemperatureOffsetMilliC :: "i32 \<Rightarrow> OperationRequest" where
  "setTemperatureOffsetMilliC valueMilliC =
     (makeRequest Kind_SET_TEMPERATURE_OFFSET)\<lparr>rq_signedValue := valueMilliC\<rparr>"

definition setSensorAltitudeM :: "u16 \<Rightarrow> OperationRequest" where
  "setSensorAltitudeM altitudeM =
     (makeRequest Kind_SET_SENSOR_ALTITUDE)\<lparr>rq_value := ucast altitudeM\<rparr>"

definition setAmbientPressurePa :: "u32 \<Rightarrow> OperationRequest" where
  "setAmbientPressurePa pressurePa =
     (makeRequest Kind_SET_AMBIENT_PRESSURE)\<lparr>rq_value := pressurePa\<rparr>"

definition setAscEnabled :: "bool \<Rightarrow> OperationRequest" where
  "setAscEnabled enabled =
     (makeRequest Kind_SET_ASC_ENABLED)\<lparr>rq_value := (if enabled then 1 else 0)\<rparr>"

definition setAscTargetPpm :: "u16 \<Rightarrow> OperationRequest" where
  "setAscTargetPpm ppm = (makeRequest Kind_SET_ASC_TARGET)\<lparr>rq_value := ucast ppm\<rparr>"

definition setAscInitialPeriodHours :: "u16 \<Rightarrow> OperationRequest" where
  "setAscInitialPeriodHours hours =
     (makeRequest Kind_SET_ASC_INITIAL_PERIOD)\<lparr>rq_value := ucast hours\<rparr>"

definition setAscStandardPeriodHours :: "u16 \<Rightarrow> OperationRequest" where
  "setAscStandardPeriodHours hours =
     (makeRequest Kind_SET_ASC_STANDARD_PERIOD)\<lparr>rq_value := ucast hours\<rparr>"

definition forcedRecalibration :: "u16 \<Rightarrow> OperationRequest" where
  "forcedRecalibration referencePpm =
     (makeRequest Kind_FORCED_RECALIBRATION)
       \<lparr>rq_value := ucast referencePpm, rq_confirmation := Confirm_FORCED_RECALIBRATION\<rparr>"

definition persistSettings :: OperationRequest where
  "persistSettings =
     (makeRequest Kind_PERSIST_SETTINGS)\<lparr>rq_confirmation := Confirm_PERSIST_SETTINGS\<rparr>"

definition factoryReset :: OperationRequest where
  "factoryReset = (makeRequest Kind_FACTORY_RESET)\<lparr>rq_confirmation := Confirm_FACTORY_RESET\<rparr>"

definition diagnosticReadWords :: "u16 \<Rightarrow> u8 \<Rightarrow> OperationRequest" where
  "diagnosticReadWords cmdWord count =
     (makeRequest Kind_DIAGNOSTIC_READ_WORDS)\<lparr>rq_command := cmdWord, rq_wordCount := count\<rparr>"

definition diagnosticWriteCommand :: "u16 \<Rightarrow> OperationRequest" where
  "diagnosticWriteCommand cmdWord =
     (makeRequest Kind_DIAGNOSTIC_WRITE_COMMAND)\<lparr>rq_command := cmdWord\<rparr>"

definition diagnosticWriteWord :: "u16 \<Rightarrow> u16 \<Rightarrow> OperationRequest" where
  "diagnosticWriteWord cmdWord dataWord =
     (makeRequest Kind_DIAGNOSTIC_WRITE_WORD)\<lparr>rq_command := cmdWord, rq_value := ucast dataWord\<rparr>"

record OperationLimits =
  lim_operationClass :: OperationClass
  lim_maxCallbacks :: u8
  lim_maxRetries :: u8
  lim_maxWaitMs :: u32
  lim_writesNonvolatile :: bool
  lim_destructive :: bool

definition OperationLimits_init :: OperationLimits where
  "OperationLimits_init = \<lparr>lim_operationClass = Class_RUNTIME, lim_maxCallbacks = 0,
     lim_maxRetries = 0, lim_maxWaitMs = 0, lim_writesNonvolatile = False,
     lim_destructive = False\<rparr>"

subsection \<open>Device facts\<close>

record Identity =
  idn_serialNumber :: u64
  idn_variant :: SensorVariant
  idn_sensorEpoch :: u32
  idn_valid :: bool
  idn_variantWord :: u16

definition Identity_init :: Identity where
  "Identity_init = \<lparr>idn_serialNumber = 0, idn_variant = Variant_UNKNOWN, idn_sensorEpoch = 0,
     idn_valid = False, idn_variantWord = 0\<rparr>"

record DataReadyStatus =
  dr_raw :: u16
  dr_ready :: bool

record FixedSample =
  fs_co2Ppm :: u16
  fs_temperatureMilliC :: i32
  fs_humidityMilliPercent :: u32
  fs_capturedAtMs :: u32
  fs_sensorEpoch :: u32
  fs_sequence :: u32
  fs_mode :: OperatingMode
  fs_flags :: u16

definition FixedSample_init :: FixedSample where
  "FixedSample_init = \<lparr>fs_co2Ppm = 0, fs_temperatureMilliC = 0, fs_humidityMilliPercent = 0,
     fs_capturedAtMs = 0, fs_sensorEpoch = 0, fs_sequence = 0, fs_mode = Mode_UNKNOWN,
     fs_flags = SAMPLE_NONE\<rparr>"

record ConfigurationSnapshot =
  cs_temperatureOffsetMilliC :: i32
  cs_sensorAltitudeM :: u16
  cs_ambientPressurePa :: u32
  cs_ascEnabled :: bool
  cs_ascTargetPpm :: u16
  cs_ascInitialPeriodHours :: u16
  cs_ascStandardPeriodHours :: u16
  cs_verifiedMask :: u16
  cs_dirtyMask :: u16
  cs_sensorEpoch :: u32
  cs_persistenceIndeterminate :: bool

definition ConfigurationSnapshot_init :: ConfigurationSnapshot where
  "ConfigurationSnapshot_init = \<lparr>cs_temperatureOffsetMilliC = 0, cs_sensorAltitudeM = 0,
     cs_ambientPressurePa = 0, cs_ascEnabled = False, cs_ascTargetPpm = 0,
     cs_ascInitialPeriodHours = 0, cs_ascStandardPeriodHours = 0, cs_verifiedMask = 0,
     cs_dirtyMask = 0, cs_sensorEpoch = 0, cs_persistenceIndeterminate = False\<rparr>"

subsection \<open>Health, results, progress\<close>

record HealthSnapshot =
  hs_state :: DriverState
  hs_lastTransferOkMs :: u32
  hs_lastTransferErrorMs :: u32
  hs_lastTransferError :: Status
  hs_consecutiveTransferFailures :: u8
  hs_totalTransferSuccess :: u32
  hs_totalTransferFailures :: u32
  hs_expectedNacks :: u32
  hs_totalProtocolFailures :: u32
  hs_totalCrcFailures :: u32
  hs_lastProtocolErrorMs :: u32
  hs_lastProtocolError :: Status
  hs_totalOperationSuccess :: u32
  hs_totalOperationFailures :: u32
  hs_totalOperationCancelled :: u32
  hs_lastOperationErrorMs :: u32
  hs_lastOperationError :: Status
  hs_lastOperationErrorId :: OperationId
  hs_lastOperationErrorKind :: OperationKind
  hs_lastOperationId :: OperationId
  hs_lastOperationKind :: OperationKind

definition HealthSnapshot_init :: HealthSnapshot where
  "HealthSnapshot_init = \<lparr>hs_state = State_UNINIT, hs_lastTransferOkMs = 0,
     hs_lastTransferErrorMs = 0, hs_lastTransferError = Status_Ok,
     hs_consecutiveTransferFailures = 0, hs_totalTransferSuccess = 0,
     hs_totalTransferFailures = 0, hs_expectedNacks = 0, hs_totalProtocolFailures = 0,
     hs_totalCrcFailures = 0, hs_lastProtocolErrorMs = 0, hs_lastProtocolError = Status_Ok,
     hs_totalOperationSuccess = 0, hs_totalOperationFailures = 0,
     hs_totalOperationCancelled = 0, hs_lastOperationErrorMs = 0,
     hs_lastOperationError = Status_Ok, hs_lastOperationErrorId = OperationId_init,
     hs_lastOperationErrorKind = Kind_NONE, hs_lastOperationId = OperationId_init,
     hs_lastOperationKind = Kind_NONE\<rparr>"

record OperationValue =
  ov_sample :: FixedSample
  ov_identity :: Identity
  ov_configuration :: ConfigurationSnapshot
  ov_dataReady :: DataReadyStatus
  ov_signedValue :: i32
  ov_value :: u32
  ov_rawWords :: "u16 list"
  ov_wordCount :: u8
  ov_boolValue :: bool

definition OperationValue_init :: OperationValue where
  "OperationValue_init = \<lparr>ov_sample = FixedSample_init, ov_identity = Identity_init,
     ov_configuration = ConfigurationSnapshot_init,
     ov_dataReady = \<lparr>dr_raw = 0, dr_ready = False\<rparr>, ov_signedValue = 0, ov_value = 0,
     ov_rawWords = [0, 0, 0], ov_wordCount = 0, ov_boolValue = False\<rparr>"

record OperationResult =
  res_id :: OperationId
  res_kind :: OperationKind
  res_outcome :: OperationOutcome
  res_effect :: EffectState
  res_status :: Status
  res_finalPhase :: OperationPhase
  res_startedMs :: u32
  res_completedMs :: u32
  res_deadlineMs :: u32
  res_sensorEpoch :: u32
  res_operatingMode :: OperatingMode
  res_modeEvidence :: ModeEvidence
  res_completedFieldMask :: u16
  res_callbacksUsed :: u8
  res_reconciliationRequired :: bool
  res_value :: OperationValue

definition OperationResult_init :: OperationResult where
  "OperationResult_init = \<lparr>res_id = OperationId_init, res_kind = Kind_NONE,
     res_outcome = Outcome_FAILED, res_effect = Effect_NONE,
     res_status = Status_Error Err_RESULT_NOT_READY ''No result'' 0,
     res_finalPhase = Phase_NONE, res_startedMs = 0, res_completedMs = 0, res_deadlineMs = 0,
     res_sensorEpoch = 0, res_operatingMode = Mode_UNKNOWN, res_modeEvidence = Evidence_UNKNOWN,
     res_completedFieldMask = 0, res_callbacksUsed = 0, res_reconciliationRequired = False,
     res_value = OperationValue_init\<rparr>"

record PollResult =
  pr_state :: OperationState
  pr_id :: OperationId
  pr_kind :: OperationKind
  pr_status :: Status
  pr_nextDueMs :: u32
  pr_callbacksUsed :: u8

definition PollResult_init :: PollResult where
  "PollResult_init = \<lparr>pr_state = Slot_IDLE, pr_id = OperationId_init, pr_kind = Kind_NONE,
     pr_status = Status_Ok, pr_nextDueMs = 0, pr_callbacksUsed = 0\<rparr>"

record RuntimeSnapshot =
  rs_bound :: bool
  rs_attached :: bool
  rs_driverState :: DriverState
  rs_operatingMode :: OperatingMode
  rs_modeEvidence :: ModeEvidence
  rs_operationState :: OperationState
  rs_operationId :: OperationId
  rs_operationKind :: OperationKind
  rs_nextDueMs :: u32
  rs_nextSafeCommandMs :: u32
  rs_nextSafeCommandValid :: bool
  rs_sensorEpoch :: u32
  rs_reconciliationRequired :: bool
  rs_sampleAvailable :: bool

subsection \<open>The private state\<close>

record ActiveOperation =
  a_request :: OperationRequest
  a_id :: OperationId
  a_phase :: OperationPhase
  a_effect :: EffectState
  a_startedMs :: u32
  a_deadlineMs :: u32
  a_nextDueMs :: u32
  a_completedFieldMask :: u16
  a_desiredRaw :: u16
  a_fieldIndex :: u8
  a_callbacksUsed :: u8
  a_effectfulWriteAttempted :: bool
  a_settingValueChanged :: bool

definition ActiveOperation_init :: ActiveOperation where
  "ActiveOperation_init = \<lparr>a_request = OperationRequest_init, a_id = OperationId_init,
     a_phase = Phase_NONE, a_effect = Effect_NONE, a_startedMs = 0, a_deadlineMs = 0,
     a_nextDueMs = 0, a_completedFieldMask = 0, a_desiredRaw = 0, a_fieldIndex = 0,
     a_callbacksUsed = 0, a_effectfulWriteAttempted = False, a_settingValueChanged = False\<rparr>"

end
