(* ===== verification/Scd_Codec.thy ===== *)
theory Scd_Codec
  imports Scd_Types
begin

text \<open>
  The codecs of src/SCD41.cpp: the Sensirion CRC-8 and the CRC-protected word, fixed-point
  temperature and humidity conversion, the encodings of the temperature offset and of the ambient
  pressure, the serial number, the variant and the data-ready word. The 64-bit arithmetic is done
  on 64-bit words as in the source; the lemmas \<open>*_eq\<close> show that nothing overflows, so that each
  conversion is the rounded quotient it is meant to be. The four functions on \<open>float\<close>
  (convertTemperatureC, convertHumidityPct, encodeTemperatureOffsetC, decodeTemperatureOffsetC) are
  not modelled.
\<close>

subsection \<open>CRC-8\<close>

definition crcBit :: "u8 \<Rightarrow> u8" where
  "crcBit crc = (if crc AND 0x80 \<noteq> 0 then push_bit 1 crc XOR CRC_POLY else push_bit 1 crc)"

primrec crcBits :: "nat \<Rightarrow> u8 \<Rightarrow> u8" where
  "crcBits 0 crc = crc"
| "crcBits (Suc bits) crc = crcBits bits (crcBit crc)"

text \<open>The outer loop, from an accumulator; \<open>_crc8\<close> starts it with \<open>CRC_INIT\<close>.\<close>

primrec crcFrom :: "u8 \<Rightarrow> u8 list \<Rightarrow> u8" where
  "crcFrom crc [] = crc"
| "crcFrom crc (d # ds) = crcFrom (crcBits 8 (crc XOR d)) ds"

definition crc8 :: "u8 list \<Rightarrow> u8" where
  "crc8 data = crcFrom CRC_INIT data"

subsection \<open>Conversions\<close>

definition isDataReady :: "u16 \<Rightarrow> bool" where
  "isDataReady rawStatus \<longleftrightarrow> rawStatus AND DATA_READY_MASK \<noteq> 0"

definition convertTemperatureMilliC :: "u16 \<Rightarrow> i32" where
  "convertTemperatureMilliC raw =
     (let scaled = (ucast raw :: u64) * 175000
      in sint (ucast ((scaled + 32767) div 65535) :: u32) - 45000)"

definition convertHumidityMilliPercent :: "u16 \<Rightarrow> u32" where
  "convertHumidityMilliPercent raw =
     (let scaled = (ucast raw :: u64) * 100000
      in ucast ((scaled + 32767) div 65535))"

text \<open>
  The encoders write an out parameter only when the value is in range; they take its old content
  and return its new one.
\<close>

definition encodeTemperatureOffsetMilliC :: "i32 \<Rightarrow> u16 \<Rightarrow> Status \<times> u16" where
  "encodeTemperatureOffsetMilliC offsetMilliC out =
     (if offsetMilliC < 0 \<or> offsetMilliC > 175000
      then (Status_Error Err_INVALID_PARAM ''Temperature offset out of range'' 0, out)
      else (let numerator = (word_of_int offsetMilliC :: u64) * 65535 + 87500
            in (Status_Ok, ucast (numerator div 175000))))"

definition decodeTemperatureOffsetMilliC :: "u16 \<Rightarrow> i32" where
  "decodeTemperatureOffsetMilliC raw =
     sint (ucast (((ucast raw :: u64) * 175000 + 32767) div 65535) :: u32)"

definition encodeAmbientPressurePa :: "u32 \<Rightarrow> u16 \<Rightarrow> Status \<times> u16" where
  "encodeAmbientPressurePa pressurePa out =
     (if pressurePa < AMBIENT_PRESSURE_MIN_PA \<or> pressurePa > AMBIENT_PRESSURE_MAX_PA
      then (Status_Error Err_INVALID_PARAM ''Ambient pressure out of range'' 0, out)
      else (Status_Ok, ucast (pressurePa div 100)))"

definition decodeAmbientPressurePa :: "u16 \<Rightarrow> u32" where
  "decodeAmbientPressurePa raw = (ucast raw :: u32) * 100"

definition serialNumberFromWords :: "u16 list \<Rightarrow> u64" where
  "serialNumberFromWords words =
     (push_bit 32 (ucast (words ! 0)) OR push_bit 16 (ucast (words ! 1))) OR ucast (words ! 2)"

definition variantFromVariantWord :: "u16 \<Rightarrow> SensorVariant" where
  "variantFromVariantWord variantWord =
     (let code = (ucast (drop_bit SENSOR_VARIANT_SHIFT (variantWord AND SENSOR_VARIANT_MASK)) :: u8)
      in if code = SENSOR_VARIANT_SCD40 then Variant_SCD40
         else if code = SENSOR_VARIANT_SCD41 then Variant_SCD41
         else if code = SENSOR_VARIANT_SCD43 then Variant_SCD43
         else Variant_UNKNOWN)"

subsection \<open>CRC-protected words on the wire\<close>

text \<open>
  The command bytes and the data word with its CRC, as \<open>_writeCommand\<close> and
  \<open>_writeCommandWithWord\<close> lay them out, and the decoding loop of \<open>_readWords\<close>: word \<open>i\<close> is at
  offset \<open>3 i\<close>, and the first word whose CRC does not match stops the loop with its index.
\<close>

definition commandBytes :: "u16 \<Rightarrow> u8 list" where
  "commandBytes command = [highByte command, lowByte command]"

definition wordBytes :: "u16 \<Rightarrow> u8 list" where
  "wordBytes word = [highByte word, lowByte word, crc8 [highByte word, lowByte word]]"

fun decodeWordsFrom :: "nat \<Rightarrow> nat \<Rightarrow> u8 list \<Rightarrow> nat + u16 list" where
  "decodeWordsFrom i 0 bytes = Inr []"
| "decodeWordsFrom i (Suc n) bytes =
     (if crc8 [bytes ! (3 * i), bytes ! (3 * i + 1)] \<noteq> bytes ! (3 * i + 2) then Inl i
      else (case decodeWordsFrom (Suc i) n bytes of
              Inl e \<Rightarrow> Inl e
            | Inr ws \<Rightarrow> Inr (wordOfBytes (bytes ! (3 * i)) (bytes ! (3 * i + 1)) # ws)))"

subsection \<open>The fixed-point arithmetic\<close>

text \<open>
  On the values that occur nothing overflows, so that each word expression of the source is the
  integer quotient it looks like.
\<close>

lemma uint_u16: "0 \<le> uint (w :: u16)" "uint (w :: u16) < 65536"
  using uint_lt2p [of w] by simp_all

lemma uint_scaled:
  assumes "0 \<le> x" "0 \<le> k" "0 \<le> c" "x * k + c < 2 ^ 64"
  shows "uint ((word_of_int x :: u64) * word_of_int k + word_of_int c) = x * k + c"
proof -
  have "(word_of_int x :: u64) * word_of_int k + word_of_int c = word_of_int (x * k + c)"
    by (simp only: wi_hom_mult wi_hom_add)
  moreover have "0 \<le> x * k + c" using assms by simp
  ultimately show ?thesis
    using assms(4) by (simp add: uint_word_of_int take_bit_int_eq_self unsigned_of_int del: of_int_mult of_int_add)
qed

lemma sint_small: assumes "0 \<le> x" "x < 2 ^ 31" shows "sint (word_of_int x :: u32) = x"
proof -
  have "uint (word_of_int x :: u32) = x"
    using assms by (simp add: uint_word_of_int)
  then show ?thesis
    using assms by (simp add: sint_uint signed_take_bit_int_eq_self)
qed

lemma word_div_int: assumes "uint (a :: u64) = x" shows "a div numeral k = word_of_int (x div uint (numeral k :: u64))"
  by (metis assms uint_div_distrib word_of_int_uint)

lemma scaled_quot:
  assumes "0 \<le> x" "x < 65536" "0 \<le> k" "k \<le> 200000" "0 \<le> c" "c \<le> 100000"
  shows "(word_of_int x * word_of_int k + word_of_int c :: u64) div 65535 = word_of_int ((x * k + c) div 65535)"
proof -
  have "x * k \<le> 65536 * 200000"
    using assms by (intro mult_mono) simp_all
  then have "uint (word_of_int x * word_of_int k + word_of_int c :: u64) = x * k + c"
    using assms by (intro uint_scaled) simp_all
  from word_div_int [OF this] have "(word_of_int x * word_of_int k + word_of_int c :: u64) div 65535 = word_of_int ((x * k + c) div uint (65535 :: u64))" .
  then show ?thesis by simp
qed


lemma raw_int: "(ucast (raw :: u16) :: u64) = word_of_int (uint raw)"
  by simp

lemma ucast_small:
  "0 \<le> q \<Longrightarrow> q < 2 ^ 32 \<Longrightarrow> (ucast (word_of_int q :: u64) :: u32) = word_of_int q"
  by (simp add: ucast_eq take_bit_int_eq_self unsigned_of_int)

lemma uint_small: "0 \<le> q \<Longrightarrow> q < 2 ^ 32 \<Longrightarrow> uint (word_of_int q :: u32) = q"
  by (simp add: uint_word_of_int take_bit_int_eq_self unsigned_of_int)

lemma quot_bounds:
  fixes x :: int
  assumes "0 \<le> x" and "x < 65536"
  shows "0 \<le> (x * 175000 + 32767) div 65535" and "(x * 175000 + 32767) div 65535 \<le> 175000"
    and "0 \<le> (x * 100000 + 32767) div 65535" and "(x * 100000 + 32767) div 65535 \<le> 100000"
  using assms by linarith+


lemma scaled_milli:
  "sint (ucast (((ucast (raw :: u16) :: u64) * 175000 + 32767) div 65535) :: u32) =
     (uint raw * 175000 + 32767) div 65535"
proof -
  have "(ucast raw * 175000 + 32767 :: u64) div 65535 =
      word_of_int ((uint raw * 175000 + 32767) div 65535)"
    using scaled_quot [OF uint_u16, of 175000 32767 raw] by (simp only: raw_int of_int_numeral)
  then show ?thesis
    using quot_bounds [OF uint_u16 , of raw] by (simp add: ucast_small sint_small del: of_int_uint)
qed

lemma decodeTemperatureOffsetMilliC_eq:
  "decodeTemperatureOffsetMilliC raw = (uint raw * 175000 + 32767) div 65535"
  by (simp only: decodeTemperatureOffsetMilliC_def scaled_milli)

lemma convertTemperatureMilliC_eq:
  "convertTemperatureMilliC raw = (uint raw * 175000 + 32767) div 65535 - 45000"
  by (simp only: convertTemperatureMilliC_def Let_def scaled_milli)

lemma convertHumidityMilliPercent_eq:
  "uint (convertHumidityMilliPercent raw) = (uint raw * 100000 + 32767) div 65535"
proof -
  have "(ucast raw * 100000 + 32767 :: u64) div 65535 =
      word_of_int ((uint raw * 100000 + 32767) div 65535)"
    using scaled_quot [OF uint_u16, of 100000 32767 raw] by (simp only: raw_int of_int_numeral)
  then show ?thesis
    using quot_bounds [OF uint_u16, of raw]
    by (simp add: convertHumidityMilliPercent_def Let_def ucast_small uint_small)
qed

lemma encoded_word: assumes "0 \<le> m" "m \<le> 175000"
  shows "ucast (((word_of_int m :: u64) * 65535 + 87500) div 175000) =
           (word_of_int ((m * 65535 + 87500) div 175000) :: u16)"
proof -
  have "uint (word_of_int m * word_of_int 65535 + word_of_int 87500 :: u64) = m * 65535 + 87500"
    using assms by (intro uint_scaled) simp_all
  then have "uint (word_of_int m * 65535 + 87500 :: u64) = m * 65535 + 87500" by simp
  from word_div_int [OF this] have "(word_of_int m * 65535 + 87500 :: u64) div 175000 = word_of_int ((m * 65535 + 87500) div uint (175000 :: u64))" .
  moreover have "0 \<le> (m * 65535 + 87500) div 175000" "(m * 65535 + 87500) div 175000 < 65536"
    using assms by linarith+
  ultimately show ?thesis
    by (simp add: ucast_eq take_bit_int_eq_self unsigned_of_int)
qed

lemma encodeTemperatureOffsetMilliC_eq:
  "0 \<le> m \<Longrightarrow> m \<le> 175000 \<Longrightarrow>
   encodeTemperatureOffsetMilliC m out = (Status_Ok, word_of_int ((m * 65535 + 87500) div 175000))"
  by (simp add: encodeTemperatureOffsetMilliC_def encoded_word del: of_int_uint)

lemma encode_decode_int:
  fixes r :: int
  assumes "0 \<le> r" and "r < 65536"
  shows "((r * 175000 + 32767) div 65535 * 65535 + 87500) div 175000 = r"
proof -
  define m where "m = (r * 175000 + 32767) div 65535"
  have "m * 65535 \<le> r * 175000 + 32767" and "r * 175000 + 32767 < m * 65535 + 65535"
    unfolding m_def by linarith+
  then show ?thesis unfolding m_def [symmetric] by linarith
qed

lemma decode_encode_int:
  fixes m :: int
  assumes "0 \<le> m" and "m \<le> 175000"
  shows "\<bar>((m * 65535 + 87500) div 175000 * 175000 + 32767) div 65535 - m\<bar> \<le> 1"
proof -
  define r where "r = (m * 65535 + 87500) div 175000"
  have "r * 175000 \<le> m * 65535 + 87500" and "m * 65535 + 87500 < r * 175000 + 175000"
    unfolding r_def by linarith+
  then show ?thesis unfolding r_def [symmetric] by linarith
qed

lemma ok_encodeTemperatureOffsetMilliC:
  "ok (fst (encodeTemperatureOffsetMilliC m out)) \<longleftrightarrow> 0 \<le> m \<and> m \<le> 175000"
  by (simp add: encodeTemperatureOffsetMilliC_def)

lemma ok_encodeAmbientPressurePa:
  "ok (fst (encodeAmbientPressurePa p out)) \<longleftrightarrow> 70000 \<le> unat p \<and> unat p \<le> 120000"
  by (auto simp: encodeAmbientPressurePa_def word_less_nat_alt not_less)

lemma nearest_quotient:
  fixes r k :: int
  shows "2 * \<bar>65535 * ((r * k + 32767) div 65535) - k * r\<bar> \<le> 65535"
proof -
  define t where "t = (r * k + 32767) div 65535"
  have "t * 65535 \<le> r * k + 32767" and "r * k + 32767 < t * 65535 + 65535"
    unfolding t_def by linarith+
  then have "65535 * t - k * r \<le> 32767" and "- 32767 \<le> 65535 * t - k * r"
    by (simp_all add: mult.commute)
  then have "\<bar>65535 * t - k * r\<bar> \<le> 32767"
    by (simp only: abs_le_iff) simp
  then show ?thesis unfolding t_def by simp
qed

text \<open>
  C29. The sample conversions are the datasheet formulas rounded to the nearest milli-unit: no
  intermediate product overflows, and the result differs from the exact rational value by at most
  half a milli-degree or half a milli-percent, on every 16-bit word.
\<close>

theorem sample_conversions_round:
  "2 * \<bar>65535 * (convertTemperatureMilliC raw + 45000) - 175000 * uint raw\<bar> \<le> 65535 \<and>
   2 * \<bar>65535 * uint (convertHumidityMilliPercent raw) - 100000 * uint raw\<bar> \<le> 65535"
  using nearest_quotient [of "uint raw" 175000] nearest_quotient [of "uint raw" 100000]
  by (simp add: convertTemperatureMilliC_eq convertHumidityMilliPercent_eq)

subsection \<open>The contract of a setting codec\<close>

text \<open>
  What the settings protocol relies on: it encodes the requested value, reads back a raw word and
  compares raw words. \<open>valid\<close> are the values a request may carry, \<open>canonical\<close> the raw words that
  an encoding produces and a read-back may have.
\<close>

locale setting_codec =
  fixes enc :: "'v \<Rightarrow> u16 \<Rightarrow> Status \<times> u16"
    and dec :: "u16 \<Rightarrow> 'v"
    and valid :: "'v \<Rightarrow> bool"
    and canonical :: "u16 \<Rightarrow> bool"
  assumes enc_ok: "valid v \<Longrightarrow> fst (enc v out) = Status_Ok"
    and enc_error: "\<not> valid v \<Longrightarrow> st_code (fst (enc v out)) = Err_INVALID_PARAM \<and> snd (enc v out) = out"
    and enc_canonical: "valid v \<Longrightarrow> canonical (snd (enc v out))"
    and dec_valid: "canonical r \<Longrightarrow> valid (dec r)"
    and enc_dec: "canonical r \<Longrightarrow> snd (enc (dec r) out) = r"
begin

lemma ok_enc_iff: "ok (fst (enc v out)) \<longleftrightarrow> valid v"
  using enc_ok [of v out] enc_error [of v out] by (cases "valid v") (auto simp: ok_def)

lemma roundtrip: "canonical r \<Longrightarrow> enc (dec r) out = (Status_Ok, r)"
  using enc_ok [OF dec_valid, of r out] enc_dec [of r out] by (simp add: prod_eq_iff)

lemma dec_inj: "canonical r \<Longrightarrow> canonical s \<Longrightarrow> dec r = dec s \<Longrightarrow> r = s"
  using enc_dec by metis

text \<open>Writing back what was decoded from the device encodes to the same word.\<close>

lemma stable: "valid v \<Longrightarrow> enc (dec (snd (enc v out))) out' = (Status_Ok, snd (enc v out))"
  by (rule roundtrip) (rule enc_canonical)

end

interpretation temperature: setting_codec encodeTemperatureOffsetMilliC decodeTemperatureOffsetMilliC
    "\<lambda>m. 0 \<le> m \<and> m \<le> 175000" "\<lambda>_. True"
proof unfold_locales
  fix r out
  show range: "0 \<le> decodeTemperatureOffsetMilliC r \<and> decodeTemperatureOffsetMilliC r \<le> 175000"
    using quot_bounds [OF uint_u16, of r] by (simp only: decodeTemperatureOffsetMilliC_eq simp_thms)
  show "snd (encodeTemperatureOffsetMilliC (decodeTemperatureOffsetMilliC r) out) = r"
    using range encode_decode_int [OF uint_u16, of r]
    by (simp add: encodeTemperatureOffsetMilliC_eq) (simp add: decodeTemperatureOffsetMilliC_eq)
qed (auto simp: encodeTemperatureOffsetMilliC_def)

lemma pressure_word:
  assumes "70000 \<le> unat p" and "unat p \<le> 120000"
  shows "unat (ucast ((p :: u32) div 100) :: u16) = unat p div 100"
proof -
  have "unat p div 100 < 2 ^ 16" using assms by simp
  then show ?thesis
    by (simp add: unsigned_ucast_eq unat_div_distrib take_bit_nat_eq_self)
qed

interpretation pressure: setting_codec encodeAmbientPressurePa decodeAmbientPressurePa
    "\<lambda>p. 70000 \<le> unat p \<and> unat p \<le> 120000 " "\<lambda>r. 700 \<le> unat r \<and> unat r \<le> 1200"
proof unfold_locales
  fix p :: u32 and out
  assume p: "70000 \<le> unat p \<and> unat p \<le> 120000"
  then show ok: "fst (encodeAmbientPressurePa p out) = Status_Ok"
    by (auto simp: encodeAmbientPressurePa_def word_less_nat_alt)
  show "700 \<le> unat (snd (encodeAmbientPressurePa p out)) \<and>
      unat (snd (encodeAmbientPressurePa p out)) \<le> 1200"
    using p pressure_word [of p] by (auto simp: encodeAmbientPressurePa_def word_less_nat_alt)
next
  fix p :: u32 and out
  assume p: "\<not> (70000 \<le> unat p \<and> unat p \<le> 120000)"
  then show "st_code (fst (encodeAmbientPressurePa p out)) = Err_INVALID_PARAM \<and>
      snd (encodeAmbientPressurePa p out) = out"
    by (auto simp: encodeAmbientPressurePa_def word_less_nat_alt)
next
  fix r :: u16 and out
  assume r: "700 \<le> unat r \<and> unat r \<le> 1200"
  have "unat (ucast r * 100 :: u32) = unat r * 100"
    using r by (subst unat_mult_lem [THEN iffD1]) (simp_all add: unsigned_ucast_eq take_bit_nat_eq_self)
  then have u: "unat (decodeAmbientPressurePa r) = unat r * 100"
    by (simp only: decodeAmbientPressurePa_def)
  with r show v: "70000 \<le> unat (decodeAmbientPressurePa r) \<and>
      unat (decodeAmbientPressurePa r) \<le> 120000"
    by simp
  have "unat (ucast (decodeAmbientPressurePa r div 100) :: u16) = unat r"
    using pressure_word [of "decodeAmbientPressurePa r"] v u by simp
  then show "snd (encodeAmbientPressurePa (decodeAmbientPressurePa r) out) = r"
    using v by (auto simp: encodeAmbientPressurePa_def word_less_nat_alt word_unat_eq_iff)
qed

text \<open>
  C28. Every raw temperature-offset word survives decoding and encoding, and every requested offset
  comes back from the device within one milli-degree of the request.
\<close>

theorem temperature_offset_roundtrip:
  "encodeTemperatureOffsetMilliC (decodeTemperatureOffsetMilliC raw) out = (Status_Ok, raw) \<and>
   (ok (fst (encodeTemperatureOffsetMilliC m out)) \<longrightarrow>
    \<bar>decodeTemperatureOffsetMilliC (snd (encodeTemperatureOffsetMilliC m out)) - m\<bar> \<le> 1)"
proof (intro conjI impI)
  show "encodeTemperatureOffsetMilliC (decodeTemperatureOffsetMilliC raw) out = (Status_Ok, raw)"
    by (rule temperature.roundtrip) simp
  assume "ok (fst (encodeTemperatureOffsetMilliC m out))"
  then have m: "0 \<le> m" "m \<le> 175000"
    by (simp_all add: temperature.ok_enc_iff)
  define r where "r = (m * 65535 + 87500) div 175000"
  have "0 \<le> r" "r < 65536"
    using m unfolding r_def by linarith+
  then have "uint (word_of_int r :: u16) = r"
    by (simp add: uint_word_of_int take_bit_int_eq_self unsigned_of_int)
  with decode_encode_int [OF m]
  show "\<bar>decodeTemperatureOffsetMilliC (snd (encodeTemperatureOffsetMilliC m out)) - m\<bar> \<le> 1"
    by (simp add: encodeTemperatureOffsetMilliC_eq [OF m] decodeTemperatureOffsetMilliC_eq
        flip: r_def)
qed

theorem temperature_offset_roundtrip_witness:
  "\<bar>decodeTemperatureOffsetMilliC (snd (encodeTemperatureOffsetMilliC 4000 0)) - 4000\<bar> \<le> 1"
  using temperature_offset_roundtrip [of 0 0 4000] by (simp add: ok_encodeTemperatureOffsetMilliC)

subsection \<open>Frames of CRC-protected words\<close>

lemma decodeWordsFrom_iff:
  "length pre = 3 * i \<Longrightarrow> length rest = 3 * n \<Longrightarrow>
   decodeWordsFrom i n (pre @ rest) = Inr ws \<longleftrightarrow>
     length ws = n \<and> rest = concat (map wordBytes ws)"
proof (induction n arbitrary: i pre rest ws)
  case (Suc n)
  obtain a b c rest' where rest: "rest = a # b # c # rest'" and len: "length rest' = 3 * n"
    using Suc.prems(2) by (auto simp: length_Suc_conv numeral_3_eq_3)
  have nth: "(pre @ rest) ! (3 * i) = a" "(pre @ rest) ! (3 * i + 1) = b"
      "(pre @ rest) ! (3 * i + 2) = c"
    using Suc.prems(1) by (simp_all add: rest nth_append)
  have IH: "decodeWordsFrom (Suc i) n (pre @ rest) = Inr vs \<longleftrightarrow>
      length vs = n \<and> rest' = concat (map wordBytes vs)" for vs
    using Suc.IH [of "pre @ [a, b, c]" "Suc i" rest' vs] Suc.prems(1) len by (simp add: rest)
  show ?case
  proof (cases ws)
    case Nil
    then show ?thesis
      by (auto simp del: crcFrom.simps split: sum.splits)
  next
    case (Cons w vs)
    have word: "wordOfBytes a b = w \<longleftrightarrow> a = highByte w \<and> b = lowByte w"
      using wordOfBytes_split highByte_wordOfBytes lowByte_wordOfBytes by metis
    have step: "decodeWordsFrom i (Suc n) (pre @ rest) = Inr (w # vs) \<longleftrightarrow>
        crc8 [a, b] = c \<and> wordOfBytes a b = w \<and> decodeWordsFrom (Suc i) n (pre @ rest) = Inr vs"
      unfolding decodeWordsFrom.simps nth by (simp split: sum.split)
    then show ?thesis
      unfolding Cons step IH word by (simp add: rest wordBytes_def [of w]) blast
  qed
qed auto

lemma decodeWordsFrom_Inl:
  "decodeWordsFrom i n bytes = Inl k \<Longrightarrow>
   i \<le> k \<and> k < i + n \<and> crc8 [bytes ! (3 * k), bytes ! (3 * k + 1)] \<noteq> bytes ! (3 * k + 2)"
proof (induction n arbitrary: i)
  case (Suc n)
  show ?case
  proof (cases "crc8 [bytes ! (3 * i), bytes ! (3 * i + 1)] \<noteq> bytes ! (3 * i + 2)")
    case True
    with Suc.prems show ?thesis by simp
  next
    case False
    with Suc.prems have "decodeWordsFrom (Suc i) n bytes = Inl k"
      by (simp split: sum.splits)
    from Suc.IH [OF this] show ?thesis by simp
  qed
qed simp

lemma length_decodeWordsFrom: "decodeWordsFrom i n bytes = Inr ws \<Longrightarrow> length ws = n"
  by (induction n arbitrary: i ws) (auto split: if_splits sum.splits)

text \<open>
  C27. The receiver of \<open>_readWords\<close> inverts the sender: a response of \<open>n\<close> words is accepted exactly
  when it is the CRC-protected encoding of \<open>n\<close> words, and then yields these words; otherwise the
  error names a word whose CRC really is wrong.
\<close>

theorem wire_words_roundtrip:
  assumes "length bytes = 3 * n"
  shows "(decodeWordsFrom 0 n bytes = Inr ws \<longleftrightarrow>
            length ws = n \<and> bytes = concat (map wordBytes ws)) \<and>
         (decodeWordsFrom 0 n bytes = Inl k \<longrightarrow>
            k < n \<and> crc8 [bytes ! (3 * k), bytes ! (3 * k + 1)] \<noteq> bytes ! (3 * k + 2))"
  using decodeWordsFrom_iff [of "[]" 0 bytes n ws] decodeWordsFrom_Inl [of 0 n bytes k] assms
  by simp

theorem wire_words_roundtrip_witness:
  "decodeWordsFrom 0 2 (wordBytes 0xBEEF @ wordBytes 0x01F4) = Inr [0xBEEF, 0x01F4]"
  using wire_words_roundtrip [of "wordBytes 0xBEEF @ wordBytes 0x01F4" 2 "[0xBEEF, 0x01F4]" 0]
  by (simp add: wordBytes_def)

end
