(* ===== verification/Scd_Crc.thy ===== *)
theory Scd_Crc
  imports Scd_Codec
begin

text \<open>
  The CRC-8 of \<open>SCD41::_crc8\<close>: what it computes and what it detects.

  \<open>crcSerial\<close> is the textbook description of the code, a shift register fed one bit at a time, most
  significant bit first; the byte-wise loop of the source computes the same. Because the register is
  linear, corrupting a received word by an error pattern \<open>E\<close> of 24 bits (two data bytes and the CRC)
  goes unnoticed exactly when the syndrome of \<open>E\<close> is 0, whatever the data was. The syndrome of a
  pattern shifted by \<open>p\<close> is the register stepped \<open>p\<close> times, which no step can bring to 0: hence
  every burst of at most eight bits is detected, and, since the register has no period below 24,
  every pair of flipped bits.
\<close>

unbundle bit_operations_syntax

subsection \<open>Linearity of the register\<close>

lemma crcBit_alt: "crcBit c = push_bit 1 c XOR (if bit c 7 then CRC_POLY else 0)"
proof -
  have "c AND 0x80 \<noteq> 0 \<longleftrightarrow> bit c 7"
    using and_exp_eq_0_iff_not_bit [of c 7] by simp
  then show ?thesis by (simp add: crcBit_def)
qed

lemma crcBit_xor: "crcBit (c XOR d) = crcBit c XOR crcBit d"
  by (rule bit_word_eqI) (auto simp: crcBit_alt bit_simps)

lemma crcBits_xor: "crcBits n (c XOR d) = crcBits n c XOR crcBits n d"
  by (induction n arbitrary: c d) (simp_all add: crcBit_xor)

lemma crcBit_0 [simp]: "crcBit 0 = 0"
  by (simp add: crcBit_def)

lemma crcBits_0 [simp]: "crcBits n 0 = 0"
  by (induction n) simp_all

lemma crcBit_eq_0_iff [simp]: "crcBit c = 0 \<longleftrightarrow> c = 0"
proof
  assume z: "crcBit c = 0"
  have "\<not> bit c 7"
  proof
    assume "bit c 7"
    then have "bit (crcBit c) 0"
      by (simp add: crcBit_alt bit_xor_iff bit_push_bit_iff del: bit_0 push_bit_Suc One_nat_def)
    with z show False by simp
  qed
  with z have p: "push_bit 1 c = 0" by (simp add: crcBit_alt)
  show "c = 0"
  proof (rule bit_word_eqI)
    fix n assume n: "n < LENGTH(8)"
    show "bit c n \<longleftrightarrow> bit (0 :: u8) n"
    proof (cases "n = 7")
      case True
      with \<open>\<not> bit c 7\<close> show ?thesis by simp
    next
      case False
      with n have "bit (push_bit 1 c) (Suc n) \<longleftrightarrow> bit c n"
        by (simp add: bit_push_bit_iff del: push_bit_Suc One_nat_def)
      with p show ?thesis by simp
    qed
  qed
qed simp

lemma crcBits_eq_0_iff [simp]: "crcBits n c = 0 \<longleftrightarrow> c = 0"
  by (induction n arbitrary: c) simp_all

lemma crcFrom_append: "crcFrom c (xs @ ys) = crcFrom (crcFrom c xs) ys"
  by (induction xs arbitrary: c) simp_all

lemma crcFrom_xor:
  "length es = length xs \<Longrightarrow>
   crcFrom (c XOR d) (map2 (XOR) xs es) = crcFrom c xs XOR crcFrom d es"
proof (induction xs es arbitrary: c d rule: list_induct2')
  case (4 x xs e es)
  have "(c XOR d) XOR (x XOR e) = (c XOR x) XOR (d XOR e)"
    by (simp add: ac_simps)
  with 4 show ?case by (simp add: crcBits_xor)
qed simp_all

subsection \<open>The bit-serial register\<close>

definition lfsrStep :: "u8 \<Rightarrow> bool \<Rightarrow> u8" where
  "lfsrStep r b = push_bit 1 r XOR (if bit r 7 \<noteq> b then CRC_POLY else 0)"

definition msbBits :: "nat \<Rightarrow> u8 \<Rightarrow> bool list" where
  "msbBits n d = map (\<lambda>i. bit d (7 - i)) [0..<n]"

lemma msbBits_0: "msbBits 0 d = []"
  by (simp add: msbBits_def)

lemma msbBits_Suc: "n < 8 \<Longrightarrow> msbBits (Suc n) d = bit d 7 # msbBits n (push_bit 1 d)"
  unfolding msbBits_def map_upt_Suc
  by (auto simp: bit_push_bit_iff simp del: push_bit_Suc One_nat_def)

definition crcSerial :: "u8 list \<Rightarrow> u8" where
  "crcSerial data = foldl lfsrStep CRC_INIT (concat (map (msbBits 8) data))"

lemma lfsrStep_top: "lfsrStep r (bit d 7) XOR push_bit 1 d = crcBit (r XOR d)"
  by (rule bit_word_eqI)
    (auto simp: lfsrStep_def crcBit_alt bit_simps simp del: push_bit_Suc One_nat_def)

lemma lfsr_bits:
  "n \<le> 8 \<Longrightarrow> foldl lfsrStep r (msbBits n d) XOR push_bit n d = crcBits n (r XOR d)"
proof (induction n arbitrary: r d)
  case 0
  then show ?case by (simp add: msbBits_0)
next
  case (Suc n)
  then have "foldl lfsrStep (lfsrStep r (bit d 7)) (msbBits n (push_bit 1 d)) XOR
      push_bit n (push_bit 1 d) = crcBits n (crcBit (r XOR d))"
    using Suc.IH [of "lfsrStep r (bit d 7)" "push_bit 1 d"] by (simp only: lfsrStep_top)
  with Suc.prems show ?case
    by (simp add: msbBits_Suc add.commute del: push_bit_Suc One_nat_def) (simp only: plus_1_eq_Suc)
qed

lemma lfsr_byte: "foldl lfsrStep r (msbBits 8 d) = crcBits 8 (r XOR d)"
proof -
  have "push_bit 8 d = 0"
    by (rule bit_word_eqI) (simp add: bit_push_bit_iff del: push_bit_numeral)
  with lfsr_bits [of 8 r d] show ?thesis by simp
qed

lemma lfsr_data: "foldl lfsrStep r (concat (map (msbBits 8) data)) = crcFrom r data"
  by (induction data arbitrary: r)
    (simp_all only: list.map concat.simps foldl_append lfsr_byte crcFrom.simps foldl.simps)

text \<open>
  C24. The CRC of the driver is the CRC-8 of the Sensirion datasheet: the byte-wise loop with its
  conditional shift computes the bit-serial register with polynomial 0x31, initial value 0xFF, no
  reflection and no final XOR, on every byte string.
\<close>

theorem crc8_is_serial_register: "crc8 data = crcSerial data"
  by (simp only: crc8_def crcSerial_def lfsr_data)

lemma crc8_test_vector: "crc8 [0xBE, 0xEF] = 0x92"
  by code_simp

subsection \<open>Error detection\<close>

lemma crc8_xor:
  "length es = length xs \<Longrightarrow> crc8 (map2 (XOR) xs es) = crc8 xs XOR crcFrom 0 es"
  using crcFrom_xor [of es xs CRC_INIT 0] by (simp add: crc8_def)


lemma xor_cancel [simp]: "x XOR (x XOR y) = (y :: u8)"
  by (simp flip: xor.assoc)

definition errByte :: "nat \<Rightarrow> 24 word \<Rightarrow> u8" where
  "errByte i E = ucast (drop_bit (8 * i) E)"

definition syndrome :: "24 word \<Rightarrow> u8" where
  "syndrome E = crcFrom 0 [errByte 2 E, errByte 1 E] XOR errByte 0 E"

lemma frame_error:
  assumes "crc8 [a, b] = c"
  shows "crc8 [a XOR errByte 2 E, b XOR errByte 1 E] = c XOR errByte 0 E \<longleftrightarrow> syndrome E = 0"
proof -
  have "crc8 [a XOR errByte 2 E, b XOR errByte 1 E] = c XOR crcFrom 0 [errByte 2 E, errByte 1 E]"
    using crc8_xor [of "[errByte 2 E, errByte 1 E]" "[a, b]"] assms by simp
  then show ?thesis
    unfolding syndrome_def by (metis xor_cancel xor_self_eq)
qed

lemma crcBits_add: "crcBits m (crcBits n c) = crcBits (n + m) c"
  by (induction n arbitrary: c) simp_all

lemma crcBits_Suc_right: "crcBits (Suc n) c = crcBit (crcBits n c)"
  using crcBits_add [of 1 n c] by simp

lemma crcBits_8_1: "crcBits 8 1 = CRC_POLY"
  by code_simp

lemma bit24: "bit (E :: 24 word) n \<Longrightarrow> n < 24"
  by (drule bit_imp_le_length) simp

lemma errByte_shift:
  "errByte 0 (push_bit 1 E) = push_bit 1 (errByte 0 E)"
  "i < 2 \<Longrightarrow> errByte (Suc i) (push_bit 1 E) =
     push_bit 1 (errByte (Suc i) E) XOR (if bit (errByte i E) 7 then 1 else 0)"
proof -
  show "errByte 0 (push_bit 1 E) = push_bit 1 (errByte 0 E)"
    unfolding errByte_def
    by (rule bit_word_eqI) (auto simp: bit_simps simp del: push_bit_Suc One_nat_def)
  show "errByte (Suc i) (push_bit 1 E) =
     push_bit 1 (errByte (Suc i) E) XOR (if bit (errByte i E) 7 then 1 else 0)" if "i < 2"
    unfolding errByte_def
  proof (rule bit_word_eqI)
    fix n assume "n < LENGTH(8)"
    with that show "bit (ucast (drop_bit (8 * Suc i) (push_bit 1 E)) :: u8) n \<longleftrightarrow>
        bit (push_bit 1 (ucast (drop_bit (8 * Suc i) E)) XOR
          (if bit (ucast (drop_bit (8 * i) E) :: u8) 7 then 1 else 0) :: u8) n"
      by (cases n) (auto simp: bit_simps bit_1_iff ac_simps dest: bit24
          simp del: push_bit_Suc One_nat_def)
  qed
qed

lemma errByte_1_2_shift:
  "errByte 1 (push_bit 1 E) = push_bit 1 (errByte 1 E) XOR (if bit (errByte 0 E) 7 then 1 else 0)"
  "errByte 2 (push_bit 1 E) = push_bit 1 (errByte 2 E) XOR (if bit (errByte 1 E) 7 then 1 else 0)"
  using errByte_shift(2) [of 0 E] errByte_shift(2) [of 1 E]
  by (simp_all only: One_nat_def [symmetric] Suc_1)

lemma push_crcBit: "push_bit 1 c = crcBit c XOR (if bit c 7 then CRC_POLY else 0)"
  by (simp add: crcBit_alt xor.assoc)

lemma crcBits_8_48: "crcBits 8 48 = crcBits 8 CRC_POLY XOR CRC_POLY"
  using crcBits_xor [of 8 CRC_POLY 1] by (simp add: crcBits_8_1 del: crcBits.simps)

lemma crcBits_if: "crcBits n (if b then x else 0) = (if b then crcBits n x else 0)"
  by simp

lemma syndrome_shift:
  assumes "\<not> bit (errByte 2 E) 7"
  shows "syndrome (push_bit 1 E) = crcBit (syndrome E)"
proof -
  let ?a = "errByte 2 E" and ?b = "errByte 1 E" and ?c = "errByte 0 E"
  have a: "push_bit 1 ?a = crcBit ?a"
    using assms by (simp add: crcBit_alt)
  have comm: "crcBits n (crcBit x) = crcBit (crcBits n x)" for n x
    using crcBits_Suc_right [of n x] by simp
  have "syndrome (push_bit 1 E) =
      crcBits 8 (crcBits 8 (crcBit ?a XOR (if bit ?b 7 then 1 else 0)) XOR
        (crcBit ?b XOR (if bit ?b 7 then CRC_POLY else 0) XOR (if bit ?c 7 then 1 else 0))) XOR
      (crcBit ?c XOR (if bit ?c 7 then CRC_POLY else 0))"
    by (simp only: syndrome_def crcFrom.simps errByte_shift(1) a
        errByte_1_2_shift push_crcBit [of ?b] push_crcBit [of ?c]
        xor.left_neutral xor.assoc)
  also have "\<dots> = crcBit (syndrome E)"
    by (cases "bit ?b 7"; cases "bit ?c 7")
      (simp_all add: syndrome_def crcBits_xor crcBit_xor crcBits_8_1 crcBits_8_48 comm ac_simps del: crcBits.simps)
  finally show ?thesis .
qed


lemma top_byte_bit: "bit (errByte 2 E) 7 \<longleftrightarrow> bit E 23"
  by (auto simp: errByte_def bit_simps)

lemma syndrome_push:
  "p \<le> 16 \<Longrightarrow> syndrome (push_bit p (ucast B)) = crcBits p (syndrome (ucast (B :: u8)))"
proof (induction p)
  case (Suc p)
  let ?E = "push_bit p (ucast B) :: 24 word"
  have "\<not> bit (errByte 2 ?E) 7"
    using Suc.prems by (auto simp: top_byte_bit bit_simps dest: bit_imp_le_length)
  then have "syndrome (push_bit 1 ?E) = crcBit (syndrome ?E)"
    by (rule syndrome_shift)
  with Suc show ?case
    by (simp add: push_bit_push_bit crcBits_Suc_right del: crcBits.simps push_bit_Suc One_nat_def)
      (simp only: plus_1_eq_Suc)
qed simp

lemma syndrome_byte: "syndrome (ucast (B :: u8)) = B"
proof -
  have "errByte 2 (ucast B) = 0" "errByte 1 (ucast B) = 0" "errByte 0 (ucast B) = B"
    unfolding errByte_def by (rule bit_word_eqI; auto simp: bit_simps dest: bit_imp_le_length)+
  then show ?thesis by (simp add: syndrome_def del: crcBits.simps)
qed

lemma xor_eq_0: "x XOR y = 0 \<longleftrightarrow> x = (y :: u8)"
  by (metis xor_cancel xor_self_eq xor.right_neutral)

lemma syndrome_xor: "syndrome (E XOR F) = syndrome E XOR syndrome F"
proof -
  have "errByte i (E XOR F) = errByte i E XOR errByte i F" for i
    unfolding errByte_def by (rule bit_word_eqI) (auto simp: bit_simps)
  then show ?thesis
    by (simp add: syndrome_def crcBits_xor ac_simps del: crcBits.simps)
qed

lemma crcBits_numeral: "crcBits (numeral k) c = crcBits (pred_numeral k) (crcBit c)"
  by (simp add: numeral_eq_Suc)

lemma crc_period: "0 < n \<Longrightarrow> n < 24 \<Longrightarrow> crcBits n 1 \<noteq> 1"
proof -
  assume "0 < n" and "n < 24"
  then have "n \<in> {1, 2, 3, 4, 5, 6, 7, 8, 9, 10, 11, 12, 13, 14, 15, 16, 17, 18, 19, 20, 21, 22, 23}"
    by (simp, arith)
  then show ?thesis
    by (elim insertE emptyE) (simp_all add: crcBits_numeral crcBit_def)
qed

lemma crcBits_inj: "crcBits n x = crcBits n y \<longleftrightarrow> x = y"
proof -
  have "crcBits n x = crcBits n y \<longleftrightarrow> crcBits n (x XOR y) = 0"
    unfolding crcBits_xor by (metis xor_cancel xor_self_eq xor.right_neutral)
  then show ?thesis by (metis crcBits_eq_0_iff xor_cancel xor_self_eq xor.right_neutral)
qed

lemma syndrome_bit: "p < 24 \<Longrightarrow> syndrome (push_bit p 1) = crcBits p 1"
proof (induction p)
  case 0
  then show ?case using syndrome_byte [of 1] by simp
next
  case (Suc p)
  have "\<not> bit (errByte 2 (push_bit p 1)) 7"
    using Suc.prems by (auto simp: top_byte_bit bit_simps bit_1_iff)
  then have "syndrome (push_bit 1 (push_bit p 1)) = crcBit (syndrome (push_bit p 1))"
    by (rule syndrome_shift)
  with Suc show ?case
    by (simp add: push_bit_push_bit crcBits_Suc_right
        del: crcBits.simps push_bit_Suc One_nat_def push_bit_of_1)
      (simp only: plus_1_eq_Suc)
qed

text \<open>
  C25. A burst of at most eight flipped bits, anywhere in the 24 bits of a received word and its CRC
  and however the data looks, makes the CRC check of \<open>_readWords\<close> fail.
\<close>

theorem crc8_detects_burst:
  assumes "crc8 [a, b] = c" and "B \<noteq> 0" and "p \<le> 16"
    and "E = push_bit p (ucast (B :: u8))"
  shows "crc8 [a XOR errByte 2 E, b XOR errByte 1 E] \<noteq> c XOR errByte 0 E"
  using assms(2,3) unfolding frame_error [OF assms(1)] assms(4)
  by (simp add: syndrome_push syndrome_byte)

theorem crc8_detects_burst_witness:
  "crc8 [0xBE XOR errByte 2 (push_bit 6 (ucast (0xA5 :: u8))),
         0xEF XOR errByte 1 (push_bit 6 (ucast (0xA5 :: u8)))]
     \<noteq> 0x92 XOR errByte 0 (push_bit 6 (ucast (0xA5 :: u8)))"
  by (rule crc8_detects_burst [where p = 6 and B = "0xA5", OF crc8_test_vector]) simp_all

text \<open>
  C26. Any two flipped bits of a received word and its CRC make the CRC check fail: the code has
  Hamming distance at least three over the 24 bits it protects.
\<close>

theorem crc8_detects_two_bits:
  assumes "crc8 [a, b] = c" and "p < q" and "q < 24"
    and "E = push_bit p 1 XOR push_bit q 1"
  shows "crc8 [a XOR errByte 2 E, b XOR errByte 1 E] \<noteq> c XOR errByte 0 E"
proof -
  have "crcBits q 1 = crcBits p (crcBits (q - p) 1)"
    using assms(2) by (simp add: crcBits_add)
  moreover have "crcBits (q - p) 1 \<noteq> 1"
    using assms(2,3) by (intro crc_period) simp_all
  ultimately have q: "crcBits q 1 \<noteq> crcBits p 1"
    by (simp add: crcBits_inj)
  have "syndrome E = crcBits p 1 XOR crcBits q 1"
    using assms(2-4) by (simp only: syndrome_xor syndrome_bit)
  with q have "syndrome E \<noteq> 0"
    by (metis xor_eq_0)
  then show ?thesis unfolding frame_error [OF assms(1)] .
qed
theorem crc8_detects_two_bits_witness:
  "crc8 [0xBE XOR errByte 2 (push_bit 3 1 XOR push_bit 20 1),
         0xEF XOR errByte 1 (push_bit 3 1 XOR push_bit 20 1)]
     \<noteq> 0x92 XOR errByte 0 (push_bit 3 1 XOR push_bit 20 1)"
  by (rule crc8_detects_two_bits [where p = 3 and q = 20, OF crc8_test_vector]) simp_all

end
