(* ===== verification/Scd_Kinds.thy ===== *)
theory Scd_Kinds
  imports Scd_Codec
begin

text \<open>
  The tables over operation kinds of src/SCD41.cpp: resource limits, the classification predicates,
  the command words, the configuration field of a kind and the execution waits. The lemmas relate
  the tables to each other, which is what the step functions rely on when one table is consulted
  after another.
\<close>

subsection \<open>Classification\<close>

fun isReadKind :: "OperationKind \<Rightarrow> bool" where
  "isReadKind Kind_READ_IDENTITY = True"
| "isReadKind Kind_READ_SENSOR_VARIANT = True"
| "isReadKind Kind_READ_DATA_READY = True"
| "isReadKind Kind_READ_TEMPERATURE_OFFSET = True"
| "isReadKind Kind_READ_SENSOR_ALTITUDE = True"
| "isReadKind Kind_READ_AMBIENT_PRESSURE = True"
| "isReadKind Kind_READ_ASC_ENABLED = True"
| "isReadKind Kind_READ_ASC_TARGET = True"
| "isReadKind Kind_READ_ASC_INITIAL_PERIOD = True"
| "isReadKind Kind_READ_ASC_STANDARD_PERIOD = True"
| "isReadKind Kind_READ_CONFIGURATION = True"
| "isReadKind _ = False"

fun isSettingWrite :: "OperationKind \<Rightarrow> bool" where
  "isSettingWrite Kind_SET_TEMPERATURE_OFFSET = True"
| "isSettingWrite Kind_SET_SENSOR_ALTITUDE = True"
| "isSettingWrite Kind_SET_AMBIENT_PRESSURE = True"
| "isSettingWrite Kind_SET_ASC_ENABLED = True"
| "isSettingWrite Kind_SET_ASC_TARGET = True"
| "isSettingWrite Kind_SET_ASC_INITIAL_PERIOD = True"
| "isSettingWrite Kind_SET_ASC_STANDARD_PERIOD = True"
| "isSettingWrite _ = False"

fun isMaintenance :: "OperationKind \<Rightarrow> bool" where
  "isMaintenance Kind_REINIT = True"
| "isMaintenance Kind_SELF_TEST = True"
| "isMaintenance Kind_FORCED_RECALIBRATION = True"
| "isMaintenance Kind_PERSIST_SETTINGS = True"
| "isMaintenance Kind_FACTORY_RESET = True"
| "isMaintenance _ = False"

definition isDiagnostic :: "OperationKind \<Rightarrow> bool" where
  "isDiagnostic kind \<longleftrightarrow>
     kind = Kind_DIAGNOSTIC_READ_WORDS \<or> kind = Kind_DIAGNOSTIC_WRITE_COMMAND \<or>
     kind = Kind_DIAGNOSTIC_WRITE_WORD"

definition isEffectful :: "OperationKind \<Rightarrow> bool" where
  "isEffectful kind \<longleftrightarrow>
     isSettingWrite kind \<or> isMaintenance kind \<or> kind = Kind_ATTACH \<or>
     kind = Kind_START_PERIODIC \<or> kind = Kind_START_LOW_POWER_PERIODIC \<or>
     kind = Kind_STOP_PERIODIC \<or> kind = Kind_SINGLE_SHOT \<or>
     kind = Kind_SINGLE_SHOT_RHT_ONLY \<or> kind = Kind_POWER_DOWN \<or> kind = Kind_WAKE_UP \<or>
     kind = Kind_DIAGNOSTIC_READ_WORDS \<or> kind = Kind_DIAGNOSTIC_WRITE_COMMAND \<or>
     kind = Kind_DIAGNOSTIC_WRITE_WORD"

definition periodicAllowed :: "OperationKind \<Rightarrow> bool" where
  "periodicAllowed kind \<longleftrightarrow>
     kind = Kind_READ_DATA_READY \<or> kind = Kind_FETCH_SAMPLE \<or>
     kind = Kind_READ_AMBIENT_PRESSURE \<or> kind = Kind_SET_AMBIENT_PRESSURE \<or>
     kind = Kind_STOP_PERIODIC"

definition isManagedCommand :: "u16 \<Rightarrow> bool" where
  "isManagedCommand command \<longleftrightarrow> command \<in> set
     [CMD_START_PERIODIC_MEASUREMENT, CMD_READ_MEASUREMENT, CMD_STOP_PERIODIC_MEASUREMENT,
      CMD_SET_TEMPERATURE_OFFSET, CMD_GET_TEMPERATURE_OFFSET, CMD_SET_SENSOR_ALTITUDE,
      CMD_GET_SENSOR_ALTITUDE, CMD_SET_AMBIENT_PRESSURE, CMD_PERFORM_FORCED_RECALIBRATION,
      CMD_SET_ASC_ENABLED, CMD_GET_ASC_ENABLED, CMD_SET_ASC_TARGET, CMD_GET_ASC_TARGET,
      CMD_START_LOW_POWER_PERIODIC_MEASUREMENT, CMD_GET_DATA_READY_STATUS,
      CMD_PERSIST_SETTINGS, CMD_GET_SERIAL_NUMBER, CMD_PERFORM_SELF_TEST,
      CMD_PERFORM_FACTORY_RESET, CMD_REINIT, CMD_GET_SENSOR_VARIANT,
      CMD_SET_ASC_INITIAL_PERIOD, CMD_GET_ASC_INITIAL_PERIOD, CMD_SET_ASC_STANDARD_PERIOD,
      CMD_GET_ASC_STANDARD_PERIOD, CMD_MEASURE_SINGLE_SHOT, CMD_MEASURE_SINGLE_SHOT_RHT_ONLY,
      CMD_POWER_DOWN, CMD_WAKE_UP]"

subsection \<open>Fields of the configuration\<close>

definition FIELDS :: "ConfigurationField list" where
  "FIELDS = [Field_TEMPERATURE_OFFSET, Field_SENSOR_ALTITUDE, Field_AMBIENT_PRESSURE,
     Field_ASC_ENABLED, Field_ASC_TARGET, Field_ASC_INITIAL_PERIOD, Field_ASC_STANDARD_PERIOD]"

definition fieldAt :: "u8 \<Rightarrow> u16" where
  "fieldAt index =
     (if unat index < length FIELDS then configurationFieldMask (FIELDS ! unat index) else 0)"

definition KINDS :: "OperationKind list" where
  "KINDS = [Kind_READ_TEMPERATURE_OFFSET, Kind_READ_SENSOR_ALTITUDE, Kind_READ_AMBIENT_PRESSURE,
     Kind_READ_ASC_ENABLED, Kind_READ_ASC_TARGET, Kind_READ_ASC_INITIAL_PERIOD,
     Kind_READ_ASC_STANDARD_PERIOD]"

definition readKindAt :: "u8 \<Rightarrow> OperationKind" where
  "readKindAt index = (if unat index < length KINDS then KINDS ! unat index else Kind_NONE)"

fun fieldFor :: "OperationKind \<Rightarrow> ConfigurationField" where
  "fieldFor Kind_READ_TEMPERATURE_OFFSET = Field_TEMPERATURE_OFFSET"
| "fieldFor Kind_SET_TEMPERATURE_OFFSET = Field_TEMPERATURE_OFFSET"
| "fieldFor Kind_READ_SENSOR_ALTITUDE = Field_SENSOR_ALTITUDE"
| "fieldFor Kind_SET_SENSOR_ALTITUDE = Field_SENSOR_ALTITUDE"
| "fieldFor Kind_READ_AMBIENT_PRESSURE = Field_AMBIENT_PRESSURE"
| "fieldFor Kind_SET_AMBIENT_PRESSURE = Field_AMBIENT_PRESSURE"
| "fieldFor Kind_READ_ASC_ENABLED = Field_ASC_ENABLED"
| "fieldFor Kind_SET_ASC_ENABLED = Field_ASC_ENABLED"
| "fieldFor Kind_READ_ASC_TARGET = Field_ASC_TARGET"
| "fieldFor Kind_SET_ASC_TARGET = Field_ASC_TARGET"
| "fieldFor Kind_READ_ASC_INITIAL_PERIOD = Field_ASC_INITIAL_PERIOD"
| "fieldFor Kind_SET_ASC_INITIAL_PERIOD = Field_ASC_INITIAL_PERIOD"
| "fieldFor Kind_READ_ASC_STANDARD_PERIOD = Field_ASC_STANDARD_PERIOD"
| "fieldFor Kind_SET_ASC_STANDARD_PERIOD = Field_ASC_STANDARD_PERIOD"
| "fieldFor _ = Field_NONE"

subsection \<open>Commands and waits\<close>

fun readCommandFor :: "OperationKind \<Rightarrow> u16" where
  "readCommandFor Kind_READ_IDENTITY = CMD_GET_SERIAL_NUMBER"
| "readCommandFor Kind_READ_SENSOR_VARIANT = CMD_GET_SENSOR_VARIANT"
| "readCommandFor Kind_READ_DATA_READY = CMD_GET_DATA_READY_STATUS"
| "readCommandFor Kind_READ_TEMPERATURE_OFFSET = CMD_GET_TEMPERATURE_OFFSET"
| "readCommandFor Kind_SET_TEMPERATURE_OFFSET = CMD_GET_TEMPERATURE_OFFSET"
| "readCommandFor Kind_READ_SENSOR_ALTITUDE = CMD_GET_SENSOR_ALTITUDE"
| "readCommandFor Kind_SET_SENSOR_ALTITUDE = CMD_GET_SENSOR_ALTITUDE"
| "readCommandFor Kind_READ_AMBIENT_PRESSURE = CMD_GET_AMBIENT_PRESSURE"
| "readCommandFor Kind_SET_AMBIENT_PRESSURE = CMD_GET_AMBIENT_PRESSURE"
| "readCommandFor Kind_READ_ASC_ENABLED = CMD_GET_ASC_ENABLED"
| "readCommandFor Kind_SET_ASC_ENABLED = CMD_GET_ASC_ENABLED"
| "readCommandFor Kind_READ_ASC_TARGET = CMD_GET_ASC_TARGET"
| "readCommandFor Kind_SET_ASC_TARGET = CMD_GET_ASC_TARGET"
| "readCommandFor Kind_READ_ASC_INITIAL_PERIOD = CMD_GET_ASC_INITIAL_PERIOD"
| "readCommandFor Kind_SET_ASC_INITIAL_PERIOD = CMD_GET_ASC_INITIAL_PERIOD"
| "readCommandFor Kind_READ_ASC_STANDARD_PERIOD = CMD_GET_ASC_STANDARD_PERIOD"
| "readCommandFor Kind_SET_ASC_STANDARD_PERIOD = CMD_GET_ASC_STANDARD_PERIOD"
| "readCommandFor _ = 0"

fun writeCommandFor :: "OperationKind \<Rightarrow> u16" where
  "writeCommandFor Kind_START_PERIODIC = CMD_START_PERIODIC_MEASUREMENT"
| "writeCommandFor Kind_START_LOW_POWER_PERIODIC = CMD_START_LOW_POWER_PERIODIC_MEASUREMENT"
| "writeCommandFor Kind_STOP_PERIODIC = CMD_STOP_PERIODIC_MEASUREMENT"
| "writeCommandFor Kind_SINGLE_SHOT = CMD_MEASURE_SINGLE_SHOT"
| "writeCommandFor Kind_SINGLE_SHOT_RHT_ONLY = CMD_MEASURE_SINGLE_SHOT_RHT_ONLY"
| "writeCommandFor Kind_SET_TEMPERATURE_OFFSET = CMD_SET_TEMPERATURE_OFFSET"
| "writeCommandFor Kind_SET_SENSOR_ALTITUDE = CMD_SET_SENSOR_ALTITUDE"
| "writeCommandFor Kind_SET_AMBIENT_PRESSURE = CMD_SET_AMBIENT_PRESSURE"
| "writeCommandFor Kind_SET_ASC_ENABLED = CMD_SET_ASC_ENABLED"
| "writeCommandFor Kind_SET_ASC_TARGET = CMD_SET_ASC_TARGET"
| "writeCommandFor Kind_SET_ASC_INITIAL_PERIOD = CMD_SET_ASC_INITIAL_PERIOD"
| "writeCommandFor Kind_SET_ASC_STANDARD_PERIOD = CMD_SET_ASC_STANDARD_PERIOD"
| "writeCommandFor Kind_POWER_DOWN = CMD_POWER_DOWN"
| "writeCommandFor Kind_WAKE_UP = CMD_WAKE_UP"
| "writeCommandFor Kind_REINIT = CMD_REINIT"
| "writeCommandFor Kind_SELF_TEST = CMD_PERFORM_SELF_TEST"
| "writeCommandFor Kind_PERSIST_SETTINGS = CMD_PERSIST_SETTINGS"
| "writeCommandFor Kind_FACTORY_RESET = CMD_PERFORM_FACTORY_RESET"
| "writeCommandFor _ = 0"

fun executionWaitMs :: "OperationKind \<Rightarrow> u32" where
  "executionWaitMs Kind_STOP_PERIODIC = EXECUTION_TIME_STOP_PERIODIC_MS"
| "executionWaitMs Kind_SINGLE_SHOT = EXECUTION_TIME_SINGLE_SHOT_MS"
| "executionWaitMs Kind_SINGLE_SHOT_RHT_ONLY = EXECUTION_TIME_SINGLE_SHOT_RHT_MS"
| "executionWaitMs Kind_WAKE_UP = EXECUTION_TIME_POWER_UP_MS"
| "executionWaitMs Kind_REINIT = EXECUTION_TIME_REINIT_MS"
| "executionWaitMs Kind_SELF_TEST = EXECUTION_TIME_SELF_TEST_MS"
| "executionWaitMs Kind_FORCED_RECALIBRATION = EXECUTION_TIME_FRC_MS"
| "executionWaitMs Kind_PERSIST_SETTINGS = EXECUTION_TIME_PERSIST_MS"
| "executionWaitMs Kind_FACTORY_RESET = EXECUTION_TIME_FACTORY_RESET_MS"
| "executionWaitMs _ = EXECUTION_TIME_SHORT_MS"

subsection \<open>Resource limits\<close>

text \<open>
  The groups of the switch in \<open>limits\<close>, by their common settings. A kind that no enumerator has
  falls through the switch like \<open>NONE\<close>.
\<close>

abbreviation steadyLimits :: "u8 \<Rightarrow> u32 \<Rightarrow> OperationLimits" where
  "steadyLimits callbacks wait \<equiv> OperationLimits_init
     \<lparr>lim_maxCallbacks := callbacks, lim_maxWaitMs := wait,
      lim_operationClass := Class_STEADY_STATE\<rparr>"

abbreviation runtimeLimits :: "u8 \<Rightarrow> u32 \<Rightarrow> OperationLimits" where
  "runtimeLimits callbacks wait \<equiv>
     OperationLimits_init\<lparr>lim_maxCallbacks := callbacks, lim_maxWaitMs := wait\<rparr>"

abbreviation maintenanceLimits :: "u8 \<Rightarrow> u32 \<Rightarrow> bool \<Rightarrow> bool \<Rightarrow> OperationLimits" where
  "maintenanceLimits callbacks wait nonvolatile destructive \<equiv> OperationLimits_init
     \<lparr>lim_maxCallbacks := callbacks, lim_maxWaitMs := wait,
      lim_operationClass := Class_MAINTENANCE, lim_writesNonvolatile := nonvolatile,
      lim_destructive := destructive\<rparr>"

abbreviation diagnosticLimits :: "u8 \<Rightarrow> u32 \<Rightarrow> OperationLimits" where
  "diagnosticLimits callbacks wait \<equiv> OperationLimits_init
     \<lparr>lim_maxCallbacks := callbacks, lim_maxWaitMs := wait,
      lim_operationClass := Class_DIAGNOSTIC\<rparr>"

fun limits :: "OperationKind \<Rightarrow> OperationLimits" where
  "limits Kind_ATTACH = runtimeLimits 6
     (POWER_UP_DELAY_MAX_MS + EXECUTION_TIME_POWER_UP_MS + EXECUTION_TIME_STOP_PERIODIC_MS +
      3 * EXECUTION_TIME_SHORT_MS)"
| "limits Kind_READ_DATA_READY = steadyLimits 2 1"
| "limits Kind_READ_SENSOR_VARIANT = steadyLimits 2 1"
| "limits Kind_READ_TEMPERATURE_OFFSET = steadyLimits 2 1"
| "limits Kind_READ_SENSOR_ALTITUDE = steadyLimits 2 1"
| "limits Kind_READ_AMBIENT_PRESSURE = steadyLimits 2 1"
| "limits Kind_READ_ASC_ENABLED = steadyLimits 2 1"
| "limits Kind_READ_ASC_TARGET = steadyLimits 2 1"
| "limits Kind_READ_ASC_INITIAL_PERIOD = steadyLimits 2 1"
| "limits Kind_READ_ASC_STANDARD_PERIOD = steadyLimits 2 1"
| "limits Kind_READ_IDENTITY = steadyLimits 4 3"
| "limits Kind_START_PERIODIC = runtimeLimits 1 1"
| "limits Kind_START_LOW_POWER_PERIODIC = runtimeLimits 1 1"
| "limits Kind_POWER_DOWN = runtimeLimits 1 1"
| "limits Kind_STOP_PERIODIC = runtimeLimits 1 EXECUTION_TIME_STOP_PERIODIC_MS"
| "limits Kind_FETCH_SAMPLE = steadyLimits 4 3"
| "limits Kind_SINGLE_SHOT = runtimeLimits 5 (EXECUTION_TIME_SINGLE_SHOT_MS + 3)"
| "limits Kind_SINGLE_SHOT_RHT_ONLY = runtimeLimits 5 (EXECUTION_TIME_SINGLE_SHOT_RHT_MS + 3)"
| "limits Kind_SET_TEMPERATURE_OFFSET = runtimeLimits 5 4"
| "limits Kind_SET_SENSOR_ALTITUDE = runtimeLimits 5 4"
| "limits Kind_SET_AMBIENT_PRESSURE = runtimeLimits 5 4"
| "limits Kind_SET_ASC_ENABLED = runtimeLimits 5 4"
| "limits Kind_SET_ASC_TARGET = runtimeLimits 5 4"
| "limits Kind_SET_ASC_INITIAL_PERIOD = runtimeLimits 5 4"
| "limits Kind_SET_ASC_STANDARD_PERIOD = runtimeLimits 5 4"
| "limits Kind_READ_CONFIGURATION = runtimeLimits 14 13"
| "limits Kind_WAKE_UP =
     runtimeLimits 5 (EXECUTION_TIME_POWER_UP_MS + 3 * EXECUTION_TIME_SHORT_MS)"
| "limits Kind_REINIT =
     runtimeLimits 5 (EXECUTION_TIME_POWER_UP_MS + 3 * EXECUTION_TIME_SHORT_MS)"
| "limits Kind_SELF_TEST = maintenanceLimits 2 EXECUTION_TIME_SELF_TEST_MS False False"
| "limits Kind_FORCED_RECALIBRATION = maintenanceLimits 2 EXECUTION_TIME_FRC_MS True False"
| "limits Kind_PERSIST_SETTINGS = maintenanceLimits 1 EXECUTION_TIME_PERSIST_MS True False"
| "limits Kind_FACTORY_RESET =
     maintenanceLimits 5 (EXECUTION_TIME_FACTORY_RESET_MS + 3) True True"
| "limits Kind_DIAGNOSTIC_READ_WORDS = diagnosticLimits 2 1"
| "limits Kind_DIAGNOSTIC_WRITE_COMMAND = diagnosticLimits 1 1"
| "limits Kind_DIAGNOSTIC_WRITE_WORD = diagnosticLimits 1 1"
| "limits Kind_NONE = OperationLimits_init"
| "limits Kind_INVALID = OperationLimits_init"

fun effectFromWakeAttempt :: "TransferDisposition \<Rightarrow> EffectState" where
  "effectFromWakeAttempt Disp_COMPLETE = Effect_ACKNOWLEDGED"
| "effectFromWakeAttempt Disp_INDETERMINATE = Effect_UNKNOWN"
| "effectFromWakeAttempt Disp_NO_EFFECT = Effect_ATTEMPTED"
| "effectFromWakeAttempt Disp_NOT_STARTED = Effect_ATTEMPTED"
| "effectFromWakeAttempt Disp_INVALID = Effect_UNKNOWN"

text \<open>The display names of the enumerations in the header.\<close>

fun driverStateName :: "DriverState \<Rightarrow> string" where
  "driverStateName State_UNINIT = ''UNINIT''"
| "driverStateName State_READY = ''READY''"
| "driverStateName State_DEGRADED = ''DEGRADED''"
| "driverStateName State_OFFLINE = ''OFFLINE''"

subsection \<open>How the tables fit together\<close>

lemma maxCallbacks_0_iff: "lim_maxCallbacks (limits k) = 0 \<longleftrightarrow> k = Kind_NONE \<or> k = Kind_INVALID"
  by (cases k) (simp_all add: OperationLimits_init_def)

lemma unat_u8_lt_7: "unat (i :: u8) < 7 \<longleftrightarrow> i < 7"
  by (simp add: word_less_nat_alt)

lemma u8_cases_7:
  "unat (i :: u8) < 7 \<Longrightarrow> i = 0 \<or> i = 1 \<or> i = 2 \<or> i = 3 \<or> i = 4 \<or> i = 5 \<or> i = 6"
proof -
  assume "unat i < 7"
  then have "unat i \<in> {0, 1, 2, 3, 4, 5, 6}" by (simp, arith)
  then show ?thesis
    by (auto simp: word_unat_eq_iff)
qed

text \<open>
  The walk over the configuration reads, at index \<open>i\<close>, exactly the field whose bit it then marks
  as completed and verified.
\<close>

lemma fieldAt_readKindAt: "configurationFieldMask (fieldFor (readKindAt i)) = fieldAt i"
proof (cases "unat i < 7")
  case True
  then show ?thesis
    by (auto dest!: u8_cases_7 simp: fieldAt_def readKindAt_def FIELDS_def KINDS_def)
qed (simp add: fieldAt_def readKindAt_def FIELDS_def KINDS_def)

lemma isSettingWrite_fieldFor: "isSettingWrite k \<Longrightarrow> fieldFor k \<noteq> Field_NONE"
  by (cases k) simp_all

lemma configurationFieldMask_subset: "configurationFieldMask f AND 0x7F = configurationFieldMask f"
  by (cases f) simp_all

end
