(* ===== verification/Scd_Clock.thy ===== *)
theory Scd_Clock
  imports Scd_Prelude
begin

text \<open>
  The wrapping 32-bit millisecond clock: \<open>_timeReached\<close> and \<open>_deadlineValid\<close> of src/SCD41.cpp.
  Both read the distance between two timestamps modulo \<open>2^32\<close>. The locale \<open>wrapping_clock\<close> is
  what the rest of the driver relies on: a test that is true from the target on for half the
  clock's range, whatever the timestamps are, so that it survives the wrap of the counter.
\<close>

definition timeReached :: "u32 \<Rightarrow> u32 \<Rightarrow> bool" where
  "timeReached nowMs targetMs \<longleftrightarrow> 0 \<le> sint (nowMs - targetMs)"

definition deadlineValid :: "u32 \<Rightarrow> u32 \<Rightarrow> bool" where
  "deadlineValid nowMs deadlineMs \<longleftrightarrow>
     (let distance = deadlineMs - nowMs in distance \<noteq> 0 \<and> distance < 0x80000000)"

lemma odd_top_bit: "x < 2 ^ 32 \<Longrightarrow> odd (x div 2 ^ 31) \<longleftrightarrow> \<not> x < 2 ^ 31" for x :: nat
proof (cases "x < 2 ^ 31")
  case False
  moreover assume "x < 2 ^ 32"
  ultimately have "x div 2 ^ 31 = 1"
    by (intro div_nat_eqI) simp_all
  with False show ?thesis by simp
qed simp

lemma sint_nonneg_iff: "0 \<le> sint (w :: u32) \<longleftrightarrow> unat w < 2 ^ 31"
proof -
  have "0 \<le> sint w \<longleftrightarrow> \<not> bit w 31"
    by (simp add: sint_uint signed_take_bit_nonnegative_iff bit_uint_iff)
  also have "bit w 31 \<longleftrightarrow> bit (unat w) 31"
    by (simp add: bit_unsigned_iff)
  also have "\<dots> \<longleftrightarrow> odd (unat w div 2 ^ 31)"
    by (rule bit_iff_odd)
  also have "\<dots> \<longleftrightarrow> \<not> unat w < 2 ^ 31"
    by (rule odd_top_bit) (use unsigned_less [where ?'a = nat, of w] in simp)
  finally show ?thesis by simp
qed

lemma timeReached_unat: "timeReached n t \<longleftrightarrow> unat (n - t) < 2 ^ 31"
  by (simp add: timeReached_def sint_nonneg_iff)

lemma timeReached_refl [simp]: "timeReached t t"
  by (simp add: timeReached_def)

lemma timeReached_add: "unat d < 2 ^ 31 \<Longrightarrow> timeReached (t + d) t"
  by (simp add: timeReached_unat)

lemma deadlineValid_unat: "deadlineValid n d \<longleftrightarrow> 0 < unat (d - n) \<and> unat (d - n) < 2 ^ 31"
  by (auto simp: deadlineValid_def Let_def word_less_nat_alt unat_gt_0)

lemma unat_minus_swap:
  assumes "n \<noteq> (d :: u32)"
  shows "unat (n - d) = 2 ^ 32 - unat (d - n)"
proof -
  have "unat n \<noteq> unat d"
    using assms by (simp add: word_unat_eq_iff)
  moreover have "unat n < 2 ^ 32" and "unat d < 2 ^ 32"
    using unsigned_less [where ?'a = nat, of n] unsigned_less [where ?'a = nat, of d] by simp_all
  ultimately show ?thesis
    by (auto simp: unat_sub_if_size word_size)
qed

lemma not_timeReached_before:
  assumes "deadlineValid n d"
  shows "\<not> timeReached n d"
proof -
  from assms have "n \<noteq> d" and "unat (d - n) < 2 ^ 31"
    by (auto simp: deadlineValid_unat)
  then have "2 ^ 31 < unat (n - d)"
    by (subst unat_minus_swap) simp_all
  then show ?thesis by (simp add: timeReached_unat)
qed

subsection \<open>The clock contract\<close>

locale wrapping_clock =
  fixes reached :: "u32 \<Rightarrow> u32 \<Rightarrow> bool"
  assumes reached_after: "unat d < 2 ^ 31 \<Longrightarrow> reached (t + d) t"
    and not_reached_before: "0 < unat d \<Longrightarrow> unat d < 2 ^ 31 \<Longrightarrow> \<not> reached t (t + d)"
begin

lemma reached_self: "reached t t"
  using reached_after [of 0 t] by simp

text \<open>
  A wait of \<open>d\<close> milliseconds from \<open>t\<close> that is observed after \<open>e\<close> milliseconds, both below half
  the range, is over exactly when \<open>d \<le> e\<close>, wherever on the dial \<open>t\<close> is.
\<close>

lemma wait_over_iff:
  assumes d: "unat d < 2 ^ 31" and e: "unat e < 2 ^ 31"
  shows "reached (t + e) (t + d) \<longleftrightarrow> unat d \<le> unat e"
proof (cases "unat d \<le> unat e")
  case True
  then have "unat (e - d) = unat e - unat d"
    by (simp add: unat_sub word_le_nat_alt)
  then have "unat (e - d) < 2 ^ 31"
    using e by linarith
  from reached_after [OF this, of "t + d"] True show ?thesis by simp
next
  case False
  then have "unat (d - e) = unat d - unat e"
    by (simp add: unat_sub word_le_nat_alt)
  then have "0 < unat (d - e)" and "unat (d - e) < 2 ^ 31"
    using False d by linarith+
  from not_reached_before [OF this, of "t + e"] False show ?thesis by simp
qed

end

interpretation clock: wrapping_clock timeReached
proof unfold_locales
  fix d t :: u32
  assume "0 < unat d" and "unat d < 2 ^ 31"
  then show "\<not> timeReached t (t + d)"
    by (intro not_timeReached_before) (simp add: deadlineValid_unat)
qed (rule timeReached_add)

end
