(* ===== verification/Scd_Driver.thy ===== *)
theory Scd_Driver
  imports Scd_Kinds Scd_Clock
begin

text \<open>
  The driver object: the private members of class SCD41 as one record, in the order of the header,
  and the member functions that only change this record and never reach the transport
  (src/SCD41.cpp): binding, mode and epoch changes, health accounting, decoded settings, samples,
  and the two functions that end an operation.

  Assignments to members of a member struct go through the small setters below, so that a sequence
  of assignments in the source is a composition of setters here.
\<close>

record 'w driver =
  d_config :: "'w Config"
  d_bound :: bool
  d_attached :: bool
  d_driverState :: DriverState
  d_operatingMode :: OperatingMode
  d_modeEvidence :: ModeEvidence
  d_reconciliationRequired :: bool
  d_nextSafeCommandMs :: u32
  d_nextSafeCommandValid :: bool
  d_sensorEpoch :: u32
  d_sampleSequence :: u32
  d_nextGeneration :: u32
  d_active :: ActiveOperation
  d_activeValid :: bool
  d_terminal :: OperationResult
  d_terminalValid :: bool
  d_workingValue :: OperationValue
  d_identity :: Identity
  d_configuration :: ConfigurationSnapshot
  d_pressureCompensation :: ConfigurationField
  d_latestSample :: FixedSample
  d_latestSampleValid :: bool
  d_health :: HealthSnapshot
  d_lastTransferDisposition :: TransferDisposition
  d_lastTransferWasEffectful :: bool
  d_lastOwnerNowMs :: u32
  d_lastOwnerNowValid :: bool

text \<open>A default-constructed driver.\<close>

definition driver_init :: "'w driver" where
  "driver_init = \<lparr>d_config = Config_init, d_bound = False, d_attached = False,
     d_driverState = State_UNINIT, d_operatingMode = Mode_UNKNOWN,
     d_modeEvidence = Evidence_UNKNOWN, d_reconciliationRequired = True,
     d_nextSafeCommandMs = 0, d_nextSafeCommandValid = False, d_sensorEpoch = 0,
     d_sampleSequence = 0, d_nextGeneration = 1, d_active = ActiveOperation_init,
     d_activeValid = False, d_terminal = OperationResult_init, d_terminalValid = False,
     d_workingValue = OperationValue_init, d_identity = Identity_init,
     d_configuration = ConfigurationSnapshot_init, d_pressureCompensation = Field_NONE,
     d_latestSample = FixedSample_init, d_latestSampleValid = False,
     d_health = HealthSnapshot_init, d_lastTransferDisposition = Disp_NOT_STARTED,
     d_lastTransferWasEffectful = False, d_lastOwnerNowMs = 0, d_lastOwnerNowValid = False\<rparr>"

abbreviation activeKind :: "'w driver \<Rightarrow> OperationKind" where
  "activeKind d \<equiv> rq_kind (a_request (d_active d))"

abbreviation activePhase :: "'w driver \<Rightarrow> OperationPhase" where
  "activePhase d \<equiv> a_phase (d_active d)"

abbreviation activeIndex :: "'w driver \<Rightarrow> u8" where
  "activeIndex d \<equiv> a_fieldIndex (d_active d)"

subsection \<open>Setters\<close>

definition setPhase :: "OperationPhase \<Rightarrow> 'w driver \<Rightarrow> 'w driver" where
  "setPhase p d = d\<lparr>d_active := (d_active d)\<lparr>a_phase := p\<rparr>\<rparr>"

definition setDue :: "u32 \<Rightarrow> 'w driver \<Rightarrow> 'w driver" where
  "setDue t d = d\<lparr>d_active := (d_active d)\<lparr>a_nextDueMs := t\<rparr>\<rparr>"

definition setFieldIndex :: "u8 \<Rightarrow> 'w driver \<Rightarrow> 'w driver" where
  "setFieldIndex i d = d\<lparr>d_active := (d_active d)\<lparr>a_fieldIndex := i\<rparr>\<rparr>"

definition setEffect :: "EffectState \<Rightarrow> 'w driver \<Rightarrow> 'w driver" where
  "setEffect e d = d\<lparr>d_active := (d_active d)\<lparr>a_effect := e\<rparr>\<rparr>"

definition setSettingValueChanged :: "bool \<Rightarrow> 'w driver \<Rightarrow> 'w driver" where
  "setSettingValueChanged b d = d\<lparr>d_active := (d_active d)\<lparr>a_settingValueChanged := b\<rparr>\<rparr>"

definition markCompleted :: "u16 \<Rightarrow> 'w driver \<Rightarrow> 'w driver" where
  "markCompleted m d =
     d\<lparr>d_active := (d_active d)\<lparr>a_completedFieldMask := a_completedFieldMask (d_active d) OR m\<rparr>\<rparr>"

definition clearVerified :: "u16 \<Rightarrow> 'w driver \<Rightarrow> 'w driver" where
  "clearVerified m d = d\<lparr>d_configuration := (d_configuration d)
     \<lparr>cs_verifiedMask := cs_verifiedMask (d_configuration d) AND NOT m\<rparr>\<rparr>"

definition markVerified :: "u16 \<Rightarrow> 'w driver \<Rightarrow> 'w driver" where
  "markVerified m d = d\<lparr>d_configuration := (d_configuration d)
     \<lparr>cs_verifiedMask := cs_verifiedMask (d_configuration d) OR m\<rparr>\<rparr>"

definition markDirty :: "u16 \<Rightarrow> 'w driver \<Rightarrow> 'w driver" where
  "markDirty m d = d\<lparr>d_configuration := (d_configuration d)
     \<lparr>cs_dirtyMask := cs_dirtyMask (d_configuration d) OR m\<rparr>\<rparr>"

definition clearDirty :: "'w driver \<Rightarrow> 'w driver" where
  "clearDirty d = d\<lparr>d_configuration := (d_configuration d)\<lparr>cs_dirtyMask := 0\<rparr>\<rparr>"

definition setPersistenceIndeterminate :: "bool \<Rightarrow> 'w driver \<Rightarrow> 'w driver" where
  "setPersistenceIndeterminate b d =
     d\<lparr>d_configuration := (d_configuration d)\<lparr>cs_persistenceIndeterminate := b\<rparr>\<rparr>"

definition setPressureCompensation :: "ConfigurationField \<Rightarrow> 'w driver \<Rightarrow> 'w driver" where
  "setPressureCompensation f d = d\<lparr>d_pressureCompensation := f\<rparr>"

definition publishConfiguration :: "'w driver \<Rightarrow> 'w driver" where
  "publishConfiguration d =
     d\<lparr>d_workingValue := (d_workingValue d)\<lparr>ov_configuration := d_configuration d\<rparr>\<rparr>"

definition publishIdentity :: "'w driver \<Rightarrow> 'w driver" where
  "publishIdentity d =
     d\<lparr>d_workingValue := (d_workingValue d)\<lparr>ov_identity := d_identity d\<rparr>\<rparr>"

text \<open>\<open>_workingValue.identity.serialNumber = ...\<close>, the serial kept between two reads.\<close>

definition stashSerial :: "u64 \<Rightarrow> 'w driver \<Rightarrow> 'w driver" where
  "stashSerial s d = d\<lparr>d_workingValue := (d_workingValue d)
     \<lparr>ov_identity := (ov_identity (d_workingValue d))\<lparr>idn_serialNumber := s\<rparr>\<rparr>\<rparr>"

abbreviation stashedSerial :: "'w driver \<Rightarrow> u64" where
  "stashedSerial d \<equiv> idn_serialNumber (ov_identity (d_workingValue d))"

definition setWorkingValue :: "u32 \<Rightarrow> 'w driver \<Rightarrow> 'w driver" where
  "setWorkingValue v d = d\<lparr>d_workingValue := (d_workingValue d)\<lparr>ov_value := v\<rparr>\<rparr>"

text \<open>The five assignments to \<open>_identity\<close> after a variant read, and \<open>_configuration = {}\<close>.\<close>

definition adoptIdentity :: "u64 \<Rightarrow> SensorVariant \<Rightarrow> u16 \<Rightarrow> 'w driver \<Rightarrow> 'w driver" where
  "adoptIdentity serialNumber variant variantWord d = d\<lparr>d_identity :=
     \<lparr>idn_serialNumber = serialNumber, idn_variant = variant, idn_sensorEpoch = d_sensorEpoch d,
      idn_valid = True, idn_variantWord = variantWord\<rparr>\<rparr>"

definition resetConfiguration :: "'w driver \<Rightarrow> 'w driver" where
  "resetConfiguration d =
     d\<lparr>d_configuration := ConfigurationSnapshot_init\<lparr>cs_sensorEpoch := d_sensorEpoch d\<rparr>\<rparr>"

lemmas setter_defs =
  setPhase_def setDue_def setFieldIndex_def setEffect_def setSettingValueChanged_def
  markCompleted_def clearVerified_def markVerified_def markDirty_def clearDirty_def
  setPersistenceIndeterminate_def setPressureCompensation_def publishConfiguration_def
  publishIdentity_def stashSerial_def setWorkingValue_def adoptIdentity_def
  resetConfiguration_def

declare setter_defs [driver_defs]

subsection \<open>Mode, reconciliation, epoch\<close>

definition setMode :: "OperatingMode \<Rightarrow> ModeEvidence \<Rightarrow> 'w driver \<Rightarrow> 'w driver" where
  "setMode mode evidence d =
     (let d = (if d_operatingMode d \<noteq> mode then d\<lparr>d_sampleSequence := 0\<rparr> else d)
      in d\<lparr>d_operatingMode := mode, d_modeEvidence := evidence\<rparr>)"

definition markReconciliationRequired :: "'w driver \<Rightarrow> 'w driver" where
  "markReconciliationRequired d =
     (let d = setMode Mode_UNKNOWN Evidence_UNKNOWN
                (d\<lparr>d_attached := False, d_reconciliationRequired := True\<rparr>)
      in d\<lparr>d_configuration := (d_configuration d)\<lparr>cs_verifiedMask := 0\<rparr>,
           d_pressureCompensation := Field_NONE, d_latestSampleValid := False\<rparr>)"

definition advanceSensorEpoch :: "'w driver \<Rightarrow> 'w driver" where
  "advanceSensorEpoch d =
     (let epoch = incrementSaturating (d_sensorEpoch d)
      in d\<lparr>d_sensorEpoch := (if epoch = 0 then 1 else epoch), d_sampleSequence := 0,
           d_pressureCompensation := Field_NONE, d_latestSampleValid := False\<rparr>)"

text \<open>\<open>_attached = true; _reconciliationRequired = false; _setMode(IDLE, VERIFIED)\<close>\<close>

definition markAttached :: "'w driver \<Rightarrow> 'w driver" where
  "markAttached d = setMode Mode_IDLE Evidence_VERIFIED
     (d\<lparr>d_attached := True, d_reconciliationRequired := False\<rparr>)"

declare setMode_def [driver_defs] markReconciliationRequired_def [driver_defs]
  advanceSensorEpoch_def [driver_defs] markAttached_def [driver_defs]

subsection \<open>Health\<close>

definition recordTransfer :: "TransferResult \<Rightarrow> bool \<Rightarrow> 'w driver \<Rightarrow> 'w driver" where
  "recordTransfer result expectedNack d =
     (let h = d_health d in
      if expectedNack then
        d\<lparr>d_health := h\<lparr>hs_expectedNacks := incrementSaturating (hs_expectedNacks h)\<rparr>\<rparr>
      else if tr_code result = TransferCode_OK \<and> tr_disposition result = Disp_COMPLETE then
        (let st = (if d_bound d then State_READY else State_UNINIT)
         in d\<lparr>d_health := h\<lparr>hs_lastTransferOkMs := tr_completedMs result,
                hs_totalTransferSuccess := incrementSaturating (hs_totalTransferSuccess h),
                hs_consecutiveTransferFailures := 0, hs_state := st\<rparr>,
              d_driverState := st\<rparr>)
      else if tr_disposition result = Disp_NOT_STARTED then d
      else
        (let failures = incrementSaturating (hs_consecutiveTransferFailures h);
             threshold = cfg_offlineThreshold (d_config d);
             st = (if threshold \<noteq> 0 \<and> failures \<ge> threshold then State_OFFLINE
                   else State_DEGRADED)
         in d\<lparr>d_health := h\<lparr>hs_lastTransferErrorMs := tr_completedMs result,
                hs_lastTransferError := transferStatus result,
                hs_totalTransferFailures := incrementSaturating (hs_totalTransferFailures h),
                hs_consecutiveTransferFailures := failures, hs_state := st\<rparr>,
              d_driverState := st\<rparr>))"

definition recordProtocolFailure :: "Status \<Rightarrow> u32 \<Rightarrow> 'w driver \<Rightarrow> 'w driver" where
  "recordProtocolFailure status nowMs d =
     (let h = d_health d;
          h = h\<lparr>hs_totalProtocolFailures := incrementSaturating (hs_totalProtocolFailures h)\<rparr>;
          h = (if st_code status = Err_CRC_MISMATCH
               then h\<lparr>hs_totalCrcFailures := incrementSaturating (hs_totalCrcFailures h)\<rparr>
               else h)
      in d\<lparr>d_health := h\<lparr>hs_lastProtocolErrorMs := nowMs, hs_lastProtocolError := status\<rparr>\<rparr>)"

definition recordOperationError :: "OperationResult \<Rightarrow> HealthSnapshot \<Rightarrow> HealthSnapshot" where
  "recordOperationError result h = h
     \<lparr>hs_lastOperationErrorMs := res_completedMs result,
      hs_lastOperationError := res_status result,
      hs_lastOperationErrorId := res_id result,
      hs_lastOperationErrorKind := res_kind result\<rparr>"

definition recordOperationOutcome :: "OperationResult \<Rightarrow> 'w driver \<Rightarrow> 'w driver" where
  "recordOperationOutcome result d =
     (let h = (d_health d)\<lparr>hs_lastOperationId := res_id result,
                hs_lastOperationKind := res_kind result\<rparr>
      in d\<lparr>d_health :=
           (case res_outcome result of
              Outcome_SUCCEEDED \<Rightarrow>
                h\<lparr>hs_totalOperationSuccess := incrementSaturating (hs_totalOperationSuccess h)\<rparr>
            | Outcome_NO_DATA \<Rightarrow>
                h\<lparr>hs_totalOperationSuccess := incrementSaturating (hs_totalOperationSuccess h)\<rparr>
            | Outcome_CANCELLED \<Rightarrow> recordOperationError result
                (h\<lparr>hs_totalOperationCancelled :=
                    incrementSaturating (hs_totalOperationCancelled h)\<rparr>)
            | _ \<Rightarrow> recordOperationError result
                (h\<lparr>hs_totalOperationFailures :=
                    incrementSaturating (hs_totalOperationFailures h)\<rparr>))\<rparr>)"

declare recordTransfer_def [driver_defs] recordProtocolFailure_def [driver_defs]
  recordOperationOutcome_def [driver_defs]

end
