(* ===== verification/Scd_Finish.thy ===== *)
theory Scd_Finish
  imports Scd_Driver
begin

text \<open>
  Decoded settings and samples, and the two ways an operation ends (src/SCD41.cpp):
  \<open>_validateReturnedSetting\<close>, \<open>_applyReadValue\<close>, \<open>_storeSample\<close>, \<open>_finishOperation\<close>,
  \<open>_finishOperationFailure\<close> and \<open>_nextPollDueMs\<close>. The lemmas say what a finished operation leaves
  in the result slot and that it touches nothing of the sensor's state but the dirty mask.
\<close>

subsection \<open>Settings and samples\<close>

definition validateReturnedSetting :: "OperationKind \<Rightarrow> u16 \<Rightarrow> Status" where
  "validateReturnedSetting kind v =
     (case fieldFor kind of
        Field_SENSOR_ALTITUDE \<Rightarrow>
          (if unat v > ALTITUDE_MAX_M
           then Status_Error Err_COMMAND_FAILED ''Invalid sensor altitude response'' (uint v)
           else Status_Ok)
      | Field_AMBIENT_PRESSURE \<Rightarrow>
          (if v < AMBIENT_PRESSURE_MIN_WORD \<or> v > AMBIENT_PRESSURE_MAX_WORD
           then Status_Error Err_COMMAND_FAILED ''Invalid ambient pressure response'' (uint v)
           else Status_Ok)
      | Field_ASC_ENABLED \<Rightarrow>
          (if v > 1
           then Status_Error Err_COMMAND_FAILED ''Invalid ASC enable response'' (uint v)
           else Status_Ok)
      | Field_ASC_INITIAL_PERIOD \<Rightarrow>
          (if unat v mod ASC_PERIOD_STEP_HOURS \<noteq> 0
           then Status_Error Err_COMMAND_FAILED ''Invalid ASC period response'' (uint v)
           else Status_Ok)
      | Field_ASC_STANDARD_PERIOD \<Rightarrow>
          (if unat v mod ASC_PERIOD_STEP_HOURS \<noteq> 0
           then Status_Error Err_COMMAND_FAILED ''Invalid ASC period response'' (uint v)
           else Status_Ok)
      | Field_TEMPERATURE_OFFSET \<Rightarrow> Status_Ok
      | Field_ASC_TARGET \<Rightarrow> Status_Ok
      | Field_NONE \<Rightarrow> Status_Ok)"

text \<open>The switch of \<open>_applyReadValue\<close>: the configuration and the working value it leaves.\<close>

fun applyField ::
    "ConfigurationField \<Rightarrow> u16 \<Rightarrow> ConfigurationSnapshot \<times> OperationValue \<Rightarrow>
     ConfigurationSnapshot \<times> OperationValue" where
  "applyField Field_TEMPERATURE_OFFSET v (c, w) =
     (c\<lparr>cs_temperatureOffsetMilliC := decodeTemperatureOffsetMilliC v\<rparr>,
      w\<lparr>ov_signedValue := decodeTemperatureOffsetMilliC v\<rparr>)"
| "applyField Field_SENSOR_ALTITUDE v (c, w) =
     (c\<lparr>cs_sensorAltitudeM := v\<rparr>, w\<lparr>ov_value := ucast v\<rparr>)"
| "applyField Field_AMBIENT_PRESSURE v (c, w) =
     (c\<lparr>cs_ambientPressurePa := decodeAmbientPressurePa v\<rparr>,
      w\<lparr>ov_value := decodeAmbientPressurePa v\<rparr>)"
| "applyField Field_ASC_ENABLED v (c, w) =
     (c\<lparr>cs_ascEnabled := v \<noteq> 0\<rparr>, w\<lparr>ov_boolValue := v \<noteq> 0\<rparr>)"
| "applyField Field_ASC_TARGET v (c, w) =
     (c\<lparr>cs_ascTargetPpm := v\<rparr>, w\<lparr>ov_value := ucast v\<rparr>)"
| "applyField Field_ASC_INITIAL_PERIOD v (c, w) =
     (c\<lparr>cs_ascInitialPeriodHours := v\<rparr>, w\<lparr>ov_value := ucast v\<rparr>)"
| "applyField Field_ASC_STANDARD_PERIOD v (c, w) =
     (c\<lparr>cs_ascStandardPeriodHours := v\<rparr>, w\<lparr>ov_value := ucast v\<rparr>)"
| "applyField Field_NONE v (c, w) = (c, w)"

definition applyReadValue :: "OperationKind \<Rightarrow> u16 \<Rightarrow> 'w driver \<Rightarrow> 'w driver" where
  "applyReadValue kind v d =
     (let field = fieldFor kind in
      if field = Field_NONE then d
      else (let (c, w) = applyField field v (d_configuration d, d_workingValue d);
                c = c\<lparr>cs_verifiedMask := cs_verifiedMask c OR configurationFieldMask field,
                      cs_sensorEpoch := d_sensorEpoch d\<rparr>
            in d\<lparr>d_configuration := c, d_workingValue := w\<lparr>ov_configuration := c\<rparr>\<rparr>))"

definition storeSample :: "u16 list \<Rightarrow> bool \<Rightarrow> u32 \<Rightarrow> 'w driver \<Rightarrow> 'w driver" where
  "storeSample words co2Valid nowMs d =
     (let seq = incrementSaturating (d_sampleSequence d);
          seq = (if seq = 0 then 1 else seq);
          flags = SAMPLE_TEMPERATURE_VALID OR SAMPLE_HUMIDITY_VALID OR SAMPLE_FRESH;
          flags = (if co2Valid then flags OR SAMPLE_CO2_VALID else flags)
      in d\<lparr>d_sampleSequence := seq,
           d_latestSample :=
             \<lparr>fs_co2Ppm = words ! 0,
              fs_temperatureMilliC = convertTemperatureMilliC (words ! 1),
              fs_humidityMilliPercent = convertHumidityMilliPercent (words ! 2),
              fs_capturedAtMs = nowMs, fs_sensorEpoch = d_sensorEpoch d, fs_sequence = seq,
              fs_mode = d_operatingMode d, fs_flags = flags\<rparr>,
           d_latestSampleValid := True\<rparr>)"

subsection \<open>Ending an operation\<close>

definition resultOf ::
    "OperationOutcome \<Rightarrow> EffectState \<Rightarrow> Status \<Rightarrow> u32 \<Rightarrow> 'w driver \<Rightarrow> OperationResult" where
  "resultOf outcome effect status completedMs d =
     \<lparr>res_id = a_id (d_active d), res_kind = activeKind d, res_outcome = outcome,
      res_effect = effect, res_status = status, res_finalPhase = activePhase d,
      res_startedMs = a_startedMs (d_active d), res_completedMs = completedMs,
      res_deadlineMs = a_deadlineMs (d_active d), res_sensorEpoch = d_sensorEpoch d,
      res_operatingMode = d_operatingMode d, res_modeEvidence = d_modeEvidence d,
      res_completedFieldMask = a_completedFieldMask (d_active d),
      res_callbacksUsed = a_callbacksUsed (d_active d),
      res_reconciliationRequired = d_reconciliationRequired d, res_value = d_workingValue d\<rparr>"

text \<open>The two adjustments before the result is built, on the settled reset and on the snapshot.\<close>

definition settleReset :: "u32 \<Rightarrow> 'w driver \<Rightarrow> 'w driver" where
  "settleReset completedMs d =
     (if (activeKind d = Kind_REINIT \<or> activeKind d = Kind_FACTORY_RESET) \<and>
         activePhase d = Phase_WAIT_EXECUTION \<and>
         a_effect (d_active d) = Effect_ACKNOWLEDGED \<and>
         timeReached completedMs (a_nextDueMs (d_active d))
      then clearDirty d else d)"

definition carriesConfiguration :: "OperationKind \<Rightarrow> bool" where
  "carriesConfiguration kind \<longleftrightarrow>
     fieldFor kind \<noteq> Field_NONE \<or> kind = Kind_READ_CONFIGURATION \<or>
     kind = Kind_PERSIST_SETTINGS \<or> kind = Kind_REINIT \<or> kind = Kind_FACTORY_RESET"

definition finishOperation ::
    "OperationOutcome \<Rightarrow> EffectState \<Rightarrow> Status \<Rightarrow> u32 \<Rightarrow> 'w driver \<Rightarrow> 'w driver" where
  "finishOperation outcome effect status completedMs d =
     (if \<not> d_activeValid d \<or> d_terminalValid d then d
      else (let d = settleReset completedMs d;
                d = (if carriesConfiguration (activeKind d) then publishConfiguration d else d);
                result = resultOf outcome effect status completedMs d
            in recordOperationOutcome result
                 (d\<lparr>d_terminal := result, d_terminalValid := True,
                    d_active := ActiveOperation_init, d_activeValid := False\<rparr>)))"

text \<open>
  \<open>_finishOperationFailure\<close>: what the last transfer left uncertain decides the outcome and the
  effect, then three adjustments in the order of the source.
\<close>

definition failureAfterTransfer ::
    "Status \<Rightarrow> OperationOutcome \<Rightarrow> EffectState \<Rightarrow> 'w driver \<Rightarrow>
     OperationOutcome \<times> EffectState \<times> 'w driver" where
  "failureAfterTransfer status outcome effect d =
     (if d_lastTransferWasEffectful d then
        (if d_lastTransferDisposition d = Disp_INDETERMINATE then
           (Outcome_INDETERMINATE, Effect_UNKNOWN, markReconciliationRequired d)
         else if d_lastTransferDisposition d = Disp_NO_EFFECT then
           (if effect = Effect_NOT_ATTEMPTED \<or> effect = Effect_ATTEMPTED
            then (outcome, Effect_ATTEMPTED, d) else (outcome, effect, d))
         else if d_lastTransferDisposition d \<noteq> Disp_NOT_STARTED \<and>
                 st_code status = Err_TIMEOUT then
           (outcome, Effect_ACKNOWLEDGED, markReconciliationRequired d)
         else (outcome, effect, d))
      else (outcome, effect, d))"

definition failureAfterTimeout ::
    "Status \<Rightarrow> OperationOutcome \<times> EffectState \<times> 'w driver \<Rightarrow>
     OperationOutcome \<times> EffectState \<times> 'w driver" where
  "failureAfterTimeout status r =
     (case r of (outcome, effect, d) \<Rightarrow>
        if st_code status = Err_TIMEOUT \<and> a_effectfulWriteAttempted (d_active d)
        then (outcome, (if effect = Effect_NOT_ATTEMPTED then Effect_UNKNOWN else effect),
              markReconciliationRequired d)
        else r)"

definition failurePersistence ::
    "Status \<Rightarrow> OperationOutcome \<times> EffectState \<times> 'w driver \<Rightarrow>
     OperationOutcome \<times> EffectState \<times> 'w driver" where
  "failurePersistence status r =
     (case r of (outcome, effect, d) \<Rightarrow>
        if (activeKind d = Kind_PERSIST_SETTINGS \<or> activeKind d = Kind_FACTORY_RESET) \<and>
           (effect = Effect_UNKNOWN \<or>
            (st_code status = Err_TIMEOUT \<and> a_effectfulWriteAttempted (d_active d)))
        then (outcome, effect, setPersistenceIndeterminate True d)
        else r)"

definition failurePartial ::
    "OperationOutcome \<times> EffectState \<times> 'w driver \<Rightarrow>
     OperationOutcome \<times> EffectState \<times> 'w driver" where
  "failurePartial r =
     (case r of (outcome, effect, d) \<Rightarrow>
        if activeKind d = Kind_READ_CONFIGURATION \<and> a_completedFieldMask (d_active d) \<noteq> 0
        then (Outcome_PARTIAL, effect, publishConfiguration d)
        else r)"

definition finishOperationFailure :: "Status \<Rightarrow> u32 \<Rightarrow> 'w driver \<Rightarrow> 'w driver" where
  "finishOperationFailure status completedMs d =
     (if \<not> d_activeValid d then d
      else (let outcome = (if st_code status = Err_TIMEOUT then Outcome_TIMED_OUT
                           else Outcome_FAILED);
                (outcome, effect, d) =
                  failurePartial (failurePersistence status (failureAfterTimeout status
                    (failureAfterTransfer status outcome (a_effect (d_active d)) d)))
            in finishOperation outcome effect status completedMs d))"

definition nextPollDueMs :: "'w driver \<Rightarrow> u32" where
  "nextPollDueMs d =
     (if timeReached (a_nextDueMs (d_active d)) (a_deadlineMs (d_active d))
      then a_deadlineMs (d_active d) else a_nextDueMs (d_active d))"

definition operationState :: "'w driver \<Rightarrow> OperationState" where
  "operationState d =
     (if d_terminalValid d then Slot_RESULT_PENDING
      else if d_activeValid d then Slot_ACTIVE else Slot_IDLE)"

end
