(* ===== verification/Scd_Admission.thy ===== *)
theory Scd_Admission
  imports Scd_Finish
begin

text \<open>
  Binding and admission (src/SCD41.cpp): \<open>begin\<close>, the four validation functions,
  \<open>_beginOperation\<close> and \<open>start\<close>. \<open>begin\<close> is \<open>driverBegin\<close> here, because the name is a keyword.
\<close>

subsection \<open>Binding\<close>

definition validateConfig :: "'w Config \<Rightarrow> Status" where
  "validateConfig config =
     (if cfg_transfer config = None then
        Status_Error Err_INVALID_CONFIG ''Transfer callback is required'' 0
      else if cfg_transferTimeoutMs config = 0 \<or> cfg_transferTimeoutMs config > 1000 then
        Status_Error Err_INVALID_CONFIG ''Transfer timeout out of range'' 0
      else if (ucast (cfg_powerUpDelayMs config) :: u32) < EXECUTION_TIME_POWER_UP_MS \<or>
              (ucast (cfg_powerUpDelayMs config) :: u32) > POWER_UP_DELAY_MAX_MS then
        Status_Error Err_INVALID_CONFIG ''Power-up delay out of range'' 0
      else Status_Ok)"

definition driverBegin :: "'w Config \<Rightarrow> 'w driver \<Rightarrow> Status \<times> 'w driver" where
  "driverBegin config d =
     (let validation = validateConfig config in
      if \<not> ok validation then (validation, d)
      else if d_activeValid d \<or> d_terminalValid d then
        (Status_Error Err_BUSY ''Operation or result pending'' 0, d)
      else (Status_Ok, d
        \<lparr>d_config := config, d_bound := True, d_attached := False, d_driverState := State_READY,
         d_operatingMode := Mode_UNKNOWN, d_modeEvidence := Evidence_UNKNOWN,
         d_reconciliationRequired := True, d_sampleSequence := 0,
         d_active := ActiveOperation_init, d_terminal := OperationResult_init,
         d_workingValue := OperationValue_init, d_identity := Identity_init,
         d_configuration := ConfigurationSnapshot_init, d_pressureCompensation := Field_NONE,
         d_latestSample := FixedSample_init, d_latestSampleValid := False,
         d_health := HealthSnapshot_init\<lparr>hs_state := State_READY\<rparr>,
         d_lastTransferDisposition := Disp_NOT_STARTED, d_lastTransferWasEffectful := False\<rparr>))"

subsection \<open>Validation\<close>

definition validateDiagnosticCommand :: "OperationRequest \<Rightarrow> Status" where
  "validateDiagnosticCommand request =
     (if rq_command request = 0 then
        Status_Error Err_INVALID_PARAM ''Invalid diagnostic command'' 0
      else if isManagedCommand (rq_command request) then
        Status_Error Err_UNSUPPORTED ''Use typed operation for managed command'' 0
      else if rq_kind request = Kind_DIAGNOSTIC_WRITE_WORD \<and> unat (rq_value request) > 65535 then
        Status_Error Err_INVALID_PARAM ''Diagnostic word is out of range'' 0
      else Status_Ok)"

definition validateAscPeriod :: "OperationRequest \<Rightarrow> Status" where
  "validateAscPeriod request =
     (if unat (rq_value request) > 65532 \<or>
         unat (rq_value request) mod ASC_PERIOD_STEP_HOURS \<noteq> 0
      then Status_Error Err_INVALID_PARAM ''ASC period out of range'' 0 else Status_Ok)"

definition validateRequestValue :: "OperationRequest \<Rightarrow> Status" where
  "validateRequestValue request =
     (case rq_kind request of
        Kind_SET_TEMPERATURE_OFFSET \<Rightarrow>
          fst (encodeTemperatureOffsetMilliC (rq_signedValue request) 0)
      | Kind_SET_SENSOR_ALTITUDE \<Rightarrow>
          (if unat (rq_value request) > ALTITUDE_MAX_M
           then Status_Error Err_INVALID_PARAM ''Altitude out of range'' 0 else Status_Ok)
      | Kind_SET_AMBIENT_PRESSURE \<Rightarrow> fst (encodeAmbientPressurePa (rq_value request) 0)
      | Kind_SET_ASC_ENABLED \<Rightarrow>
          (if rq_value request > 1
           then Status_Error Err_INVALID_PARAM ''ASC enable must be boolean'' 0 else Status_Ok)
      | Kind_SET_ASC_TARGET \<Rightarrow>
          (if unat (rq_value request) > 65535
           then Status_Error Err_INVALID_PARAM ''ASC target out of range'' 0 else Status_Ok)
      | Kind_SET_ASC_INITIAL_PERIOD \<Rightarrow> validateAscPeriod request
      | Kind_SET_ASC_STANDARD_PERIOD \<Rightarrow> validateAscPeriod request
      | Kind_FORCED_RECALIBRATION \<Rightarrow>
          (if rq_confirmation request \<noteq> Confirm_FORCED_RECALIBRATION
           then Status_Error Err_CONFIRMATION_REQUIRED ''FRC confirmation required'' 0
           else if unat (rq_value request) > 65535
           then Status_Error Err_INVALID_PARAM ''FRC reference out of range'' 0 else Status_Ok)
      | Kind_PERSIST_SETTINGS \<Rightarrow>
          (if rq_confirmation request \<noteq> Confirm_PERSIST_SETTINGS
           then Status_Error Err_CONFIRMATION_REQUIRED ''Persistence confirmation required'' 0
           else Status_Ok)
      | Kind_FACTORY_RESET \<Rightarrow>
          (if rq_confirmation request \<noteq> Confirm_FACTORY_RESET
           then Status_Error Err_CONFIRMATION_REQUIRED ''Factory-reset confirmation required'' 0
           else Status_Ok)
      | Kind_DIAGNOSTIC_READ_WORDS \<Rightarrow>
          (if rq_command request = 0 \<or> rq_wordCount request = 0 \<or> rq_wordCount request > 3
           then Status_Error Err_INVALID_PARAM ''Invalid diagnostic read'' 0
           else if isManagedCommand (rq_command request)
           then Status_Error Err_UNSUPPORTED ''Use typed operation for managed command'' 0
           else Status_Ok)
      | Kind_DIAGNOSTIC_WRITE_COMMAND \<Rightarrow> validateDiagnosticCommand request
      | Kind_DIAGNOSTIC_WRITE_WORD \<Rightarrow> validateDiagnosticCommand request
      | _ \<Rightarrow> Status_Ok)"

text \<open>The operations that the datasheet restricts to SCD41 and SCD43.\<close>

fun variantRestricted :: "OperationKind \<Rightarrow> bool" where
  "variantRestricted Kind_SINGLE_SHOT = True"
| "variantRestricted Kind_SINGLE_SHOT_RHT_ONLY = True"
| "variantRestricted Kind_READ_ASC_INITIAL_PERIOD = True"
| "variantRestricted Kind_SET_ASC_INITIAL_PERIOD = True"
| "variantRestricted Kind_READ_ASC_STANDARD_PERIOD = True"
| "variantRestricted Kind_SET_ASC_STANDARD_PERIOD = True"
| "variantRestricted Kind_READ_CONFIGURATION = True"
| "variantRestricted Kind_POWER_DOWN = True"
| "variantRestricted Kind_WAKE_UP = True"
| "variantRestricted _ = False"

text \<open>The last part of \<open>_validateAdmission\<close>: what the operating mode permits.\<close>

definition validateMode :: "OperationKind \<Rightarrow> 'w driver \<Rightarrow> Status" where
  "validateMode kind d =
     (if d_operatingMode d = Mode_PERIODIC \<or> d_operatingMode d = Mode_LOW_POWER_PERIODIC then
        (if periodicAllowed kind then Status_Ok
         else Status_Error Err_BUSY ''Operation forbidden in periodic mode'' 0)
      else if d_operatingMode d = Mode_POWER_DOWN then
        (if kind = Kind_WAKE_UP then Status_Ok
         else Status_Error Err_BUSY ''Sensor is powered down'' 0)
      else if kind = Kind_FETCH_SAMPLE then
        Status_Error Err_BUSY ''Periodic measurement is not active'' 0
      else if kind = Kind_STOP_PERIODIC then
        Status_Error Err_BUSY ''Periodic measurement is not active'' 0
      else Status_Ok)"

definition validateAdmission :: "OperationKind \<Rightarrow> 'w driver \<Rightarrow> Status" where
  "validateAdmission kind d =
     (if kind = Kind_ATTACH then Status_Ok
      else if \<not> d_attached d then
        (if d_reconciliationRequired d
         then Status_Error Err_RECONCILIATION_REQUIRED ''Attach reconciliation required'' 0
         else Status_Error Err_NOT_INITIALIZED ''Sensor is not attached'' 0)
      else if d_reconciliationRequired d \<or> d_operatingMode d = Mode_UNKNOWN then
        Status_Error Err_RECONCILIATION_REQUIRED ''Sensor state is unknown'' 0
      else if kind = Kind_PERSIST_SETTINGS \<and>
              \<not> cs_persistenceIndeterminate (d_configuration d) \<and>
              cs_dirtyMask (d_configuration d) AND NOT (cs_verifiedMask (d_configuration d)) \<noteq> 0
      then Status_Error Err_RECONCILIATION_REQUIRED
             ''Dirty settings require verified readback'' 0
      else if idn_valid (d_identity d) \<and> idn_variant (d_identity d) \<noteq> Variant_SCD41 \<and>
              idn_variant (d_identity d) \<noteq> Variant_SCD43 \<and> variantRestricted kind
      then Status_Error Err_UNSUPPORTED ''Operation requires SCD41 or SCD43'' 0
      else validateMode kind d)"

definition validateStart :: "OperationRequest \<Rightarrow> OperationOptions \<Rightarrow> 'w driver \<Rightarrow> Status" where
  "validateStart request options d =
     (if \<not> d_bound d then Status_Error Err_NOT_INITIALIZED ''Driver is not bound'' 0
      else if d_activeValid d \<or> d_terminalValid d then
        Status_Error Err_BUSY ''Operation or result pending'' 0
      else if rq_kind request = Kind_NONE \<or> op_requestId options = 0 then
        Status_Error Err_INVALID_PARAM ''Invalid operation request'' 0
      else if lim_maxCallbacks (limits (rq_kind request)) = 0 then
        Status_Error Err_UNSUPPORTED ''Unsupported operation'' 0
      else if \<not> deadlineValid (op_nowMs options) (op_deadlineMs options) then
        Status_Error Err_INVALID_PARAM ''Invalid operation deadline'' 0
      else if d_lastOwnerNowValid d \<and> \<not> timeReached (op_nowMs options) (d_lastOwnerNowMs d) then
        Status_Error Err_INVALID_PARAM ''Owner clock moved backwards'' 0
      else if d_nextSafeCommandValid d \<and>
              \<not> timeReached (op_nowMs options) (d_nextSafeCommandMs d) then
        Status_Error Err_BUSY ''Sensor safety window active'' 0
      else (let status = validateRequestValue request in
            if \<not> ok status then status else validateAdmission (rq_kind request) d))"

subsection \<open>Admission\<close>

text \<open>The first phase of a kind, and the raw word a setting write wants on the device.\<close>

definition firstPhase :: "OperationKind \<Rightarrow> OperationPhase option" where
  "firstPhase kind =
     (if kind = Kind_ATTACH then Some Phase_WAIT_POWER_UP
      else if kind = Kind_FETCH_SAMPLE then Some Phase_SEND_READY_COMMAND
      else if kind = Kind_SINGLE_SHOT \<or> kind = Kind_SINGLE_SHOT_RHT_ONLY \<or>
              isMaintenance kind \<or> isDiagnostic kind \<or> isSettingWrite kind \<or>
              kind = Kind_START_PERIODIC \<or> kind = Kind_START_LOW_POWER_PERIODIC \<or>
              kind = Kind_STOP_PERIODIC \<or> kind = Kind_POWER_DOWN \<or> kind = Kind_WAKE_UP
      then Some Phase_SEND_COMMAND
      else if isReadKind kind then Some Phase_SEND_COMMAND
      else None)"

definition encodeDesired :: "OperationRequest \<Rightarrow> u16 \<Rightarrow> Status \<times> u16" where
  "encodeDesired request raw =
     (if rq_kind request = Kind_SET_TEMPERATURE_OFFSET
      then encodeTemperatureOffsetMilliC (rq_signedValue request) raw
      else if rq_kind request = Kind_SET_AMBIENT_PRESSURE
      then encodeAmbientPressurePa (rq_value request) raw
      else if isSettingWrite (rq_kind request) then (Status_Ok, ucast (rq_value request))
      else (Status_Ok, raw))"

text \<open>
  A rejected \<open>_beginOperation\<close> has already overwritten \<open>_active\<close>, \<open>_workingValue\<close> and the owner
  clock; only the last assignment makes the operation active.
\<close>

definition beginOperation ::
    "OperationRequest \<Rightarrow> OperationOptions \<Rightarrow> OperationId \<Rightarrow> 'w driver \<Rightarrow> Status \<times> 'w driver"
where
  "beginOperation request options oid d =
     (let a = ActiveOperation_init\<lparr>a_request := request, a_id := oid,
                a_startedMs := op_nowMs options, a_deadlineMs := op_deadlineMs options,
                a_nextDueMs := op_nowMs options,
                a_effect := (if isEffectful (rq_kind request) then Effect_NOT_ATTEMPTED
                             else Effect_NONE)\<rparr>;
          d = d\<lparr>d_active := a, d_workingValue := OperationValue_init,
                d_lastTransferWasEffectful := False, d_lastOwnerNowMs := op_nowMs options,
                d_lastOwnerNowValid := True\<rparr>
      in case firstPhase (rq_kind request) of
           None \<Rightarrow> (Status_Error Err_UNSUPPORTED ''Unsupported operation'' 0, d)
         | Some phase \<Rightarrow>
             (let a = a\<lparr>a_phase := phase\<rparr>;
                  a = (if rq_kind request = Kind_ATTACH
                       then a\<lparr>a_nextDueMs :=
                              op_nowMs options + ucast (cfg_powerUpDelayMs (d_config d))\<rparr>
                       else a);
                  encoded = encodeDesired request (a_desiredRaw a);
                  d = d\<lparr>d_active := a\<lparr>a_desiredRaw := snd encoded\<rparr>\<rparr>
              in if \<not> ok (fst encoded) then (fst encoded, d)
                 else (Status_Ok, d\<lparr>d_activeValid := True\<rparr>)))"

definition nextGenerationAfter :: "u32 \<Rightarrow> u32" where
  "nextGenerationAfter g = (if g = - 1 then 1 else g + 1)"

text \<open>\<open>start\<close> writes the identity through its out parameter only when it admits the operation.\<close>

definition start ::
    "OperationRequest \<Rightarrow> OperationOptions \<Rightarrow> OperationId \<Rightarrow> 'w driver \<Rightarrow>
     Status \<times> OperationId \<times> 'w driver" where
  "start request options assignedId d =
     (let validation = validateStart request options d in
      if \<not> ok validation then (validation, assignedId, d)
      else (let oid = \<lparr>oid_requestId = op_requestId options, oid_generation = d_nextGeneration d\<rparr>;
                (beginStatus, d) = beginOperation request options oid d
            in if \<not> ok beginStatus then (beginStatus, assignedId, d)
               else (Status_Error Err_IN_PROGRESS ''Operation started'' 0, oid,
                     d\<lparr>d_nextGeneration := nextGenerationAfter (d_nextGeneration d)\<rparr>)))"

subsection \<open>Admitted operations begin\<close>

lemma firstPhase_None_iff: "firstPhase k = None \<longleftrightarrow> k = Kind_NONE \<or> k = Kind_INVALID"
  by (cases k) (simp_all add: firstPhase_def isDiagnostic_def)

lemma ok_encodeDesired:
  assumes "ok (validateRequestValue request)"
  shows "ok (fst (encodeDesired request raw))"
  using assms
  by (cases "rq_kind request")
    (simp_all add: encodeDesired_def validateRequestValue_def temperature.ok_enc_iff
      pressure.ok_enc_iff)

lemma validateStart_ok:
  assumes "ok (validateStart request options d)"
  shows "d_bound d" and "\<not> d_activeValid d" and "\<not> d_terminalValid d"
    and "op_requestId options \<noteq> 0"
    and "rq_kind request \<noteq> Kind_NONE" and "rq_kind request \<noteq> Kind_INVALID"
    and "deadlineValid (op_nowMs options) (op_deadlineMs options)"
    and "d_lastOwnerNowValid d \<Longrightarrow> timeReached (op_nowMs options) (d_lastOwnerNowMs d)"
    and "d_nextSafeCommandValid d \<Longrightarrow> timeReached (op_nowMs options) (d_nextSafeCommandMs d)"
    and "ok (validateRequestValue request)"
    and "ok (validateAdmission (rq_kind request) d)"
  using assms by (auto simp: validateStart_def Let_def maxCallbacks_0_iff split: if_splits)

text \<open>The operation that \<open>start\<close> installs, field by field.\<close>

definition admittedActive ::
    "OperationRequest \<Rightarrow> OperationOptions \<Rightarrow> OperationId \<Rightarrow> 'w driver \<Rightarrow> ActiveOperation" where
  "admittedActive request options oid d =
     \<lparr>a_request = request, a_id = oid, a_phase = the (firstPhase (rq_kind request)),
      a_effect = (if isEffectful (rq_kind request) then Effect_NOT_ATTEMPTED else Effect_NONE),
      a_startedMs = op_nowMs options, a_deadlineMs = op_deadlineMs options,
      a_nextDueMs = (if rq_kind request = Kind_ATTACH
                     then op_nowMs options + ucast (cfg_powerUpDelayMs (d_config d))
                     else op_nowMs options),
      a_completedFieldMask = 0, a_desiredRaw = snd (encodeDesired request 0), a_fieldIndex = 0,
      a_callbacksUsed = 0, a_effectfulWriteAttempted = False, a_settingValueChanged = False\<rparr>"

lemma beginOperation_ok:
  assumes "ok (validateStart request options d)"
  shows "beginOperation request options oid d =
     (Status_Ok, d\<lparr>d_active := admittedActive request options oid d,
        d_workingValue := OperationValue_init, d_lastTransferWasEffectful := False,
        d_lastOwnerNowMs := op_nowMs options, d_lastOwnerNowValid := True,
        d_activeValid := True\<rparr>)"
proof -
  obtain phase where "firstPhase (rq_kind request) = Some phase"
    using validateStart_ok(5,6) [OF assms] firstPhase_None_iff
    by (cases "firstPhase (rq_kind request)") auto
  then show ?thesis
    using ok_encodeDesired [OF validateStart_ok(10) [OF assms]]
    by (simp add: beginOperation_def admittedActive_def ActiveOperation_init_def)
qed

lemma start_eq:
  "start request options assignedId d =
     (if ok (validateStart request options d)
      then (let oid = \<lparr>oid_requestId = op_requestId options, oid_generation = d_nextGeneration d\<rparr>
            in (Status_Error Err_IN_PROGRESS ''Operation started'' 0, oid,
                d\<lparr>d_active := admittedActive request options oid d,
                  d_workingValue := OperationValue_init, d_lastTransferWasEffectful := False,
                  d_lastOwnerNowMs := op_nowMs options, d_lastOwnerNowValid := True,
                  d_activeValid := True,
                  d_nextGeneration := nextGenerationAfter (d_nextGeneration d)\<rparr>))
      else (validateStart request options d, assignedId, d))"
  by (simp add: start_def beginOperation_ok Let_def)

end
