(* ===== verification/Scd_Transfer.thy ===== *)
theory Scd_Transfer
  imports Scd_Admission
begin

text \<open>
  One physical transfer and the calls built on it (src/SCD41.cpp): \<open>_attemptTransfer\<close>,
  \<open>_checkCommandSpacing\<close>, \<open>_writeCommand\<close>, \<open>_writeCommandWithWord\<close> and \<open>_readWords\<close>.

  These functions and the step functions take the owner clock and the callback budget by
  reference and run inside one call of \<open>poll\<close>. A \<open>frame\<close> is what that call has on its stack: the
  driver, the clock and the budget, and the world behind the application's callback. Two more
  fields only observe: the trace lists every invocation of the callback with the clock at which it
  was made and the request it got, and the fault flag records a call through a null callback, which
  in the source is undefined behaviour. Nothing reads them.
\<close>

record 'w frame =
  fr_drv :: "'w driver"
  fr_now :: u32
  fr_budget :: u8
  fr_world :: 'w
  fr_trace :: "(u32 \<times> TransferRequest) list"
  fr_fault :: bool

definition inDrv :: "('w driver \<Rightarrow> 'w driver) \<Rightarrow> 'w frame \<Rightarrow> 'w frame" where
  "inDrv f fr = fr\<lparr>fr_drv := f (fr_drv fr)\<rparr>"

lemma inDrv_simps [simp]:
  "fr_drv (inDrv f fr) = f (fr_drv fr)" "fr_now (inDrv f fr) = fr_now fr"
  "fr_budget (inDrv f fr) = fr_budget fr" "fr_world (inDrv f fr) = fr_world fr"
  "fr_trace (inDrv f fr) = fr_trace fr" "fr_fault (inDrv f fr) = fr_fault fr"
  by (simp_all add: inDrv_def)

text \<open>\<open>Status::Error(Err::IN_PROGRESS, message)\<close>, the status of a step that has more to do.\<close>

abbreviation progressing :: "string \<Rightarrow> Status" where
  "progressing message \<equiv> Status_Error Err_IN_PROGRESS message 0"

text \<open>
  The two lines after every transfer of a step, \<open>if (status.inProgress()) return status;\<close> and
  \<open>if (!status.ok()) return status;\<close>, followed by the rest of the step.
\<close>

definition on_ok :: "Status \<times> 'w frame \<Rightarrow> ('w frame \<Rightarrow> Status \<times> 'w frame) \<Rightarrow> Status \<times> 'w frame"
where
  "on_ok r k = (case r of (status, fr) \<Rightarrow> if ok status then k fr else (status, fr))"

definition on_words ::
    "Status \<times> u16 list \<times> 'w frame \<Rightarrow> (u16 list \<Rightarrow> 'w frame \<Rightarrow> Status \<times> 'w frame) \<Rightarrow>
     Status \<times> 'w frame"
where
  "on_words r k = (case r of (status, words, fr) \<Rightarrow> if ok status then k words fr else (status, fr))"

subsection \<open>Normalising what the callback returned\<close>

definition completionClockValid :: "u32 \<Rightarrow> TransferResult \<Rightarrow> bool" where
  "completionClockValid startedMs transfer \<longleftrightarrow> tr_completedMs transfer - startedMs < 0x80000000"

definition normalizeClock :: "u32 \<Rightarrow> TransferResult \<Rightarrow> TransferResult" where
  "normalizeClock startedMs transfer =
     (if completionClockValid startedMs transfer then transfer
      else transfer\<lparr>tr_code := TransferCode_FAILED, tr_completedMs := startedMs,
             tr_disposition := (if tr_disposition transfer \<noteq> Disp_NOT_STARTED
                                then Disp_INDETERMINATE else Disp_NOT_STARTED)\<rparr>)"

definition contradictoryBytes :: "bool \<Rightarrow> nat \<Rightarrow> TransferResult \<Rightarrow> bool" where
  "contradictoryBytes effectful expectedBytes r \<longleftrightarrow>
     tr_bytesTransferred r > expectedBytes \<or>
     (tr_disposition r = Disp_NOT_STARTED \<and> tr_bytesTransferred r \<noteq> 0) \<or>
     (effectful \<and> tr_disposition r = Disp_NO_EFFECT \<and> tr_bytesTransferred r = expectedBytes)"

definition invalidTransport :: "bool \<Rightarrow> nat \<Rightarrow> TransferResult \<Rightarrow> bool" where
  "invalidTransport effectful expectedBytes r \<longleftrightarrow>
     tr_code r > TransferCode_FAILED \<or> tr_disposition r > Disp_INDETERMINATE \<or>
     contradictoryBytes effectful expectedBytes r"

definition normalizeInvalid :: "bool \<Rightarrow> nat \<Rightarrow> TransferResult \<Rightarrow> TransferResult" where
  "normalizeInvalid effectful expectedBytes r =
     (if invalidTransport effectful expectedBytes r
      then r\<lparr>tr_code := TransferCode_FAILED,
             tr_disposition :=
               (if tr_disposition r > Disp_INDETERMINATE \<or>
                   contradictoryBytes effectful expectedBytes r \<or>
                   tr_disposition r \<noteq> Disp_NOT_STARTED
                then Disp_INDETERMINATE else tr_disposition r)\<rparr>
      else r)"

definition normalizeShort :: "nat \<Rightarrow> TransferResult \<Rightarrow> TransferResult" where
  "normalizeShort expectedBytes r =
     (let r = (if tr_code r = TransferCode_OK \<and>
                  (tr_disposition r \<noteq> Disp_COMPLETE \<or> tr_bytesTransferred r \<noteq> expectedBytes)
               then r\<lparr>tr_code := TransferCode_SHORT_TRANSFER,
                      tr_disposition := Disp_INDETERMINATE\<rparr>
               else r)
      in if tr_code r \<noteq> TransferCode_OK \<and> tr_disposition r = Disp_COMPLETE
         then r\<lparr>tr_disposition := Disp_INDETERMINATE\<rparr> else r)"

definition normalized :: "bool \<Rightarrow> nat \<Rightarrow> u32 \<Rightarrow> TransferResult \<Rightarrow> TransferResult" where
  "normalized effectful expectedBytes startedMs transfer =
     normalizeShort expectedBytes
       (normalizeInvalid effectful expectedBytes (normalizeClock startedMs transfer))"

definition isExpectedNack :: "TransferIntent \<Rightarrow> TransferResult \<Rightarrow> bool" where
  "isExpectedNack intent r \<longleftrightarrow>
     intent = Intent_EXPECTED_WRITE_NACK \<and> tr_code r = TransferCode_NACK \<and>
     tr_disposition r \<noteq> Disp_NOT_STARTED"

subsection \<open>What a transfer does to the driver\<close>

text \<open>\<open>incrementSaturating(_active.callbacksUsed)\<close> before the call.\<close>

definition countCallback :: "'w driver \<Rightarrow> 'w driver" where
  "countCallback d = d\<lparr>d_active := (d_active d)
     \<lparr>a_callbacksUsed := incrementSaturating (a_callbacksUsed (d_active d))\<rparr>\<rparr>"

text \<open>\<open>_recordProtocolFailure\<close> for a result that contradicts itself.\<close>

definition noteInvalid :: "bool \<Rightarrow> nat \<Rightarrow> TransferResult \<Rightarrow> 'w driver \<Rightarrow> 'w driver" where
  "noteInvalid effectful expectedBytes r d =
     (if invalidTransport effectful expectedBytes r
      then recordProtocolFailure
             (Status_Error Err_I2C_ERROR ''Invalid transport result'' (tr_detail r))
             (tr_completedMs r) d
      else d)"

definition noteEffect :: "bool \<Rightarrow> TransferResult \<Rightarrow> 'w driver \<Rightarrow> 'w driver" where
  "noteEffect effectful r d =
     (let d = d\<lparr>d_lastTransferDisposition := tr_disposition r,
                d_lastTransferWasEffectful := effectful\<rparr>
      in if effectful \<and> tr_disposition r \<noteq> Disp_NOT_STARTED
         then d\<lparr>d_active := (d_active d)
                 \<lparr>a_effectfulWriteAttempted := True,
                  a_effect := (if a_effect (d_active d) = Effect_NOT_ATTEMPTED
                               then Effect_ATTEMPTED else a_effect (d_active d))\<rparr>\<rparr>
         else d)"

definition settleMs :: "bool \<Rightarrow> bool \<Rightarrow> TransferResult \<Rightarrow> 'w driver \<Rightarrow> u32" where
  "settleMs effectful expectedNack r d =
     (if effectful \<and> (tr_disposition r = Disp_COMPLETE \<or> tr_disposition r = Disp_INDETERMINATE \<or>
                      expectedNack)
      then (if activeKind d = Kind_ATTACH
            then (if activePhase d = Phase_SEND_WAKE then EXECUTION_TIME_POWER_UP_MS
                  else EXECUTION_TIME_STOP_PERIODIC_MS)
            else executionWaitMs (activeKind d))
      else EXECUTION_TIME_SHORT_MS)"

definition armSafeCommand ::
    "bool \<Rightarrow> bool \<Rightarrow> TransferResult \<Rightarrow> u32 \<Rightarrow> 'w driver \<Rightarrow> 'w driver" where
  "armSafeCommand effectful expectedNack r nowMs d =
     (if tr_disposition r \<noteq> Disp_NOT_STARTED
      then d\<lparr>d_nextSafeCommandMs := nowMs + settleMs effectful expectedNack r d,
             d_nextSafeCommandValid := True\<rparr>
      else d)"

text \<open>The driver after the callback has returned \<open>transfer\<close>.\<close>

definition absorbTransfer ::
    "TransferIntent \<Rightarrow> bool \<Rightarrow> nat \<Rightarrow> u32 \<Rightarrow> TransferResult \<Rightarrow> 'w driver \<Rightarrow> 'w driver" where
  "absorbTransfer intent effectful expectedBytes startedMs transfer d =
     (let r = normalized effectful expectedBytes startedMs transfer;
          nack = isExpectedNack intent r;
          nowMs = (if completionClockValid startedMs transfer then tr_completedMs transfer
                   else startedMs)
      in armSafeCommand effectful nack r nowMs
           (recordTransfer r nack
             (noteEffect effectful r
               (noteInvalid effectful expectedBytes (normalizeClock startedMs transfer) d))))"

definition transferOutcome ::
    "TransferIntent \<Rightarrow> bool \<Rightarrow> nat \<Rightarrow> u32 \<Rightarrow> u32 \<Rightarrow> TransferResult \<Rightarrow> Status" where
  "transferOutcome intent effectful expectedBytes startedMs deadlineMs transfer =
     (let r = normalized effectful expectedBytes startedMs transfer;
          crossed = timeReached (tr_completedMs transfer) deadlineMs
      in if \<not> completionClockValid startedMs transfer then
           Status_Error Err_I2C_ERROR ''Transport completion clock moved backwards'' 0
         else if isExpectedNack intent r then
           (if crossed then Status_Error Err_TIMEOUT ''Transfer crossed operation deadline'' 0
            else Status_Ok)
         else if \<not> ok (transferStatus r) then transferStatus r
         else if crossed then Status_Error Err_TIMEOUT ''Transfer crossed operation deadline'' 0
         else Status_Ok)"

subsection \<open>The transfer\<close>

text \<open>
  The call through \<open>_config.transfer\<close>. On a null callback the source crashes; the model raises the
  fault flag and goes on with an arbitrary result.
\<close>

definition callTransfer ::
    "TransferRequest \<Rightarrow> 'w frame \<Rightarrow> TransferResult \<times> u8 list \<times> 'w frame" where
  "callTransfer request fr =
     (case cfg_transfer (d_config (fr_drv fr)) of
        None \<Rightarrow> (TransferResult_Ok 0 0, [], fr\<lparr>fr_fault := True\<rparr>)
      | Some f \<Rightarrow>
          (case f request (cfg_transferUser (d_config (fr_drv fr))) (fr_world fr) of
             (transfer, bytes, w) \<Rightarrow>
               (transfer, bytes,
                fr\<lparr>fr_world := w, fr_trace := fr_trace fr @ [(fr_now fr, request)]\<rparr>)))"

definition transferTimeout :: "'w driver \<Rightarrow> u32 \<Rightarrow> u32" where
  "transferTimeout d nowMs =
     (let remainingMs = a_deadlineMs (d_active d) - nowMs
      in if remainingMs < cfg_transferTimeoutMs (d_config d) then remainingMs
         else cfg_transferTimeoutMs (d_config d))"

definition attemptTransfer ::
    "u8 list \<Rightarrow> nat \<Rightarrow> TransferIntent \<Rightarrow> bool \<Rightarrow> 'w frame \<Rightarrow> Status \<times> u8 list \<times> 'w frame" where
  "attemptTransfer writeData readLength intent effectful fr =
     (if fr_budget fr = 0 then
        (progressing ''Poll callback budget exhausted'', replicate readLength 0, fr)
      else if timeReached (fr_now fr) (a_deadlineMs (d_active (fr_drv fr))) then
        (Status_Error Err_TIMEOUT ''Operation deadline expired'' 0, replicate readLength 0, fr)
      else if transferTimeout (fr_drv fr) (fr_now fr) = 0 then
        (Status_Error Err_TIMEOUT ''No transfer time remaining'' 0, replicate readLength 0, fr)
      else
        (let request = \<lparr>tq_address = I2C_ADDRESS, tq_writeData = writeData,
                        tq_readLength = readLength,
                        tq_timeoutMs = transferTimeout (fr_drv fr) (fr_now fr),
                        tq_intent = intent\<rparr>;
             fr = inDrv countCallback (fr\<lparr>fr_budget := fr_budget fr - 1\<rparr>);
             startedMs = fr_now fr;
             expectedBytes = length writeData + readLength;
             (transfer, bytes, fr) = callTransfer request fr;
             fr = inDrv (absorbTransfer intent effectful expectedBytes startedMs transfer) fr;
             fr = fr\<lparr>fr_now := (if completionClockValid startedMs transfer
                                 then tr_completedMs transfer else startedMs)\<rparr>
         in (transferOutcome intent effectful expectedBytes startedMs
               (a_deadlineMs (d_active (fr_drv fr))) transfer,
             fillBuffer readLength bytes, fr)))"

definition checkCommandSpacing :: "u32 \<Rightarrow> 'w driver \<Rightarrow> Status \<times> 'w driver" where
  "checkCommandSpacing nowMs d =
     (if \<not> d_nextSafeCommandValid d \<or> timeReached nowMs (d_nextSafeCommandMs d)
      then (Status_Ok, d)
      else (progressing ''Command spacing active'', setDue (d_nextSafeCommandMs d) d))"

definition writeBytes :: "u8 list \<Rightarrow> TransferIntent \<Rightarrow> bool \<Rightarrow> 'w frame \<Rightarrow> Status \<times> 'w frame" where
  "writeBytes data intent effectful fr =
     (case checkCommandSpacing (fr_now fr) (fr_drv fr) of
        (spacing, d) \<Rightarrow>
          if \<not> ok spacing then (spacing, fr\<lparr>fr_drv := d\<rparr>)
          else (case attemptTransfer data 0 intent effectful (fr\<lparr>fr_drv := d\<rparr>) of
                  (status, _, fr) \<Rightarrow> (status, fr)))"

definition writeCommand ::
    "u16 \<Rightarrow> TransferIntent \<Rightarrow> bool \<Rightarrow> 'w frame \<Rightarrow> Status \<times> 'w frame" where
  "writeCommand command intent effectful fr =
     writeBytes (commandBytes command) intent effectful fr"

definition writeCommandWithWord :: "u16 \<Rightarrow> u16 \<Rightarrow> bool \<Rightarrow> 'w frame \<Rightarrow> Status \<times> 'w frame" where
  "writeCommandWithWord command word effectful fr =
     writeBytes (commandBytes command @ wordBytes word) Intent_NORMAL effectful fr"

definition readWords :: "u8 \<Rightarrow> 'w frame \<Rightarrow> Status \<times> u16 list \<times> 'w frame" where
  "readWords count fr =
     (if count = 0 \<or> count > 3 then
        (Status_Error Err_INVALID_PARAM ''Invalid word read'' 0, [], fr)
      else
        (case checkCommandSpacing (fr_now fr) (fr_drv fr) of
           (spacing, d) \<Rightarrow>
             if \<not> ok spacing then (spacing, [], fr\<lparr>fr_drv := d\<rparr>)
             else
               (case attemptTransfer [] (unat count * DATA_WORD_WITH_CRC) Intent_NORMAL False
                       (fr\<lparr>fr_drv := d\<rparr>) of
                  (status, bytes, fr) \<Rightarrow>
                    if \<not> ok status then (status, [], fr)
                    else
                      (case decodeWordsFrom 0 (unat count) bytes of
                         Inl i \<Rightarrow>
                           (let status = Status_Error Err_CRC_MISMATCH ''CRC mismatch'' (int i)
                            in (status, [], inDrv (recordProtocolFailure status (fr_now fr)) fr))
                       | Inr words \<Rightarrow> (Status_Ok, words, fr)))))"

subsection \<open>What a transfer leaves alone\<close>

text \<open>
  A transfer, whatever came back, changes of the driver only the health, the notes on the last
  transfer, the settling window, and of the active operation the due time, the callback count, the
  effect and the attempted flag.
\<close>

definition sameOperation :: "ActiveOperation \<Rightarrow> ActiveOperation \<Rightarrow> bool" where
  "sameOperation a a' \<longleftrightarrow>
     a_request a' = a_request a \<and> a_id a' = a_id a \<and> a_phase a' = a_phase a \<and>
     a_startedMs a' = a_startedMs a \<and> a_deadlineMs a' = a_deadlineMs a \<and>
     a_completedFieldMask a' = a_completedFieldMask a \<and> a_desiredRaw a' = a_desiredRaw a \<and>
     a_fieldIndex a' = a_fieldIndex a \<and> a_settingValueChanged a' = a_settingValueChanged a"

definition transferred :: "'w driver \<Rightarrow> 'w driver \<Rightarrow> bool" where
  "transferred d d' \<longleftrightarrow>
     d_config d' = d_config d \<and> d_bound d' = d_bound d \<and> d_attached d' = d_attached d \<and>
     d_operatingMode d' = d_operatingMode d \<and> d_modeEvidence d' = d_modeEvidence d \<and>
     d_reconciliationRequired d' = d_reconciliationRequired d \<and>
     d_sensorEpoch d' = d_sensorEpoch d \<and> d_sampleSequence d' = d_sampleSequence d \<and>
     d_nextGeneration d' = d_nextGeneration d \<and> sameOperation (d_active d) (d_active d') \<and>
     d_activeValid d' = d_activeValid d \<and> d_terminal d' = d_terminal d \<and>
     d_terminalValid d' = d_terminalValid d \<and> d_workingValue d' = d_workingValue d \<and>
     d_identity d' = d_identity d \<and> d_configuration d' = d_configuration d \<and>
     d_pressureCompensation d' = d_pressureCompensation d \<and>
     d_latestSample d' = d_latestSample d \<and> d_latestSampleValid d' = d_latestSampleValid d \<and>
     d_lastOwnerNowMs d' = d_lastOwnerNowMs d \<and> d_lastOwnerNowValid d' = d_lastOwnerNowValid d"

lemma transferred_refl [simp]: "transferred d d"
  by (simp add: transferred_def sameOperation_def)

lemma transferred_trans: "transferred d e \<Longrightarrow> transferred e f \<Longrightarrow> transferred d f"
  by (simp add: transferred_def sameOperation_def)

lemma transferred_setDue: "transferred d (setDue t d)"
  by (simp add: transferred_def sameOperation_def setDue_def)

lemma transferred_countCallback: "transferred d (countCallback d)"
  by (simp add: transferred_def sameOperation_def countCallback_def)

lemma transferred_recordProtocolFailure: "transferred d (recordProtocolFailure st t d)"
  by (simp add: transferred_def sameOperation_def recordProtocolFailure_def Let_def)

lemma transferred_recordTransfer: "transferred d (recordTransfer r b d)"
  by (simp add: transferred_def sameOperation_def recordTransfer_def Let_def)

lemma transferred_noteEffect: "transferred d (noteEffect b r d)"
  by (simp add: transferred_def sameOperation_def noteEffect_def Let_def)

lemma transferred_armSafeCommand: "transferred d (armSafeCommand e n r t d)"
  by (simp add: transferred_def sameOperation_def armSafeCommand_def)

lemma transferred_absorbTransfer: "transferred d (absorbTransfer i e n t r d)"
  unfolding absorbTransfer_def Let_def noteInvalid_def
  by (auto intro: transferred_trans [OF transferred_trans [OF transferred_trans]]
      transferred_recordTransfer transferred_noteEffect transferred_armSafeCommand
      transferred_recordProtocolFailure transferred_refl)

subsection \<open>Normalised results\<close>

lemma normalized_OK_iff:
  "tr_code (normalized effectful n startedMs t) = TransferCode_OK \<longleftrightarrow>
     completionClockValid startedMs t \<and> tr_code t = TransferCode_OK \<and>
     tr_disposition t = Disp_COMPLETE \<and> tr_bytesTransferred t = n"
  by (auto simp: normalized_def normalizeShort_def normalizeInvalid_def normalizeClock_def
      invalidTransport_def contradictoryBytes_def Let_def invalid_code_iff invalid_disposition_iff)

lemma normalized_disposition:
  "tr_disposition (normalized effectful n startedMs t) = Disp_COMPLETE \<longleftrightarrow>
     tr_code (normalized effectful n startedMs t) = TransferCode_OK"
  by (auto simp: normalized_def normalizeShort_def normalizeInvalid_def normalizeClock_def
      invalidTransport_def contradictoryBytes_def Let_def invalid_code_iff invalid_disposition_iff)

lemma normalized_valid:
  "tr_code (normalized effectful n startedMs t) \<noteq> TransferCode_INVALID"
  "tr_disposition (normalized effectful n startedMs t) \<noteq> Disp_INVALID"
  by (auto simp: normalized_def normalizeShort_def normalizeInvalid_def normalizeClock_def
      invalidTransport_def contradictoryBytes_def Let_def invalid_code_iff invalid_disposition_iff)

lemma ok_transferOutcome:
  assumes "ok (transferOutcome intent effectful n startedMs deadlineMs t)"
  shows "completionClockValid startedMs t" and "\<not> timeReached (tr_completedMs t) deadlineMs"
    and "tr_disposition (normalized effectful n startedMs t) \<noteq> Disp_NOT_STARTED"
    and "isExpectedNack intent (normalized effectful n startedMs t) \<or>
         tr_code (normalized effectful n startedMs t) = TransferCode_OK"
  using assms normalized_disposition [of effectful n startedMs t]
  by (auto simp: transferOutcome_def Let_def isExpectedNack_def split: if_splits)

lemma not_inProgress_transferOutcome:
  "\<not> inProgress (transferOutcome intent effectful n startedMs deadlineMs t)"
  by (simp add: transferOutcome_def Let_def)

lemma settleMs_bounds:
  "0 < unat (settleMs effectful nack r d) \<and> unat (settleMs effectful nack r d) < 2 ^ 31"
  by (cases "activeKind d") (simp_all add: settleMs_def)

text \<open>
  C20. What the driver believes of a transfer: it counts as successful only when the callback said OK,
  COMPLETE and exactly the expected number of bytes, at a completion time that is not before the
  start; the disposition COMPLETE is kept for these transfers alone, values that no enumerator has
  never survive, and a transfer that reached the bus is never taken for one that did not start.
\<close>

theorem transfer_success_sound:
  "let r = normalized effectful expectedBytes startedMs t in
     (tr_code r = TransferCode_OK \<longleftrightarrow>
        completionClockValid startedMs t \<and> tr_code t = TransferCode_OK \<and>
        tr_disposition t = Disp_COMPLETE \<and> tr_bytesTransferred t = expectedBytes) \<and>
     (tr_disposition r = Disp_COMPLETE \<longleftrightarrow> tr_code r = TransferCode_OK) \<and>
     tr_code r \<noteq> TransferCode_INVALID \<and> tr_disposition r \<noteq> Disp_INVALID \<and>
     (tr_disposition r = Disp_NOT_STARTED \<longrightarrow> tr_disposition t = Disp_NOT_STARTED)"
proof -
  have "tr_disposition t = Disp_NOT_STARTED"
    if "tr_disposition (normalized effectful expectedBytes startedMs t) = Disp_NOT_STARTED"
    using that
    by (auto simp: normalized_def normalizeShort_def normalizeInvalid_def normalizeClock_def
        Let_def split: if_splits)
  then show ?thesis
    unfolding Let_def using normalized_OK_iff normalized_disposition normalized_valid by blast
qed

theorem transfer_success_sound_witness:
  "tr_code (normalized True 2 5 (TransferResult_Ok 2 7)) = TransferCode_OK \<and>
   tr_code (normalized True 2 5 (TransferResult_Ok 1 7)) \<noteq> TransferCode_OK"
  using transfer_success_sound [of True 2 5 "TransferResult_Ok 2 7"]
    transfer_success_sound [of True 2 5 "TransferResult_Ok 1 7"]
  by (simp add: Let_def TransferResult_Ok_def completionClockValid_def)

subsection \<open>The sensor's settling window\<close>

definition window :: "'w driver \<Rightarrow> u32 \<Rightarrow> bool" where
  "window d nowMs \<longleftrightarrow> d_nextSafeCommandValid d \<and> \<not> timeReached nowMs (d_nextSafeCommandMs d)"

lemma window_armSafeCommand:
  "tr_disposition r \<noteq> Disp_NOT_STARTED \<Longrightarrow> window (armSafeCommand effectful nack r nowMs d) nowMs"
  using settleMs_bounds [of effectful nack r d]
  by (simp add: window_def armSafeCommand_def clock.not_reached_before)

definition sameWindow :: "'w driver \<Rightarrow> 'w driver \<Rightarrow> bool" where
  "sameWindow d d' \<longleftrightarrow>
     d_nextSafeCommandMs d' = d_nextSafeCommandMs d \<and>
     d_nextSafeCommandValid d' = d_nextSafeCommandValid d"

subsection \<open>One transfer\<close>

text \<open>The request a frame makes for given bytes.\<close>

definition requestOf :: "u8 list \<Rightarrow> nat \<Rightarrow> TransferIntent \<Rightarrow> 'w frame \<Rightarrow> TransferRequest" where
  "requestOf data n intent fr =
     \<lparr>tq_address = I2C_ADDRESS, tq_writeData = data, tq_readLength = n,
      tq_timeoutMs = transferTimeout (fr_drv fr) (fr_now fr), tq_intent = intent\<rparr>"

definition hasCallback :: "'w driver \<Rightarrow> bool" where
  "hasCallback d \<longleftrightarrow> cfg_transfer (d_config d) \<noteq> None"

text \<open>
  A step makes no call: nothing of the frame but the driver changes, and of the driver not the
  window nor the callback count.
\<close>

definition silent :: "'w frame \<Rightarrow> 'w frame \<Rightarrow> bool" where
  "silent fr fr' \<longleftrightarrow>
     fr_now fr' = fr_now fr \<and> fr_budget fr' = fr_budget fr \<and> fr_world fr' = fr_world fr \<and>
     fr_trace fr' = fr_trace fr \<and> fr_fault fr' = fr_fault fr"

definition called :: "TransferRequest \<Rightarrow> 'w frame \<Rightarrow> 'w frame \<Rightarrow> bool" where
  "called request fr fr' \<longleftrightarrow>
     fr_budget fr \<noteq> 0 \<and> fr_budget fr' = fr_budget fr - 1 \<and>
     \<not> window (fr_drv fr) (fr_now fr) \<and>
     \<not> timeReached (fr_now fr) (a_deadlineMs (d_active (fr_drv fr))) \<and>
     tq_timeoutMs request \<noteq> 0 \<and>
     fr_trace fr' = fr_trace fr @ [(fr_now fr, request)] \<and> fr_fault fr' = fr_fault fr"

definition transfer_spec ::
    "TransferRequest \<Rightarrow> 'w frame \<Rightarrow> Status \<Rightarrow> 'w frame \<Rightarrow> bool" where
  "transfer_spec request fr status fr' \<longleftrightarrow>
     transferred (fr_drv fr) (fr_drv fr') \<and>
     (silent fr fr' \<and> \<not> ok status \<and> sameWindow (fr_drv fr) (fr_drv fr') \<and>
        a_callbacksUsed (d_active (fr_drv fr')) = a_callbacksUsed (d_active (fr_drv fr)) \<or>
      called request fr fr' \<and> \<not> inProgress status \<and>
        a_callbacksUsed (d_active (fr_drv fr')) =
          incrementSaturating (a_callbacksUsed (d_active (fr_drv fr))) \<and>
        (ok status \<longrightarrow> window (fr_drv fr') (fr_now fr') \<and>
           \<not> timeReached (fr_now fr') (a_deadlineMs (d_active (fr_drv fr')))))"

lemma transferredD:
  assumes "transferred d d'"
  shows "d_config d' = d_config d" and "d_activeValid d' = d_activeValid d"
    and "a_request (d_active d') = a_request (d_active d)"
    and "a_phase (d_active d') = a_phase (d_active d)"
    and "a_fieldIndex (d_active d') = a_fieldIndex (d_active d)"
    and "a_deadlineMs (d_active d') = a_deadlineMs (d_active d)"
  using assms by (simp_all add: transferred_def sameOperation_def)

lemma absorbTransfer_callbacks [simp]:
  "a_callbacksUsed (d_active (absorbTransfer i e n t r d)) = a_callbacksUsed (d_active d)"
  by (simp add: absorbTransfer_def Let_def noteInvalid_def armSafeCommand_def noteEffect_def
      recordTransfer_def recordProtocolFailure_def)

lemma attemptTransfer_call:
  assumes "hasCallback (fr_drv fr)" and "fr_budget fr \<noteq> 0" and "transferTimeout (fr_drv fr) (fr_now fr) \<noteq> 0"
    and "\<not> timeReached (fr_now fr) (a_deadlineMs (d_active (fr_drv fr)))"
  obtains t bs w where "attemptTransfer data n intent effectful fr =
     (let d = absorbTransfer intent effectful (length data + n) (fr_now fr) t (countCallback (fr_drv fr))
      in (transferOutcome intent effectful (length data + n) (fr_now fr) (a_deadlineMs (d_active d)) t,
        fillBuffer n bs,
        fr\<lparr>fr_drv := d, fr_budget := fr_budget fr - 1, fr_world := w,
           fr_trace := fr_trace fr @ [(fr_now fr, requestOf data n intent fr)],
           fr_now := (if completionClockValid (fr_now fr) t then tr_completedMs t else fr_now fr)\<rparr>))"
proof -
  obtain f where f: "cfg_transfer (d_config (fr_drv fr)) = Some f"
    using assms(1) by (auto simp: hasCallback_def)
  obtain t bs w where t: "f (requestOf data n intent fr) (cfg_transferUser (d_config (fr_drv fr)))
      (fr_world fr) = (t, bs, w)"
    by (metis prod_cases3)
  show thesis
    by (rule that [of t bs w]) (use assms f t [unfolded requestOf_def] in
      \<open>simp add: attemptTransfer_def callTransfer_def requestOf_def inDrv_def countCallback_def Let_def\<close>)
qed

lemma ok_transferOutcome_window:
  assumes "ok (transferOutcome intent effectful n startedMs deadlineMs t)"
  shows "window (absorbTransfer intent effectful n startedMs t d) (tr_completedMs t)"
  using ok_transferOutcome(1) [OF assms] window_armSafeCommand [OF ok_transferOutcome(3) [OF assms]]
  unfolding absorbTransfer_def Let_def by simp

lemma attemptTransfer_spec:
  assumes "hasCallback (fr_drv fr)" and "\<not> window (fr_drv fr) (fr_now fr)"
    and "attemptTransfer data n intent effectful fr = (status, bytes, fr')"
  shows "transfer_spec (requestOf data n intent fr) fr status fr' \<and> length bytes = n"
proof -
  let ?d = "fr_drv fr"
  consider (none) "fr_budget fr = 0 \<or> timeReached (fr_now fr) (a_deadlineMs (d_active ?d)) \<or>
      transferTimeout ?d (fr_now fr) = 0"
    | (call) "fr_budget fr \<noteq> 0" "transferTimeout ?d (fr_now fr) \<noteq> 0"
      "\<not> timeReached (fr_now fr) (a_deadlineMs (d_active ?d))"
    by blast
  then show ?thesis
  proof cases
    case none
    then show ?thesis
      using assms(3) by (auto simp: attemptTransfer_def transfer_spec_def silent_def sameWindow_def
          split: if_splits)
  next
    case call
    obtain t bs w where eq: "attemptTransfer data n intent effectful fr =
       (let d = absorbTransfer intent effectful (length data + n) (fr_now fr) t (countCallback ?d)
        in (transferOutcome intent effectful (length data + n) (fr_now fr) (a_deadlineMs (d_active d)) t,
          fillBuffer n bs,
          fr\<lparr>fr_drv := d, fr_budget := fr_budget fr - 1, fr_world := w,
             fr_trace := fr_trace fr @ [(fr_now fr, requestOf data n intent fr)],
             fr_now := (if completionClockValid (fr_now fr) t then tr_completedMs t else fr_now fr)\<rparr>))"
      by (rule attemptTransfer_call [OF assms(1) call])
    note eq = eq [unfolded assms(3) Let_def prod.inject]
    have "transferred ?d (fr_drv fr')"
      using eq transferred_trans [OF transferred_countCallback transferred_absorbTransfer] by simp
    moreover have "called (requestOf data n intent fr) fr fr'"
      using eq call assms(2) by (simp add: called_def requestOf_def)
    moreover have "window (fr_drv fr') (fr_now fr') \<and> \<not> timeReached (fr_now fr') (a_deadlineMs (d_active (fr_drv fr')))"
      if "ok status"
      using that eq ok_transferOutcome ok_transferOutcome_window by fastforce
    ultimately show ?thesis
      using eq not_inProgress_transferOutcome by (simp add: transfer_spec_def countCallback_def)
  qed
qed

lemma transfer_spec_silent:
  assumes "silent fr fr'" and "\<not> ok status" and "fr_drv fr' = fr_drv fr"
  shows "transfer_spec request fr status fr'"
  using assms by (simp add: transfer_spec_def sameWindow_def)

lemma checkCommandSpacing_eq:
  "checkCommandSpacing nowMs d =
     (if window d nowMs
      then (progressing ''Command spacing active'', setDue (d_nextSafeCommandMs d) d)
      else (Status_Ok, d))"
  by (simp add: checkCommandSpacing_def window_def)

lemma transfer_spec_spacing:
  "transfer_spec request fr (progressing message)
     (fr\<lparr>fr_drv := setDue (d_nextSafeCommandMs (fr_drv fr)) (fr_drv fr)\<rparr>)"
  by (simp add: transfer_spec_def silent_def transferred_setDue sameWindow_def)
    (simp add: setDue_def)

lemma writeBytes_spec:
  assumes "hasCallback (fr_drv fr)"
    and "writeBytes data intent effectful fr = (status, fr')"
  shows "transfer_spec (requestOf data 0 intent fr) fr status fr'"
proof (cases "window (fr_drv fr) (fr_now fr)")
  case True
  then show ?thesis
    using assms(2) transfer_spec_spacing
    by (auto simp: writeBytes_def checkCommandSpacing_eq)
next
  case False
  then show ?thesis
    using assms attemptTransfer_spec [OF assms(1) False]
    by (auto simp: writeBytes_def checkCommandSpacing_eq split: prod.splits)
qed

lemma recordProtocolFailure_active [simp]:
  "d_active (recordProtocolFailure st t d) = d_active d"
  "window (recordProtocolFailure st t d) u = window d u"
  by (simp_all add: recordProtocolFailure_def window_def Let_def)

text \<open>A transfer that delivered every byte, and a record of the checksum that failed.\<close>

lemma transfer_spec_protocolFailure:
  assumes "transfer_spec request fr st f" and "ok st" and "\<not> ok status" and "\<not> inProgress status"
  shows "transfer_spec request fr status (inDrv (recordProtocolFailure status at) f)"
  using assms transferred_trans [OF _ transferred_recordProtocolFailure]
  by (auto simp: transfer_spec_def called_def)

lemma readWords_spec:
  assumes "hasCallback (fr_drv fr)" and "readWords count fr = (status, words, fr')"
  shows "transfer_spec (requestOf [] (3 * unat count) Intent_NORMAL fr) fr status fr'"
    and "ok status \<Longrightarrow> length words = unat count"
    and "called request fr fr' \<Longrightarrow> count \<noteq> 0 \<and> count \<le> 3"
proof -
  let ?req = "requestOf [] (3 * unat count) Intent_NORMAL fr"
  consider (count) "count = 0 \<or> count > 3"
    | (window) "\<not> (count = 0 \<or> count > 3)" "window (fr_drv fr) (fr_now fr)"
    | (go) "\<not> (count = 0 \<or> count > 3)" "\<not> window (fr_drv fr) (fr_now fr)"
    by blast
  then have "transfer_spec ?req fr status fr' \<and> (ok status \<longrightarrow> length words = unat count) \<and>
      (called request fr fr' \<longrightarrow> count \<noteq> 0 \<and> count \<le> 3)"
  proof cases
    case count
    then show ?thesis
      using assms(2) transfer_spec_silent [of fr fr status ?req]
      by (auto simp: readWords_def called_def silent_def)
  next
    case window
    then show ?thesis
      using assms(2) transfer_spec_spacing [of ?req fr]
      by (auto simp: readWords_def checkCommandSpacing_eq called_def)
  next
    case go
    obtain st bytes f where a: "attemptTransfer [] (unat count * 3) Intent_NORMAL False fr = (st, bytes, f)"
      by (metis prod_cases3)
    have spec: "transfer_spec ?req fr st f" and count: "count \<noteq> 0 \<and> count \<le> 3"
      using attemptTransfer_spec [OF assms(1) go(2) a] go(1) by (simp_all add: mult.commute not_less)
    consider "\<not> ok st" | i where "ok st" "decodeWordsFrom 0 (unat count) bytes = Inl i"
      | ws where "ok st" "decodeWordsFrom 0 (unat count) bytes = Inr ws"
      by (cases "decodeWordsFrom 0 (unat count) bytes") blast+
    then show ?thesis
    proof cases
      case 2
      then show ?thesis
        using assms(2) a go count transfer_spec_protocolFailure [OF spec]
        by (auto simp: readWords_def checkCommandSpacing_eq Let_def)
    next
      case 3
      then show ?thesis
        using assms(2) a go spec count length_decodeWordsFrom [OF 3(2)]
        by (auto simp: readWords_def checkCommandSpacing_eq transfer_spec_def)
    qed (use assms(2) a go spec count in \<open>auto simp: readWords_def checkCommandSpacing_eq\<close>)
  qed
  then show "transfer_spec ?req fr status fr'" and "ok status \<Longrightarrow> length words = unat count"
    and "called request fr fr' \<Longrightarrow> count \<noteq> 0 \<and> count \<le> 3"
    by simp_all
qed

end
