(* ===== verification/Scd_Attach.thy ===== *)
theory Scd_Attach
  imports Scd_Transfer
begin

text \<open>
  \<open>SCD41::_stepAttach\<close>, one definition per phase of the switch, and the pieces every step function
  shares: \<open>finishStep\<close> is \<open>_finishOperation(...); return Status::Ok();\<close>, \<open>strictMismatch\<close>,
  \<open>identityChanged\<close> and \<open>adoptOther\<close> take note of a sensor that is not the expected one.
\<close>

definition finishStep ::
    "OperationOutcome \<Rightarrow> EffectState \<Rightarrow> Status \<Rightarrow> 'w frame \<Rightarrow> Status \<times> 'w frame" where
  "finishStep outcome effect status fr =
     (Status_Ok, inDrv (finishOperation outcome effect status (fr_now fr)) fr)"

text \<open>
  \<open>if (!_timeReached(nowMs, _active.nextDueMs)) return IN_PROGRESS;\<close> at the head of a wait.
\<close>

definition waitDue :: "string \<Rightarrow> ('w frame \<Rightarrow> Status \<times> 'w frame) \<Rightarrow> 'w frame \<Rightarrow> Status \<times> 'w frame"
where
  "waitDue message k fr =
     (if \<not> timeReached (fr_now fr) (a_nextDueMs (d_active (fr_drv fr)))
      then (progressing message, fr) else k fr)"

text \<open>\<open>_active.phase = phase; return IN_PROGRESS;\<close>, also with \<open>_active.nextDueMs = nowMs + ms\<close>.\<close>

definition toPhase :: "OperationPhase \<Rightarrow> string \<Rightarrow> 'w frame \<Rightarrow> Status \<times> 'w frame" where
  "toPhase phase message fr = (progressing message, inDrv (setPhase phase) fr)"

definition toPhaseAt ::
    "OperationPhase \<Rightarrow> u32 \<Rightarrow> string \<Rightarrow> 'w frame \<Rightarrow> Status \<times> 'w frame" where
  "toPhaseAt phase ms message fr =
     (progressing message, inDrv (setDue (fr_now fr + ms) \<circ> setPhase phase) fr)"

definition strictMismatch :: "SensorVariant \<Rightarrow> 'w driver \<Rightarrow> bool" where
  "strictMismatch variant d \<longleftrightarrow> cfg_strictVariantCheck (d_config d) \<and> variant \<noteq> Variant_SCD41"

definition identityChanged :: "u64 \<Rightarrow> SensorVariant \<Rightarrow> 'w driver \<Rightarrow> bool" where
  "identityChanged serialNumber variant d \<longleftrightarrow>
     idn_valid (d_identity d) \<and>
     (idn_serialNumber (d_identity d) \<noteq> serialNumber \<or> idn_variant (d_identity d) \<noteq> variant)"

definition adoptOther :: "u64 \<Rightarrow> SensorVariant \<Rightarrow> u16 \<Rightarrow> 'w driver \<Rightarrow> 'w driver" where
  "adoptOther serialNumber variant variantWord d =
     (let d = advanceSensorEpoch d;
          d = adoptIdentity serialNumber variant variantWord d;
          d = resetConfiguration d;
          d = publishIdentity d
      in markReconciliationRequired d)"

subsection \<open>Phases\<close>

definition attach_WAIT_POWER_UP :: "'w frame \<Rightarrow> Status \<times> 'w frame" where
  "attach_WAIT_POWER_UP =
     waitDue ''Waiting for power-up'' (toPhase Phase_SEND_WAKE ''Attach progressing'')"

definition attach_SEND_WAKE :: "'w frame \<Rightarrow> Status \<times> 'w frame" where
  "attach_SEND_WAKE fr =
     on_ok (writeCommand CMD_WAKE_UP Intent_EXPECTED_WRITE_NACK True fr) (\<lambda>fr.
       toPhaseAt Phase_WAIT_WAKE EXECUTION_TIME_POWER_UP_MS ''Waiting after wake''
         (inDrv (\<lambda>d. markReconciliationRequired
                   (setEffect (effectFromWakeAttempt (d_lastTransferDisposition d)) d)) fr))"

definition attach_WAIT_WAKE :: "'w frame \<Rightarrow> Status \<times> 'w frame" where
  "attach_WAIT_WAKE =
     waitDue ''Waiting after wake'' (toPhase Phase_SEND_STOP ''Attach progressing'')"

definition attach_SEND_STOP :: "'w frame \<Rightarrow> Status \<times> 'w frame" where
  "attach_SEND_STOP fr =
     on_ok (writeCommand CMD_STOP_PERIODIC_MEASUREMENT Intent_EXPECTED_WRITE_NACK True fr)
       (toPhaseAt Phase_WAIT_STOP EXECUTION_TIME_STOP_PERIODIC_MS ''Waiting after stop'')"

definition attach_WAIT_STOP :: "'w frame \<Rightarrow> Status \<times> 'w frame" where
  "attach_WAIT_STOP =
     waitDue ''Waiting after stop'' (toPhase Phase_SEND_READ_COMMAND ''Attach progressing'')"

definition attach_SEND_READ_COMMAND :: "'w frame \<Rightarrow> Status \<times> 'w frame" where
  "attach_SEND_READ_COMMAND fr =
     on_ok (writeCommand CMD_GET_SERIAL_NUMBER Intent_NORMAL False fr)
       (toPhaseAt Phase_WAIT_EXECUTION EXECUTION_TIME_SHORT_MS ''Waiting for identity'')"

definition attach_WAIT_EXECUTION :: "'w frame \<Rightarrow> Status \<times> 'w frame" where
  "attach_WAIT_EXECUTION = waitDue ''Waiting for identity'' (\<lambda>fr.
     toPhase (if activeIndex (fr_drv fr) = 0 then Phase_READ_RESPONSE
              else Phase_READ_VERIFY_RESPONSE) ''Identity response due'' fr)"

definition attach_READ_RESPONSE :: "'w frame \<Rightarrow> Status \<times> 'w frame" where
  "attach_READ_RESPONSE fr =
     on_words (readWords 3 fr) (\<lambda>words fr.
       toPhaseAt Phase_SEND_VERIFY_COMMAND 0 ''Variant read due''
         (inDrv (setFieldIndex 1 \<circ> stashSerial (serialNumberFromWords words)) fr))"

definition attach_SEND_VERIFY_COMMAND :: "'w frame \<Rightarrow> Status \<times> 'w frame" where
  "attach_SEND_VERIFY_COMMAND fr =
     on_ok (writeCommand CMD_GET_SENSOR_VARIANT Intent_NORMAL False fr)
       (toPhaseAt Phase_WAIT_EXECUTION EXECUTION_TIME_SHORT_MS ''Waiting for variant'')"

text \<open>The driver after a successful identification.\<close>

definition attachSucceeded :: "SensorVariant \<Rightarrow> u16 \<Rightarrow> 'w driver \<Rightarrow> 'w driver" where
  "attachSucceeded variant variantWord d =
     (let serialNumber = stashedSerial d;
          sameSensor = (idn_valid (d_identity d) \<and>
                        idn_serialNumber (d_identity d) = serialNumber \<and>
                        idn_variant (d_identity d) = variant);
          previousConfiguration = d_configuration d;
          d = advanceSensorEpoch d;
          d = adoptIdentity serialNumber variant variantWord d;
          d = publishIdentity d;
          d = markAttached d
      in d\<lparr>d_configuration :=
             (if sameSensor then previousConfiguration else ConfigurationSnapshot_init)
               \<lparr>cs_verifiedMask := 0, cs_sensorEpoch := d_sensorEpoch d\<rparr>\<rparr>)"

definition attach_READ_VERIFY_RESPONSE :: "'w frame \<Rightarrow> Status \<times> 'w frame" where
  "attach_READ_VERIFY_RESPONSE fr =
     on_words (readWords 1 fr) (\<lambda>words fr.
       (let variantWord = words ! 0;
            variant = variantFromVariantWord variantWord
        in if strictMismatch variant (fr_drv fr) then
             finishStep Outcome_FAILED Effect_ACKNOWLEDGED
               (Status_Error Err_UNSUPPORTED ''Detected variant is not SCD41'' 0)
               (inDrv (\<lambda>d. adoptOther (stashedSerial d) variant variantWord d) fr)
           else
             finishStep Outcome_SUCCEEDED Effect_VERIFIED Status_Ok
               (inDrv (attachSucceeded variant variantWord) fr)))"

definition stepAttach :: "'w frame \<Rightarrow> Status \<times> 'w frame" where
  "stepAttach fr =
     (case activePhase (fr_drv fr) of
        Phase_WAIT_POWER_UP \<Rightarrow> attach_WAIT_POWER_UP fr
      | Phase_SEND_WAKE \<Rightarrow> attach_SEND_WAKE fr
      | Phase_WAIT_WAKE \<Rightarrow> attach_WAIT_WAKE fr
      | Phase_SEND_STOP \<Rightarrow> attach_SEND_STOP fr
      | Phase_WAIT_STOP \<Rightarrow> attach_WAIT_STOP fr
      | Phase_SEND_READ_COMMAND \<Rightarrow> attach_SEND_READ_COMMAND fr
      | Phase_WAIT_EXECUTION \<Rightarrow> attach_WAIT_EXECUTION fr
      | Phase_READ_RESPONSE \<Rightarrow> attach_READ_RESPONSE fr
      | Phase_SEND_VERIFY_COMMAND \<Rightarrow> attach_SEND_VERIFY_COMMAND fr
      | Phase_READ_VERIFY_RESPONSE \<Rightarrow> attach_READ_VERIFY_RESPONSE fr
      | _ \<Rightarrow> (Status_Error Err_COMMAND_FAILED ''Invalid attach phase'' 0, fr))"

end
