(* ===== verification/Scd_ReadLike.thy ===== *)
theory Scd_ReadLike
  imports Scd_Attach
begin

text \<open>
  \<open>SCD41::_stepReadLike\<close>: the single reads, the identity read (serial number, then variant) and the
  walk over the seven settings of READ_CONFIGURATION, whose cursor is \<open>_active.fieldIndex\<close>.
\<close>

definition effectiveReadKind :: "'w driver \<Rightarrow> OperationKind" where
  "effectiveReadKind d =
     (if activeKind d = Kind_READ_CONFIGURATION then readKindAt (activeIndex d)
      else activeKind d)"

definition read_SEND_COMMAND :: "'w frame \<Rightarrow> Status \<times> 'w frame" where
  "read_SEND_COMMAND fr =
     on_ok (writeCommand (readCommandFor (effectiveReadKind (fr_drv fr))) Intent_NORMAL False fr)
       (toPhaseAt Phase_WAIT_EXECUTION EXECUTION_TIME_SHORT_MS ''Waiting for read response'')"

definition read_WAIT_EXECUTION :: "'w frame \<Rightarrow> Status \<times> 'w frame" where
  "read_WAIT_EXECUTION = waitDue ''Waiting for read response'' (\<lambda>fr.
     toPhase (if effectiveReadKind (fr_drv fr) = Kind_READ_IDENTITY \<and>
                 activeIndex (fr_drv fr) = 1
              then Phase_READ_VERIFY_RESPONSE else Phase_READ_RESPONSE)
       ''Read response due'' fr)"

text \<open>
  A failure while READ_CONFIGURATION already has fields ends it as PARTIAL; any other failure is
  returned to the loop.
\<close>

definition partialOr :: "Status \<Rightarrow> 'w frame \<Rightarrow> Status \<times> 'w frame" where
  "partialOr status fr =
     (if activeKind (fr_drv fr) = Kind_READ_CONFIGURATION \<and>
         a_completedFieldMask (d_active (fr_drv fr)) \<noteq> 0
      then finishStep Outcome_PARTIAL Effect_NONE status (inDrv publishConfiguration fr)
      else (status, fr))"

text \<open>The two blocks of READ_SENSOR_VARIANT.\<close>

definition variantChanged :: "SensorVariant \<Rightarrow> 'w driver \<Rightarrow> bool" where
  "variantChanged variant d \<longleftrightarrow>
     idn_valid (d_identity d) \<and> idn_variant (d_identity d) \<noteq> variant"

definition adoptVariantOnly :: "SensorVariant \<Rightarrow> u16 \<Rightarrow> 'w driver \<Rightarrow> 'w driver" where
  "adoptVariantOnly variant variantWord d =
     (let d = advanceSensorEpoch d;
          d = d\<lparr>d_identity := Identity_init\<lparr>idn_variant := variant,
                  idn_variantWord := variantWord, idn_sensorEpoch := d_sensorEpoch d\<rparr>\<rparr>;
          d = resetConfiguration d;
          d = setWorkingValue (ucast variantWord) (publishIdentity d)
      in markReconciliationRequired d)"

definition refreshVariant :: "SensorVariant \<Rightarrow> u16 \<Rightarrow> 'w driver \<Rightarrow> 'w driver" where
  "refreshVariant variant variantWord d =
     (let d = d\<lparr>d_identity := (d_identity d)\<lparr>idn_variant := variant,
                  idn_variantWord := variantWord, idn_sensorEpoch := d_sensorEpoch d\<rparr>\<rparr>
      in setWorkingValue (ucast variantWord) (publishIdentity d))"

definition noteDataReady :: "u16 \<Rightarrow> 'w driver \<Rightarrow> 'w driver" where
  "noteDataReady word d = d\<lparr>d_workingValue := (d_workingValue d)
     \<lparr>ov_dataReady := \<lparr>dr_raw = word, dr_ready = isDataReady word\<rparr>,
      ov_boolValue := isDataReady word\<rparr>\<rparr>"

text \<open>The end of the case READ_RESPONSE: the next setting, or the end of the operation.\<close>

definition read_continue :: "'w frame \<Rightarrow> Status \<times> 'w frame" where
  "read_continue fr =
     (if activeKind (fr_drv fr) = Kind_READ_CONFIGURATION then
        (let mask = fieldAt (activeIndex (fr_drv fr));
             fr = inDrv (markVerified mask \<circ> markCompleted mask) fr
         in if activeIndex (fr_drv fr) \<ge> 6 then
              finishStep Outcome_SUCCEEDED Effect_NONE Status_Ok (inDrv publishConfiguration fr)
            else
              toPhaseAt Phase_SEND_COMMAND 0 ''Reading next setting''
                (inDrv (\<lambda>d. setFieldIndex (activeIndex d + 1) d) fr))
      else finishStep Outcome_SUCCEEDED Effect_NONE Status_Ok fr)"

definition read_identityWords :: "u16 list \<Rightarrow> 'w frame \<Rightarrow> Status \<times> 'w frame" where
  "read_identityWords words fr =
     toPhaseAt Phase_SEND_VERIFY_COMMAND 0 ''Variant read due''
       (inDrv (setFieldIndex 1 \<circ> stashSerial (serialNumberFromWords words)) fr)"

definition read_variantWord :: "u16 \<Rightarrow> 'w frame \<Rightarrow> Status \<times> 'w frame" where
  "read_variantWord word fr =
     (let variant = variantFromVariantWord word;
          strictUnsupported = strictMismatch variant (fr_drv fr)
      in if strictUnsupported \<or> variantChanged variant (fr_drv fr) then
           finishStep Outcome_FAILED Effect_NONE
             (if strictUnsupported
              then Status_Error Err_UNSUPPORTED ''Detected variant is not SCD41'' 0
              else Status_Error Err_RECONCILIATION_REQUIRED
                     ''Sensor variant changed; attach required'' 0)
             (inDrv (adoptVariantOnly variant word) fr)
         else read_continue (inDrv (refreshVariant variant word) fr))"

definition read_settingWord :: "OperationKind \<Rightarrow> u16 \<Rightarrow> 'w frame \<Rightarrow> Status \<times> 'w frame" where
  "read_settingWord readKind word fr =
     (let validation = validateReturnedSetting readKind word in
      if \<not> ok validation then
        partialOr validation
          (inDrv (recordProtocolFailure validation (fr_now fr) \<circ>
                  clearVerified (configurationFieldMask (fieldFor readKind))) fr)
      else read_continue (inDrv (applyReadValue readKind word) fr))"

definition read_READ_RESPONSE :: "'w frame \<Rightarrow> Status \<times> 'w frame" where
  "read_READ_RESPONSE fr =
     (let readKind = effectiveReadKind (fr_drv fr) in
      case readWords (if readKind = Kind_READ_IDENTITY then 3 else 1) fr of
        (status, words, fr) \<Rightarrow>
          if inProgress status then (status, fr)
          else if \<not> ok status then partialOr status fr
          else if readKind = Kind_READ_IDENTITY then read_identityWords words fr
          else if readKind = Kind_READ_SENSOR_VARIANT then read_variantWord (words ! 0) fr
          else if readKind = Kind_READ_DATA_READY then
            read_continue (inDrv (noteDataReady (words ! 0)) fr)
          else read_settingWord readKind (words ! 0) fr)"

definition read_SEND_VERIFY_COMMAND :: "'w frame \<Rightarrow> Status \<times> 'w frame" where
  "read_SEND_VERIFY_COMMAND fr =
     on_ok (writeCommand CMD_GET_SENSOR_VARIANT Intent_NORMAL False fr)
       (toPhaseAt Phase_WAIT_EXECUTION EXECUTION_TIME_SHORT_MS ''Waiting for variant'')"

definition read_READ_VERIFY_RESPONSE :: "'w frame \<Rightarrow> Status \<times> 'w frame" where
  "read_READ_VERIFY_RESPONSE fr =
     on_words (readWords 1 fr) (\<lambda>words fr.
       (let variantWord = words ! 0;
            variant = variantFromVariantWord variantWord;
            serialNumber = stashedSerial (fr_drv fr)
        in if strictMismatch variant (fr_drv fr) then
             finishStep Outcome_FAILED Effect_NONE
               (Status_Error Err_UNSUPPORTED ''Detected variant is not SCD41'' 0)
               (inDrv (adoptOther serialNumber variant variantWord) fr)
           else if identityChanged serialNumber variant (fr_drv fr) then
             finishStep Outcome_FAILED Effect_NONE
               (Status_Error Err_RECONCILIATION_REQUIRED
                  ''Sensor identity changed; attach required'' 0)
               (inDrv (adoptOther serialNumber variant variantWord) fr)
           else
             finishStep Outcome_SUCCEEDED Effect_NONE Status_Ok
               (inDrv (publishIdentity \<circ> adoptIdentity serialNumber variant variantWord) fr)))"

definition stepReadLike :: "'w frame \<Rightarrow> Status \<times> 'w frame" where
  "stepReadLike fr =
     (case activePhase (fr_drv fr) of
        Phase_SEND_COMMAND \<Rightarrow> read_SEND_COMMAND fr
      | Phase_WAIT_EXECUTION \<Rightarrow> read_WAIT_EXECUTION fr
      | Phase_READ_RESPONSE \<Rightarrow> read_READ_RESPONSE fr
      | Phase_SEND_VERIFY_COMMAND \<Rightarrow> read_SEND_VERIFY_COMMAND fr
      | Phase_READ_VERIFY_RESPONSE \<Rightarrow> read_READ_VERIFY_RESPONSE fr
      | _ \<Rightarrow> (Status_Error Err_COMMAND_FAILED ''Invalid read phase'' 0, fr))"

end
