(* ===== verification/Scd_WriteLike.thy ===== *)
theory Scd_WriteLike
  imports Scd_Attach
begin

text \<open>
  \<open>SCD41::_stepWriteLike\<close>. A setting write is a read, a write when the device differs or a pressure
  source has to be selected, and a read-back; \<open>_active.fieldIndex\<close> counts these stages from 0 to 3.
  The other kinds send one command and wait; WAKE_UP then reads the serial number and the variant.
\<close>

abbreviation compensationKind :: "OperationKind \<Rightarrow> bool" where
  "compensationKind kind \<equiv> kind = Kind_SET_SENSOR_ALTITUDE \<or> kind = Kind_SET_AMBIENT_PRESSURE"

subsection \<open>Settings\<close>

definition setting_sendRead :: "'w frame \<Rightarrow> Status \<times> 'w frame" where
  "setting_sendRead fr =
     on_ok (writeCommand (readCommandFor (activeKind (fr_drv fr))) Intent_NORMAL False fr)
       (toPhaseAt Phase_WAIT_EXECUTION EXECUTION_TIME_SHORT_MS ''Waiting for current setting'')"

text \<open>
  Once the write may have reached the device the old read-back proves nothing: the verified bit is
  cleared, and the dirty bit set when the value differs, before the status is looked at.
\<close>

definition noteSettingWrite :: "'w driver \<Rightarrow> 'w driver" where
  "noteSettingWrite d =
     (let kind = activeKind d;
          mask = configurationFieldMask (fieldFor kind)
      in if d_lastTransferDisposition d = Disp_COMPLETE \<or>
            d_lastTransferDisposition d = Disp_INDETERMINATE
         then (let d = clearVerified mask d;
                   d = (if a_settingValueChanged (d_active d)
                        then markDirty (mask AND PERSISTABLE_CONFIGURATION_FIELDS) d else d)
               in if compensationKind kind then setPressureCompensation Field_NONE d else d)
         else d)"

definition setting_sendWrite :: "'w frame \<Rightarrow> Status \<times> 'w frame" where
  "setting_sendWrite fr =
     (case writeCommandWithWord (writeCommandFor (activeKind (fr_drv fr)))
             (a_desiredRaw (d_active (fr_drv fr))) True fr of
        (status, fr) \<Rightarrow>
          if inProgress status then (status, fr)
          else on_ok (status, inDrv noteSettingWrite fr) (\<lambda>fr.
                 toPhaseAt Phase_WAIT_EXECUTION EXECUTION_TIME_SHORT_MS
                   ''Waiting after setting write''
                   (inDrv (setFieldIndex 2 \<circ> setEffect Effect_ACKNOWLEDGED) fr)))"

definition setting_sendVerify :: "'w frame \<Rightarrow> Status \<times> 'w frame" where
  "setting_sendVerify fr =
     on_ok (writeCommand (readCommandFor (activeKind (fr_drv fr))) Intent_NORMAL False fr) (\<lambda>fr.
       toPhaseAt Phase_WAIT_EXECUTION EXECUTION_TIME_SHORT_MS ''Waiting for setting verify''
         (inDrv (setFieldIndex 3) fr))"

definition setting_SEND_COMMAND :: "'w frame \<Rightarrow> Status \<times> 'w frame" where
  "setting_SEND_COMMAND fr =
     (if activeIndex (fr_drv fr) = 0 then setting_sendRead fr
      else if activeIndex (fr_drv fr) = 1 then setting_sendWrite fr
      else setting_sendVerify fr)"

definition setting_WAIT_EXECUTION :: "'w frame \<Rightarrow> Status \<times> 'w frame" where
  "setting_WAIT_EXECUTION = waitDue ''Waiting for setting phase'' (\<lambda>fr.
     toPhase (if activeIndex (fr_drv fr) = 2 then Phase_SEND_COMMAND else Phase_READ_RESPONSE)
       ''Setting response due'' fr)"

definition rejectSetting :: "Status \<Rightarrow> u32 \<Rightarrow> 'w driver \<Rightarrow> 'w driver" where
  "rejectSetting validation nowMs d =
     recordProtocolFailure validation nowMs
       (clearVerified (configurationFieldMask (fieldFor (activeKind d))) d)"

text \<open>READ_RESPONSE at stage 0: compare what the device holds with what is wanted.\<close>

definition setting_compare :: "u16 \<Rightarrow> 'w frame \<Rightarrow> Status \<times> 'w frame" where
  "setting_compare word fr =
     (let kind = activeKind (fr_drv fr);
          validation = validateReturnedSetting kind word;
          fr = (if ok validation then inDrv (applyReadValue kind word) fr
                else inDrv (rejectSetting validation (fr_now fr)) fr);
          changed = (word \<noteq> a_desiredRaw (d_active (fr_drv fr)));
          fr = inDrv (setSettingValueChanged changed) fr;
          selectionRequired =
            (compensationKind kind \<and> d_pressureCompensation (fr_drv fr) \<noteq> fieldFor kind)
      in if \<not> changed \<and> \<not> selectionRequired then
           (if \<not> ok validation then (validation, fr)
            else finishStep Outcome_SUCCEEDED Effect_VERIFIED Status_Ok fr)
         else toPhaseAt Phase_SEND_COMMAND 0 ''Setting write required'' (inDrv (setFieldIndex 1) fr))"

text \<open>READ_RESPONSE at the last stage: the read-back decides.\<close>

definition setting_verify :: "u16 \<Rightarrow> 'w frame \<Rightarrow> Status \<times> 'w frame" where
  "setting_verify word fr =
     (let kind = activeKind (fr_drv fr);
          validation = validateReturnedSetting kind word
      in if \<not> ok validation then
           finishStep Outcome_FAILED Effect_ACKNOWLEDGED validation
             (inDrv (rejectSetting validation (fr_now fr)) fr)
         else
           (let fr = inDrv (applyReadValue kind word) fr in
            if word \<noteq> a_desiredRaw (d_active (fr_drv fr)) then
              finishStep Outcome_FAILED Effect_VERIFIED
                (Status_Error Err_COMMAND_FAILED ''Setting readback mismatch'' (uint word)) fr
            else
              finishStep Outcome_SUCCEEDED Effect_VERIFIED Status_Ok
                (if compensationKind kind then inDrv (setPressureCompensation (fieldFor kind)) fr
                 else fr)))"

definition setting_READ_RESPONSE :: "'w frame \<Rightarrow> Status \<times> 'w frame" where
  "setting_READ_RESPONSE fr =
     on_words (readWords 1 fr) (\<lambda>words fr.
       if activeIndex (fr_drv fr) = 0 then setting_compare (words ! 0) fr
       else setting_verify (words ! 0) fr)"

definition stepSetting :: "'w frame \<Rightarrow> Status \<times> 'w frame" where
  "stepSetting fr =
     (case activePhase (fr_drv fr) of
        Phase_SEND_COMMAND \<Rightarrow> setting_SEND_COMMAND fr
      | Phase_WAIT_EXECUTION \<Rightarrow> setting_WAIT_EXECUTION fr
      | Phase_READ_RESPONSE \<Rightarrow> setting_READ_RESPONSE fr
      | _ \<Rightarrow> (Status_Error Err_COMMAND_FAILED ''Invalid setting phase'' 0, fr))"

subsection \<open>Mode commands and wake-up\<close>

definition write_SEND_COMMAND :: "'w frame \<Rightarrow> Status \<times> 'w frame" where
  "write_SEND_COMMAND fr =
     (let kind = activeKind (fr_drv fr);
          intent = (if kind = Kind_WAKE_UP then Intent_EXPECTED_WRITE_NACK else Intent_NORMAL)
      in on_ok (writeCommand (writeCommandFor kind) intent True fr) (\<lambda>fr.
           toPhaseAt Phase_WAIT_EXECUTION (executionWaitMs kind) ''Waiting for command completion''
             (if kind = Kind_WAKE_UP
              then inDrv (\<lambda>d. markReconciliationRequired
                     (setEffect (effectFromWakeAttempt (d_lastTransferDisposition d)) d)) fr
              else inDrv (setEffect Effect_ACKNOWLEDGED) fr)))"

text \<open>The mode a completed command leads to.\<close>

definition enterMode :: "OperationKind \<Rightarrow> 'w driver \<Rightarrow> 'w driver" where
  "enterMode kind d =
     (if kind = Kind_START_PERIODIC then setMode Mode_PERIODIC Evidence_ACKNOWLEDGED d
      else if kind = Kind_START_LOW_POWER_PERIODIC
      then setMode Mode_LOW_POWER_PERIODIC Evidence_ACKNOWLEDGED d
      else if kind = Kind_STOP_PERIODIC then setMode Mode_IDLE Evidence_ACKNOWLEDGED d
      else if kind = Kind_POWER_DOWN then setMode Mode_POWER_DOWN Evidence_ACKNOWLEDGED d
      else d)"

definition write_WAIT_EXECUTION :: "'w frame \<Rightarrow> Status \<times> 'w frame" where
  "write_WAIT_EXECUTION = waitDue ''Waiting for command completion'' (\<lambda>fr.
     let kind = activeKind (fr_drv fr) in
     if kind = Kind_WAKE_UP then
       toPhase (if activeIndex (fr_drv fr) = 0 then Phase_SEND_READ_COMMAND
                else if activeIndex (fr_drv fr) = 1 then Phase_READ_RESPONSE
                else Phase_READ_VERIFY_RESPONSE) ''Wake verification due'' fr
     else finishStep Outcome_SUCCEEDED Effect_ACKNOWLEDGED Status_Ok (inDrv (enterMode kind) fr))"

definition write_SEND_READ_COMMAND :: "'w frame \<Rightarrow> Status \<times> 'w frame" where
  "write_SEND_READ_COMMAND fr =
     on_ok (writeCommand CMD_GET_SERIAL_NUMBER Intent_NORMAL False fr) (\<lambda>fr.
       toPhaseAt Phase_WAIT_EXECUTION EXECUTION_TIME_SHORT_MS ''Waiting for wake verification''
         (inDrv (setFieldIndex 1) fr))"

definition write_READ_RESPONSE :: "'w frame \<Rightarrow> Status \<times> 'w frame" where
  "write_READ_RESPONSE fr =
     on_words (readWords 3 fr) (\<lambda>words fr.
       toPhaseAt Phase_SEND_VERIFY_COMMAND 0 ''Wake variant read due''
         (inDrv (stashSerial (serialNumberFromWords words)) fr))"

definition write_SEND_VERIFY_COMMAND :: "'w frame \<Rightarrow> Status \<times> 'w frame" where
  "write_SEND_VERIFY_COMMAND fr =
     on_ok (writeCommand CMD_GET_SENSOR_VARIANT Intent_NORMAL False fr) (\<lambda>fr.
       toPhaseAt Phase_WAIT_EXECUTION EXECUTION_TIME_SHORT_MS ''Waiting for wake variant''
         (inDrv (setFieldIndex 2) fr))"

definition write_READ_VERIFY_RESPONSE :: "'w frame \<Rightarrow> Status \<times> 'w frame" where
  "write_READ_VERIFY_RESPONSE fr =
     on_words (readWords 1 fr) (\<lambda>words fr.
       (let variantWord = words ! 0;
            variant = variantFromVariantWord variantWord;
            serialNumber = stashedSerial (fr_drv fr)
        in if strictMismatch variant (fr_drv fr) then
             finishStep Outcome_FAILED Effect_UNKNOWN
               (Status_Error Err_UNSUPPORTED ''Wake verified wrong variant'' 0)
               (inDrv (adoptOther serialNumber variant variantWord) fr)
           else if identityChanged serialNumber variant (fr_drv fr) then
             finishStep Outcome_FAILED Effect_UNKNOWN
               (Status_Error Err_RECONCILIATION_REQUIRED
                  ''Sensor changed during wake; attach required'' 0)
               (inDrv (adoptOther serialNumber variant variantWord) fr)
           else
             finishStep Outcome_SUCCEEDED Effect_VERIFIED Status_Ok
               (inDrv (markAttached \<circ> publishIdentity \<circ>
                       adoptIdentity serialNumber variant variantWord) fr)))"

definition stepMode :: "'w frame \<Rightarrow> Status \<times> 'w frame" where
  "stepMode fr =
     (case activePhase (fr_drv fr) of
        Phase_SEND_COMMAND \<Rightarrow> write_SEND_COMMAND fr
      | Phase_WAIT_EXECUTION \<Rightarrow> write_WAIT_EXECUTION fr
      | Phase_SEND_READ_COMMAND \<Rightarrow> write_SEND_READ_COMMAND fr
      | Phase_READ_RESPONSE \<Rightarrow> write_READ_RESPONSE fr
      | Phase_SEND_VERIFY_COMMAND \<Rightarrow> write_SEND_VERIFY_COMMAND fr
      | Phase_READ_VERIFY_RESPONSE \<Rightarrow> write_READ_VERIFY_RESPONSE fr
      | _ \<Rightarrow> (Status_Error Err_COMMAND_FAILED ''Invalid write phase'' 0, fr))"

definition stepWriteLike :: "'w frame \<Rightarrow> Status \<times> 'w frame" where
  "stepWriteLike fr =
     (if isSettingWrite (activeKind (fr_drv fr)) then stepSetting fr else stepMode fr)"

end
