(* ===== verification/Scd_Measurement.thy ===== *)
theory Scd_Measurement
  imports Scd_Attach
begin

text \<open>
  \<open>SCD41::_stepMeasurement\<close> and \<open>SCD41::_stepDiagnostic\<close>: a periodic sample is fetched, a single
  shot is triggered first; both ask for readiness before they read the sample. A diagnostic command
  is raw, so any of them leaves the sensor's state to be reconciled.
\<close>

subsection \<open>Measurement\<close>

definition meas_SEND_COMMAND :: "'w frame \<Rightarrow> Status \<times> 'w frame" where
  "meas_SEND_COMMAND fr =
     (let kind = activeKind (fr_drv fr) in
      on_ok (writeCommand (writeCommandFor kind) Intent_NORMAL True fr) (\<lambda>fr.
        toPhaseAt Phase_WAIT_EXECUTION (executionWaitMs kind) ''Waiting for measurement''
          (inDrv (setEffect Effect_ACKNOWLEDGED) fr)))"

definition meas_WAIT_EXECUTION :: "'w frame \<Rightarrow> Status \<times> 'w frame" where
  "meas_WAIT_EXECUTION =
     waitDue ''Waiting for measurement''
       (toPhase Phase_SEND_READY_COMMAND ''Measurement readiness due'')"

definition meas_SEND_READY_COMMAND :: "'w frame \<Rightarrow> Status \<times> 'w frame" where
  "meas_SEND_READY_COMMAND fr =
     on_ok (writeCommand CMD_GET_DATA_READY_STATUS Intent_NORMAL False fr)
       (toPhaseAt Phase_READ_READY_RESPONSE EXECUTION_TIME_SHORT_MS ''Waiting for ready response'')"

definition noteReadiness :: "u16 \<Rightarrow> 'w driver \<Rightarrow> 'w driver" where
  "noteReadiness word d = d\<lparr>d_workingValue := (d_workingValue d)
     \<lparr>ov_dataReady := \<lparr>dr_raw = word, dr_ready = isDataReady word\<rparr>\<rparr>\<rparr>"

definition meas_READ_READY_RESPONSE :: "'w frame \<Rightarrow> Status \<times> 'w frame" where
  "meas_READ_READY_RESPONSE = waitDue ''Waiting for ready response'' (\<lambda>fr.
     on_words (readWords 1 fr) (\<lambda>words fr.
       (let readyWord = words ! 0;
            fr = inDrv (noteReadiness readyWord) fr
        in if \<not> isDataReady readyWord then
             finishStep Outcome_NO_DATA (a_effect (d_active (fr_drv fr)))
               (Status_Error Err_MEASUREMENT_NOT_READY ''Measurement not ready'' 0) fr
           else toPhase Phase_SEND_READ_COMMAND ''Sample read due'' fr)))"

definition meas_SEND_READ_COMMAND :: "'w frame \<Rightarrow> Status \<times> 'w frame" where
  "meas_SEND_READ_COMMAND fr =
     on_ok (writeCommand CMD_READ_MEASUREMENT Intent_NORMAL False fr)
       (toPhaseAt Phase_READ_RESPONSE EXECUTION_TIME_SHORT_MS ''Waiting for sample response'')"

definition publishSample :: "'w driver \<Rightarrow> 'w driver" where
  "publishSample d = d\<lparr>d_workingValue := (d_workingValue d)\<lparr>ov_sample := d_latestSample d\<rparr>\<rparr>"

definition meas_READ_RESPONSE :: "'w frame \<Rightarrow> Status \<times> 'w frame" where
  "meas_READ_RESPONSE = waitDue ''Waiting for sample response'' (\<lambda>fr.
     on_words (readWords 3 fr) (\<lambda>words fr.
       (let kind = activeKind (fr_drv fr) in
        finishStep Outcome_SUCCEEDED
          (if kind = Kind_FETCH_SAMPLE then Effect_NONE else Effect_VERIFIED) Status_Ok
          (inDrv (publishSample \<circ>
                  storeSample words (kind \<noteq> Kind_SINGLE_SHOT_RHT_ONLY) (fr_now fr)) fr))))"

definition stepMeasurement :: "'w frame \<Rightarrow> Status \<times> 'w frame" where
  "stepMeasurement fr =
     (case activePhase (fr_drv fr) of
        Phase_SEND_COMMAND \<Rightarrow> meas_SEND_COMMAND fr
      | Phase_WAIT_EXECUTION \<Rightarrow> meas_WAIT_EXECUTION fr
      | Phase_SEND_READY_COMMAND \<Rightarrow> meas_SEND_READY_COMMAND fr
      | Phase_READ_READY_RESPONSE \<Rightarrow> meas_READ_READY_RESPONSE fr
      | Phase_SEND_READ_COMMAND \<Rightarrow> meas_SEND_READ_COMMAND fr
      | Phase_READ_RESPONSE \<Rightarrow> meas_READ_RESPONSE fr
      | _ \<Rightarrow> (Status_Error Err_COMMAND_FAILED ''Invalid measurement phase'' 0, fr))"

subsection \<open>Diagnostics\<close>

text \<open>The command of a diagnostic operation, with its data word when it has one.\<close>

definition diag_send :: "'w frame \<Rightarrow> Status \<times> 'w frame" where
  "diag_send fr =
     (let request = a_request (d_active (fr_drv fr)) in
      if rq_kind request = Kind_DIAGNOSTIC_WRITE_WORD
      then writeCommandWithWord (rq_command request) (ucast (rq_value request)) True fr
      else writeCommand (rq_command request) Intent_NORMAL True fr)"

definition diag_SEND_COMMAND :: "'w frame \<Rightarrow> Status \<times> 'w frame" where
  "diag_SEND_COMMAND fr =
     (if activeKind (fr_drv fr) = Kind_DIAGNOSTIC_READ_WORDS then
        on_ok (writeCommand (rq_command (a_request (d_active (fr_drv fr)))) Intent_NORMAL True fr)
          (\<lambda>fr. toPhaseAt Phase_WAIT_EXECUTION EXECUTION_TIME_SHORT_MS
                  ''Waiting for diagnostic read''
                  (inDrv (markReconciliationRequired \<circ> setEffect Effect_ACKNOWLEDGED) fr))
      else
        on_ok (diag_send fr) (\<lambda>fr.
          finishStep Outcome_SUCCEEDED Effect_ACKNOWLEDGED Status_Ok
            (inDrv (markReconciliationRequired \<circ> setEffect Effect_ACKNOWLEDGED) fr)))"

definition diag_WAIT_EXECUTION :: "'w frame \<Rightarrow> Status \<times> 'w frame" where
  "diag_WAIT_EXECUTION =
     waitDue ''Waiting for diagnostic read''
       (toPhase Phase_READ_RESPONSE ''Diagnostic response due'')"

text \<open>\<open>memcpy\<close> of the words into the three raw words of the working value.\<close>

definition storeRawWords :: "u16 list \<Rightarrow> u8 \<Rightarrow> 'w driver \<Rightarrow> 'w driver" where
  "storeRawWords words count d = d\<lparr>d_workingValue := (d_workingValue d)
     \<lparr>ov_rawWords := take (unat count) words @ drop (unat count) (ov_rawWords (d_workingValue d)),
      ov_wordCount := count\<rparr>\<rparr>"

definition diag_READ_RESPONSE :: "'w frame \<Rightarrow> Status \<times> 'w frame" where
  "diag_READ_RESPONSE fr =
     (let count = rq_wordCount (a_request (d_active (fr_drv fr))) in
      on_words (readWords count fr) (\<lambda>words fr.
        finishStep Outcome_SUCCEEDED Effect_ACKNOWLEDGED Status_Ok
          (inDrv (storeRawWords words count) fr)))"

definition stepDiagnostic :: "'w frame \<Rightarrow> Status \<times> 'w frame" where
  "stepDiagnostic fr =
     (case activePhase (fr_drv fr) of
        Phase_SEND_COMMAND \<Rightarrow> diag_SEND_COMMAND fr
      | Phase_WAIT_EXECUTION \<Rightarrow> diag_WAIT_EXECUTION fr
      | Phase_READ_RESPONSE \<Rightarrow> diag_READ_RESPONSE fr
      | _ \<Rightarrow> (Status_Error Err_COMMAND_FAILED ''Invalid diagnostic phase'' 0, fr))"

end
