(* ===== verification/Scd_Maintenance.thy ===== *)
theory Scd_Maintenance
  imports Scd_Attach
begin

text \<open>
  \<open>SCD41::_stepMaintenance\<close>: self-test and forced recalibration read a deferred result, reinit and
  factory reset identify the sensor again, and persisting settings may end before anything is sent.
\<close>

definition persistIndeterminate :: "'w driver \<Rightarrow> bool" where
  "persistIndeterminate d \<longleftrightarrow>
     activeKind d = Kind_PERSIST_SETTINGS \<and>
     cs_persistenceIndeterminate (d_configuration d) \<and> activePhase d = Phase_SEND_COMMAND"

definition persistNothing :: "'w driver \<Rightarrow> bool" where
  "persistNothing d \<longleftrightarrow>
     activeKind d = Kind_PERSIST_SETTINGS \<and>
     cs_dirtyMask (d_configuration d) = 0 \<and> activePhase d = Phase_SEND_COMMAND"

definition maint_send :: "'w frame \<Rightarrow> Status \<times> 'w frame" where
  "maint_send fr =
     (let request = a_request (d_active (fr_drv fr)) in
      if rq_kind request = Kind_FORCED_RECALIBRATION
      then writeCommandWithWord CMD_PERFORM_FORCED_RECALIBRATION (ucast (rq_value request)) True fr
      else writeCommand (writeCommandFor (rq_kind request)) Intent_NORMAL True fr)"

abbreviation resetKind :: "OperationKind \<Rightarrow> bool" where
  "resetKind kind \<equiv> kind = Kind_REINIT \<or> kind = Kind_FACTORY_RESET"

definition maint_SEND_COMMAND :: "'w frame \<Rightarrow> Status \<times> 'w frame" where
  "maint_SEND_COMMAND fr =
     (let kind = activeKind (fr_drv fr) in
      on_ok (maint_send fr) (\<lambda>fr.
        (let fr = inDrv (setEffect Effect_ACKNOWLEDGED) fr;
             fr = (if resetKind kind then inDrv markReconciliationRequired fr else fr);
             fr = (if kind = Kind_FACTORY_RESET then inDrv (setPersistenceIndeterminate True) fr
                   else fr)
         in toPhaseAt Phase_WAIT_EXECUTION (executionWaitMs kind)
              ''Waiting for maintenance command'' fr)))"

definition settlePersist :: "'w driver \<Rightarrow> 'w driver" where
  "settlePersist d = publishConfiguration (setPersistenceIndeterminate False (clearDirty d))"

definition maint_WAIT_EXECUTION :: "'w frame \<Rightarrow> Status \<times> 'w frame" where
  "maint_WAIT_EXECUTION = waitDue ''Waiting for maintenance command'' (\<lambda>fr.
     let kind = activeKind (fr_drv fr) in
     if kind = Kind_SELF_TEST \<or> kind = Kind_FORCED_RECALIBRATION then
       toPhase Phase_READ_DEFERRED_RESULT ''Maintenance result due'' fr
     else if resetKind kind then
       toPhase Phase_SEND_VERIFY_COMMAND ''Maintenance verification due'' (inDrv clearDirty fr)
     else
       finishStep Outcome_SUCCEEDED Effect_ACKNOWLEDGED Status_Ok
         (if kind = Kind_PERSIST_SETTINGS then inDrv settlePersist fr else fr))"

definition storeDeferred :: "u16 \<Rightarrow> 'w driver \<Rightarrow> 'w driver" where
  "storeDeferred word d = d\<lparr>d_workingValue := (d_workingValue d)
     \<lparr>ov_value := ucast word, ov_rawWords := (ov_rawWords (d_workingValue d))[0 := word],
      ov_wordCount := 1\<rparr>\<rparr>"

definition storeCorrection :: "u16 \<Rightarrow> 'w driver \<Rightarrow> 'w driver" where
  "storeCorrection word d = d\<lparr>d_workingValue := (d_workingValue d)
     \<lparr>ov_signedValue := uint word - uint FRC_OFFSET_BIAS\<rparr>\<rparr>"

definition maint_READ_DEFERRED_RESULT :: "'w frame \<Rightarrow> Status \<times> 'w frame" where
  "maint_READ_DEFERRED_RESULT fr =
     on_words (readWords 1 fr) (\<lambda>words fr.
       (let word = words ! 0;
            kind = activeKind (fr_drv fr);
            fr = inDrv (storeDeferred word) fr
        in if kind = Kind_SELF_TEST then
             (if word \<noteq> SELF_TEST_PASS then
                finishStep Outcome_FAILED Effect_VERIFIED
                  (Status_Error Err_COMMAND_FAILED ''Self-test failed'' (uint word)) fr
              else finishStep Outcome_SUCCEEDED Effect_VERIFIED Status_Ok fr)
           else if word = FRC_FAILED then
             finishStep Outcome_FAILED Effect_VERIFIED
               (Status_Error Err_COMMAND_FAILED ''FRC failed'' (uint word)) fr
           else
             finishStep Outcome_SUCCEEDED Effect_VERIFIED Status_Ok
               (inDrv (storeCorrection word) fr)))"

definition maint_SEND_VERIFY_COMMAND :: "'w frame \<Rightarrow> Status \<times> 'w frame" where
  "maint_SEND_VERIFY_COMMAND fr =
     on_ok (writeCommand (if activeIndex (fr_drv fr) = 0 then CMD_GET_SERIAL_NUMBER
                          else CMD_GET_SENSOR_VARIANT) Intent_NORMAL False fr)
       (toPhaseAt Phase_READ_VERIFY_RESPONSE EXECUTION_TIME_SHORT_MS
          ''Waiting for identity verify'')"

text \<open>The driver after the sensor has been identified again.\<close>

definition resetSucceeded :: "u64 \<Rightarrow> SensorVariant \<Rightarrow> u16 \<Rightarrow> 'w driver \<Rightarrow> 'w driver" where
  "resetSucceeded serialNumber variant variantWord d =
     (let d = advanceSensorEpoch d;
          d = adoptIdentity serialNumber variant variantWord d;
          d = d\<lparr>d_configuration := (d_configuration d)\<lparr>cs_verifiedMask := 0, cs_dirtyMask := 0,
                  cs_sensorEpoch := d_sensorEpoch d, cs_persistenceIndeterminate := False\<rparr>\<rparr>;
          d = publishConfiguration (publishIdentity d)
      in markAttached d)"

definition maint_verifyVariant :: "u16 \<Rightarrow> 'w frame \<Rightarrow> Status \<times> 'w frame" where
  "maint_verifyVariant variantWord fr =
     (let variant = variantFromVariantWord variantWord;
          serialNumber = stashedSerial (fr_drv fr)
      in if strictMismatch variant (fr_drv fr) then
           finishStep Outcome_INDETERMINATE Effect_UNKNOWN
             (Status_Error Err_UNSUPPORTED ''Reset verified wrong variant'' 0)
             (inDrv (adoptOther serialNumber variant variantWord) fr)
         else if identityChanged serialNumber variant (fr_drv fr) then
           finishStep Outcome_INDETERMINATE Effect_UNKNOWN
             (Status_Error Err_RECONCILIATION_REQUIRED
                ''Sensor changed during reset verification'' 0)
             (inDrv (adoptOther serialNumber variant variantWord) fr)
         else
           finishStep Outcome_SUCCEEDED Effect_ACKNOWLEDGED Status_Ok
             (inDrv (resetSucceeded serialNumber variant variantWord) fr))"

definition maint_READ_VERIFY_RESPONSE :: "'w frame \<Rightarrow> Status \<times> 'w frame" where
  "maint_READ_VERIFY_RESPONSE = waitDue ''Waiting for identity verify'' (\<lambda>fr.
     on_words (readWords (if activeIndex (fr_drv fr) = 0 then 3 else 1) fr) (\<lambda>words fr.
       if activeIndex (fr_drv fr) = 0 then
         toPhaseAt Phase_SEND_VERIFY_COMMAND 0 ''Reset variant read due''
           (inDrv (setFieldIndex 1 \<circ> stashSerial (serialNumberFromWords words)) fr)
       else maint_verifyVariant (words ! 0) fr))"

definition stepMaintenance :: "'w frame \<Rightarrow> Status \<times> 'w frame" where
  "stepMaintenance fr =
     (if persistIndeterminate (fr_drv fr) then
        finishStep Outcome_INDETERMINATE Effect_UNKNOWN
          (Status_Error Err_INDETERMINATE ''Persistence requires reinit reconciliation'' 0)
          (inDrv publishConfiguration fr)
      else if persistNothing (fr_drv fr) then
        finishStep Outcome_SUCCEEDED Effect_NOT_ATTEMPTED Status_Ok (inDrv publishConfiguration fr)
      else
        (case activePhase (fr_drv fr) of
           Phase_SEND_COMMAND \<Rightarrow> maint_SEND_COMMAND fr
         | Phase_WAIT_EXECUTION \<Rightarrow> maint_WAIT_EXECUTION fr
         | Phase_READ_DEFERRED_RESULT \<Rightarrow> maint_READ_DEFERRED_RESULT fr
         | Phase_SEND_VERIFY_COMMAND \<Rightarrow> maint_SEND_VERIFY_COMMAND fr
         | Phase_READ_VERIFY_RESPONSE \<Rightarrow> maint_READ_VERIFY_RESPONSE fr
         | _ \<Rightarrow> (Status_Error Err_COMMAND_FAILED ''Invalid maintenance phase'' 0, fr)))"

end
