(* ===== verification/Scd_Engine.thy ===== *)
theory Scd_Engine
  imports Scd_ReadLike Scd_WriteLike Scd_Measurement Scd_Maintenance
begin

text \<open>
  The engine (src/SCD41.cpp): \<open>_step\<close> dispatches on the kind of the active operation, \<open>poll\<close> runs
  steps until the operation ends, waits or has used its budget, and \<open>tick\<close> is a poll with a budget
  of one. The loop of \<open>poll\<close> has the source's own bound of 32 iterations as its fuel.
\<close>

definition step :: "'w frame \<Rightarrow> Status \<times> 'w frame" where
  "step fr =
     (let d = fr_drv fr; kind = activeKind d in
      if timeReached (fr_now fr) (a_deadlineMs (d_active d)) then
        (Status_Error Err_TIMEOUT ''Operation deadline expired'' 0, fr)
      else if d_nextSafeCommandValid d \<and> \<not> timeReached (fr_now fr) (d_nextSafeCommandMs d) then
        (progressing ''Sensor busy window active'',
         inDrv (\<lambda>d. setDue (d_nextSafeCommandMs d) d) fr)
      else if kind = Kind_ATTACH then stepAttach fr
      else if kind = Kind_FETCH_SAMPLE \<or> kind = Kind_SINGLE_SHOT \<or>
              kind = Kind_SINGLE_SHOT_RHT_ONLY then stepMeasurement fr
      else if isMaintenance kind then stepMaintenance fr
      else if isDiagnostic kind then stepDiagnostic fr
      else if isSettingWrite kind \<or> kind = Kind_START_PERIODIC \<or>
              kind = Kind_START_LOW_POWER_PERIODIC \<or> kind = Kind_STOP_PERIODIC \<or>
              kind = Kind_POWER_DOWN \<or> kind = Kind_WAKE_UP then stepWriteLike fr
      else stepReadLike fr)"

text \<open>The test that leaves the loop before a step: the sensor settles and no phase is due.\<close>

definition settling :: "'w frame \<Rightarrow> bool" where
  "settling fr \<longleftrightarrow>
     d_nextSafeCommandValid (fr_drv fr) \<and>
     \<not> timeReached (fr_now fr) (d_nextSafeCommandMs (fr_drv fr)) \<and>
     \<not> timeReached (fr_now fr) (a_nextDueMs (d_active (fr_drv fr)))"

text \<open>The test that a step changed neither phase nor due time nor budget.\<close>

definition stalled :: "'w frame \<Rightarrow> 'w frame \<Rightarrow> bool" where
  "stalled fr fr' \<longleftrightarrow>
     activePhase (fr_drv fr') = activePhase (fr_drv fr) \<and>
     a_nextDueMs (d_active (fr_drv fr')) = a_nextDueMs (d_active (fr_drv fr)) \<and>
     fr_budget fr' = fr_budget fr"

fun pollLoop :: "nat \<Rightarrow> 'w frame \<Rightarrow> 'w frame" where
  "pollLoop 0 fr = fr"
| "pollLoop (Suc n) fr =
     (if \<not> d_activeValid (fr_drv fr) \<or> settling fr then fr
      else (case step fr of
              (stepStatus, fr') \<Rightarrow>
                if \<not> d_activeValid (fr_drv fr') \<or> d_terminalValid (fr_drv fr') then fr'
                else if \<not> ok stepStatus \<and> \<not> inProgress stepStatus then
                  inDrv (finishOperationFailure stepStatus (fr_now fr')) fr'
                else if fr_budget fr' = 0 then fr'
                else if stalled fr fr' then fr'
                else if \<not> timeReached (fr_now fr') (a_nextDueMs (d_active (fr_drv fr'))) then fr'
                else pollLoop n fr'))"

abbreviation MAX_CPU_TRANSITIONS :: nat where "MAX_CPU_TRANSITIONS \<equiv> 32"

text \<open>The first lines of \<open>poll\<close>: the owner clock and the expired settling window.\<close>

definition ownerClockOk :: "u32 \<Rightarrow> 'w driver \<Rightarrow> bool" where
  "ownerClockOk nowMs d \<longleftrightarrow> \<not> d_lastOwnerNowValid d \<or> timeReached nowMs (d_lastOwnerNowMs d)"

definition noteOwnerClock :: "u32 \<Rightarrow> 'w driver \<Rightarrow> 'w driver" where
  "noteOwnerClock nowMs d =
     (if ownerClockOk nowMs d
      then (let d = d\<lparr>d_lastOwnerNowMs := nowMs, d_lastOwnerNowValid := True\<rparr>
            in if d_nextSafeCommandValid d \<and> timeReached nowMs (d_nextSafeCommandMs d)
               then d\<lparr>d_nextSafeCommandValid := False\<rparr> else d)
      else d)"

definition pendingResult :: "'w driver \<Rightarrow> u8 \<Rightarrow> PollResult" where
  "pendingResult d callbacks =
     \<lparr>pr_state = Slot_RESULT_PENDING, pr_id = res_id (d_terminal d),
      pr_kind = res_kind (d_terminal d), pr_status = res_status (d_terminal d),
      pr_nextDueMs = 0, pr_callbacksUsed = callbacks\<rparr>"

definition activeResult :: "'w driver \<Rightarrow> Status \<Rightarrow> u8 \<Rightarrow> PollResult" where
  "activeResult d status callbacks =
     \<lparr>pr_state = Slot_ACTIVE, pr_id = a_id (d_active d), pr_kind = activeKind d,
      pr_status = status, pr_nextDueMs = nextPollDueMs d, pr_callbacksUsed = callbacks\<rparr>"

text \<open>The deadline test and the loop.\<close>

definition pollActive :: "'w frame \<Rightarrow> 'w frame" where
  "pollActive fr =
     pollLoop MAX_CPU_TRANSITIONS
       (if timeReached (fr_now fr) (a_deadlineMs (d_active (fr_drv fr)))
        then inDrv (finishOperationFailure
               (Status_Error Err_TIMEOUT ''Operation deadline expired'' 0) (fr_now fr)) fr
        else fr)"

definition frameFor :: "u32 \<Rightarrow> u8 \<Rightarrow> 'w \<Rightarrow> 'w driver \<Rightarrow> 'w frame" where
  "frameFor nowMs maxCallbacks w d =
     \<lparr>fr_drv = d, fr_now = nowMs, fr_budget = maxCallbacks, fr_world = w, fr_trace = [],
      fr_fault = False\<rparr>"

definition pollSummary :: "u8 \<Rightarrow> 'w frame \<Rightarrow> PollResult" where
  "pollSummary maxCallbacks fr =
     (let d = fr_drv fr; callbacks = maxCallbacks - fr_budget fr in
      if d_terminalValid d then pendingResult d callbacks
      else if d_activeValid d then activeResult d (progressing ''Operation active'') callbacks
      else PollResult_init\<lparr>pr_callbacksUsed := callbacks\<rparr>)"

text \<open>
  \<open>poll\<close> returns what the source returns and the frame it leaves: the driver, the world, and the
  trace of the callbacks it made. When it returns before its loop, \<open>result.id\<close> and \<open>result.kind\<close>
  of an active operation are already set.
\<close>

definition poll :: "u32 \<Rightarrow> u8 \<Rightarrow> 'w \<Rightarrow> 'w driver \<Rightarrow> PollResult \<times> 'w frame" where
  "poll nowMs maxCallbacks w d0 =
     (let clockOk = ownerClockOk nowMs d0;
          d = noteOwnerClock nowMs d0;
          fr = frameFor nowMs maxCallbacks w d
      in if d_terminalValid d then (pendingResult d 0, fr)
         else if \<not> d_activeValid d then (PollResult_init, fr)
         else if \<not> clockOk then
           (activeResult d
              (Status_Error Err_INVALID_PARAM ''Owner clock moved backwards'' 0) 0, fr)
         else (let fr = pollActive fr in (pollSummary maxCallbacks fr, fr)))"

definition tick :: "u32 \<Rightarrow> 'w \<Rightarrow> 'w driver \<Rightarrow> Status \<times> 'w frame" where
  "tick nowMs w d = (case poll nowMs 1 w d of (result, fr) \<Rightarrow> (pr_status result, fr))"

end
