(* ===== verification/Scd_Api.thy ===== *)
theory Scd_Api
  imports Scd_Engine
begin

text \<open>
  The rest of the public interface (src/SCD41.cpp): \<open>cancel\<close>, \<open>takeResult\<close>, \<open>end\<close>,
  \<open>runtimeSnapshot\<close> and \<open>peekLatestSample\<close>, and the driver as a state machine: \<open>driver_step\<close> is
  one call of the interface with any arguments and any world, \<open>reachable\<close> the states that calls
  lead to from a default-constructed driver. \<open>end\<close> is \<open>driverEnd\<close>, because the name is a keyword.
\<close>

definition cancelEffect :: "'w driver \<Rightarrow> EffectState \<times> 'w driver" where
  "cancelEffect d =
     (let a = d_active d; effect = a_effect a in
      if a_callbacksUsed a = 0 then
        ((if isEffectful (activeKind d) then Effect_NOT_ATTEMPTED else Effect_NONE), d)
      else
        ((if a_effectfulWriteAttempted a \<and> effect = Effect_NOT_ATTEMPTED then Effect_UNKNOWN
          else effect),
         (if a_effectfulWriteAttempted a then markReconciliationRequired d else d)))"

text \<open>The same test in \<open>cancel\<close> and \<open>end\<close>: a persistence command may have been executed.\<close>

definition doubtPersistence :: "'w driver \<Rightarrow> 'w driver" where
  "doubtPersistence d =
     (if (activeKind d = Kind_PERSIST_SETTINGS \<or> activeKind d = Kind_FACTORY_RESET) \<and>
         a_effectfulWriteAttempted (d_active d)
      then setPersistenceIndeterminate True d else d)"

definition cancel :: "OperationId \<Rightarrow> u32 \<Rightarrow> 'w driver \<Rightarrow> Status \<times> 'w driver" where
  "cancel oid nowMs d =
     (if \<not> d_activeValid d then
        ((if d_terminalValid d then Status_Error Err_BUSY ''Terminal result pending'' 0
          else Status_Error Err_RESULT_NOT_READY ''No active operation'' 0), d)
      else if a_id (d_active d) \<noteq> oid then
        (Status_Error Err_STALE_RESULT ''Operation identity mismatch'' 0, d)
      else
        (let nowMs = (if d_lastOwnerNowValid d \<and> \<not> timeReached nowMs (d_lastOwnerNowMs d)
                      then d_lastOwnerNowMs d else nowMs);
             d = d\<lparr>d_lastOwnerNowMs := nowMs, d_lastOwnerNowValid := True\<rparr>;
             (effect, d) = cancelEffect d;
             d = doubtPersistence d
         in (Status_Ok, finishOperation Outcome_CANCELLED effect
               (Status_Error Err_CANCELLED ''Operation cancelled'' 0) nowMs d)))"

definition takeResult ::
    "OperationId \<Rightarrow> OperationResult \<Rightarrow> 'w driver \<Rightarrow> Status \<times> OperationResult \<times> 'w driver" where
  "takeResult expectedId out d =
     (if \<not> d_terminalValid d then
        (Status_Error Err_RESULT_NOT_READY ''No terminal result'' 0, out, d)
      else if res_id (d_terminal d) \<noteq> expectedId then
        (Status_Error Err_STALE_RESULT ''Result identity mismatch'' 0, out, d)
      else (Status_Ok, d_terminal d,
            d\<lparr>d_terminal := OperationResult_init, d_terminalValid := False\<rparr>))"

definition cancelForEnd :: "'w driver \<Rightarrow> 'w driver" where
  "cancelForEnd d =
     (if d_activeValid d \<and> \<not> d_terminalValid d then
        (let completedMs = (if d_lastOwnerNowValid d then d_lastOwnerNowMs d
                            else a_startedMs (d_active d));
             d = (if a_callbacksUsed (d_active d) > 0 then markReconciliationRequired d else d);
             d = doubtPersistence d
         in finishOperation Outcome_CANCELLED (a_effect (d_active d))
              (Status_Error Err_CANCELLED ''Driver unbound'' 0) completedMs d)
      else d)"

definition driverEnd :: "'w driver \<Rightarrow> 'w driver" where
  "driverEnd d =
     (let d = cancelForEnd d in d
        \<lparr>d_bound := False, d_attached := False, d_driverState := State_UNINIT,
         d_operatingMode := Mode_UNKNOWN, d_modeEvidence := Evidence_UNKNOWN,
         d_reconciliationRequired := True, d_config := Config_init,
         d_identity := (d_identity d)\<lparr>idn_valid := False\<rparr>,
         d_configuration := (d_configuration d)\<lparr>cs_verifiedMask := 0\<rparr>,
         d_pressureCompensation := Field_NONE, d_latestSampleValid := False,
         d_health := (d_health d)\<lparr>hs_state := State_UNINIT\<rparr>\<rparr>)"

definition runtimeSnapshot :: "'w driver \<Rightarrow> RuntimeSnapshot" where
  "runtimeSnapshot d =
     \<lparr>rs_bound = d_bound d, rs_attached = d_attached d, rs_driverState = d_driverState d,
      rs_operatingMode = d_operatingMode d, rs_modeEvidence = d_modeEvidence d,
      rs_operationState = operationState d,
      rs_operationId = (if d_activeValid d then a_id (d_active d)
                        else if d_terminalValid d then res_id (d_terminal d)
                        else OperationId_init),
      rs_operationKind = (if d_activeValid d then activeKind d
                          else if d_terminalValid d then res_kind (d_terminal d)
                          else Kind_NONE),
      rs_nextDueMs = (if d_activeValid d then nextPollDueMs d else 0),
      rs_nextSafeCommandMs = (if d_nextSafeCommandValid d then d_nextSafeCommandMs d else 0),
      rs_nextSafeCommandValid = d_nextSafeCommandValid d, rs_sensorEpoch = d_sensorEpoch d,
      rs_reconciliationRequired = d_reconciliationRequired d,
      rs_sampleAvailable = d_latestSampleValid d\<rparr>"

definition peekLatestSample :: "FixedSample \<Rightarrow> 'w driver \<Rightarrow> Status \<times> FixedSample" where
  "peekLatestSample out d =
     (if \<not> d_latestSampleValid d
      then (Status_Error Err_MEASUREMENT_NOT_READY ''No cached sample'' 0, out)
      else (Status_Ok, d_latestSample d))"

text \<open>The accessors of the class, most of them members of the health record.\<close>

definition isBound :: "'w driver \<Rightarrow> bool" where "isBound d = d_bound d"
definition isInitialized :: "'w driver \<Rightarrow> bool" where "isInitialized d = isBound d"
definition isAttached :: "'w driver \<Rightarrow> bool" where "isAttached d = d_attached d"
definition SCD41_state :: "'w driver \<Rightarrow> DriverState" where "SCD41_state d = d_driverState d"
definition driverState :: "'w driver \<Rightarrow> DriverState" where "driverState d = SCD41_state d"

definition isOnline :: "'w driver \<Rightarrow> bool" where
  "isOnline d \<longleftrightarrow> d_driverState d = State_READY \<or> d_driverState d = State_DEGRADED"

definition healthSnapshot :: "'w driver \<Rightarrow> HealthSnapshot" where "healthSnapshot d = d_health d"
definition lastOkMs :: "'w driver \<Rightarrow> u32" where "lastOkMs d = hs_lastTransferOkMs (d_health d)"
definition lastErrorMs :: "'w driver \<Rightarrow> u32" where "lastErrorMs d = hs_lastTransferErrorMs (d_health d)"
definition lastError :: "'w driver \<Rightarrow> Status" where "lastError d = hs_lastTransferError (d_health d)"

definition consecutiveFailures :: "'w driver \<Rightarrow> u8" where
  "consecutiveFailures d = hs_consecutiveTransferFailures (d_health d)"

definition totalFailures :: "'w driver \<Rightarrow> u32" where "totalFailures d = hs_totalTransferFailures (d_health d)"
definition totalSuccess :: "'w driver \<Rightarrow> u32" where "totalSuccess d = hs_totalTransferSuccess (d_health d)"

definition configurationSnapshot :: "'w driver \<Rightarrow> ConfigurationSnapshot" where
  "configurationSnapshot d = d_configuration d"

definition SCD41_identity :: "'w driver \<Rightarrow> Identity" where "SCD41_identity d = d_identity d"

subsection \<open>The driver as a state machine\<close>

text \<open>
  The world behind the callback is chosen anew at every poll: between two calls of the driver the
  sensor and the bus may do anything.
\<close>

inductive driver_step :: "'w driver \<Rightarrow> 'w driver \<Rightarrow> bool" where
  step_begin: "driver_step d (snd (driverBegin config d))"
| step_start: "driver_step d (snd (snd (start request options assigned d)))"
| step_poll: "driver_step d (fr_drv (snd (poll nowMs maxCallbacks w d)))"
| step_cancel: "driver_step d (snd (cancel oid nowMs d))"
| step_take: "driver_step d (snd (snd (takeResult expected out d)))"
| step_end: "driver_step d (driverEnd d)"

inductive reachable :: "'w driver \<Rightarrow> bool" where
  reachable_init: "reachable driver_init"
| reachable_step: "reachable d \<Longrightarrow> driver_step d d' \<Longrightarrow> reachable d'"

inductive_cases driver_stepE: "driver_step d d'"

end
