(* ===== verification/Scd_Stages.thy ===== *)
theory Scd_Stages
  imports Scd_Api
begin

text \<open>
  Stages of an operation. \<open>rank\<close> is the number of transfers an operation still needs at most, as a
  function of its kind, its phase and its field index; it is \<open>None\<close> for the combinations that no
  operation is ever in. \<open>staged a u d\<close> says that the operation \<open>a\<close> runs in a stage of the table and
  has callbacks left, out of \<open>u\<close>, for the rest of its way. Every piece of a step function preserves
  this or ends the operation (\<open>advances\<close>), and one rule per piece says so.
\<close>

subsection \<open>The table\<close>

definition provided :: "bool \<Rightarrow> nat \<Rightarrow> nat option" where
  "provided b n = (if b then Some n else None)"

lemma provided_simps [simp]: "provided True n = Some n" "provided False n = None"
  by (simp_all add: provided_def)

fun rankAttach :: "OperationPhase \<Rightarrow> u8 \<Rightarrow> nat option" where
  "rankAttach Phase_WAIT_POWER_UP i = provided (i = 0) 6"
| "rankAttach Phase_SEND_WAKE i = provided (i = 0) 6"
| "rankAttach Phase_WAIT_WAKE i = provided (i = 0) 5"
| "rankAttach Phase_SEND_STOP i = provided (i = 0) 5"
| "rankAttach Phase_WAIT_STOP i = provided (i = 0) 4"
| "rankAttach Phase_SEND_READ_COMMAND i = provided (i = 0) 4"
| "rankAttach Phase_WAIT_EXECUTION i = (if i = 0 then Some 3 else provided (i = 1) 1)"
| "rankAttach Phase_READ_RESPONSE i = provided (i = 0) 3"
| "rankAttach Phase_SEND_VERIFY_COMMAND i = provided (i = 1) 2"
| "rankAttach Phase_READ_VERIFY_RESPONSE i = provided (i = 1) 1"
| "rankAttach _ i = None"

fun rankMeasurement :: "OperationKind \<Rightarrow> OperationPhase \<Rightarrow> nat option" where
  "rankMeasurement k Phase_SEND_COMMAND = provided (k \<noteq> Kind_FETCH_SAMPLE) 5"
| "rankMeasurement k Phase_WAIT_EXECUTION = provided (k \<noteq> Kind_FETCH_SAMPLE) 4"
| "rankMeasurement k Phase_SEND_READY_COMMAND = Some 4"
| "rankMeasurement k Phase_READ_READY_RESPONSE = Some 3"
| "rankMeasurement k Phase_SEND_READ_COMMAND = Some 2"
| "rankMeasurement k Phase_READ_RESPONSE = Some 1"
| "rankMeasurement k _ = None"

definition resultKind :: "OperationKind \<Rightarrow> bool" where
  "resultKind k \<longleftrightarrow> k = Kind_SELF_TEST \<or> k = Kind_FORCED_RECALIBRATION"

fun rankMaintenance :: "OperationKind \<Rightarrow> OperationPhase \<Rightarrow> u8 \<Rightarrow> nat option" where
  "rankMaintenance k Phase_SEND_COMMAND i =
     provided (i = 0) (if resultKind k then 2 else if k = Kind_PERSIST_SETTINGS then 1 else 5)"
| "rankMaintenance k Phase_WAIT_EXECUTION i =
     provided (i = 0) (if resultKind k then 1 else if k = Kind_PERSIST_SETTINGS then 0 else 4)"
| "rankMaintenance k Phase_READ_DEFERRED_RESULT i = provided (resultKind k) 1"
| "rankMaintenance k Phase_SEND_VERIFY_COMMAND i =
     (if i = 0 then provided (resetKind k) 4 else provided (i = 1 \<and> resetKind k) 2)"
| "rankMaintenance k Phase_READ_VERIFY_RESPONSE i =
     (if i = 0 then provided (resetKind k) 3 else provided (i = 1 \<and> resetKind k) 1)"
| "rankMaintenance k _ i = None"

fun rankDiagnostic :: "OperationKind \<Rightarrow> OperationPhase \<Rightarrow> nat option" where
  "rankDiagnostic k Phase_SEND_COMMAND = Some (if k = Kind_DIAGNOSTIC_READ_WORDS then 2 else 1)"
| "rankDiagnostic k Phase_WAIT_EXECUTION = provided (k = Kind_DIAGNOSTIC_READ_WORDS) 1"
| "rankDiagnostic k Phase_READ_RESPONSE = provided (k = Kind_DIAGNOSTIC_READ_WORDS) 1"
| "rankDiagnostic k _ = None"

fun rankSetting :: "OperationPhase \<Rightarrow> u8 \<Rightarrow> nat option" where
  "rankSetting Phase_SEND_COMMAND i =
     (if i = 0 then Some 5 else if i = 1 then Some 3 else provided (i = 2) 2)"
| "rankSetting Phase_WAIT_EXECUTION i =
     (if i = 0 then Some 4 else if i = 2 then Some 2 else provided (i = 3) 1)"
| "rankSetting Phase_READ_RESPONSE i = (if i = 0 then Some 4 else provided (i = 3) 1)"
| "rankSetting _ i = None"

fun rankMode :: "OperationKind \<Rightarrow> OperationPhase \<Rightarrow> u8 \<Rightarrow> nat option" where
  "rankMode k Phase_SEND_COMMAND i = provided (i = 0) (if k = Kind_WAKE_UP then 5 else 1)"
| "rankMode k Phase_WAIT_EXECUTION i =
     (if k \<noteq> Kind_WAKE_UP then provided (i = 0) 0
      else if i = 0 then Some 4 else if i = 1 then Some 3 else provided (i = 2) 1)"
| "rankMode k Phase_SEND_READ_COMMAND i = provided (k = Kind_WAKE_UP \<and> i = 0) 4"
| "rankMode k Phase_READ_RESPONSE i = provided (k = Kind_WAKE_UP \<and> i = 1) 3"
| "rankMode k Phase_SEND_VERIFY_COMMAND i = provided (k = Kind_WAKE_UP \<and> i = 1) 2"
| "rankMode k Phase_READ_VERIFY_RESPONSE i = provided (k = Kind_WAKE_UP \<and> i = 2) 1"
| "rankMode k _ i = None"

fun rankRead :: "OperationKind \<Rightarrow> OperationPhase \<Rightarrow> u8 \<Rightarrow> nat option" where
  "rankRead k Phase_SEND_COMMAND i =
     (if k = Kind_READ_CONFIGURATION then provided (unat i < 7) (14 - 2 * unat i)
      else provided (i = 0) (if k = Kind_READ_IDENTITY then 4 else 2))"
| "rankRead k Phase_WAIT_EXECUTION i =
     (if k = Kind_READ_CONFIGURATION then provided (unat i < 7) (13 - 2 * unat i)
      else if k = Kind_READ_IDENTITY then (if i = 0 then Some 3 else provided (i = 1) 1)
      else provided (i = 0) 1)"
| "rankRead k Phase_READ_RESPONSE i =
     (if k = Kind_READ_CONFIGURATION then provided (unat i < 7) (13 - 2 * unat i)
      else provided (i = 0) (if k = Kind_READ_IDENTITY then 3 else 1))"
| "rankRead k Phase_SEND_VERIFY_COMMAND i = provided (k = Kind_READ_IDENTITY \<and> i = 1) 2"
| "rankRead k Phase_READ_VERIFY_RESPONSE i = provided (k = Kind_READ_IDENTITY \<and> i = 1) 1"
| "rankRead k _ i = None"

definition isModeKind :: "OperationKind \<Rightarrow> bool" where
  "isModeKind k \<longleftrightarrow> k = Kind_START_PERIODIC \<or> k = Kind_START_LOW_POWER_PERIODIC \<or>
     k = Kind_STOP_PERIODIC \<or> k = Kind_POWER_DOWN \<or> k = Kind_WAKE_UP"

definition isMeasurement :: "OperationKind \<Rightarrow> bool" where
  "isMeasurement k \<longleftrightarrow> k = Kind_FETCH_SAMPLE \<or> k = Kind_SINGLE_SHOT \<or>
     k = Kind_SINGLE_SHOT_RHT_ONLY"

definition rank :: "OperationKind \<Rightarrow> OperationPhase \<Rightarrow> u8 \<Rightarrow> nat option" where
  "rank k p i =
     (if k = Kind_ATTACH then rankAttach p i
      else if isMeasurement k then rankMeasurement k p
      else if isMaintenance k then rankMaintenance k p i
      else if isDiagnostic k then rankDiagnostic k p
      else if isSettingWrite k then rankSetting p i
      else if isModeKind k then rankMode k p i
      else if isReadKind k then rankRead k p i
      else None)"

lemma rank_first:
  "k \<noteq> Kind_NONE \<Longrightarrow> k \<noteq> Kind_INVALID \<Longrightarrow>
   rank k (the (firstPhase k)) 0 = Some (unat (lim_maxCallbacks (limits k)))"
  by (cases k) (simp_all add: rank_def firstPhase_def isDiagnostic_def isMeasurement_def
      isModeKind_def resultKind_def)

subsection \<open>Running operations\<close>

text \<open>The operation \<open>a\<close> is running, or has finished, with at most \<open>u\<close> callbacks used.\<close>

definition running :: "ActiveOperation \<Rightarrow> nat \<Rightarrow> 'w driver \<Rightarrow> bool" where
  "running a u d \<longleftrightarrow>
     d_activeValid d \<and> \<not> d_terminalValid d \<and>
     a_request (d_active d) = a_request a \<and> a_id (d_active d) = a_id a \<and>
     a_startedMs (d_active d) = a_startedMs a \<and> a_deadlineMs (d_active d) = a_deadlineMs a \<and>
     a_desiredRaw (d_active d) = a_desiredRaw a \<and>
     unat (a_callbacksUsed (d_active d)) \<le> u"

definition finished :: "ActiveOperation \<Rightarrow> nat \<Rightarrow> 'w driver \<Rightarrow> bool" where
  "finished a u d \<longleftrightarrow>
     \<not> d_activeValid d \<and> d_terminalValid d \<and>
     res_id (d_terminal d) = a_id a \<and> res_kind (d_terminal d) = rq_kind (a_request a) \<and>
     res_startedMs (d_terminal d) = a_startedMs a \<and>
     res_deadlineMs (d_terminal d) = a_deadlineMs a \<and>
     unat (res_callbacksUsed (d_terminal d)) \<le> u"

definition staged :: "ActiveOperation \<Rightarrow> nat \<Rightarrow> 'w driver \<Rightarrow> bool" where
  "staged a u d \<longleftrightarrow> running a u d \<and>
     (\<exists>r. rank (activeKind d) (activePhase d) (activeIndex d) = Some r \<and>
          unat (a_callbacksUsed (d_active d)) + r \<le> u)"

definition advances :: "ActiveOperation \<Rightarrow> nat \<Rightarrow> Status \<times> 'w frame \<Rightarrow> bool" where
  "advances a u res \<longleftrightarrow>
     (case res of (status, fr) \<Rightarrow>
        finished a u (fr_drv fr) \<or>
        (if ok status \<or> inProgress status then staged a u (fr_drv fr) \<and> inProgress status
         else running a u (fr_drv fr)))"

lemma running_helpers [simp]:
  "running a u (setPhase p d) = running a u d"
  "running a u (setDue t d) = running a u d"
  "running a u (setFieldIndex i d) = running a u d"
  "running a u (setEffect e d) = running a u d"
  "running a u (setSettingValueChanged b d) = running a u d"
  "running a u (markCompleted m d) = running a u d"
  "running a u (clearVerified m d) = running a u d"
  "running a u (markVerified m d) = running a u d"
  "running a u (markDirty m d) = running a u d"
  "running a u (clearDirty d) = running a u d"
  "running a u (setPersistenceIndeterminate b d) = running a u d"
  "running a u (setPressureCompensation f d) = running a u d"
  "running a u (publishConfiguration d) = running a u d"
  "running a u (publishIdentity d) = running a u d"
  "running a u (stashSerial s d) = running a u d"
  "running a u (setWorkingValue v d) = running a u d"
  "running a u (adoptIdentity s va w d) = running a u d"
  "running a u (resetConfiguration d) = running a u d"
  "running a u (setMode mo ev d) = running a u d"
  "running a u (markReconciliationRequired d) = running a u d"
  "running a u (advanceSensorEpoch d) = running a u d"
  "running a u (markAttached d) = running a u d"
  "running a u (recordProtocolFailure st t d) = running a u d"
  "running a u (applyReadValue k wd d) = running a u d"
  "running a u (storeSample ws b t d) = running a u d"
  by (simp_all add: running_def driver_defs setter_defs storeSample_def applyReadValue_def Let_def
      split: prod.splits)

lemma running_composites [simp]:
  "running a u (adoptOther s va w d) = running a u d"
  "running a u (attachSucceeded va w d) = running a u d"
  "running a u (adoptVariantOnly va w d) = running a u d"
  "running a u (refreshVariant va w d) = running a u d"
  "running a u (noteDataReady w d) = running a u d"
  "running a u (noteReadiness w d) = running a u d"
  "running a u (noteSettingWrite d) = running a u d"
  "running a u (rejectSetting st t d) = running a u d"
  "running a u (enterMode k d) = running a u d"
  "running a u (settlePersist d) = running a u d"
  "running a u (resetSucceeded s va w d) = running a u d"
  by (simp_all add: adoptOther_def attachSucceeded_def adoptVariantOnly_def refreshVariant_def
      noteSettingWrite_def rejectSetting_def enterMode_def settlePersist_def resetSucceeded_def Let_def)
    (simp_all add: running_def driver_defs noteDataReady_def noteReadiness_def Let_def)

lemma running_values [simp]:
  "running a u (publishSample d) = running a u d"
  "running a u (storeRawWords ws c d) = running a u d"
  "running a u (storeDeferred w d) = running a u d"
  "running a u (storeCorrection w d) = running a u d"
  by (simp_all add: running_def publishSample_def storeRawWords_def storeDeferred_def
      storeCorrection_def)

lemma running_mono: "running a u d \<Longrightarrow> u \<le> v \<Longrightarrow> running a v d"
  by (simp add: running_def)

lemma staged_running: "staged a u d \<Longrightarrow> running a u d"
  by (simp add: staged_def)

lemma running_kind: "running a u d \<Longrightarrow> activeKind d = rq_kind (a_request a)"
  by (simp add: running_def)

subsection \<open>Ending\<close>

lemma settleReset_slots [simp]:
  "d_active (settleReset t d) = d_active d" "d_activeValid (settleReset t d) = d_activeValid d"
  "d_terminalValid (settleReset t d) = d_terminalValid d"
  by (simp_all add: settleReset_def clearDirty_def)

lemma finished_finishOperation:
  "running a u d \<Longrightarrow> finished a u (finishOperation outcome effect status t d)"
  by (simp add: running_def finished_def finishOperation_def Let_def recordOperationOutcome_def
      resultOf_def publishConfiguration_def)

lemma running_failure_parts:
  "running a u (snd (snd (failureAfterTransfer st oc ef d))) = running a u d"
  "running a u (snd (snd (failureAfterTimeout st r))) = running a u (snd (snd r))"
  "running a u (snd (snd (failurePersistence st r))) = running a u (snd (snd r))"
  "running a u (snd (snd (failurePartial r))) = running a u (snd (snd r))"
  by (simp_all add: failureAfterTransfer_def failureAfterTimeout_def failurePersistence_def
      failurePartial_def split: prod.split)

lemma finished_finishOperationFailure:
  assumes "running a u d"
  shows "finished a u (finishOperationFailure status t d)"
proof -
  have "d_activeValid d" using assms by (simp add: running_def)
  then show ?thesis
    using assms
    by (auto simp: finishOperationFailure_def Let_def split: prod.split
        intro!: finished_finishOperation)
      (metis running_failure_parts snd_conv)+
qed

subsection \<open>Rules for the pieces of a step\<close>

lemma advances_finish:
  "running a u (fr_drv fr) \<Longrightarrow> advances a u (finishStep outcome effect status fr)"
  by (simp add: advances_def finishStep_def finished_finishOperation)

lemma staged_setPhase:
  assumes "running a u d" and "rank (rq_kind (a_request a)) p (activeIndex d) = Some r"
    and "unat (a_callbacksUsed (d_active d)) + r \<le> u"
  shows "staged a u (setPhase p d)" and "staged a u (setDue t (setPhase p d))"
  using assms by (auto simp: staged_def running_kind) (simp_all add: setPhase_def setDue_def running_def)

lemma advances_toPhase:
  assumes "running a u (fr_drv fr)" and "rank (rq_kind (a_request a)) p (activeIndex (fr_drv fr)) = Some r"
    and "unat (a_callbacksUsed (d_active (fr_drv fr))) + r \<le> u"
  shows "advances a u (toPhase p message fr)" and "advances a u (toPhaseAt p ms message fr)"
  using staged_setPhase [OF assms] by (simp_all add: advances_def toPhase_def toPhaseAt_def)

lemma advances_wait:
  "staged a u (fr_drv fr) \<Longrightarrow> advances a u (k fr) \<Longrightarrow> advances a u (waitDue message k fr)"
  by (simp add: waitDue_def) (simp add: advances_def)

lemma advances_error:
  "running a u (fr_drv fr) \<Longrightarrow> \<not> ok status \<Longrightarrow> \<not> inProgress status \<Longrightarrow> advances a u (status, fr)"
  by (simp add: advances_def)

lemma transferred_running:
  assumes "transferred d d'" and "unat (a_callbacksUsed (d_active d')) \<le> v" and "running a u d"
  shows "running a v d'"
  using assms by (simp add: transferred_def sameOperation_def running_def)

lemma transfer_spec_used:
  assumes "transfer_spec request fr status fr'"
  shows "unat (a_callbacksUsed (d_active (fr_drv fr'))) \<le> Suc (unat (a_callbacksUsed (d_active (fr_drv fr))))"
    and "inProgress status \<Longrightarrow> a_callbacksUsed (d_active (fr_drv fr')) = a_callbacksUsed (d_active (fr_drv fr))"
  using assms by (auto simp: transfer_spec_def unat_incrementSaturating)

lemma transfer_cases:
  assumes spec: "transfer_spec request fr status fr'"
    and staged: "staged a u (fr_drv fr)"
    and rank: "rank (activeKind (fr_drv fr)) (activePhase (fr_drv fr)) (activeIndex (fr_drv fr)) = Some (Suc r)"
  shows "ok status \<Longrightarrow> running a u (fr_drv fr') \<and>
           unat (a_callbacksUsed (d_active (fr_drv fr'))) + r \<le> u"
    and "\<not> ok status \<Longrightarrow> advances a u (status, fr')"
    and "running a u (fr_drv fr')"
proof -
  have run: "running a u (fr_drv fr)" and used: "unat (a_callbacksUsed (d_active (fr_drv fr))) + Suc r \<le> u"
    using staged rank by (auto simp: staged_def)
  have tr: "transferred (fr_drv fr) (fr_drv fr')"
    using spec by (simp add: transfer_spec_def)
  have used': "unat (a_callbacksUsed (d_active (fr_drv fr'))) + r \<le> u"
    using transfer_spec_used(1) [OF spec] used by linarith
  then show run': "running a u (fr_drv fr')"
    using transferred_running [OF tr _ run] by simp
  show "running a u (fr_drv fr') \<and> unat (a_callbacksUsed (d_active (fr_drv fr'))) + r \<le> u"
    using run' used' by simp
  assume "\<not> ok status"
  show "advances a u (status, fr')"
  proof (cases "inProgress status")
    case True
    then show ?thesis
      using run' used rank transferredD [OF tr] transfer_spec_used(2) [OF spec True]
      by (simp add: advances_def staged_def)
  next
    case False
    with run' \<open>\<not> ok status\<close> show ?thesis by (rule advances_error)
  qed
qed

lemma hasCallback_transferred: "transferred d d' \<Longrightarrow> hasCallback d' = hasCallback d"
  by (simp add: hasCallback_def transferred_def)

lemma advances_write:
  assumes "hasCallback (fr_drv fr)" and "staged a u (fr_drv fr)"
    and "rank (activeKind (fr_drv fr)) (activePhase (fr_drv fr)) (activeIndex (fr_drv fr)) = Some (Suc r)"
    and k: "\<And>fr'. transferred (fr_drv fr) (fr_drv fr') \<Longrightarrow>
           activeIndex (fr_drv fr') = activeIndex (fr_drv fr) \<Longrightarrow> running a u (fr_drv fr') \<Longrightarrow>
           unat (a_callbacksUsed (d_active (fr_drv fr'))) + r \<le> u \<Longrightarrow> advances a u (k fr')"
  shows "advances a u (on_ok (writeBytes data intent effectful fr) k)"
proof -
  obtain status fr' where w: "writeBytes data intent effectful fr = (status, fr')"
    by (metis surj_pair)
  note spec = writeBytes_spec [OF assms(1) w]
  have tr: "transferred (fr_drv fr) (fr_drv fr')"
    using spec by (simp add: transfer_spec_def)
  show ?thesis
    using transfer_cases [OF spec assms(2,3)] k [OF tr transferredD(5) [OF tr]] by (simp add: w on_ok_def)
qed

lemma advances_read:
  assumes "hasCallback (fr_drv fr)" and "staged a u (fr_drv fr)"
    and "rank (activeKind (fr_drv fr)) (activePhase (fr_drv fr)) (activeIndex (fr_drv fr)) = Some (Suc r)"
    and k: "\<And>words fr'. transferred (fr_drv fr) (fr_drv fr') \<Longrightarrow>
           activeIndex (fr_drv fr') = activeIndex (fr_drv fr) \<Longrightarrow> running a u (fr_drv fr') \<Longrightarrow>
           unat (a_callbacksUsed (d_active (fr_drv fr'))) + r \<le> u \<Longrightarrow>
           length words = unat count \<Longrightarrow> advances a u (k words fr')"
  shows "advances a u (on_words (readWords count fr) k)"
proof -
  obtain status words fr' where w: "readWords count fr = (status, words, fr')"
    by (metis prod_cases3)
  note spec = readWords_spec [OF assms(1) w]
  have tr: "transferred (fr_drv fr) (fr_drv fr')"
    using spec(1) by (simp add: transfer_spec_def)
  show ?thesis
    using transfer_cases [OF spec(1) assms(2,3)] spec(2) k [OF tr transferredD(5) [OF tr]] by (simp add: w on_words_def)
qed
end
