(* ===== verification/Scd_Steps.thy ===== *)
theory Scd_Steps
  imports Scd_Stages
begin

text \<open>
  Every step function keeps its operation in the stage table: from a stage with \<open>r\<close> transfers to
  go, a step makes at most one transfer and reaches a stage with correspondingly fewer to go, ends
  the operation, or returns an error on which \<open>poll\<close> ends it. The stages that the code answers with
  \<open>Invalid ... phase\<close> are never reached.
\<close>

lemma fieldIndex_helpers [simp]:
  "activeIndex (setPhase p d) = activeIndex d"
  "activeIndex (setDue t d) = activeIndex d"
  "activeIndex (setFieldIndex i d) = i"
  "activeIndex (setEffect e d) = activeIndex d"
  "activeIndex (setSettingValueChanged b d) = activeIndex d"
  "activeIndex (markCompleted m d) = activeIndex d"
  "activeIndex (markVerified m d) = activeIndex d"
  "activeIndex (clearDirty d) = activeIndex d"
  "activeIndex (setPersistenceIndeterminate b d) = activeIndex d"
  "activeIndex (publishConfiguration d) = activeIndex d"
  "activeIndex (stashSerial s d) = activeIndex d"
  "activeIndex (markReconciliationRequired d) = activeIndex d"
  "activeIndex (noteSettingWrite d) = activeIndex d"
  "activeIndex (rejectSetting st t d) = activeIndex d"
  "activeIndex (applyReadValue k w d) = activeIndex d"
  "activeIndex (noteReadiness w d) = activeIndex d"
  "activeIndex (noteDataReady w d) = activeIndex d"
  "activeIndex (refreshVariant va w d) = activeIndex d"
  by (simp_all add: driver_defs noteSettingWrite_def rejectSetting_def applyReadValue_def
      noteReadiness_def noteDataReady_def refreshVariant_def Let_def split: prod.split)

lemma used_helpers [simp]:
  "a_callbacksUsed (d_active (setPhase p d)) = a_callbacksUsed (d_active d)"
  "a_callbacksUsed (d_active (setDue t d)) = a_callbacksUsed (d_active d)"
  "a_callbacksUsed (d_active (setFieldIndex i d)) = a_callbacksUsed (d_active d)"
  "a_callbacksUsed (d_active (setEffect e d)) = a_callbacksUsed (d_active d)"
  "a_callbacksUsed (d_active (setSettingValueChanged b d)) = a_callbacksUsed (d_active d)"
  "a_callbacksUsed (d_active (markCompleted m d)) = a_callbacksUsed (d_active d)"
  "a_callbacksUsed (d_active (markVerified m d)) = a_callbacksUsed (d_active d)"
  "a_callbacksUsed (d_active (clearDirty d)) = a_callbacksUsed (d_active d)"
  "a_callbacksUsed (d_active (setPersistenceIndeterminate b d)) = a_callbacksUsed (d_active d)"
  "a_callbacksUsed (d_active (publishConfiguration d)) = a_callbacksUsed (d_active d)"
  "a_callbacksUsed (d_active (stashSerial s d)) = a_callbacksUsed (d_active d)"
  "a_callbacksUsed (d_active (markReconciliationRequired d)) = a_callbacksUsed (d_active d)"
  "a_callbacksUsed (d_active (noteSettingWrite d)) = a_callbacksUsed (d_active d)"
  "a_callbacksUsed (d_active (rejectSetting st t d)) = a_callbacksUsed (d_active d)"
  "a_callbacksUsed (d_active (applyReadValue k w d)) = a_callbacksUsed (d_active d)"
  "a_callbacksUsed (d_active (noteReadiness w d)) = a_callbacksUsed (d_active d)"
  "a_callbacksUsed (d_active (noteDataReady w d)) = a_callbacksUsed (d_active d)"
  "a_callbacksUsed (d_active (refreshVariant va w d)) = a_callbacksUsed (d_active d)"
  by (simp_all add: driver_defs noteSettingWrite_def rejectSetting_def applyReadValue_def
      noteReadiness_def noteDataReady_def refreshVariant_def Let_def split: prod.split)

lemma rank_kinds [simp]:
  "rank Kind_ATTACH p i = rankAttach p i"
  "rank Kind_FETCH_SAMPLE p i = rankMeasurement Kind_FETCH_SAMPLE p"
  "rank Kind_SINGLE_SHOT p i = rankMeasurement Kind_SINGLE_SHOT p"
  "rank Kind_SINGLE_SHOT_RHT_ONLY p i = rankMeasurement Kind_SINGLE_SHOT_RHT_ONLY p"
  "rank Kind_REINIT p i = rankMaintenance Kind_REINIT p i"
  "rank Kind_SELF_TEST p i = rankMaintenance Kind_SELF_TEST p i"
  "rank Kind_FORCED_RECALIBRATION p i = rankMaintenance Kind_FORCED_RECALIBRATION p i"
  "rank Kind_PERSIST_SETTINGS p i = rankMaintenance Kind_PERSIST_SETTINGS p i"
  "rank Kind_FACTORY_RESET p i = rankMaintenance Kind_FACTORY_RESET p i"
  "rank Kind_DIAGNOSTIC_READ_WORDS p i = rankDiagnostic Kind_DIAGNOSTIC_READ_WORDS p"
  "rank Kind_DIAGNOSTIC_WRITE_COMMAND p i = rankDiagnostic Kind_DIAGNOSTIC_WRITE_COMMAND p"
  "rank Kind_DIAGNOSTIC_WRITE_WORD p i = rankDiagnostic Kind_DIAGNOSTIC_WRITE_WORD p"
  "rank Kind_SET_TEMPERATURE_OFFSET p i = rankSetting p i"
  "rank Kind_SET_SENSOR_ALTITUDE p i = rankSetting p i"
  "rank Kind_SET_AMBIENT_PRESSURE p i = rankSetting p i"
  "rank Kind_SET_ASC_ENABLED p i = rankSetting p i"
  "rank Kind_SET_ASC_TARGET p i = rankSetting p i"
  "rank Kind_SET_ASC_INITIAL_PERIOD p i = rankSetting p i"
  "rank Kind_SET_ASC_STANDARD_PERIOD p i = rankSetting p i"
  "rank Kind_START_PERIODIC p i = rankMode Kind_START_PERIODIC p i"
  "rank Kind_START_LOW_POWER_PERIODIC p i = rankMode Kind_START_LOW_POWER_PERIODIC p i"
  "rank Kind_STOP_PERIODIC p i = rankMode Kind_STOP_PERIODIC p i"
  "rank Kind_POWER_DOWN p i = rankMode Kind_POWER_DOWN p i"
  "rank Kind_WAKE_UP p i = rankMode Kind_WAKE_UP p i"
  "rank Kind_READ_IDENTITY p i = rankRead Kind_READ_IDENTITY p i"
  "rank Kind_READ_SENSOR_VARIANT p i = rankRead Kind_READ_SENSOR_VARIANT p i"
  "rank Kind_READ_DATA_READY p i = rankRead Kind_READ_DATA_READY p i"
  "rank Kind_READ_TEMPERATURE_OFFSET p i = rankRead Kind_READ_TEMPERATURE_OFFSET p i"
  "rank Kind_READ_SENSOR_ALTITUDE p i = rankRead Kind_READ_SENSOR_ALTITUDE p i"
  "rank Kind_READ_AMBIENT_PRESSURE p i = rankRead Kind_READ_AMBIENT_PRESSURE p i"
  "rank Kind_READ_ASC_ENABLED p i = rankRead Kind_READ_ASC_ENABLED p i"
  "rank Kind_READ_ASC_TARGET p i = rankRead Kind_READ_ASC_TARGET p i"
  "rank Kind_READ_ASC_INITIAL_PERIOD p i = rankRead Kind_READ_ASC_INITIAL_PERIOD p i"
  "rank Kind_READ_ASC_STANDARD_PERIOD p i = rankRead Kind_READ_ASC_STANDARD_PERIOD p i"
  "rank Kind_READ_CONFIGURATION p i = rankRead Kind_READ_CONFIGURATION p i"
  by (simp_all add: rank_def isDiagnostic_def isMeasurement_def isModeKind_def)

lemmas attach_phase_defs =
  attach_WAIT_POWER_UP_def attach_SEND_WAKE_def attach_WAIT_WAKE_def attach_SEND_STOP_def
  attach_WAIT_STOP_def attach_SEND_READ_COMMAND_def attach_WAIT_EXECUTION_def
  attach_READ_RESPONSE_def attach_SEND_VERIFY_COMMAND_def attach_READ_VERIFY_RESPONSE_def

lemmas measurement_phase_defs =
  meas_SEND_COMMAND_def meas_WAIT_EXECUTION_def meas_SEND_READY_COMMAND_def
  meas_READ_READY_RESPONSE_def meas_SEND_READ_COMMAND_def meas_READ_RESPONSE_def

lemmas diagnostic_phase_defs =
  diag_send_def diag_SEND_COMMAND_def diag_WAIT_EXECUTION_def diag_READ_RESPONSE_def

lemmas maintenance_phase_defs =
  maint_send_def maint_SEND_COMMAND_def maint_WAIT_EXECUTION_def maint_READ_DEFERRED_RESULT_def
  maint_SEND_VERIFY_COMMAND_def maint_verifyVariant_def maint_READ_VERIFY_RESPONSE_def

lemmas mode_phase_defs =
  write_SEND_COMMAND_def write_WAIT_EXECUTION_def write_SEND_READ_COMMAND_def
  write_READ_RESPONSE_def write_SEND_VERIFY_COMMAND_def write_READ_VERIFY_RESPONSE_def

lemma staged_rank:
  assumes "staged a u (fr_drv fr)"
  obtains r where "rank (rq_kind (a_request a)) (activePhase (fr_drv fr)) (activeIndex (fr_drv fr)) = Some r"
    and "unat (a_callbacksUsed (d_active (fr_drv fr))) + r \<le> u"
    and "running a u (fr_drv fr)" and "activeKind (fr_drv fr) = rq_kind (a_request a)"
  using assms running_kind unfolding staged_def by metis

lemmas write_wrappers = writeCommand_def writeCommandWithWord_def

lemma stepAttach_advances:
  assumes cb: "hasCallback (fr_drv fr)" and st: "staged a u (fr_drv fr)"
    and k: "rq_kind (a_request a) = Kind_ATTACH"
  shows "advances a u (stepAttach fr)"
proof -
  have rk: "rank Kind_ATTACH p i = rankAttach p i" for p i by (simp add: rank_def)
  from st show ?thesis
  proof (rule staged_rank)
    fix r
    assume "rank (rq_kind (a_request a)) (activePhase (fr_drv fr)) (activeIndex (fr_drv fr)) = Some r"
      and "unat (a_callbacksUsed (d_active (fr_drv fr))) + r \<le> u" and "running a u (fr_drv fr)"
      and "activeKind (fr_drv fr) = rq_kind (a_request a)"
    then show ?thesis
      by (cases "activePhase (fr_drv fr)")
        (auto simp: stepAttach_def attach_phase_defs write_wrappers rk k provided_def Let_def
       split: if_splits
       intro!: advances_write [OF cb st] advances_read [OF cb st] advances_toPhase advances_wait [OF st] advances_finish
       dest: transferredD(5))
  qed
qed

lemma stepMeasurement_advances:
  assumes cb: "hasCallback (fr_drv fr)" and st: "staged a u (fr_drv fr)"
    and k: "isMeasurement (rq_kind (a_request a))"
  shows "advances a u (stepMeasurement fr)"
proof -
  have rk: "rank (rq_kind (a_request a)) p i = rankMeasurement (rq_kind (a_request a)) p" for p i
    using k by (auto simp: rank_def isMeasurement_def)
  from st show ?thesis
  proof (rule staged_rank)
    fix r
    assume "rank (rq_kind (a_request a)) (activePhase (fr_drv fr)) (activeIndex (fr_drv fr)) = Some r"
      and "unat (a_callbacksUsed (d_active (fr_drv fr))) + r \<le> u" and "running a u (fr_drv fr)"
      and "activeKind (fr_drv fr) = rq_kind (a_request a)"
    then show ?thesis
      by (cases "activePhase (fr_drv fr)")
        (auto simp: stepMeasurement_def measurement_phase_defs write_wrappers rk provided_def Let_def
       split: if_splits
       intro!: advances_write [OF cb st] advances_read [OF cb st] advances_toPhase advances_wait [OF st] advances_finish
       dest: transferredD(5))
  qed
qed

lemma stepDiagnostic_advances:
  assumes cb: "hasCallback (fr_drv fr)" and st: "staged a u (fr_drv fr)"
    and k: "isDiagnostic (rq_kind (a_request a))"
  shows "advances a u (stepDiagnostic fr)"
proof -
  have rk: "rank (rq_kind (a_request a)) p i = rankDiagnostic (rq_kind (a_request a)) p" for p i
    using k by (auto simp: rank_def isDiagnostic_def isMeasurement_def)
  from st show ?thesis
  proof (rule staged_rank)
    fix r
    assume "rank (rq_kind (a_request a)) (activePhase (fr_drv fr)) (activeIndex (fr_drv fr)) = Some r"
      and "unat (a_callbacksUsed (d_active (fr_drv fr))) + r \<le> u" and "running a u (fr_drv fr)"
      and "activeKind (fr_drv fr) = rq_kind (a_request a)"
    then show ?thesis
      by (cases "activePhase (fr_drv fr)")
        (auto simp: stepDiagnostic_def diagnostic_phase_defs write_wrappers rk provided_def Let_def
       split: if_splits
       intro!: advances_write [OF cb st] advances_read [OF cb st] advances_toPhase advances_wait [OF st] advances_finish
       dest: transferredD(5))
  qed
qed

lemma stepMode_advances:
  assumes cb: "hasCallback (fr_drv fr)" and st: "staged a u (fr_drv fr)"
    and k: "isModeKind (rq_kind (a_request a))"
  shows "advances a u (stepMode fr)"
proof -
  have rk: "rank (rq_kind (a_request a)) p i = rankMode (rq_kind (a_request a)) p i" for p i
    using k by (auto simp: rank_def isDiagnostic_def isMeasurement_def isModeKind_def)
  from st show ?thesis
  proof (rule staged_rank)
    fix r
    assume "rank (rq_kind (a_request a)) (activePhase (fr_drv fr)) (activeIndex (fr_drv fr)) = Some r"
      and "unat (a_callbacksUsed (d_active (fr_drv fr))) + r \<le> u" and "running a u (fr_drv fr)"
      and "activeKind (fr_drv fr) = rq_kind (a_request a)"
    then show ?thesis
      by (cases "activePhase (fr_drv fr)")
        (auto simp: stepMode_def mode_phase_defs write_wrappers rk provided_def Let_def
       split: if_splits
       intro!: advances_write [OF cb st] advances_read [OF cb st] advances_toPhase advances_wait [OF st] advances_finish
       dest: transferredD(5))
  qed
qed

lemma stepMaintenance_advances:
  assumes cb: "hasCallback (fr_drv fr)" and st: "staged a u (fr_drv fr)"
    and k: "isMaintenance (rq_kind (a_request a))"
  shows "advances a u (stepMaintenance fr)"
proof -
  have rk: "rank (rq_kind (a_request a)) p i = rankMaintenance (rq_kind (a_request a)) p i" for p i
    using k by (cases "rq_kind (a_request a)") (simp_all add: isDiagnostic_def)
  from st show ?thesis
  proof (rule staged_rank)
    fix r
    assume "rank (rq_kind (a_request a)) (activePhase (fr_drv fr)) (activeIndex (fr_drv fr)) = Some r"
      and "unat (a_callbacksUsed (d_active (fr_drv fr))) + r \<le> u" and "running a u (fr_drv fr)"
      and "activeKind (fr_drv fr) = rq_kind (a_request a)"
    then show ?thesis
      by (cases "activePhase (fr_drv fr)")
        (auto simp: stepMaintenance_def maintenance_phase_defs persistIndeterminate_def persistNothing_def resultKind_def write_wrappers rk provided_def Let_def
       split: if_splits
       intro!: advances_write [OF cb st] advances_read [OF cb st] advances_toPhase advances_wait [OF st] advances_finish
       dest: transferredD(5))
  qed
qed

lemma validateReturnedSetting_status [simp]:
  "\<not> inProgress (validateReturnedSetting k v)"
  by (simp add: validateReturnedSetting_def split: ConfigurationField.split)

lemma readKindAt_not [simp]:
  "readKindAt i \<noteq> Kind_READ_IDENTITY" "readKindAt i \<noteq> Kind_READ_SENSOR_VARIANT"
  "readKindAt i \<noteq> Kind_READ_DATA_READY"
  by (cases "unat i < 7"; auto dest!: u8_cases_7 simp: readKindAt_def KINDS_def)+

lemma stepSetting_advances:
  assumes cb: "hasCallback (fr_drv fr)" and st: "staged a u (fr_drv fr)"
    and k: "isSettingWrite (rq_kind (a_request a))"
  shows "advances a u (stepSetting fr)"
proof -
  have rk: "rank (rq_kind (a_request a)) p i = rankSetting p i" for p i
    using k by (cases "rq_kind (a_request a)") simp_all
  have sendw: "advances a u (setting_sendWrite fr)"
    if p: "activePhase (fr_drv fr) = Phase_SEND_COMMAND" and i: "activeIndex (fr_drv fr) = 1"
  proof -
    obtain status fr' where w: "writeCommandWithWord (writeCommandFor (activeKind (fr_drv fr)))
        (a_desiredRaw (d_active (fr_drv fr))) True fr = (status, fr')"
      by (metis surj_pair)
    note spec = writeBytes_spec [OF cb w [unfolded write_wrappers]]
    have r: "rank (activeKind (fr_drv fr)) (activePhase (fr_drv fr)) (activeIndex (fr_drv fr)) = Some (Suc 2)"
      using st running_kind [OF staged_running [OF st]] by (simp add: rk p i)
    note tcases = transfer_cases [OF spec st r]
    show ?thesis
    proof (cases "ok status")
      case True
      with tcases(1) show ?thesis
        by (auto simp: setting_sendWrite_def w on_ok_def ok_not_inProgress rk
            intro!: advances_toPhase)
    next
      case False
      with tcases(2,3) show ?thesis
        by (auto simp: setting_sendWrite_def w on_ok_def intro!: advances_error)
    qed
  qed
  from st show ?thesis
  proof (rule staged_rank)
    fix r
    assume "rank (rq_kind (a_request a)) (activePhase (fr_drv fr)) (activeIndex (fr_drv fr)) = Some r"
      and "unat (a_callbacksUsed (d_active (fr_drv fr))) + r \<le> u" and "running a u (fr_drv fr)"
      and "activeKind (fr_drv fr) = rq_kind (a_request a)"
    then show ?thesis
      by (cases "activePhase (fr_drv fr)")
        (auto simp: stepSetting_def setting_SEND_COMMAND_def setting_sendRead_def setting_sendVerify_def
       setting_WAIT_EXECUTION_def setting_READ_RESPONSE_def setting_compare_def setting_verify_def write_wrappers rk provided_def Let_def
       split: if_splits
       intro!: sendw advances_write [OF cb st] advances_read [OF cb st] advances_toPhase advances_wait [OF st] advances_finish advances_error)
  qed
qed

lemmas read_phase_defs =
  read_SEND_COMMAND_def read_WAIT_EXECUTION_def read_SEND_VERIFY_COMMAND_def
  read_READ_VERIFY_RESPONSE_def

lemma rank_read: "isReadKind k \<Longrightarrow> rank k p i = rankRead k p i"
  by (cases k) simp_all

lemma read_continue_advances:
  assumes run: "running a u (fr_drv fr)" and k: "isReadKind (rq_kind (a_request a))"
    and i: "rq_kind (a_request a) = Kind_READ_CONFIGURATION \<Longrightarrow> unat (activeIndex (fr_drv fr)) < 7 \<and>
            unat (a_callbacksUsed (d_active (fr_drv fr))) + (12 - 2 * unat (activeIndex (fr_drv fr))) \<le> u"
  shows "advances a u (read_continue fr)"
proof (cases "rq_kind (a_request a) = Kind_READ_CONFIGURATION \<and> \<not> activeIndex (fr_drv fr) \<ge> 6")
  case True
  let ?i = "activeIndex (fr_drv fr)"
  have "unat (?i + 1) = unat ?i + 1"
    using True by (simp add: unat_word_ariths word_less_nat_alt not_le)
  moreover have "unat ?i < 6"
    using True by (simp add: word_less_nat_alt not_le)
  ultimately show ?thesis
    using True run i
    by (auto simp: read_continue_def running_kind Let_def intro!: advances_toPhase)
next
  case False
  then show ?thesis
    using run by (auto simp: read_continue_def running_kind Let_def intro!: advances_finish)
qed

lemma partialOr_advances:
  "running a u (fr_drv fr) \<Longrightarrow> \<not> ok status \<Longrightarrow> \<not> inProgress status \<Longrightarrow>
   advances a u (partialOr status fr)"
  by (simp add: partialOr_def advances_finish advances_error)

lemma rankRead_response_pos: "rankRead k Phase_READ_RESPONSE i = Some n \<Longrightarrow> 0 < n"
  by (auto simp: provided_def split: if_splits)

lemma read_READ_RESPONSE_advances:
  assumes cb: "hasCallback (fr_drv fr)" and st: "staged a u (fr_drv fr)"
    and k: "isReadKind (rq_kind (a_request a))" and p: "activePhase (fr_drv fr) = Phase_READ_RESPONSE"
  shows "advances a u (read_READ_RESPONSE fr)"
proof -
  let ?rk = "effectiveReadKind (fr_drv fr)"
  obtain status words fr' where w: "readWords (if ?rk = Kind_READ_IDENTITY then 3 else 1) fr = (status, words, fr')"
    by (metis prod_cases3)
  note spec = readWords_spec [OF cb w]
  have kd: "activeKind (fr_drv fr) = rq_kind (a_request a)"
    using running_kind [OF staged_running [OF st]] .
  obtain r where r: "rankRead (rq_kind (a_request a)) Phase_READ_RESPONSE (activeIndex (fr_drv fr)) = Some (Suc r)"
  proof -
    obtain n where n: "rankRead (rq_kind (a_request a)) Phase_READ_RESPONSE (activeIndex (fr_drv fr)) = Some n"
      using st k kd p by (auto simp: staged_def rank_read)
    then have "0 < n" by (rule rankRead_response_pos)
    with n that show ?thesis by (auto simp: gr0_conv_Suc)
  qed
  then have r': "rank (activeKind (fr_drv fr)) (activePhase (fr_drv fr)) (activeIndex (fr_drv fr)) = Some (Suc r)"
    using k kd p by (simp add: rank_read)
  note tcases = transfer_cases [OF spec(1) st r']
  have tr: "transferred (fr_drv fr) (fr_drv fr')"
    using spec(1) by (simp add: transfer_spec_def)
  note idx = transferredD(5) [OF tr]
  have id: "?rk = Kind_READ_IDENTITY \<Longrightarrow> rq_kind (a_request a) = Kind_READ_IDENTITY \<and> r = 2"
    using r kd by (auto simp: effectiveReadKind_def provided_def split: if_splits)
  consider (prog) "inProgress status" | (err) "\<not> ok status" "\<not> inProgress status" | (ok) "ok status" "\<not> inProgress status"
    using ok_not_inProgress by blast
  then show ?thesis
  proof cases
    case prog
    then have "\<not> ok status" using ok_not_inProgress by blast
    with prog tcases(2) show ?thesis by (simp add: read_READ_RESPONSE_def w)
  next
    case err
    with tcases(3) show ?thesis by (simp add: read_READ_RESPONSE_def w partialOr_advances)
  next
    case ok
    then have run: "running a u (fr_drv fr')" and used: "unat (a_callbacksUsed (d_active (fr_drv fr'))) + r \<le> u"
      using tcases(1) by simp_all
    have cont: "advances a u (read_continue (inDrv f fr'))"
      if "running a u (f (fr_drv fr'))" "activeIndex (f (fr_drv fr')) = activeIndex (fr_drv fr')"
        "a_callbacksUsed (d_active (f (fr_drv fr'))) = a_callbacksUsed (d_active (fr_drv fr'))" for f
      using that r used idx
      by (intro read_continue_advances) (auto simp: k provided_def split: if_splits)
    show ?thesis
      using ok run used id idx
      by (auto simp: read_READ_RESPONSE_def w Let_def read_identityWords_def read_variantWord_def
          read_settingWord_def
          intro!: advances_toPhase advances_finish partialOr_advances cont)
  qed
qed

lemma stepReadLike_advances:
  assumes cb: "hasCallback (fr_drv fr)" and st: "staged a u (fr_drv fr)"
    and k: "isReadKind (rq_kind (a_request a))"
  shows "advances a u (stepReadLike fr)"
proof -
  note rk = rank_read [OF k]
  from st show ?thesis
  proof (rule staged_rank)
    fix r
    assume "rank (rq_kind (a_request a)) (activePhase (fr_drv fr)) (activeIndex (fr_drv fr)) = Some r"
      and "unat (a_callbacksUsed (d_active (fr_drv fr))) + r \<le> u" and "running a u (fr_drv fr)"
      and "activeKind (fr_drv fr) = rq_kind (a_request a)"
    then show ?thesis
      by (cases "activePhase (fr_drv fr)")
        (auto simp: stepReadLike_def read_phase_defs write_wrappers rk provided_def Let_def
       effectiveReadKind_def
       split: if_splits
       intro!: read_READ_RESPONSE_advances [OF cb st k] advances_write [OF cb st] advances_read [OF cb st] advances_toPhase advances_wait [OF st] advances_finish)
  qed
qed
subsection \<open>The dispatcher\<close>

lemma step_advances:
  assumes cb: "hasCallback (fr_drv fr)" and st: "staged a u (fr_drv fr)"
  shows "advances a u (step fr)"
proof -
  have run: "running a u (fr_drv fr)" and kd: "activeKind (fr_drv fr) = rq_kind (a_request a)"
    using staged_running [OF st] running_kind by blast+
  have due: "advances a u (progressing message, inDrv (\<lambda>d. setDue (d_nextSafeCommandMs d) d) fr)" for message
    using st by (auto simp: advances_def staged_def) (simp add: setDue_def)
  have "rank (rq_kind (a_request a)) (activePhase (fr_drv fr)) (activeIndex (fr_drv fr)) \<noteq> None"
    using st kd by (auto simp: staged_def)
  then show ?thesis
    using run due advances_error [OF run]
      stepAttach_advances [OF cb st] stepMeasurement_advances [OF cb st]
      stepMaintenance_advances [OF cb st] stepDiagnostic_advances [OF cb st]
      stepSetting_advances [OF cb st] stepMode_advances [OF cb st] stepReadLike_advances [OF cb st]
    by (auto simp: step_def kd Let_def rank_def isMeasurement_def isModeKind_def stepWriteLike_def
        split: if_splits)
qed

end
