(* ===== verification/Scd_Sensor.thy ===== *)
theory Scd_Sensor
  imports Scd_Steps
begin

text \<open>
  What the driver knows of the sensor, and that every step keeps it consistent. \<open>core\<close> relates the
  attachment, the mode, the identity, the cached configuration and the cached sample; \<open>linked\<close> ties
  the running operation to the attachment; \<open>sensor_inv\<close> is both, with the parts of the driver that
  only the owner's calls change held fixed (\<open>binding\<close>). The helpers of the step functions keep
  \<open>sound\<close> one by one (collection \<open>sound_intros\<close>), and the rules \<open>kept_*\<close> compose them along a step.
\<close>

unbundle bit_operations_syntax

named_theorems sound_intros \<open>helpers that keep the sensor invariant\<close>

definition needsAttached :: "OperationKind \<Rightarrow> bool" where
  "needsAttached k \<longleftrightarrow> k \<noteq> Kind_ATTACH \<and> k \<noteq> Kind_WAKE_UP \<and> \<not> resetKind k \<and> \<not> isDiagnostic k"

definition config_ok :: "ConfigurationSnapshot \<Rightarrow> bool" where
  "config_ok c \<longleftrightarrow>
     (\<forall>n. bit (cs_verifiedMask c) n \<longrightarrow> n < 7) \<and>
     (\<forall>n. bit (cs_dirtyMask c) n \<longrightarrow> n < 7 \<and> n \<noteq> 2) \<and>
     (bit (cs_verifiedMask c) 0 \<longrightarrow>
        0 \<le> cs_temperatureOffsetMilliC c \<and> cs_temperatureOffsetMilliC c \<le> 175000) \<and>
     (bit (cs_verifiedMask c) 1 \<longrightarrow> unat (cs_sensorAltitudeM c) \<le> 3000) \<and>
     (bit (cs_verifiedMask c) 2 \<longrightarrow>
        70000 \<le> unat (cs_ambientPressurePa c) \<and> unat (cs_ambientPressurePa c) \<le> 120000) \<and>
     (bit (cs_verifiedMask c) 5 \<longrightarrow> 4 dvd unat (cs_ascInitialPeriodHours c)) \<and>
     (bit (cs_verifiedMask c) 6 \<longrightarrow> 4 dvd unat (cs_ascStandardPeriodHours c))"

definition sample_ok :: "FixedSample \<Rightarrow> bool" where
  "sample_ok s \<longleftrightarrow> - 45000 \<le> fs_temperatureMilliC s \<and> fs_temperatureMilliC s \<le> 130000 \<and>
     unat (fs_humidityMilliPercent s) \<le> 100000 \<and> fs_sequence s \<noteq> 0"

definition core :: "'w driver \<Rightarrow> bool" where
  "core d \<longleftrightarrow>
     d_attached d = (\<not> d_reconciliationRequired d) \<and>
     d_attached d = (d_operatingMode d \<noteq> Mode_UNKNOWN) \<and>
     (d_attached d \<longrightarrow> idn_valid (d_identity d) \<and> idn_sensorEpoch (d_identity d) = d_sensorEpoch d \<and>
        \<not> strictMismatch (idn_variant (d_identity d)) d \<and>
        cs_sensorEpoch (d_configuration d) = d_sensorEpoch d) \<and>
     (d_latestSampleValid d \<longrightarrow> d_attached d \<and> fs_sensorEpoch (d_latestSample d) = d_sensorEpoch d \<and>
        sample_ok (d_latestSample d)) \<and>
     (cs_verifiedMask (d_configuration d) \<noteq> 0 \<longrightarrow> d_attached d) \<and>
     (d_pressureCompensation d \<noteq> Field_NONE \<longrightarrow> d_attached d) \<and>
     config_ok (d_configuration d)"

definition alive :: "'w driver \<Rightarrow> bool" where
  "alive d \<longleftrightarrow> d_activeValid d \<and> \<not> d_terminalValid d"

type_synonym 'w binding = "'w Config \<times> bool \<times> u32 \<times> u32 \<times> bool"

definition binding :: "'w driver \<Rightarrow> 'w binding" where
  "binding d = (d_config d, d_bound d, d_nextGeneration d, d_lastOwnerNowMs d, d_lastOwnerNowValid d)"

definition linked :: "'w driver \<Rightarrow> bool" where
  "linked d \<longleftrightarrow> (alive d \<and> needsAttached (activeKind d) \<longrightarrow> d_attached d) \<and>
     (alive d \<and> activeKind d = Kind_WAKE_UP \<longrightarrow> cs_sensorEpoch (d_configuration d) = d_sensorEpoch d)"

definition sound :: "'w binding \<Rightarrow> 'w driver \<Rightarrow> bool" where
  "sound b d \<longleftrightarrow> binding d = b \<and> core d"

definition sensor_inv :: "'w binding \<Rightarrow> 'w driver \<Rightarrow> bool" where
  "sensor_inv b d \<longleftrightarrow> sound b d \<and> linked d"

lemmas sensor_defs = sound_def core_def binding_def strictMismatch_def

lemma bit_mask_not: "bit (v AND NOT m) n \<longleftrightarrow> bit v n \<and> \<not> bit m n" for v m :: u16
  by (auto simp: bit_simps dest: bit_imp_le_length)

lemma fieldMask_bit: "bit (configurationFieldMask f) n \<longleftrightarrow>
   (case f of Field_NONE \<Rightarrow> False | Field_TEMPERATURE_OFFSET \<Rightarrow> n = 0 | Field_SENSOR_ALTITUDE \<Rightarrow> n = 1
     | Field_AMBIENT_PRESSURE \<Rightarrow> n = 2 | Field_ASC_ENABLED \<Rightarrow> n = 3 | Field_ASC_TARGET \<Rightarrow> n = 4
     | Field_ASC_INITIAL_PERIOD \<Rightarrow> n = 5 | Field_ASC_STANDARD_PERIOD \<Rightarrow> n = 6)"
proof -
  have "configurationFieldMask f = (case f of Field_NONE \<Rightarrow> 0 | Field_TEMPERATURE_OFFSET \<Rightarrow> push_bit 0 1 | Field_SENSOR_ALTITUDE \<Rightarrow> push_bit 1 1
     | Field_AMBIENT_PRESSURE \<Rightarrow> push_bit 2 1 | Field_ASC_ENABLED \<Rightarrow> push_bit 3 1 | Field_ASC_TARGET \<Rightarrow> push_bit 4 1
     | Field_ASC_INITIAL_PERIOD \<Rightarrow> push_bit 5 1 | Field_ASC_STANDARD_PERIOD \<Rightarrow> push_bit 6 1)"
    by (cases f) simp_all
  then show ?thesis
    by (auto simp: bit_push_bit_iff bit_1_iff simp del: push_bit_numeral push_bit_of_1 push_bit_Suc One_nat_def split: ConfigurationField.split)
qed

lemma sound_helpers [simp]:
  "sound b (setPhase p d) = sound b d"
  "sound b (setDue t d) = sound b d"
  "sound b (setFieldIndex i d) = sound b d"
  "sound b (setEffect e d) = sound b d"
  "sound b (setSettingValueChanged x d) = sound b d"
  "sound b (markCompleted m d) = sound b d"
  "sound b (publishConfiguration d) = sound b d"
  "sound b (publishIdentity d) = sound b d"
  "sound b (stashSerial s d) = sound b d"
  "sound b (setWorkingValue v d) = sound b d"
  "sound b (recordProtocolFailure st t d) = sound b d"
  "sound b (noteDataReady w d) = sound b d"
  "sound b (noteReadiness w d) = sound b d"
  "sound b (publishSample d) = sound b d"
  "sound b (storeRawWords ws c d) = sound b d"
  "sound b (storeDeferred w d) = sound b d"
  "sound b (storeCorrection w d) = sound b d"
  by (simp_all add: sensor_defs setter_defs recordProtocolFailure_def noteDataReady_def noteReadiness_def
      publishSample_def storeRawWords_def storeDeferred_def storeCorrection_def Let_def)

lemma sound_config [sound_intros]:
  "sound b d \<Longrightarrow> sound b (setPersistenceIndeterminate x d)"
  "sound b d \<Longrightarrow> sound b (clearDirty d)"
  "sound b d \<Longrightarrow> sound b (clearVerified m d)"
  "sound b d \<Longrightarrow> sound b (setPressureCompensation Field_NONE d)"
  by (auto simp: sensor_defs setter_defs config_ok_def bit_mask_not)

lemma sound_markRecon [sound_intros]: "sound b d \<Longrightarrow> sound b (markReconciliationRequired d)"
  by (simp add: sensor_defs markReconciliationRequired_def setMode_def config_ok_def Let_def)


lemma persistable_mask:
  "configurationFieldMask f AND PERSISTABLE_CONFIGURATION_FIELDS =
     (if f = Field_AMBIENT_PRESSURE then 0 else configurationFieldMask f)"
  by (cases f) (simp_all add: PERSISTABLE_CONFIGURATION_FIELDS_eq)

lemma persistable_bit: "bit (configurationFieldMask f AND PERSISTABLE_CONFIGURATION_FIELDS) n \<Longrightarrow> n < 7 \<and> n \<noteq> 2"
  by (cases f) (simp_all add: persistable_mask fieldMask_bit del: configurationFieldMask.simps)

lemma sound_markDirty [sound_intros]:
  "sound b d \<Longrightarrow> sound b (markDirty (configurationFieldMask f AND PERSISTABLE_CONFIGURATION_FIELDS) d)"
  using persistable_bit [of f] by (auto simp: sensor_defs markDirty_def config_ok_def bit_or_iff)

lemma sound_setPressureCompensation [sound_intros]:
  "sound b d \<Longrightarrow> d_attached d \<Longrightarrow> sound b (setPressureCompensation f d)"
  by (simp add: sensor_defs setPressureCompensation_def)

lemma sound_setMode [sound_intros]:
  "sound b d \<Longrightarrow> d_attached d \<Longrightarrow> m \<noteq> Mode_UNKNOWN \<Longrightarrow> sound b (setMode m e d)"
  by (simp add: sensor_defs setMode_def Let_def)

lemma sound_enterMode [sound_intros]:
  "sound b d \<Longrightarrow> d_attached d \<Longrightarrow> sound b (enterMode k d)"
  by (auto simp: enterMode_def intro!: sound_intros)

lemma sound_adoptOther [sound_intros]: "sound b d \<Longrightarrow> sound b (adoptOther s va w d)"
  by (simp add: sensor_defs adoptOther_def advanceSensorEpoch_def adoptIdentity_def resetConfiguration_def
      publishIdentity_def markReconciliationRequired_def setMode_def config_ok_def ConfigurationSnapshot_init_def Let_def)

lemma sound_adoptVariantOnly [sound_intros]: "sound b d \<Longrightarrow> sound b (adoptVariantOnly va w d)"
  by (simp add: sensor_defs adoptVariantOnly_def advanceSensorEpoch_def resetConfiguration_def
      publishIdentity_def markReconciliationRequired_def setMode_def setWorkingValue_def config_ok_def ConfigurationSnapshot_init_def Let_def)

lemma sound_attachSucceeded [sound_intros]:
  "sound b d \<Longrightarrow> \<not> strictMismatch va d \<Longrightarrow> sound b (attachSucceeded va w d)"
  by (auto simp: sensor_defs attachSucceeded_def advanceSensorEpoch_def adoptIdentity_def
      publishIdentity_def markAttached_def setMode_def config_ok_def ConfigurationSnapshot_init_def Let_def)

lemma sound_refreshVariant [sound_intros]:
  "sound b d \<Longrightarrow> d_attached d \<Longrightarrow> \<not> strictMismatch va d \<Longrightarrow> sound b (refreshVariant va w d)"
  by (simp add: sensor_defs refreshVariant_def publishIdentity_def setWorkingValue_def Let_def)

lemma sound_adoptIdentity [sound_intros]:
  "sound b d \<Longrightarrow> \<not> strictMismatch va d \<Longrightarrow> sound b (adoptIdentity s va w d)"
  by (auto simp: sensor_defs adoptIdentity_def)

lemma sound_wake:
  "sound b d \<Longrightarrow> \<not> strictMismatch va d \<Longrightarrow> cs_sensorEpoch (d_configuration d) = d_sensorEpoch d \<Longrightarrow>
   sound b (markAttached (publishIdentity (adoptIdentity s va w d)))"
  by (simp add: sensor_defs adoptIdentity_def publishIdentity_def markAttached_def setMode_def Let_def)

lemma sound_resetSucceeded [sound_intros]:
  "sound b d \<Longrightarrow> \<not> strictMismatch va d \<Longrightarrow> sound b (resetSucceeded s va w d)"
  by (simp add: sensor_defs resetSucceeded_def adoptIdentity_def publishIdentity_def publishConfiguration_def markAttached_def
      advanceSensorEpoch_def setMode_def config_ok_def Let_def)

lemma sample_ok_convert:
  "sq \<noteq> 0 \<Longrightarrow> sample_ok \<lparr>fs_co2Ppm = c, fs_temperatureMilliC = convertTemperatureMilliC t,
     fs_humidityMilliPercent = convertHumidityMilliPercent h, fs_capturedAtMs = n,
     fs_sensorEpoch = e, fs_sequence = sq, fs_mode = m, fs_flags = f\<rparr>"
proof -
  have "uint (convertHumidityMilliPercent h) \<le> 100000"
    using quot_bounds(4) [OF uint_u16, of h] by (simp only: convertHumidityMilliPercent_eq)
  then have "unat (convertHumidityMilliPercent h) \<le> 100000"
    by (subst unat_eq_nat_uint) (simp only: nat_le_iff of_nat_numeral)
  then show "sq \<noteq> 0 \<Longrightarrow> ?thesis"
    using quot_bounds(1,2) [OF uint_u16, of t]
    by (simp add: sample_ok_def convertTemperatureMilliC_eq)
qed

lemma sound_storeSample [sound_intros]:
  "sound b d \<Longrightarrow> d_attached d \<Longrightarrow> sound b (storeSample ws co2 t d)"
  by (auto simp: sensor_defs storeSample_def Let_def intro!: sample_ok_convert)

lemma validateReturnedSetting_ranges:
  assumes "ok (validateReturnedSetting k v)"
  shows "fieldFor k = Field_SENSOR_ALTITUDE \<Longrightarrow> unat v \<le> 3000"
    and "fieldFor k = Field_AMBIENT_PRESSURE \<Longrightarrow> 700 \<le> unat v \<and> unat v \<le> 1200"
    and "fieldFor k = Field_ASC_INITIAL_PERIOD \<Longrightarrow> 4 dvd unat v"
    and "fieldFor k = Field_ASC_STANDARD_PERIOD \<Longrightarrow> 4 dvd unat v"
  using assms by (auto simp: validateReturnedSetting_def word_less_nat_alt not_less dvd_eq_mod_eq_0 split: if_splits)

lemma config_ok_applyField:
  assumes "config_ok c" and "ok (validateReturnedSetting k v)"
  shows "config_ok (fst (applyField (fieldFor k) v (c, w))\<lparr>cs_verifiedMask := cs_verifiedMask c OR configurationFieldMask (fieldFor k), cs_sensorEpoch := e\<rparr>)"
proof -
  note ranges = validateReturnedSetting_ranges [OF assms(2)] temperature.dec_valid [of v] pressure.dec_valid [of v]
  have "n < 7" if "bit (configurationFieldMask (fieldFor k)) n" for n
    using that by (auto simp: fieldMask_bit split: ConfigurationField.splits)
  then show ?thesis
    using assms(1) ranges
    by (cases "fieldFor k") (simp_all add: config_ok_def bit_or_iff fieldMask_bit del: configurationFieldMask.simps)
qed

lemma sound_applyReadValue [sound_intros]:
  assumes "sound b d" and "d_attached d" and "ok (validateReturnedSetting k v)"
  shows "sound b (applyReadValue k v d)"
proof -
  obtain c w where cw: "applyField (fieldFor k) v (d_configuration d, d_workingValue d) = (c, w)"
    by (metis surj_pair)
  have keep: "cs_verifiedMask c = cs_verifiedMask (d_configuration d)"
    using cw by (cases "fieldFor k") auto
  show ?thesis
    using assms(1,2) config_ok_applyField [OF _ assms(3), where c = "d_configuration d" and
        w = "d_workingValue d" and e = "d_sensorEpoch d"] keep cw
    by (auto simp: sensor_defs applyReadValue_def Let_def)
qed


definition link :: "'w driver \<Rightarrow> bool \<times> OperationKind \<times> bool \<times> u32 \<times> u32" where
  "link d = (alive d, activeKind d, d_attached d, cs_sensorEpoch (d_configuration d), d_sensorEpoch d)"

lemma linked_cong: "link d' = link d \<Longrightarrow> linked d' = linked d"
  by (simp add: linked_def link_def)

lemma link_helpers [simp]:
  "link (setPhase p d) = link d"
  "link (setDue t d) = link d"
  "link (setFieldIndex i d) = link d"
  "link (setEffect e d) = link d"
  "link (setSettingValueChanged x d) = link d"
  "link (markCompleted m d) = link d"
  "link (clearVerified m d) = link d"
  "link (markDirty m d) = link d"
  "link (clearDirty d) = link d"
  "link (setPersistenceIndeterminate x d) = link d"
  "link (setPressureCompensation f d) = link d"
  "link (stashSerial s d) = link d"
  "link (setWorkingValue v d) = link d"
  "link (publishConfiguration d) = link d"
  "link (publishIdentity d) = link d"
  "link (recordProtocolFailure st t d) = link d"
  "link (noteReadiness w d) = link d"
  "link (noteDataReady w d) = link d"
  "link (noteSettingWrite d) = link d"
  "link (rejectSetting st t d) = link d"
  "link (refreshVariant va w d) = link d"
  by (simp_all add: link_def alive_def driver_defs noteReadiness_def noteDataReady_def noteSettingWrite_def
      rejectSetting_def refreshVariant_def Let_def)

lemmas linked_helpers [simp] = link_helpers [THEN linked_cong]

lemma linkD:
  assumes "link d' = link d"
  shows "activeKind d' = activeKind d" and "d_attached d' = d_attached d" and "alive d' = alive d"
  using assms by (simp_all add: link_def)

lemmas kind_link [simp] = link_helpers [THEN linkD(1)]
lemmas attached_link [simp] = link_helpers [THEN linkD(2)]

lemma kind_helpers [simp]:
  "activeKind (markReconciliationRequired d) = activeKind d"
  "activeKind (applyReadValue k v d) = activeKind d"
  "d_attached (applyReadValue k v d) = d_attached d"
  "alive (applyReadValue k v d) = alive d"
  by (simp_all add: markReconciliationRequired_def setMode_def applyReadValue_def alive_def Let_def split: prod.split)

lemma linked_applyReadValue: "linked d \<Longrightarrow> linked (applyReadValue k v d)"
proof -
  assume l: "linked d"
  obtain c w where cw: "applyField (fieldFor k) v (d_configuration d, d_workingValue d) = (c, w)"
    by (metis surj_pair)
  with l show ?thesis by (simp add: linked_def alive_def applyReadValue_def Let_def)
qed

lemma linked_markRecon: "linked d \<Longrightarrow> \<not> needsAttached (activeKind d) \<Longrightarrow> linked (markReconciliationRequired d)"
  by (simp add: linked_def alive_def markReconciliationRequired_def setMode_def Let_def)

lemma sound_noteSettingWrite [sound_intros]:
  assumes "sound b d"
  shows "sound b (noteSettingWrite d)"
proof -
  define m where "m = configurationFieldMask (fieldFor (activeKind d))"
  have "sound b (clearVerified m d)"
    using assms by (rule sound_config)
  moreover have "sound b (markDirty (m AND PERSISTABLE_CONFIGURATION_FIELDS) (clearVerified m d))"
    unfolding m_def using assms by (intro sound_intros)
  ultimately show ?thesis
    using assms by (simp add: noteSettingWrite_def Let_def sound_config flip: m_def)
qed

lemma sound_rejectSetting [sound_intros]: "sound b d \<Longrightarrow> sound b (rejectSetting st t d)"
  by (simp add: rejectSetting_def sound_config)

lemma link_finish: "\<not> alive (finishOperation outcome effect status t d)"
  by (simp add: alive_def finishOperation_def recordOperationOutcome_def Let_def)

lemma sound_recordOperationOutcome [simp]: "sound b (recordOperationOutcome r d) = sound b d"
  by (simp add: sensor_defs recordOperationOutcome_def Let_def)

lemma sound_slots [simp]:
  "sound b (d\<lparr>d_terminal := r, d_terminalValid := x, d_active := a, d_activeValid := y\<rparr>) = sound b d"
  by (simp add: sensor_defs)

lemma sensor_inv_finish:
  assumes "sound b d"
  shows "sensor_inv b (finishOperation outcome effect status t d)"
proof -
  have "sound b (settleReset t d)"
    using assms by (simp add: settleReset_def sound_config)
  then have "sound b (finishOperation outcome effect status t d)"
    using assms by (simp add: finishOperation_def Let_def)
  then show ?thesis
    using link_finish [of outcome effect status t d] by (simp add: sensor_inv_def linked_def)
qed

definition kept :: "'w binding \<Rightarrow> Status \<times> 'w frame \<Rightarrow> bool" where
  "kept b res \<longleftrightarrow> sensor_inv b (fr_drv (snd res))"

lemma kept_finish: "sound b (fr_drv fr) \<Longrightarrow> kept b (finishStep outcome effect status fr)"
  by (simp add: kept_def finishStep_def sensor_inv_finish)

lemma kept_pair: "sensor_inv b (fr_drv fr) \<Longrightarrow> kept b (status, fr)"
  by (simp add: kept_def)

lemma kept_toPhase:
  "sensor_inv b (fr_drv fr) \<Longrightarrow> kept b (toPhase p message fr)"
  "sensor_inv b (fr_drv fr) \<Longrightarrow> kept b (toPhaseAt p ms message fr)"
  by (simp_all add: kept_def toPhase_def toPhaseAt_def sensor_inv_def)

lemma kept_wait: "sensor_inv b (fr_drv fr) \<Longrightarrow> kept b (k fr) \<Longrightarrow> kept b (waitDue message k fr)"
  by (simp add: waitDue_def kept_pair)

lemma sound_transferred: "transferred d d' \<Longrightarrow> sound b d' = sound b d"
  by (auto simp: transferred_def sensor_defs)

lemma link_transferred: "transferred d d' \<Longrightarrow> link d' = link d"
  by (simp add: transferred_def sameOperation_def link_def alive_def)

lemma kept_write:
  assumes cb: "hasCallback (fr_drv fr)" and al: "alive (fr_drv fr)" and inv: "sensor_inv b (fr_drv fr)"
    and k: "\<And>fr'. sensor_inv b (fr_drv fr') \<Longrightarrow> alive (fr_drv fr') \<Longrightarrow>
      activeKind (fr_drv fr') = activeKind (fr_drv fr) \<Longrightarrow> kept b (k fr')"
  shows "kept b (on_ok (writeBytes data intent effectful fr) k)"
proof -
  obtain status fr' where w: "writeBytes data intent effectful fr = (status, fr')"
    by (metis surj_pair)
  have tr: "transferred (fr_drv fr) (fr_drv fr')"
    using writeBytes_spec [OF cb w] by (simp add: transfer_spec_def)
  have inv': "sensor_inv b (fr_drv fr')"
    using inv by (simp add: sensor_inv_def sound_transferred [OF tr] linked_cong [OF link_transferred [OF tr]])
  show ?thesis
    using k [OF inv'] al linkD [OF link_transferred [OF tr]] inv' by (simp add: w on_ok_def kept_pair)
qed

lemma kept_read:
  assumes cb: "hasCallback (fr_drv fr)" and al: "alive (fr_drv fr)" and inv: "sensor_inv b (fr_drv fr)"
    and k: "\<And>words fr'. sensor_inv b (fr_drv fr') \<Longrightarrow> alive (fr_drv fr') \<Longrightarrow>
      activeKind (fr_drv fr') = activeKind (fr_drv fr) \<Longrightarrow> kept b (k words fr')"
  shows "kept b (on_words (readWords count fr) k)"
proof -
  obtain status words fr' where w: "readWords count fr = (status, words, fr')"
    by (metis prod_cases3)
  have tr: "transferred (fr_drv fr) (fr_drv fr')"
    using readWords_spec(1) [OF cb w] by (simp add: transfer_spec_def)
  have inv': "sensor_inv b (fr_drv fr')"
    using inv by (simp add: sensor_inv_def sound_transferred [OF tr] linked_cong [OF link_transferred [OF tr]])
  show ?thesis
    using k [OF inv'] al linkD [OF link_transferred [OF tr]] inv' by (simp add: w on_words_def kept_pair)
qed

lemma attachedI: "linked d \<Longrightarrow> alive d \<Longrightarrow> needsAttached (activeKind d) \<Longrightarrow> d_attached d"
  by (simp add: linked_def)

lemma stepAttach_kept:
  assumes cb: "hasCallback (fr_drv fr)" and al: "alive (fr_drv fr)" and inv: "sensor_inv b (fr_drv fr)"
    and k: "activeKind (fr_drv fr) = Kind_ATTACH"
  shows "kept b (stepAttach fr)"
proof -
  have n: "\<not> needsAttached Kind_ATTACH" by (simp add: needsAttached_def)
  show ?thesis using inv k n
    by (cases "activePhase (fr_drv fr)")
     (auto simp: stepAttach_def attach_phase_defs write_wrappers sensor_inv_def Let_def
      intro!: kept_write [OF cb al inv] kept_read [OF cb al inv] kept_toPhase kept_wait [OF inv] kept_finish kept_pair linked_markRecon sound_intros)
qed

lemma stepMeasurement_kept:
  assumes cb: "hasCallback (fr_drv fr)" and al: "alive (fr_drv fr)" and inv: "sensor_inv b (fr_drv fr)"
    and k: "isMeasurement (activeKind (fr_drv fr))"
  shows "kept b (stepMeasurement fr)"
proof -
  have n: "needsAttached (activeKind (fr_drv fr))" using k by (auto simp: needsAttached_def isMeasurement_def isDiagnostic_def)
  show ?thesis using inv n
    by (cases "activePhase (fr_drv fr)")
     (auto simp: stepMeasurement_def measurement_phase_defs write_wrappers sensor_inv_def Let_def
      intro!: kept_write [OF cb al inv] kept_read [OF cb al inv] kept_toPhase kept_wait [OF inv] kept_finish kept_pair sound_intros attachedI)
qed

lemma stepDiagnostic_kept:
  assumes cb: "hasCallback (fr_drv fr)" and al: "alive (fr_drv fr)" and inv: "sensor_inv b (fr_drv fr)"
    and k: "isDiagnostic (activeKind (fr_drv fr))"
  shows "kept b (stepDiagnostic fr)"
proof -
  have n: "\<not> needsAttached (activeKind (fr_drv fr))" using k by (auto simp: needsAttached_def)
  show ?thesis using inv n
    by (cases "activePhase (fr_drv fr)")
     (auto simp: stepDiagnostic_def diagnostic_phase_defs write_wrappers sensor_inv_def Let_def
      intro!: kept_write [OF cb al inv] kept_read [OF cb al inv] kept_toPhase kept_wait [OF inv] kept_finish kept_pair sound_intros linked_markRecon)
qed

lemma stepMaintenance_kept:
  assumes cb: "hasCallback (fr_drv fr)" and al: "alive (fr_drv fr)" and inv: "sensor_inv b (fr_drv fr)"
    and k: "isMaintenance (activeKind (fr_drv fr))"
  shows "kept b (stepMaintenance fr)"
proof -
  have n: "resetKind (activeKind (fr_drv fr)) \<Longrightarrow> \<not> needsAttached (activeKind (fr_drv fr))" by (auto simp: needsAttached_def)
  show ?thesis using inv n
    by (cases "activePhase (fr_drv fr)")
     (auto simp: stepMaintenance_def maintenance_phase_defs settlePersist_def write_wrappers sensor_inv_def Let_def
      intro!: kept_write [OF cb al inv] kept_read [OF cb al inv] kept_toPhase kept_wait [OF inv] kept_finish kept_pair sound_intros linked_markRecon)
qed

lemma sound_wakeVerified [sound_intros]:
  "sound b d \<Longrightarrow> linked d \<Longrightarrow> alive d \<Longrightarrow> activeKind d = Kind_WAKE_UP \<Longrightarrow> \<not> strictMismatch va d \<Longrightarrow>
   sound b (markAttached (publishIdentity (adoptIdentity s va w d)))"
  by (simp add: sound_wake linked_def)

lemma stepMode_kept:
  assumes cb: "hasCallback (fr_drv fr)" and al: "alive (fr_drv fr)" and inv: "sensor_inv b (fr_drv fr)"
    and k: "isModeKind (activeKind (fr_drv fr))"
    and wake: "activePhase (fr_drv fr) = Phase_READ_VERIFY_RESPONSE \<Longrightarrow> activeKind (fr_drv fr) = Kind_WAKE_UP"
  shows "kept b (stepMode fr)"
proof -
  have n: "activeKind (fr_drv fr) \<noteq> Kind_WAKE_UP \<Longrightarrow> needsAttached (activeKind (fr_drv fr))"
      "\<not> needsAttached Kind_WAKE_UP"
    using k by (auto simp: needsAttached_def isModeKind_def isDiagnostic_def)
  show ?thesis using inv n wake
    by (cases "activePhase (fr_drv fr)")
     (auto simp: stepMode_def mode_phase_defs write_wrappers sensor_inv_def Let_def
      intro!: kept_write [OF cb al inv] kept_read [OF cb al inv] kept_toPhase kept_wait [OF inv] kept_finish kept_pair
        linked_markRecon sound_intros attachedI [OF _ al])
qed

lemma on_ok_kept: "sensor_inv b (fr_drv fr) \<Longrightarrow> kept b (k fr) \<Longrightarrow> kept b (on_ok (status, fr) k)"
  by (simp add: on_ok_def kept_pair)

lemma stepSetting_kept:
  assumes cb: "hasCallback (fr_drv fr)" and al: "alive (fr_drv fr)" and inv: "sensor_inv b (fr_drv fr)"
    and k: "isSettingWrite (activeKind (fr_drv fr))"
  shows "kept b (stepSetting fr)"
proof -
  have n: "needsAttached (activeKind (fr_drv fr))"
    using k by (cases "activeKind (fr_drv fr)") (simp_all add: needsAttached_def isDiagnostic_def)
  have sendw: "kept b (setting_sendWrite fr)"
  proof -
    obtain status fr' where w: "writeCommandWithWord (writeCommandFor (activeKind (fr_drv fr)))
        (a_desiredRaw (d_active (fr_drv fr))) True fr = (status, fr')"
      by (metis surj_pair)
    have tr: "transferred (fr_drv fr) (fr_drv fr')"
      using writeBytes_spec [OF cb w [unfolded write_wrappers]] by (simp add: transfer_spec_def)
    have "sensor_inv b (fr_drv fr')"
      using inv by (simp add: sensor_inv_def sound_transferred [OF tr] linked_cong [OF link_transferred [OF tr]])
    then show ?thesis
      by (auto simp: setting_sendWrite_def w sensor_inv_def intro!: kept_pair on_ok_kept kept_toPhase sound_intros)
  qed
  show ?thesis using inv n
    by (cases "activePhase (fr_drv fr)")
     (auto simp: stepSetting_def setting_SEND_COMMAND_def setting_sendRead_def setting_sendVerify_def
       setting_WAIT_EXECUTION_def setting_READ_RESPONSE_def setting_compare_def setting_verify_def
       write_wrappers sensor_inv_def Let_def
      intro!: sendw kept_write [OF cb al inv] kept_read [OF cb al inv] kept_toPhase kept_wait [OF inv] kept_finish kept_pair
        sound_intros linked_applyReadValue attachedI)
qed

lemma read_continue_kept:
  assumes "sensor_inv b (fr_drv fr)"
    and "activeKind (fr_drv fr) = Kind_READ_CONFIGURATION \<Longrightarrow>
      cs_verifiedMask (d_configuration (fr_drv fr)) OR fieldAt (activeIndex (fr_drv fr)) =
      cs_verifiedMask (d_configuration (fr_drv fr))"
  shows "kept b (read_continue fr)"
proof -
  have "markVerified (fieldAt (activeIndex d)) d = d"
    if "cs_verifiedMask (d_configuration d) OR fieldAt (activeIndex d) = cs_verifiedMask (d_configuration d)"
    for d :: "'a driver"
    using that by (simp add: markVerified_def)
  moreover have "markVerified m (markCompleted m' d) = markCompleted m' (markVerified m d)" for m m' and d :: "'a driver"
    by (simp add: markVerified_def markCompleted_def)
  ultimately show ?thesis
    using assms by (auto simp: read_continue_def Let_def sensor_inv_def intro!: kept_finish kept_toPhase)
qed

lemma applyReadValue_verified:
  "cs_verifiedMask (d_configuration (applyReadValue k v d)) =
     cs_verifiedMask (d_configuration d) OR configurationFieldMask (fieldFor k)"
proof -
  obtain c w where cw: "applyField (fieldFor k) v (d_configuration d, d_workingValue d) = (c, w)"
    by (metis surj_pair)
  have "cs_verifiedMask c = cs_verifiedMask (d_configuration d)"
    using cw by (cases "fieldFor k") auto
  with cw show ?thesis by (auto simp: applyReadValue_def Let_def)
qed

lemma partialOr_kept: "sensor_inv b (fr_drv fr) \<Longrightarrow> kept b (partialOr status fr)"
  by (auto simp: partialOr_def sensor_inv_def intro!: kept_finish kept_pair)

lemma read_READ_RESPONSE_kept:
  assumes cb: "hasCallback (fr_drv fr)" and al: "alive (fr_drv fr)" and inv: "sensor_inv b (fr_drv fr)"
    and k: "needsAttached (activeKind (fr_drv fr))"
  shows "kept b (read_READ_RESPONSE fr)"
proof -
  let ?rk = "effectiveReadKind (fr_drv fr)"
  obtain status words fr' where w: "readWords (if ?rk = Kind_READ_IDENTITY then 3 else 1) fr = (status, words, fr')"
    by (metis prod_cases3)
  have tr: "transferred (fr_drv fr) (fr_drv fr')"
    using readWords_spec(1) [OF cb w] by (simp add: transfer_spec_def)
  note same = linkD [OF link_transferred [OF tr]]
  have inv': "sensor_inv b (fr_drv fr')"
    using inv by (simp add: sensor_inv_def sound_transferred [OF tr] linked_cong [OF link_transferred [OF tr]])
  then have att: "d_attached (fr_drv fr')"
    using attachedI [of "fr_drv fr'"] al k same by (simp add: sensor_inv_def)
  have cfg: "activeKind (fr_drv fr') = Kind_READ_CONFIGURATION \<Longrightarrow>
      configurationFieldMask (fieldFor ?rk) = fieldAt (activeIndex (fr_drv fr'))"
    using same transferredD(5) [OF tr] by (simp add: effectiveReadKind_def fieldAt_readKindAt)
  have kinds: "activeKind (fr_drv fr') = Kind_READ_CONFIGURATION \<Longrightarrow> ?rk \<noteq> Kind_READ_SENSOR_VARIANT \<and> ?rk \<noteq> Kind_READ_DATA_READY"
    using same by (simp add: effectiveReadKind_def)
  have setting: "kept b (read_continue (inDrv (applyReadValue ?rk v) fr'))"
    if "ok (validateReturnedSetting ?rk v)" for v
    using inv' att that cfg
    by (intro read_continue_kept)
      (auto simp: sensor_inv_def applyReadValue_verified or.assoc intro!: sound_intros linked_applyReadValue)
  show ?thesis
    using inv' att kinds setting
    by (auto simp: read_READ_RESPONSE_def w Let_def read_identityWords_def read_variantWord_def read_settingWord_def
        sensor_inv_def
        intro!: kept_pair partialOr_kept kept_toPhase kept_finish sound_intros read_continue_kept)
qed

lemma stepReadLike_kept:
  assumes cb: "hasCallback (fr_drv fr)" and al: "alive (fr_drv fr)" and inv: "sensor_inv b (fr_drv fr)"
    and k: "isReadKind (activeKind (fr_drv fr))"
  shows "kept b (stepReadLike fr)"
proof -
  have n: "needsAttached (activeKind (fr_drv fr))"
    using k by (cases "activeKind (fr_drv fr)") (simp_all add: needsAttached_def isDiagnostic_def)
  show ?thesis using inv
    by (cases "activePhase (fr_drv fr)")
     (auto simp: stepReadLike_def read_phase_defs write_wrappers sensor_inv_def Let_def
      intro!: read_READ_RESPONSE_kept [OF cb al inv n] kept_write [OF cb al inv] kept_read [OF cb al inv]
       kept_toPhase kept_wait [OF inv] kept_finish kept_pair sound_intros)
qed

lemma staged_alive: "staged a u d \<Longrightarrow> alive d"
  by (simp add: staged_def running_def alive_def)

lemma step_kept:
  assumes cb: "hasCallback (fr_drv fr)" and st: "staged a u (fr_drv fr)" and inv: "sensor_inv b (fr_drv fr)"
  shows "kept b (step fr)"
proof -
  have al: "alive (fr_drv fr)" by (rule staged_alive [OF st])
  have rank: "rank (activeKind (fr_drv fr)) (activePhase (fr_drv fr)) (activeIndex (fr_drv fr)) \<noteq> None"
    using st by (auto simp: staged_def)
  have wake: "activeKind (fr_drv fr) = Kind_WAKE_UP"
    if "isModeKind (activeKind (fr_drv fr))" and "activePhase (fr_drv fr) = Phase_READ_VERIFY_RESPONSE"
    using that rank by (cases "activeKind (fr_drv fr)") (simp_all add: isModeKind_def provided_def)
  have "kept b (progressing message, inDrv (\<lambda>d. setDue (d_nextSafeCommandMs d) d) fr)" for message
    using inv by (intro kept_pair) (simp add: sensor_inv_def)
  then show ?thesis
    using rank kept_pair [OF inv] wake
      stepAttach_kept [OF cb al inv] stepMeasurement_kept [OF cb al inv]
      stepMaintenance_kept [OF cb al inv] stepDiagnostic_kept [OF cb al inv]
      stepSetting_kept [OF cb al inv] stepMode_kept [OF cb al inv] stepReadLike_kept [OF cb al inv]
    by (auto simp: step_def Let_def rank_def isMeasurement_def isModeKind_def stepWriteLike_def split: if_splits)
qed

subsection \<open>Failures\<close>

lemma sensor_inv_finishOperationFailure:
  assumes "sensor_inv b d"
  shows "sensor_inv b (finishOperationFailure status t d)"
proof -
  have s: "sound b d" using assms by (simp add: sensor_inv_def)
  obtain oc1 e1 d1 where 1: "failureAfterTransfer status (if st_code status = Err_TIMEOUT then Outcome_TIMED_OUT
      else Outcome_FAILED) (a_effect (d_active d)) d = (oc1, e1, d1)" by (metis prod_cases3)
  have s1: "sound b d1"
    using 1 s by (auto simp: failureAfterTransfer_def intro!: sound_intros split: if_splits)
  obtain oc2 e2 d2 where 2: "failureAfterTimeout status (oc1, e1, d1) = (oc2, e2, d2)" by (metis prod_cases3)
  have s2: "sound b d2"
    using 2 s1 by (auto simp: failureAfterTimeout_def intro!: sound_intros split: if_splits)
  obtain oc3 e3 d3 where 3: "failurePersistence status (oc2, e2, d2) = (oc3, e3, d3)" by (metis prod_cases3)
  have s3: "sound b d3"
    using 3 s2 by (auto simp: failurePersistence_def intro!: sound_intros split: if_splits)
  obtain oc4 e4 d4 where 4: "failurePartial (oc3, e3, d3) = (oc4, e4, d4)" by (metis prod_cases3)
  have s4: "sound b d4"
    using 4 s3 by (auto simp: failurePartial_def intro!: sound_intros split: if_splits)
  show ?thesis
    using assms s4 1 2 3 4 by (simp add: finishOperationFailure_def sensor_inv_finish Let_def)
qed
end
