(* ===== verification/Scd_Calls.thy ===== *)
theory Scd_Calls
  imports Scd_Sensor
begin

text \<open>
  What the driver puts on the bus. \<open>commandsOf\<close> lists the sensor commands a request may lead to,
  \<open>permitted\<close> the transfers: reads of one to three words, commands of the list, and commands with
  the one payload the request stands for. A step is \<open>disciplined\<close> when it either makes no call, and
  then makes progress, fails or waits, or makes one permitted call, after which the sensor settles.
  Every step is.
\<close>


definition commandsOf :: "OperationRequest \<Rightarrow> u16 list" where
  "commandsOf q = (let k = rq_kind q in
     if k = Kind_ATTACH then
       [CMD_WAKE_UP, CMD_STOP_PERIODIC_MEASUREMENT, CMD_GET_SERIAL_NUMBER, CMD_GET_SENSOR_VARIANT]
     else if isMeasurement k then
       (if k = Kind_FETCH_SAMPLE then [] else [writeCommandFor k]) @
       [CMD_GET_DATA_READY_STATUS, CMD_READ_MEASUREMENT]
     else if isMaintenance k then
       (if k = Kind_FORCED_RECALIBRATION then CMD_PERFORM_FORCED_RECALIBRATION
        else writeCommandFor k) #
       (if resetKind k then [CMD_GET_SERIAL_NUMBER, CMD_GET_SENSOR_VARIANT] else [])
     else if isDiagnostic k then [rq_command q]
     else if isSettingWrite k then [readCommandFor k, writeCommandFor k]
     else if k = Kind_WAKE_UP then [CMD_WAKE_UP, CMD_GET_SERIAL_NUMBER, CMD_GET_SENSOR_VARIANT]
     else if isModeKind k then [writeCommandFor k]
     else if k = Kind_READ_CONFIGURATION then map readCommandFor KINDS
     else if k = Kind_READ_IDENTITY then [CMD_GET_SERIAL_NUMBER, CMD_GET_SENSOR_VARIANT]
     else [readCommandFor k])"

definition payloadOf :: "OperationRequest \<Rightarrow> u16" where
  "payloadOf q = (if isSettingWrite (rq_kind q) then snd (encodeDesired q 0) else ucast (rq_value q))"

definition nackCommands :: "u16 list" where
  "nackCommands = [CMD_WAKE_UP, CMD_STOP_PERIODIC_MEASUREMENT]"

definition permitted :: "OperationRequest \<Rightarrow> TransferRequest \<Rightarrow> bool" where
  "permitted q req \<longleftrightarrow> tq_address req = I2C_ADDRESS \<and>
     (tq_writeData req = [] \<and> tq_readLength req \<in> {3, 6, 9} \<and> tq_intent req = Intent_NORMAL \<or>
      tq_readLength req = 0 \<and> (\<exists>c \<in> set (commandsOf q).
        tq_writeData req = commandBytes c \<and>
          (tq_intent req = Intent_NORMAL \<or> c \<in> set nackCommands) \<or>
        tq_writeData req = commandBytes c @ wordBytes (payloadOf q) \<and> tq_intent req = Intent_NORMAL))"

lemma permitted_read: "count \<noteq> 0 \<Longrightarrow> count \<le> 3 \<Longrightarrow> permitted q (requestOf [] (3 * unat (count :: u8)) Intent_NORMAL fr)"
proof -
  assume "count \<noteq> 0" and "count \<le> 3"
  then have "unat count \<in> {1, 2, 3}"
    by (simp add: word_le_nat_alt unat_eq_0) (metis One_nat_def Suc_leI le_SucE le_zero_eq neq0_conv numeral_2_eq_2 numeral_3_eq_3 unat_eq_0)
  then show ?thesis by (auto simp: permitted_def requestOf_def)
qed

lemma permitted_reads:
  "permitted q (requestOf [] 3 Intent_NORMAL fr)" "permitted q (requestOf [] 9 Intent_NORMAL fr)"
  by (simp_all add: permitted_def requestOf_def)

lemma permitted_command:
  "c \<in> set (commandsOf q) \<Longrightarrow> intent = Intent_NORMAL \<or> c \<in> set nackCommands \<Longrightarrow>
   permitted q (requestOf (commandBytes c) 0 intent fr)"
  by (auto simp: permitted_def requestOf_def)

lemma permitted_word:
  "c \<in> set (commandsOf q) \<Longrightarrow> w = payloadOf q \<Longrightarrow>
   permitted q (requestOf (commandBytes c @ wordBytes w) 0 Intent_NORMAL fr)"
  by (auto simp: permitted_def requestOf_def)

subsection \<open>Quiet steps\<close>

text \<open>The phases that only wait for their due time.\<close>

fun waits :: "OperationPhase \<Rightarrow> bool" where
  "waits Phase_WAIT_POWER_UP = True"
| "waits Phase_WAIT_WAKE = True"
| "waits Phase_WAIT_STOP = True"
| "waits Phase_WAIT_EXECUTION = True"
| "waits _ = False"

lemma waits_if [simp]: "waits (if c then p else q) = (if c then waits p else waits q)"
  by simp

text \<open>
  The callbacks an operation has used, in its slot or in its result, and with it the settling
  window: what a quiet step leaves alone.
\<close>

definition used :: "'w driver \<Rightarrow> u8" where
  "used d = (if d_activeValid d then a_callbacksUsed (d_active d) else res_callbacksUsed (d_terminal d))"

definition gauge :: "'w driver \<Rightarrow> u32 \<times> bool \<times> u8" where
  "gauge d = (d_nextSafeCommandMs d, d_nextSafeCommandValid d, used d)"

definition quiet :: "'w frame \<Rightarrow> 'w frame \<Rightarrow> bool" where
  "quiet fr fr' \<longleftrightarrow> silent fr fr' \<and> gauge (fr_drv fr') = gauge (fr_drv fr)"

lemma gauge_helpers [simp]:
  "gauge (setPhase p d) = gauge d"
  "gauge (setDue t d) = gauge d"
  "gauge (setFieldIndex i d) = gauge d"
  "gauge (setEffect e d) = gauge d"
  "gauge (setSettingValueChanged x d) = gauge d"
  "gauge (markCompleted m d) = gauge d"
  "gauge (clearVerified m d) = gauge d"
  "gauge (markVerified m d) = gauge d"
  "gauge (markDirty m d) = gauge d"
  "gauge (clearDirty d) = gauge d"
  "gauge (setPersistenceIndeterminate x d) = gauge d"
  "gauge (setPressureCompensation f d) = gauge d"
  "gauge (publishConfiguration d) = gauge d"
  "gauge (publishIdentity d) = gauge d"
  "gauge (stashSerial s d) = gauge d"
  "gauge (setWorkingValue v d) = gauge d"
  "gauge (adoptIdentity s va w d) = gauge d"
  "gauge (setMode mo ev d) = gauge d"
  "gauge (markReconciliationRequired d) = gauge d"
  "gauge (markAttached d) = gauge d"
  "gauge (recordProtocolFailure st t d) = gauge d"
  "gauge (recordOperationOutcome r d) = gauge d"
  "gauge (applyReadValue k w d) = gauge d"
  "gauge (storeSample ws b t d) = gauge d"
  by (simp_all add: gauge_def used_def driver_defs setter_defs storeSample_def applyReadValue_def Let_def
      split: prod.splits)

lemma gauge_composites [simp]:
  "gauge (adoptOther s va w d) = gauge d"
  "gauge (attachSucceeded va w d) = gauge d"
  "gauge (adoptVariantOnly va w d) = gauge d"
  "gauge (refreshVariant va w d) = gauge d"
  "gauge (noteDataReady w d) = gauge d"
  "gauge (noteReadiness w d) = gauge d"
  "gauge (noteSettingWrite d) = gauge d"
  "gauge (rejectSetting st t d) = gauge d"
  "gauge (enterMode k d) = gauge d"
  "gauge (settlePersist d) = gauge d"
  "gauge (resetSucceeded s va w d) = gauge d"
  "gauge (publishSample d) = gauge d"
  "gauge (storeRawWords ws c d) = gauge d"
  "gauge (storeDeferred w d) = gauge d"
  "gauge (storeCorrection w d) = gauge d"
  by (simp_all add: gauge_def used_def driver_defs setter_defs adoptOther_def attachSucceeded_def adoptVariantOnly_def
      refreshVariant_def noteDataReady_def noteReadiness_def noteSettingWrite_def rejectSetting_def
      enterMode_def settlePersist_def resetSucceeded_def publishSample_def storeRawWords_def
      storeDeferred_def storeCorrection_def Let_def)

lemma gauge_finish [simp]: "gauge (finishOperation oc ef st t d) = gauge d"
  by (simp add: gauge_def used_def finishOperation_def resultOf_def settleReset_def setter_defs recordOperationOutcome_def Let_def)

lemma quiet_inDrv [simp]: "(\<And>d. gauge (f d) = gauge d) \<Longrightarrow> quiet fr0 (inDrv f fr) = quiet fr0 fr"
  by (simp add: quiet_def silent_def)

lemma quiet_refl [simp]: "quiet fr fr"
  by (simp add: quiet_def silent_def)

lemma quiet_ends [simp]:
  "quiet fr0 (snd (finishStep oc ef st fr)) = quiet fr0 fr"
  "quiet fr0 (snd (toPhase p m fr)) = quiet fr0 fr"
  "quiet fr0 (snd (toPhaseAt p ms m fr)) = quiet fr0 fr"
  by (simp_all add: finishStep_def toPhase_def toPhaseAt_def)

subsection \<open>Disciplined steps\<close>

definition dueNow :: "'w frame \<Rightarrow> bool" where
  "dueNow fr \<longleftrightarrow> timeReached (fr_now fr) (a_nextDueMs (d_active (fr_drv fr)))"

definition disciplined :: "'w frame \<Rightarrow> Status \<times> 'w frame \<Rightarrow> bool" where
  "disciplined fr res \<longleftrightarrow>
     (quiet fr (snd res) \<and>
        (inProgress (fst res) \<and> alive (fr_drv (snd res)) \<and> \<not> window (fr_drv fr) (fr_now fr) \<and> fr_budget fr \<noteq> 0 \<longrightarrow>
         fr_drv (snd res) = fr_drv fr \<and> \<not> dueNow fr \<or>
         waits (activePhase (fr_drv fr)) \<and> \<not> waits (activePhase (fr_drv (snd res))) \<and>
         a_nextDueMs (d_active (fr_drv (snd res))) = a_nextDueMs (d_active (fr_drv fr)))) \<or>
     (\<exists>req. called req fr (snd res) \<and> permitted (a_request (d_active (fr_drv fr))) req \<and>
        tq_timeoutMs req = transferTimeout (fr_drv fr) (fr_now fr) \<and>
        (d_activeValid (fr_drv fr) \<longrightarrow>
         used (fr_drv (snd res)) = incrementSaturating (used (fr_drv fr))) \<and>
        (alive (fr_drv (snd res)) \<and> (ok (fst res) \<or> inProgress (fst res)) \<longrightarrow>
         window (fr_drv (snd res)) (fr_now (snd res)) \<and>
         \<not> timeReached (fr_now (snd res)) (a_deadlineMs (d_active (fr_drv fr)))))"

lemma disciplined_finish:
  "quiet fr fr' \<Longrightarrow> disciplined fr (finishStep oc ef st fr')"
  using link_finish by (auto simp: disciplined_def finishStep_def)

lemma disciplined_error: "\<not> inProgress st \<Longrightarrow> disciplined fr (st, fr)"
  by (simp add: disciplined_def)

lemma d_active_clearDirty [simp]: "d_active (clearDirty d) = d_active d"
  by (simp add: clearDirty_def)

lemma disciplined_toPhase:
  assumes "quiet fr fr'" and "waits (activePhase (fr_drv fr))" and "\<not> waits p"
    and "a_nextDueMs (d_active (fr_drv fr')) = a_nextDueMs (d_active (fr_drv fr))"
  shows "disciplined fr (toPhase p m fr')"
proof -
  have "quiet fr (snd (toPhase p m fr'))"
    using assms(1) by simp
  moreover have "activePhase (fr_drv (snd (toPhase p m fr'))) = p"
    "a_nextDueMs (d_active (fr_drv (snd (toPhase p m fr')))) = a_nextDueMs (d_active (fr_drv fr'))"
    by (simp_all add: toPhase_def setPhase_def)
  ultimately show ?thesis
    using assms(2-4) by (auto simp: disciplined_def)
qed

lemma disciplined_wait: "disciplined fr (k fr) \<Longrightarrow> disciplined fr (waitDue m k fr)"
  by (simp add: waitDue_def) (simp add: disciplined_def dueNow_def)

lemma window_gauge: "gauge d' = gauge d \<Longrightarrow> window d' t = window d t"
  by (simp add: gauge_def window_def)

lemma sameWindow_gauge:
  "sameWindow d d' \<Longrightarrow> transferred d d' \<Longrightarrow>
   a_callbacksUsed (d_active d') = a_callbacksUsed (d_active d) \<Longrightarrow> gauge d' = gauge d"
  by (simp add: sameWindow_def gauge_def used_def transferred_def)

lemma called_quiet: "called req fr fr' \<Longrightarrow> quiet fr' fr'' \<Longrightarrow> called req fr fr''"
  by (auto simp: called_def quiet_def silent_def)

lemma attemptTransfer_progress:
  assumes "attemptTransfer data n intent effectful fr = (status, bytes, fr')" and "inProgress status"
  shows "fr_budget fr = 0"
proof (rule ccontr)
  assume "fr_budget fr \<noteq> 0"
  with assms(1) have "\<not> inProgress status"
    using not_inProgress_transferOutcome by (auto simp: attemptTransfer_def Let_def split: if_splits prod.splits)
  with assms(2) show False by simp
qed

lemma writeBytes_progress:
  assumes "writeBytes data intent effectful fr = (status, fr')" and "inProgress status"
  shows "window (fr_drv fr) (fr_now fr) \<or> fr_budget fr = 0"
proof (rule disjCI)
  assume "fr_budget fr \<noteq> 0"
  obtain st bytes f where a: "attemptTransfer data 0 intent effectful fr = (st, bytes, f)"
    by (metis prod_cases3)
  show "window (fr_drv fr) (fr_now fr)"
    using assms attemptTransfer_progress [OF a] \<open>fr_budget fr \<noteq> 0\<close>
    by (auto simp: writeBytes_def checkCommandSpacing_eq a split: if_splits)
qed

lemma readWords_progress:
  assumes "readWords count fr = (status, words, fr')" and "inProgress status"
  shows "window (fr_drv fr) (fr_now fr) \<or> fr_budget fr = 0"
proof (rule disjCI)
  assume b: "fr_budget fr \<noteq> 0"
  obtain st bytes f where a: "attemptTransfer [] (unat count * 3) Intent_NORMAL False fr = (st, bytes, f)"
    by (metis prod_cases3)
  have "\<not> inProgress st" using attemptTransfer_progress [OF a] b by blast
  then show "window (fr_drv fr) (fr_now fr)"
    using assms
    by (cases "decodeWordsFrom 0 (unat count) bytes")
      (auto simp: readWords_def checkCommandSpacing_eq a Let_def split: if_splits)
qed

lemma spec_disciplined:
  assumes spec: "transfer_spec req fr status fr'" and req: "req = requestOf data n intent fr"
    and perm: "called req fr fr' \<Longrightarrow> permitted (a_request (d_active (fr_drv fr))) req"
    and prog: "inProgress status \<Longrightarrow> window (fr_drv fr) (fr_now fr) \<or> fr_budget fr = 0"
    and k: "ok status \<Longrightarrow> quiet fr' (snd res)" and other: "\<not> ok status \<Longrightarrow> quiet fr' (snd res) \<and> (fst res = status \<or> \<not> alive (fr_drv (snd res)))"
  shows "disciplined fr res"
proof (cases "silent fr fr' \<and> \<not> ok status \<and> sameWindow (fr_drv fr) (fr_drv fr') \<and>
    a_callbacksUsed (d_active (fr_drv fr')) = a_callbacksUsed (d_active (fr_drv fr))")
  case True
  have "transferred (fr_drv fr) (fr_drv fr')"
    using spec by (simp add: transfer_spec_def)
  with True have "gauge (fr_drv fr') = gauge (fr_drv fr)"
    by (intro sameWindow_gauge) simp_all
  with other True have "quiet fr (snd res)"
    by (auto simp: quiet_def silent_def)
  moreover have "inProgress (fst res) \<and> alive (fr_drv (snd res)) \<Longrightarrow> inProgress status"
    using other True by auto
  ultimately show ?thesis using prog by (auto simp: disciplined_def)
next
  case False
  then have called: "called req fr fr'" and np: "\<not> inProgress status"
    and tr: "transferred (fr_drv fr) (fr_drv fr')"
    and inc: "a_callbacksUsed (d_active (fr_drv fr')) = incrementSaturating (a_callbacksUsed (d_active (fr_drv fr)))"
    and fin: "ok status \<Longrightarrow> window (fr_drv fr') (fr_now fr') \<and>
      \<not> timeReached (fr_now fr') (a_deadlineMs (d_active (fr_drv fr')))"
    using spec by (auto simp: transfer_spec_def)
  have q: "quiet fr' (snd res)" using k other by blast
  then have same: "gauge (fr_drv (snd res)) = gauge (fr_drv fr')" "fr_now (snd res) = fr_now fr'"
    by (simp_all add: quiet_def silent_def)
  have "called req fr (snd res)" by (rule called_quiet [OF called q])
  moreover have "tq_timeoutMs req = transferTimeout (fr_drv fr) (fr_now fr)"
    by (simp add: req requestOf_def)
  moreover have "d_activeValid (fr_drv fr) \<Longrightarrow> used (fr_drv (snd res)) = incrementSaturating (used (fr_drv fr))"
    using same(1) inc transferredD(2) [OF tr] by (simp add: gauge_def used_def)
  moreover have "ok status \<Longrightarrow> window (fr_drv (snd res)) (fr_now (snd res)) \<and>
      \<not> timeReached (fr_now (snd res)) (a_deadlineMs (d_active (fr_drv fr)))"
    using fin same(2) transferredD(6) [OF tr] by (simp add: window_gauge [OF same(1)])
  moreover have "\<not> ok status \<Longrightarrow> alive (fr_drv (snd res)) \<Longrightarrow> \<not> ok (fst res) \<and> \<not> inProgress (fst res)"
    using other np by auto
  ultimately show ?thesis
    using perm [OF called] unfolding disciplined_def by blast
qed

lemma disciplined_write:
  assumes cb: "hasCallback (fr_drv fr)"
    and perm: "permitted (a_request (d_active (fr_drv fr))) (requestOf data 0 intent fr)"
    and k: "\<And>fr'. quiet fr' (snd (k fr'))"
  shows "disciplined fr (on_ok (writeBytes data intent effectful fr) k)"
proof -
  obtain status fr' where w: "writeBytes data intent effectful fr = (status, fr')"
    by (metis surj_pair)
  show ?thesis
    using perm k writeBytes_progress [OF w]
    by (intro spec_disciplined [OF writeBytes_spec [OF cb w]]) (auto simp: w on_ok_def)
qed

lemma disciplined_read:
  assumes cb: "hasCallback (fr_drv fr)" and k: "\<And>words fr'. quiet fr' (snd (k words fr'))"
  shows "disciplined fr (on_words (readWords count fr) k)"
proof -
  obtain status words fr' where w: "readWords count fr = (status, words, fr')"
    by (metis prod_cases3)
  have perm: "permitted q (requestOf [] (3 * unat count) Intent_NORMAL fr)"
    if "called (requestOf [] (3 * unat count) Intent_NORMAL fr) fr fr'" for q
    using readWords_spec(3) [OF cb w that] by (intro permitted_read) simp_all
  show ?thesis
    using k readWords_progress [OF w] perm
    by (intro spec_disciplined [OF readWords_spec(1) [OF cb w]]) (auto simp: w on_words_def)
qed

lemma quiet_if [simp]: "quiet fr0 (snd (if c then x else y)) = (if c then quiet fr0 (snd x) else quiet fr0 (snd y))"
  "quiet fr0 (if c then u else v) = (if c then quiet fr0 u else quiet fr0 v)"
  by simp_all

lemma stepAttach_disciplined:
  assumes cb: "hasCallback (fr_drv fr)" and k: "activeKind (fr_drv fr) = Kind_ATTACH"
  shows "disciplined fr (stepAttach fr)"
  using k
  by (cases "activePhase (fr_drv fr)")
     (auto simp: stepAttach_def attach_phase_defs write_wrappers Let_def commandsOf_def nackCommands_def
      split: if_splits
      intro!: disciplined_write [OF cb] disciplined_read [OF cb] disciplined_toPhase disciplined_wait
       disciplined_finish disciplined_error permitted_command)

lemma stepMeasurement_disciplined:
  assumes cb: "hasCallback (fr_drv fr)" and k: "isMeasurement (activeKind (fr_drv fr))"
    and f: "activePhase (fr_drv fr) = Phase_SEND_COMMAND \<Longrightarrow> activeKind (fr_drv fr) \<noteq> Kind_FETCH_SAMPLE"
  shows "disciplined fr (stepMeasurement fr)"
proof -
  have "activeKind (fr_drv fr) \<noteq> Kind_ATTACH" using k by (auto simp: isMeasurement_def)
  then show ?thesis
  using k f
  by (cases "activePhase (fr_drv fr)")
     (auto simp: stepMeasurement_def measurement_phase_defs write_wrappers Let_def commandsOf_def nackCommands_def
      intro!: disciplined_write [OF cb] disciplined_read [OF cb] disciplined_toPhase disciplined_wait
       disciplined_finish disciplined_error permitted_command)
qed

lemma stepDiagnostic_disciplined:
  assumes cb: "hasCallback (fr_drv fr)" and k: "isDiagnostic (activeKind (fr_drv fr))"
  shows "disciplined fr (stepDiagnostic fr)"
proof -
  have c: "commandsOf (a_request (d_active (fr_drv fr))) = [rq_command (a_request (d_active (fr_drv fr)))]"
    "payloadOf (a_request (d_active (fr_drv fr))) = ucast (rq_value (a_request (d_active (fr_drv fr))))"
    using k by (auto simp: commandsOf_def payloadOf_def isDiagnostic_def isMeasurement_def)
  then show ?thesis
  by (cases "activePhase (fr_drv fr)")
     (auto simp: stepDiagnostic_def diagnostic_phase_defs write_wrappers Let_def c
      intro!: disciplined_write [OF cb] disciplined_read [OF cb] disciplined_toPhase disciplined_wait
       disciplined_finish disciplined_error permitted_command permitted_word)
qed

lemma stepMaintenance_disciplined:
  assumes cb: "hasCallback (fr_drv fr)" and k: "isMaintenance (activeKind (fr_drv fr))"
    and r: "activePhase (fr_drv fr) = Phase_SEND_VERIFY_COMMAND \<Longrightarrow> resetKind (activeKind (fr_drv fr))"
  shows "disciplined fr (stepMaintenance fr)"
proof -
  let ?k = "activeKind (fr_drv fr)" and ?q = "a_request (d_active (fr_drv fr))"
  have c: "commandsOf ?q = (if ?k = Kind_FORCED_RECALIBRATION then CMD_PERFORM_FORCED_RECALIBRATION
        else writeCommandFor ?k) #
       (if resetKind ?k then [CMD_GET_SERIAL_NUMBER, CMD_GET_SENSOR_VARIANT] else [])"
    using k by (cases "activeKind (fr_drv fr)") (simp_all add: commandsOf_def isMeasurement_def Let_def)
  have p: "?k = Kind_FORCED_RECALIBRATION \<Longrightarrow> payloadOf ?q = ucast (rq_value ?q)"
    by (simp add: payloadOf_def)
  show ?thesis using r p
  by (cases "activePhase (fr_drv fr)")
     (auto simp: stepMaintenance_def maintenance_phase_defs write_wrappers Let_def c
      intro!: disciplined_write [OF cb] disciplined_read [OF cb] disciplined_toPhase disciplined_wait
       disciplined_finish disciplined_error permitted_command permitted_word)
qed

lemma stepMode_disciplined:
  assumes cb: "hasCallback (fr_drv fr)" and k: "isModeKind (activeKind (fr_drv fr))"
    and r: "activePhase (fr_drv fr) \<in> {Phase_SEND_READ_COMMAND, Phase_SEND_VERIFY_COMMAND} \<Longrightarrow> activeKind (fr_drv fr) = Kind_WAKE_UP"
  shows "disciplined fr (stepMode fr)"
proof -
  let ?k = "activeKind (fr_drv fr)" and ?q = "a_request (d_active (fr_drv fr))"
  have c: "commandsOf ?q = (if ?k = Kind_WAKE_UP then [CMD_WAKE_UP, CMD_GET_SERIAL_NUMBER, CMD_GET_SENSOR_VARIANT] else [writeCommandFor ?k])"
    using k by (auto simp: commandsOf_def isMeasurement_def isModeKind_def isDiagnostic_def Let_def)
  show ?thesis using r
  by (cases "activePhase (fr_drv fr)")
     (auto simp: stepMode_def mode_phase_defs write_wrappers Let_def c nackCommands_def
      intro!: disciplined_write [OF cb] disciplined_read [OF cb] disciplined_toPhase disciplined_wait
       disciplined_finish disciplined_error permitted_command permitted_word)
qed

lemma sendWrite_disciplined:
  assumes cb: "hasCallback (fr_drv fr)" and k: "isSettingWrite (activeKind (fr_drv fr))"
    and d: "a_desiredRaw (d_active (fr_drv fr)) = snd (encodeDesired (a_request (d_active (fr_drv fr))) 0)"
    and c: "commandsOf (a_request (d_active (fr_drv fr))) =
      [readCommandFor (activeKind (fr_drv fr)), writeCommandFor (activeKind (fr_drv fr))]"
  shows "disciplined fr (setting_sendWrite fr)"
proof -
  obtain status fr' where w: "writeCommandWithWord (writeCommandFor (activeKind (fr_drv fr)))
      (a_desiredRaw (d_active (fr_drv fr))) True fr = (status, fr')"
    by (metis surj_pair)
  have eq: "setting_sendWrite fr =
      (if inProgress status then (status, fr')
       else on_ok (status, inDrv noteSettingWrite fr') (\<lambda>fr.
         toPhaseAt Phase_WAIT_EXECUTION EXECUTION_TIME_SHORT_MS ''Waiting after setting write''
           (inDrv (setFieldIndex 2 \<circ> setEffect Effect_ACKNOWLEDGED) fr)))"
    by (simp add: setting_sendWrite_def w)
  show ?thesis
    unfolding eq using k d writeBytes_progress [OF w [unfolded write_wrappers]]
    by (intro spec_disciplined [OF writeBytes_spec [OF cb w [unfolded write_wrappers]]])
      (auto simp: on_ok_def c payloadOf_def intro!: permitted_word)
qed

lemma stepSetting_disciplined:
  assumes cb: "hasCallback (fr_drv fr)" and k: "isSettingWrite (activeKind (fr_drv fr))"
    and d: "a_desiredRaw (d_active (fr_drv fr)) = snd (encodeDesired (a_request (d_active (fr_drv fr))) 0)"
  shows "disciplined fr (stepSetting fr)"
proof -
  have c: "commandsOf (a_request (d_active (fr_drv fr))) =
      [readCommandFor (activeKind (fr_drv fr)), writeCommandFor (activeKind (fr_drv fr))]"
    using k by (cases "activeKind (fr_drv fr)")
      (simp_all add: commandsOf_def isMeasurement_def isDiagnostic_def Let_def)
  show ?thesis
    by (cases "activePhase (fr_drv fr)")
     (auto simp: stepSetting_def setting_SEND_COMMAND_def setting_sendRead_def setting_sendVerify_def
       setting_WAIT_EXECUTION_def setting_READ_RESPONSE_def setting_compare_def setting_verify_def
       write_wrappers Let_def c
      split: if_splits
      intro!: sendWrite_disciplined [OF cb k d c] disciplined_write [OF cb] disciplined_read [OF cb] disciplined_toPhase disciplined_wait
       disciplined_finish disciplined_error permitted_command)
qed

lemma quiet_read_continue [simp]: "quiet fr0 (snd (read_continue fr)) = quiet fr0 fr"
  by (simp add: read_continue_def Let_def)

lemma quiet_partialOr [simp]: "quiet fr0 (snd (partialOr st fr)) = quiet fr0 fr"
  by (simp add: partialOr_def)

lemma partialOr_result: "fst (partialOr st fr) = st \<or> \<not> alive (fr_drv (snd (partialOr st fr)))"
  by (simp add: partialOr_def finishStep_def link_finish)

lemma read_READ_RESPONSE_disciplined:
  assumes cb: "hasCallback (fr_drv fr)"
  shows "disciplined fr (read_READ_RESPONSE fr)"
proof -
  obtain status words fr' where w: "readWords (if effectiveReadKind (fr_drv fr) = Kind_READ_IDENTITY then 3 else 1) fr = (status, words, fr')"
    by (metis prod_cases3)
  note spec = readWords_spec [OF cb w]
  show ?thesis
    using readWords_progress [OF w] partialOr_result [of status fr'] ok_not_inProgress [of status]
    by (intro spec_disciplined [OF spec(1)])
      (auto simp: read_READ_RESPONSE_def w Let_def read_identityWords_def read_variantWord_def read_settingWord_def
        permitted_reads)
qed

lemma stepReadLike_disciplined:
  assumes cb: "hasCallback (fr_drv fr)" and k: "isReadKind (activeKind (fr_drv fr))"
    and r: "activePhase (fr_drv fr) = Phase_SEND_VERIFY_COMMAND \<Longrightarrow> activeKind (fr_drv fr) = Kind_READ_IDENTITY"
    and i: "activeKind (fr_drv fr) = Kind_READ_CONFIGURATION \<Longrightarrow> unat (activeIndex (fr_drv fr)) < 7"
  shows "disciplined fr (stepReadLike fr)"
proof -
  let ?k = "activeKind (fr_drv fr)" and ?q = "a_request (d_active (fr_drv fr))"
  have c: "commandsOf ?q = (if ?k = Kind_READ_CONFIGURATION then map readCommandFor KINDS
     else if ?k = Kind_READ_IDENTITY then [CMD_GET_SERIAL_NUMBER, CMD_GET_SENSOR_VARIANT]
     else [readCommandFor ?k])"
    using k by (cases ?k) (simp_all add: commandsOf_def isMeasurement_def isDiagnostic_def isModeKind_def Let_def)
  have s: "readCommandFor (effectiveReadKind (fr_drv fr)) \<in> set (commandsOf ?q)"
  proof (cases "?k = Kind_READ_CONFIGURATION")
    case True
    then have "unat (activeIndex (fr_drv fr)) < length KINDS"
      using i by (simp add: KINDS_def)
    then show ?thesis
      using True by (simp add: effectiveReadKind_def readKindAt_def c)
  qed (simp add: c effectiveReadKind_def)
  show ?thesis using r s
    by (cases "activePhase (fr_drv fr)")
     (auto simp: stepReadLike_def read_phase_defs write_wrappers Let_def
      intro!: read_READ_RESPONSE_disciplined [OF cb] disciplined_write [OF cb] disciplined_read [OF cb] disciplined_toPhase disciplined_wait
       disciplined_finish disciplined_error permitted_command split: if_splits simp: c)
qed

subsection \<open>Every step\<close>

lemma disciplined_window:
  assumes "window (fr_drv fr) (fr_now fr)"
  shows "disciplined fr (progressing message, inDrv (\<lambda>d. setDue (d_nextSafeCommandMs d) d) fr)"
  using assms by (simp add: disciplined_def)

text \<open>The raw word of a setting write is the one \<open>_beginOperation\<close> encoded.\<close>

definition encoded :: "'w driver \<Rightarrow> bool" where
  "encoded d \<longleftrightarrow> a_desiredRaw (d_active d) = snd (encodeDesired (a_request (d_active d)) 0)"

lemma step_disciplined:
  assumes cb: "hasCallback (fr_drv fr)" and st: "staged a u (fr_drv fr)" and e: "encoded (fr_drv fr)"
  shows "disciplined fr (step fr)"
proof -
  let ?k = "activeKind (fr_drv fr)" and ?p = "activePhase (fr_drv fr)"
  have rank: "rank ?k ?p (activeIndex (fr_drv fr)) \<noteq> None"
    using st by (auto simp: staged_def)
  have "isMeasurement ?k \<Longrightarrow> ?p = Phase_SEND_COMMAND \<Longrightarrow> ?k \<noteq> Kind_FETCH_SAMPLE"
    using rank by (auto simp: rank_def)
  moreover have "isMaintenance ?k \<Longrightarrow> ?p = Phase_SEND_VERIFY_COMMAND \<Longrightarrow> resetKind ?k"
    using rank by (cases ?k) (auto simp: provided_def resultKind_def split: if_splits)
  moreover have "isModeKind ?k \<Longrightarrow> ?p \<in> {Phase_SEND_READ_COMMAND, Phase_SEND_VERIFY_COMMAND} \<Longrightarrow> ?k = Kind_WAKE_UP"
    using rank by (cases ?k) (auto simp: provided_def isModeKind_def split: if_splits)
  moreover have "isReadKind ?k \<Longrightarrow> ?p = Phase_SEND_VERIFY_COMMAND \<Longrightarrow> ?k = Kind_READ_IDENTITY"
    using rank by (cases ?k) (auto simp: provided_def split: if_splits)
  moreover have "?k = Kind_READ_CONFIGURATION \<Longrightarrow> unat (activeIndex (fr_drv fr)) < 7"
    using rank by (cases ?p) (simp_all add: rank_def isMeasurement_def isModeKind_def isDiagnostic_def provided_def split: if_splits)
  ultimately show ?thesis
    using rank disciplined_window [of fr] disciplined_error [of "Status_Error Err_TIMEOUT ''Operation deadline expired'' 0" fr]
      stepAttach_disciplined [OF cb] stepMeasurement_disciplined [OF cb]
      stepMaintenance_disciplined [OF cb] stepDiagnostic_disciplined [OF cb]
      stepSetting_disciplined [OF cb _ e [unfolded encoded_def]] stepMode_disciplined [OF cb] stepReadLike_disciplined [OF cb]
    by (auto simp: step_def Let_def rank_def isMeasurement_def isModeKind_def stepWriteLike_def window_def split: if_splits)
qed

end
