(* ===== verification/Scd_Loop.thy ===== *)
theory Scd_Loop
  imports Scd_Calls
begin

text \<open>
  The loop of \<open>poll\<close>. The locale \<open>bounded_loop\<close> is the contract between one step and the loop: a
  condition at the head of the loop that every continuing step keeps, what holds when the loop is
  left, and a bound on the rounds. Its lemmas say that the loop ends in the second condition and
  that its fuel does not matter once it exceeds the bound. The interpretation on the model's own
  \<open>step\<close> shows that a poll makes at most one call and that three rounds are always enough.
\<close>

definition continues :: "'w frame \<Rightarrow> Status \<Rightarrow> 'w frame \<Rightarrow> bool" where
  "continues fr status fr' \<longleftrightarrow> alive (fr_drv fr') \<and> (ok status \<or> inProgress status) \<and>
     fr_budget fr' \<noteq> 0 \<and> \<not> stalled fr fr' \<and>
     timeReached (fr_now fr') (a_nextDueMs (d_active (fr_drv fr')))"

locale bounded_loop =
  fixes advance :: "'w frame \<Rightarrow> Status \<times> 'w frame"
    and loop :: "nat \<Rightarrow> 'w frame \<Rightarrow> 'w frame"
    and head :: "'c \<Rightarrow> 'w frame \<Rightarrow> bool"
    and settled :: "'c \<Rightarrow> 'w frame \<Rightarrow> bool"
    and rounds :: "'w frame \<Rightarrow> nat"
  assumes loop_0: "loop 0 fr = fr"
    and loop_Suc: "loop (Suc n) fr =
      (if \<not> d_activeValid (fr_drv fr) \<or> settling fr then fr
       else (case advance fr of (status, fr') \<Rightarrow>
         if \<not> alive (fr_drv fr') then fr'
         else if \<not> ok status \<and> \<not> inProgress status then
           inDrv (finishOperationFailure status (fr_now fr')) fr'
         else if continues fr status fr' then loop n fr' else fr'))"
    and head_settled: "head c fr \<Longrightarrow> settled c fr"
    and ends: "head c fr \<Longrightarrow> advance fr = (status, fr') \<Longrightarrow> \<not> alive (fr_drv fr') \<Longrightarrow> settled c fr'"
    and fails: "head c fr \<Longrightarrow> advance fr = (status, fr') \<Longrightarrow> alive (fr_drv fr') \<Longrightarrow> \<not> ok status \<Longrightarrow>
      \<not> inProgress status \<Longrightarrow> settled c (inDrv (finishOperationFailure status (fr_now fr')) fr')"
    and goes: "head c fr \<Longrightarrow> advance fr = (status, fr') \<Longrightarrow> alive (fr_drv fr') \<Longrightarrow>
      ok status \<or> inProgress status \<Longrightarrow> head c fr'"
    and rounds_less: "head c fr \<Longrightarrow> advance fr = (status, fr') \<Longrightarrow> continues fr status fr' \<Longrightarrow>
      rounds fr' < rounds fr"
begin

lemma loop_settles: "head c fr \<Longrightarrow> settled c (loop n fr)"
proof (induction n arbitrary: fr)
  case 0
  then show ?case by (simp add: loop_0 head_settled)
next
  case (Suc n)
  obtain status fr' where a: "advance fr = (status, fr')" by (metis surj_pair)
  show ?case
    using Suc.prems Suc.IH [of fr'] head_settled ends [OF Suc.prems a] fails [OF Suc.prems a] goes [OF Suc.prems a]
    by (auto simp: loop_Suc a continues_def)
qed

lemma loop_enough:
  "head c fr \<Longrightarrow> rounds fr < n \<Longrightarrow> rounds fr < k \<Longrightarrow> loop n fr = loop k fr"
proof (induction n arbitrary: fr k)
  case 0
  then show ?case by simp
next
  case (Suc n)
  then obtain j where k: "k = Suc j" by (cases k) auto
  obtain status fr' where a: "advance fr = (status, fr')" by (metis surj_pair)
  have "loop n fr' = loop j fr'" if "continues fr status fr'"
    using that Suc goes [OF Suc.prems(1) a] rounds_less [OF Suc.prems(1) a that]
    by (intro Suc.IH) (auto simp: k continues_def)
  then show ?case by (simp add: k loop_Suc a)
qed

end

text \<open>What one poll may have done by the time its loop is at a given frame.\<close>

type_synonym 'w loop_context = "ActiveOperation \<times> nat \<times> 'w frame"

definition spent :: "'w frame \<Rightarrow> 'w frame \<Rightarrow> bool" where
  "spent fr0 fr \<longleftrightarrow> (\<exists>req. called req fr0 fr \<and>
     permitted (a_request (d_active (fr_drv fr0))) req \<and>
     tq_timeoutMs req = transferTimeout (fr_drv fr0) (fr_now fr0) \<and>
     used (fr_drv fr) = incrementSaturating (used (fr_drv fr0)))"

fun loopHead :: "'w loop_context \<Rightarrow> 'w frame \<Rightarrow> bool" where
  "loopHead (a, u, fr0) fr \<longleftrightarrow>
     hasCallback (fr_drv fr0) \<and> encoded (fr_drv fr0) \<and> staged a u (fr_drv fr0) \<and>
     staged a u (fr_drv fr) \<and> sensor_inv (binding (fr_drv fr0)) (fr_drv fr) \<and>
     \<not> timeReached (fr_now fr) (a_deadlineMs a) \<and>
     (quiet fr0 fr \<or> spent fr0 fr \<and> window (fr_drv fr) (fr_now fr))"

fun loopSettled :: "'w loop_context \<Rightarrow> 'w frame \<Rightarrow> bool" where
  "loopSettled (a, u, fr0) fr \<longleftrightarrow>
     (staged a u (fr_drv fr) \<and> \<not> timeReached (fr_now fr) (a_deadlineMs a) \<or> finished a u (fr_drv fr)) \<and>
     sensor_inv (binding (fr_drv fr0)) (fr_drv fr) \<and> (quiet fr0 fr \<or> spent fr0 fr)"

definition rounds :: "'w frame \<Rightarrow> nat" where
  "rounds fr = (if window (fr_drv fr) (fr_now fr) then 0
                else if waits (activePhase (fr_drv fr)) then 2 else 1)"

lemma pollLoop_Suc:
  "pollLoop (Suc n) fr =
      (if \<not> d_activeValid (fr_drv fr) \<or> settling fr then fr
       else (case step fr of (status, fr') \<Rightarrow>
         if \<not> alive (fr_drv fr') then fr'
         else if \<not> ok status \<and> \<not> inProgress status then
           inDrv (finishOperationFailure status (fr_now fr')) fr'
         else if continues fr status fr' then pollLoop n fr' else fr'))"
  by (auto simp: continues_def alive_def split: prod.split)

declare pollLoop.simps(2) [simp del]

lemma gauge_parts:
  "gauge (snd (snd (failureAfterTransfer st oc ef d))) = gauge d"
  "gauge (snd (snd (failureAfterTimeout st r))) = gauge (snd (snd r))"
  "gauge (snd (snd (failurePersistence st r))) = gauge (snd (snd r))"
  "gauge (snd (snd (failurePartial r))) = gauge (snd (snd r))"
  by (simp_all add: failureAfterTransfer_def failureAfterTimeout_def failurePersistence_def
      failurePartial_def split: prod.split)

lemma gauge_failure [simp]: "gauge (finishOperationFailure st t d) = gauge d"
  by (simp add: finishOperationFailure_def Let_def split: prod.split) (metis gauge_parts snd_conv)

lemma spent_quiet: "spent fr0 fr \<Longrightarrow> quiet fr fr' \<Longrightarrow> spent fr0 fr'"
  unfolding spent_def using called_quiet by (fastforce simp: quiet_def gauge_def)

lemma quiet_trans: "quiet fr0 fr \<Longrightarrow> quiet fr fr' \<Longrightarrow> quiet fr0 fr'"
  by (simp add: quiet_def silent_def)

lemma finished_not_alive: "finished a u d \<Longrightarrow> \<not> alive d"
  by (simp add: finished_def alive_def)

lemma running_alive: "running a u d \<Longrightarrow> alive d"
  by (simp add: running_def alive_def)

text \<open>From the frame the poll began with, a quiet frame makes the calls that frame would make.\<close>

lemma quiet_spent:
  assumes q: "quiet fr0 fr" and s0: "staged a u (fr_drv fr0)" and s: "staged a u (fr_drv fr)"
    and b: "binding (fr_drv fr) = binding (fr_drv fr0)"
    and d: "called req fr fr'" "permitted (a_request (d_active (fr_drv fr))) req"
      "tq_timeoutMs req = transferTimeout (fr_drv fr) (fr_now fr)"
      "used (fr_drv fr') = incrementSaturating (used (fr_drv fr))"
  shows "spent fr0 fr'"
proof -
  have same: "a_request (d_active (fr_drv fr)) = a_request (d_active (fr_drv fr0))"
    "a_deadlineMs (d_active (fr_drv fr)) = a_deadlineMs (d_active (fr_drv fr0))"
    using staged_running [OF s0] staged_running [OF s] by (simp_all add: running_def)
  have si: "silent fr0 fr" and g: "gauge (fr_drv fr) = gauge (fr_drv fr0)"
    using q by (simp_all add: quiet_def)
  have c: "called req fr0 fr'"
    using d(1) si window_gauge [OF g] same(2) by (simp add: called_def silent_def)
  have "transferTimeout (fr_drv fr) (fr_now fr) = transferTimeout (fr_drv fr0) (fr_now fr0)"
    using same(2) b si by (simp add: transferTimeout_def binding_def silent_def Let_def)
  then show ?thesis
    unfolding spent_def using c d g same(1) by (auto simp: gauge_def)
qed

lemma encoded_running: "running a u d \<Longrightarrow> running a v d' \<Longrightarrow> encoded d' = encoded d"
  by (simp add: encoded_def running_def)

lemma step_in_window:
  assumes "window (fr_drv fr) (fr_now fr)" and "step fr = (status, fr')"
  shows "quiet fr fr' \<and> (ok status \<or> inProgress status \<longrightarrow>
    \<not> timeReached (fr_now fr') (a_nextDueMs (d_active (fr_drv fr'))))"
  using assms by (auto simp: step_def window_def Let_def split: if_splits) (simp add: setDue_def)

lemma quiet_window: "quiet fr fr' \<Longrightarrow> window (fr_drv fr') (fr_now fr') \<longleftrightarrow> window (fr_drv fr) (fr_now fr)"
  using window_gauge [of "fr_drv fr'" "fr_drv fr"] by (simp add: quiet_def silent_def)

lemma disciplined_goes:
  assumes "disciplined fr (status, fr')" and "alive (fr_drv fr')" and "ok status \<or> inProgress status"
  shows "quiet fr fr' \<or>
    window (fr_drv fr') (fr_now fr') \<and> \<not> timeReached (fr_now fr') (a_deadlineMs (d_active (fr_drv fr)))"
  using assms by (auto simp: disciplined_def)

lemma step_rounds:
  assumes disc: "disciplined fr (status, fr')" and st: "step fr = (status, fr')" and prog: "inProgress status"
    and c: "continues fr status fr'"
  shows "rounds fr' < rounds fr"
proof -
  have al: "alive (fr_drv fr')" and due: "timeReached (fr_now fr') (a_nextDueMs (d_active (fr_drv fr')))"
    and bud: "fr_budget fr' \<noteq> 0" and ns: "\<not> stalled fr fr'"
    using c by (simp_all add: continues_def)
  have nw: "\<not> window (fr_drv fr) (fr_now fr)"
    using step_in_window [OF _ st] prog due by blast
  show ?thesis
  proof (cases "quiet fr fr'")
    case True
    then have "fr_budget fr \<noteq> 0" and "fr_drv fr' \<noteq> fr_drv fr"
      using bud ns by (auto simp: stalled_def quiet_def silent_def)
    then show ?thesis
      using disc prog al nw True quiet_window [OF True]
      by (auto simp: rounds_def disciplined_def called_def quiet_def silent_def)
  next
    case False
    then show ?thesis
      using disciplined_goes [OF disc al] prog nw by (simp add: rounds_def)
  qed
qed

lemma step_loop:
  assumes head: "loopHead (a, u, fr0) fr" and st: "step fr = (status, fr')"
  shows "quiet fr0 fr' \<or> spent fr0 fr'"
    and "sensor_inv (binding (fr_drv fr0)) (fr_drv fr')"
    and "advances a u (status, fr')"
    and "alive (fr_drv fr') \<Longrightarrow> ok status \<or> inProgress status \<Longrightarrow> loopHead (a, u, fr0) fr'"
    and "continues fr status fr' \<Longrightarrow> rounds fr' < rounds fr"
proof -
  have s0: "staged a u (fr_drv fr0)" and s: "staged a u (fr_drv fr)"
    and inv: "sensor_inv (binding (fr_drv fr0)) (fr_drv fr)"
    and dl: "\<not> timeReached (fr_now fr) (a_deadlineMs a)"
    and q: "quiet fr0 fr \<or> spent fr0 fr \<and> window (fr_drv fr) (fr_now fr)"
    using head by simp_all
  have b: "binding (fr_drv fr) = binding (fr_drv fr0)"
    using inv by (simp add: sensor_inv_def sound_def)
  then have cb: "hasCallback (fr_drv fr)"
    using head by (simp add: hasCallback_def binding_def)
  have adl: "a_deadlineMs (d_active (fr_drv fr)) = a_deadlineMs a" and valid: "d_activeValid (fr_drv fr)"
    using staged_running [OF s] by (simp_all add: running_def)
  show adv: "advances a u (status, fr')"
    using step_advances [OF cb s] st by simp
  show inv': "sensor_inv (binding (fr_drv fr0)) (fr_drv fr')"
    using step_kept [OF cb s inv] st by (simp add: kept_def)
  have disc: "disciplined fr (status, fr')"
    using step_disciplined [OF cb s] st head encoded_running [OF staged_running [OF s0] staged_running [OF s]] by simp
  have "quiet fr fr' \<or> \<not> window (fr_drv fr) (fr_now fr) \<and>
      (\<exists>req. called req fr fr' \<and> permitted (a_request (d_active (fr_drv fr))) req \<and>
         tq_timeoutMs req = transferTimeout (fr_drv fr) (fr_now fr) \<and>
         used (fr_drv fr') = incrementSaturating (used (fr_drv fr)))"
    using disc valid by (auto simp: disciplined_def called_def)
  then show done1: "quiet fr0 fr' \<or> spent fr0 fr'"
    using q quiet_trans spent_quiet quiet_spent [OF _ s0 s b] by blast
  show "loopHead (a, u, fr0) fr'" if g: "alive (fr_drv fr')" "ok status \<or> inProgress status"
  proof -
    note later = disciplined_goes [OF disc g, unfolded adl]
    have "staged a u (fr_drv fr')"
      using adv g finished_not_alive by (auto simp: advances_def)
    moreover have "\<not> timeReached (fr_now fr') (a_deadlineMs a)"
      using later dl by (auto simp: quiet_def silent_def)
    moreover have "quiet fr0 fr' \<or> spent fr0 fr' \<and> window (fr_drv fr') (fr_now fr')"
      using later q quiet_trans spent_quiet quiet_window done1 by blast
    ultimately show ?thesis using head inv' by simp
  qed
  show "rounds fr' < rounds fr" if c: "continues fr status fr'"
    using step_rounds [OF disc st _ c] adv c finished_not_alive by (auto simp: advances_def continues_def)
qed

interpretation engine: bounded_loop step pollLoop loopHead loopSettled rounds
proof unfold_locales
  fix c :: "'a loop_context" and fr fr' :: "'a frame" and status
  obtain a u fr0 where c: "c = (a, u, fr0)" by (metis prod_cases3)
  assume "loopHead c fr" and st: "step fr = (status, fr')"
  then have h: "loopHead (a, u, fr0) fr" by (simp only: c)
  note s = step_loop [OF h st]
  show "\<not> alive (fr_drv fr') \<Longrightarrow> loopSettled c fr'"
    using s(1-3) staged_alive [of a u] running_alive [of a u "fr_drv fr'"]
    by (auto simp: c advances_def split: if_splits)
  show "alive (fr_drv fr') \<Longrightarrow> ok status \<or> inProgress status \<Longrightarrow> loopHead c fr'"
    unfolding c by (rule s(4))
  show "continues fr status fr' \<Longrightarrow> rounds fr' < rounds fr"
    by (rule s(5))
  assume al: "alive (fr_drv fr')" and f: "\<not> ok status" "\<not> inProgress status"
  then have "running a u (fr_drv fr')"
    using s(3) finished_not_alive by (auto simp: advances_def)
  moreover have q: "quiet fr' (inDrv (finishOperationFailure status (fr_now fr')) fr')"
    by (simp add: quiet_def silent_def)
  have "quiet fr0 (inDrv (finishOperationFailure status (fr_now fr')) fr') \<or>
      spent fr0 (inDrv (finishOperationFailure status (fr_now fr')) fr')"
    using s(1) quiet_trans [OF _ q] spent_quiet [OF _ q] by blast
  ultimately show "loopSettled c (inDrv (finishOperationFailure status (fr_now fr')) fr')"
    using s(2) by (simp add: c finished_finishOperationFailure sensor_inv_finishOperationFailure)
qed (auto simp: pollLoop_Suc)


subsection \<open>One poll of an active operation\<close>

lemma pollActive_settled:
  assumes cb: "hasCallback (fr_drv fr)" and e: "encoded (fr_drv fr)" and s: "staged a u (fr_drv fr)"
    and inv: "sensor_inv (binding (fr_drv fr)) (fr_drv fr)"
  shows "loopSettled (a, u, fr) (pollActive fr)"
    and "timeReached (fr_now fr) (a_deadlineMs a) \<Longrightarrow> finished a u (fr_drv (pollActive fr)) \<and> quiet fr (pollActive fr)"
    and "\<not> timeReached (fr_now fr) (a_deadlineMs a) \<Longrightarrow> 3 \<le> n \<Longrightarrow> pollLoop n fr = pollActive fr"
proof -
  have run: "running a u (fr_drv fr)" by (rule staged_running [OF s])
  then have dl: "a_deadlineMs (d_active (fr_drv fr)) = a_deadlineMs a" by (simp add: running_def)
  let ?late = "inDrv (finishOperationFailure (Status_Error Err_TIMEOUT ''Operation deadline expired'' 0) (fr_now fr)) fr"
  have fin: "finished a u (fr_drv ?late)" and inv': "sensor_inv (binding (fr_drv fr)) (fr_drv ?late)"
    using finished_finishOperationFailure [OF run] sensor_inv_finishOperationFailure [OF inv] by simp_all
  then have "\<not> d_activeValid (fr_drv ?late)" by (simp add: finished_def)
  then have stop: "pollLoop k ?late = ?late" for k
    by (cases k) (simp_all add: pollLoop_Suc)
  have late: "pollActive fr = ?late" if "timeReached (fr_now fr) (a_deadlineMs a)"
    using that stop by (simp add: pollActive_def dl)
  have head: "loopHead (a, u, fr) fr" if "\<not> timeReached (fr_now fr) (a_deadlineMs a)"
    using that assms by simp
  have less: "rounds fr < k" if "3 \<le> k" for k
    using that by (simp add: rounds_def)
  show "finished a u (fr_drv (pollActive fr)) \<and> quiet fr (pollActive fr)"
    if "timeReached (fr_now fr) (a_deadlineMs a)"
    using late [OF that] fin by simp
  show "loopSettled (a, u, fr) (pollActive fr)"
  proof (cases "timeReached (fr_now fr) (a_deadlineMs a)")
    case True
    then show ?thesis using late fin inv' by simp
  next
    case False
    then show ?thesis
      using engine.loop_settles [OF head] by (simp add: pollActive_def dl)
  qed
  show "pollLoop n fr = pollActive fr" if "\<not> timeReached (fr_now fr) (a_deadlineMs a)" and "3 \<le> n"
    using engine.loop_enough [OF head [OF that(1)] less [OF that(2)] less, of MAX_CPU_TRANSITIONS] that(1)
    by (simp add: pollActive_def dl)
qed

end
