(* ===== verification/Scd_Invariant.thy ===== *)
theory Scd_Invariant
  imports Scd_Loop
begin

text \<open>
  The invariant of the whole driver. \<open>driver_inv\<close> joins the slot (what an active operation and a
  pending result promise, \<open>slot_ok\<close>), the binding (\<open>bound_ok\<close>) and the sensor state (\<open>core\<close>,
  \<open>linked\<close>); every call of the interface keeps it, so every reachable driver has it. \<open>poll_settled\<close>
  is what one poll does in such a state.
\<close>

definition allowance :: "OperationKind \<Rightarrow> nat" where
  "allowance k = unat (lim_maxCallbacks (limits k))"

definition slot_ok :: "'w driver \<Rightarrow> bool" where
  "slot_ok d \<longleftrightarrow>
     (d_activeValid d \<longrightarrow> d_bound d \<and> \<not> d_terminalValid d \<and> encoded d \<and>
        ok (validateRequestValue (a_request (d_active d))) \<and>
        a_id (d_active d) \<noteq> OperationId_init \<and>
        staged (d_active d) (allowance (activeKind d)) d) \<and>
     (d_terminalValid d \<longrightarrow> allowance (res_kind (d_terminal d)) \<noteq> 0 \<and>
        unat (res_callbacksUsed (d_terminal d)) \<le> allowance (res_kind (d_terminal d)) \<and>
        res_id (d_terminal d) \<noteq> OperationId_init)"

definition bound_ok :: "'w driver \<Rightarrow> bool" where
  "bound_ok d \<longleftrightarrow> (d_bound d \<longrightarrow> ok (validateConfig (d_config d))) \<and>
     (\<not> d_bound d \<longrightarrow> \<not> d_attached d) \<and> d_nextGeneration d \<noteq> 0"

definition driver_inv :: "'w driver \<Rightarrow> bool" where
  "driver_inv d \<longleftrightarrow> slot_ok d \<and> bound_ok d \<and> core d \<and> linked d"

lemma sensor_inv_self: "sensor_inv (binding d) d \<longleftrightarrow> core d \<and> linked d"
  by (simp add: sensor_inv_def sound_def)

lemma staged_self: "staged a u d \<Longrightarrow> staged (d_active d) u d"
  unfolding staged_def running_def by blast

lemma allowance_pos: "allowance k \<noteq> 0 \<longleftrightarrow> k \<noteq> Kind_NONE \<and> k \<noteq> Kind_INVALID"
  using maxCallbacks_0_iff [of k] by (simp add: allowance_def unat_eq_0)

lemma hasCallback_bound: "driver_inv d \<Longrightarrow> d_bound d \<Longrightarrow> hasCallback d"
  by (auto simp: driver_inv_def bound_ok_def hasCallback_def validateConfig_def split: if_splits)

lemma staged_kind: "staged a u d \<Longrightarrow> activeKind d \<noteq> Kind_NONE \<and> activeKind d \<noteq> Kind_INVALID"
  by (auto simp: staged_def rank_def isMeasurement_def isDiagnostic_def isModeKind_def)

lemma driver_inv_init: "driver_inv driver_init"
  by (simp add: driver_inv_def slot_ok_def bound_ok_def core_def linked_def alive_def driver_init_def
      config_ok_def ConfigurationSnapshot_init_def)

lemma driver_inv_begin: "driver_inv d \<Longrightarrow> driver_inv (snd (driverBegin config d))"
  by (simp add: driverBegin_def Let_def)
    (simp add: driver_inv_def slot_ok_def bound_ok_def core_def linked_def alive_def
      config_ok_def ConfigurationSnapshot_init_def)

lemma driver_inv_take: "driver_inv d \<Longrightarrow> driver_inv (snd (snd (takeResult expected out d)))"
  by (auto simp: takeResult_def driver_inv_def slot_ok_def bound_ok_def core_def linked_def alive_def
      strictMismatch_def)

lemma nextGenerationAfter_pos: "nextGenerationAfter g \<noteq> 0"
  by (simp add: nextGenerationAfter_def) (metis add.commute add.right_inverse add_right_cancel)

lemma staged_admitted:
  assumes v: "ok (validateStart request options d)" and d': "d_active d' = admittedActive request options oid d"
    and "d_activeValid d'" and "\<not> d_terminalValid d'"
  shows "staged (d_active d') (allowance (rq_kind request)) d'"
  using rank_first [of "rq_kind request"] validateStart_ok(5,6) [OF v] assms
  by (simp add: staged_def running_def admittedActive_def allowance_def)

lemma validateAdmission_attached:
  "ok (validateAdmission k d) \<Longrightarrow> k \<noteq> Kind_ATTACH \<Longrightarrow> d_attached d"
  by (auto simp: validateAdmission_def split: if_splits)

lemma driver_inv_start:
  assumes "driver_inv d"
  shows "driver_inv (snd (snd (start request options assigned d)))"
proof (cases "ok (validateStart request options d)")
  case False
  then show ?thesis using assms by (simp add: start_eq)
next
  case True
  note v = validateStart_ok [OF True]
  define oid where "oid = \<lparr>oid_requestId = op_requestId options, oid_generation = d_nextGeneration d\<rparr>"
  define d' where "d' = d\<lparr>d_active := admittedActive request options oid d,
    d_workingValue := OperationValue_init, d_lastTransferWasEffectful := False,
    d_lastOwnerNowMs := op_nowMs options, d_lastOwnerNowValid := True,
    d_activeValid := True, d_nextGeneration := nextGenerationAfter (d_nextGeneration d)\<rparr>"
  have d: "snd (snd (start request options assigned d)) = d'"
    using True by (simp add: start_eq d'_def oid_def Let_def)
  have st: "staged (d_active d') (allowance (rq_kind request)) d'"
    using v by (intro staged_admitted [OF True]) (simp_all add: d'_def)
  have "oid \<noteq> OperationId_init"
    using v(4) by (simp add: oid_def OperationId_init_def)
  then have "slot_ok d'"
    using st v by (simp add: slot_ok_def d'_def admittedActive_def encoded_def)
  moreover have "bound_ok d'"
    using assms v(1) nextGenerationAfter_pos by (simp add: driver_inv_def bound_ok_def d'_def)
  moreover have "core d'"
  proof -
    have "core d' = core d" by (simp add: core_def d'_def strictMismatch_def)
    then show ?thesis using assms by (simp add: driver_inv_def)
  qed
  moreover have "linked d'"
    using assms validateAdmission_attached [OF v(11)]
    by (auto simp: driver_inv_def linked_def core_def alive_def d'_def admittedActive_def needsAttached_def)
  ultimately show ?thesis by (simp add: d driver_inv_def)
qed

lemma core_owner [simp]: "core (d\<lparr>d_lastOwnerNowMs := t, d_lastOwnerNowValid := b\<rparr>) = core d"
  by (simp add: core_def strictMismatch_def)

lemma driver_inv_clock [simp]:
  "driver_inv (d\<lparr>d_lastOwnerNowMs := t, d_lastOwnerNowValid := b\<rparr>) = driver_inv d"
  "driver_inv (d\<lparr>d_nextSafeCommandValid := c\<rparr>) = driver_inv d"
  by (auto simp: driver_inv_def slot_ok_def bound_ok_def core_def linked_def alive_def strictMismatch_def
      staged_def running_def encoded_def)

lemma noteOwnerClock_inv: "driver_inv d \<Longrightarrow> driver_inv (noteOwnerClock t d)"
  by (simp add: noteOwnerClock_def Let_def)

lemma noteOwnerClock_simps [simp]:
  "d_active (noteOwnerClock t d) = d_active d" "d_activeValid (noteOwnerClock t d) = d_activeValid d"
  "d_terminal (noteOwnerClock t d) = d_terminal d" "d_terminalValid (noteOwnerClock t d) = d_terminalValid d"
  "d_config (noteOwnerClock t d) = d_config d" "d_bound (noteOwnerClock t d) = d_bound d"
  by (simp_all add: noteOwnerClock_def Let_def)

text \<open>The frame a poll begins its loop with.\<close>

definition pollFrame :: "u32 \<Rightarrow> u8 \<Rightarrow> 'w \<Rightarrow> 'w driver \<Rightarrow> 'w frame" where
  "pollFrame nowMs n w d = frameFor nowMs n w (noteOwnerClock nowMs d)"

lemma pollFrame_simps [simp]:
  "fr_drv (pollFrame t n w d) = noteOwnerClock t d" "fr_now (pollFrame t n w d) = t"
  "fr_budget (pollFrame t n w d) = n" "fr_world (pollFrame t n w d) = w"
  "fr_trace (pollFrame t n w d) = []" "fr_fault (pollFrame t n w d) = False"
  by (simp_all add: pollFrame_def frameFor_def)

lemma poll_runs:
  "d_activeValid d \<Longrightarrow> \<not> d_terminalValid d \<Longrightarrow> ownerClockOk t d \<Longrightarrow>
   poll t n w d = (pollSummary n (pollActive (pollFrame t n w d)), pollActive (pollFrame t n w d))"
  by (simp add: poll_def pollFrame_def Let_def)

lemma poll_rests:
  "\<not> (d_activeValid d \<and> \<not> d_terminalValid d \<and> ownerClockOk t d) \<Longrightarrow> snd (poll t n w d) = pollFrame t n w d"
  by (auto simp: poll_def pollFrame_def Let_def)

lemma driver_inv_slot:
  assumes "driver_inv d" and "d_activeValid d"
  shows "\<not> d_terminalValid d" and "d_bound d" and "encoded d" and "hasCallback d"
    and "staged (d_active d) (allowance (activeKind d)) d"
    and "ok (validateRequestValue (a_request (d_active d)))"
  using assms hasCallback_bound [OF assms(1)] by (simp_all add: driver_inv_def slot_ok_def)

lemma poll_settled:
  assumes inv: "driver_inv d" and act: "d_activeValid d" and clk: "ownerClockOk t d"
  shows "loopSettled (d_active d, allowance (activeKind d), pollFrame t n w d) (snd (poll t n w d))"
    and "timeReached t (a_deadlineMs (d_active d)) \<Longrightarrow>
      finished (d_active d) (allowance (activeKind d)) (fr_drv (snd (poll t n w d))) \<and>
      quiet (pollFrame t n w d) (snd (poll t n w d))"
    and "\<not> timeReached t (a_deadlineMs (d_active d)) \<Longrightarrow> 3 \<le> k \<Longrightarrow>
      pollLoop k (pollFrame t n w d) = snd (poll t n w d)"
proof -
  let ?fr = "pollFrame t n w d"
  have i: "driver_inv (noteOwnerClock t d)" by (rule noteOwnerClock_inv [OF inv])
  have a: "d_activeValid (noteOwnerClock t d)" using act by simp
  note slot = driver_inv_slot [OF i a]
  have p: "snd (poll t n w d) = pollActive ?fr"
    using poll_runs [OF act driver_inv_slot(1) [OF inv act] clk] by simp
  have s: "sensor_inv (binding (fr_drv ?fr)) (fr_drv ?fr)"
    using i by (simp add: sensor_inv_self driver_inv_def)
  note settled = pollActive_settled [of ?fr "d_active d" "allowance (activeKind d)"]
  show "loopSettled (d_active d, allowance (activeKind d), ?fr) (snd (poll t n w d))"
    using settled(1) slot s by (simp add: p)
  show "timeReached t (a_deadlineMs (d_active d)) \<Longrightarrow>
      finished (d_active d) (allowance (activeKind d)) (fr_drv (snd (poll t n w d))) \<and>
      quiet ?fr (snd (poll t n w d))"
    using settled(2) slot s by (simp add: p)
  show "\<not> timeReached t (a_deadlineMs (d_active d)) \<Longrightarrow> 3 \<le> k \<Longrightarrow> pollLoop k ?fr = snd (poll t n w d)"
    using settled(3) slot s by (simp add: p)
qed

lemma bound_ok_binding:
  "binding d' = binding d \<Longrightarrow> core d' \<Longrightarrow> bound_ok d \<Longrightarrow> d_bound d \<Longrightarrow> bound_ok d'"
  by (simp add: binding_def bound_ok_def)

lemma finished_slot:
  assumes "finished (d_active d) u d'" and "u = allowance (activeKind d)" and "slot_ok d" and "d_activeValid d"
  shows "slot_ok d'"
  using assms staged_kind allowance_pos [of "activeKind d"] by (fastforce simp: slot_ok_def finished_def)

lemma staged_slot:
  assumes "staged (d_active d) (allowance (activeKind d)) d'" and "slot_ok d" and "d_activeValid d" and "d_bound d'"
  shows "slot_ok d'"
proof -
  have r: "running (d_active d) (allowance (activeKind d)) d'" by (rule staged_running [OF assms(1)])
  then show ?thesis
    using assms staged_self [OF assms(1)] by (simp add: slot_ok_def running_def encoded_def)
qed

lemma driver_inv_poll:
  assumes inv: "driver_inv d"
  shows "driver_inv (fr_drv (snd (poll t n w d)))"
proof (cases "d_activeValid d \<and> ownerClockOk t d")
  case False
  then have "snd (poll t n w d) = pollFrame t n w d" by (intro poll_rests) blast
  then show ?thesis using noteOwnerClock_inv [OF inv] by simp
next
  case True
  let ?d' = "fr_drv (snd (poll t n w d))" and ?d = "noteOwnerClock t d"
  have i: "driver_inv ?d" by (rule noteOwnerClock_inv [OF inv])
  have s: "loopSettled (d_active d, allowance (activeKind d), pollFrame t n w d) (snd (poll t n w d))"
    using poll_settled(1) [OF inv] True by blast
  then have sens: "core ?d'" "linked ?d'" and b: "binding ?d' = binding ?d"
    by (auto simp: sensor_inv_def sound_def)
  have bnd: "d_bound ?d" using driver_inv_slot(2) [OF i] True by simp
  then have bnd': "d_bound ?d'" using b by (simp add: binding_def)
  have "slot_ok ?d'"
    using s finished_slot [of ?d _ ?d'] staged_slot [of ?d ?d'] i True bnd' by (auto simp: driver_inv_def)
  moreover have "bound_ok ?d'"
    using bound_ok_binding [OF b sens(1)] i bnd by (simp add: driver_inv_def)
  ultimately show ?thesis using sens by (simp add: driver_inv_def)
qed

lemma driver_inv_finish:
  assumes "slot_ok d" and "d_activeValid d" and "bound_ok d" and "core d1" and "binding d1 = binding d0"
    and "bound_ok d0" and "d_bound d0"
    and "running (d_active d) (allowance (activeKind d)) d1"
  shows "driver_inv (finishOperation oc ef st t d1)"
proof -
  have "sound (binding d0) d1" using assms by (simp add: sound_def)
  then have "sensor_inv (binding d0) (finishOperation oc ef st t d1)" by (rule sensor_inv_finish)
  then show ?thesis
    using finished_slot [OF finished_finishOperation [OF assms(8)] refl assms(1,2)] assms(6,7)
      bound_ok_binding [of "finishOperation oc ef st t d1" d0]
    by (simp add: driver_inv_def sensor_inv_def sound_def)
qed

lemma sound_doubtPersistence [sound_intros]: "sound b d \<Longrightarrow> sound b (doubtPersistence d)"
  by (simp add: doubtPersistence_def sound_config)

lemma driver_inv_cancel:
  assumes inv: "driver_inv d"
  shows "driver_inv (snd (cancel oid t d))"
proof (cases "d_activeValid d \<and> a_id (d_active d) = oid")
  case False
  then show ?thesis using inv by (auto simp: cancel_def)
next
  case True
  define t' where "t' = (if d_lastOwnerNowValid d \<and> \<not> timeReached t (d_lastOwnerNowMs d) then d_lastOwnerNowMs d else t)"
  define d0 where "d0 = d\<lparr>d_lastOwnerNowMs := t', d_lastOwnerNowValid := True\<rparr>"
  obtain e d1 where c: "cancelEffect d0 = (e, d1)" by (metis surj_pair)
  have eq: "snd (cancel oid t d) = finishOperation Outcome_CANCELLED e
      (Status_Error Err_CANCELLED ''Operation cancelled'' 0) t' (doubtPersistence d1)"
    using True c by (simp add: cancel_def Let_def t'_def [symmetric] d0_def [symmetric])
  have "sound (binding d0) d0"
    using inv by (simp add: sound_def d0_def driver_inv_def)
  then have "sound (binding d0) d1"
    using c by (auto simp: cancelEffect_def Let_def intro!: sound_intros split: if_splits)
  then have s: "sound (binding d0) (doubtPersistence d1)" by (rule sound_doubtPersistence)
  have "running (d_active d) (allowance (activeKind d)) d0"
    using staged_running [OF driver_inv_slot(5) [OF inv]] True by (simp add: d0_def running_def)
  then have "running (d_active d) (allowance (activeKind d)) d1"
    using c by (auto simp: cancelEffect_def Let_def split: if_splits)
  then have r: "running (d_active d) (allowance (activeKind d)) (doubtPersistence d1)"
    by (simp add: doubtPersistence_def)
  show ?thesis
    unfolding eq using inv True s r driver_inv_slot(2) [OF inv]
    by (intro driver_inv_finish [of d _ d0]) (simp_all add: driver_inv_def sound_def d0_def bound_ok_def)
qed

lemma driver_inv_cancelForEnd:
  assumes inv: "driver_inv d"
  shows "driver_inv (cancelForEnd d)"
proof (cases "d_activeValid d \<and> \<not> d_terminalValid d")
  case False
  then have "cancelForEnd d = d" by (auto simp: cancelForEnd_def)
  then show ?thesis using inv by simp
next
  case True
  define d1 where "d1 = (if a_callbacksUsed (d_active d) > 0 then markReconciliationRequired d else d)"
  have "sound (binding d) d" using inv by (simp add: sound_def driver_inv_def)
  then have s: "sound (binding d) (doubtPersistence d1)"
    by (auto simp: d1_def intro!: sound_intros)
  have r: "running (d_active d) (allowance (activeKind d)) (doubtPersistence d1)"
    using staged_running [OF driver_inv_slot(5) [OF inv]] True by (simp add: doubtPersistence_def d1_def)
  have "driver_inv (finishOperation oc ef st t (doubtPersistence d1))" for oc ef st t
    using inv True s r driver_inv_slot(2) [OF inv]
    by (intro driver_inv_finish [of d _ d]) (simp_all add: driver_inv_def sound_def)
  then show ?thesis
    using True by (simp add: cancelForEnd_def Let_def d1_def [symmetric])
qed

lemma not_active_cancelForEnd: "driver_inv d \<Longrightarrow> \<not> d_activeValid (cancelForEnd d)"
  using driver_inv_slot(1) [of d] by (auto simp: cancelForEnd_def finishOperation_def recordOperationOutcome_def Let_def
      doubtPersistence_def driver_defs)

lemma driver_inv_end:
  assumes inv: "driver_inv d"
  shows "driver_inv (driverEnd d)"
  using driver_inv_cancelForEnd [OF inv] not_active_cancelForEnd [OF inv]
  by (simp add: driverEnd_def Let_def driver_inv_def slot_ok_def bound_ok_def core_def linked_def alive_def config_ok_def)

lemma driver_inv_step: "driver_step d d' \<Longrightarrow> driver_inv d \<Longrightarrow> driver_inv d'"
  by (elim driver_stepE)
    (simp_all add: driver_inv_begin driver_inv_start driver_inv_poll driver_inv_cancel driver_inv_take driver_inv_end)

lemma reachable_inv: "reachable d \<Longrightarrow> driver_inv d"
  by (induction rule: reachable.induct) (auto intro: driver_inv_init driver_inv_step)

end
