(* ===== verification/Scd_Bench.thy ===== *)
theory Scd_Bench
  imports Scd_Invariant
begin

text \<open>
  A bench: a driver bound to a simulated sensor, taken through a complete attach by evaluation in the
  kernel. The properties of the other theories are applied to its drivers.
\<close>

text \<open>
  A sensor that acknowledges everything, answers a nine-byte read with a serial number and a
  three-byte read with the variant word of an SCD41, and completes each transfer at the time its
  world shows.
\<close>

definition benchTransfer :: "u32 I2cTransferFn" where
  "benchTransfer request user now =
     (TransferResult_Ok (length (tq_writeData request) + tq_readLength request) now,
      (if tq_readLength request = 9 then concat (map wordBytes [0x0012, 0x3456, 0x789A])
       else if tq_readLength request = 3 then wordBytes 0x1440 else []), now)"

definition benchConfig :: "u32 Config" where
  "benchConfig = Config_init\<lparr>cfg_transfer := Some benchTransfer\<rparr>"

definition benchOptions :: "u32 \<Rightarrow> u32 \<Rightarrow> OperationOptions" where
  "benchOptions now request = \<lparr>op_requestId = request, op_nowMs = now, op_deadlineMs = now + 10000\<rparr>"

definition benchBound :: "u32 driver" where
  "benchBound = snd (driverBegin benchConfig driver_init)"

definition benchStart :: "OperationRequest \<Rightarrow> u32 \<Rightarrow> u32 driver \<Rightarrow> u32 driver" where
  "benchStart request now d = snd (snd (start request (benchOptions now 7) OperationId_init d))"

definition benchPoll :: "u32 \<Rightarrow> u32 driver \<Rightarrow> u32 driver" where
  "benchPoll now d = fr_drv (snd (poll now 1 now d))"

definition benchAttaching :: "u32 driver" where
  "benchAttaching = benchStart (makeRequest Kind_ATTACH) 1000 benchBound"

lemma reachable_benchBound: "reachable benchBound"
  unfolding benchBound_def by (rule reachable_step [OF reachable_init step_begin])

lemma reachable_benchStart: "reachable d \<Longrightarrow> reachable (benchStart request now d)"
  unfolding benchStart_def by (rule reachable_step [OF _ step_start])

lemma reachable_benchPoll: "reachable d \<Longrightarrow> reachable (benchPoll now d)"
  unfolding benchPoll_def by (rule reachable_step [OF _ step_poll])

lemma reachable_benchAttaching: "reachable benchAttaching"
  unfolding benchAttaching_def by (intro reachable_benchStart reachable_benchBound)

text \<open>
  Everything of a driver but its configuration, whose callback is a function: two drivers with the
  same configuration are equal when these parts evaluate to the same values.
\<close>

definition plain :: "'w driver \<Rightarrow> _" where
  "plain d = ((d_bound d, d_attached d, d_driverState d, d_operatingMode d, d_modeEvidence d),
     (d_reconciliationRequired d, d_nextSafeCommandMs d, d_nextSafeCommandValid d, d_sensorEpoch d,
      d_sampleSequence d, d_nextGeneration d),
     (d_active d, d_activeValid d, d_terminal d, d_terminalValid d, d_workingValue d, d_identity d),
     (d_configuration d, d_pressureCompensation d, d_latestSample d, d_latestSampleValid d, d_health d),
     (d_lastTransferDisposition d, d_lastTransferWasEffectful d, d_lastOwnerNowMs d, d_lastOwnerNowValid d))"

lemma driver_eqI: "d_config d = d_config e \<Longrightarrow> plain d = plain e \<Longrightarrow> (d :: 'w driver) = e"
  by (rule driver.equality) (simp_all add: plain_def)

lemma poll_binding: "driver_inv d \<Longrightarrow> binding (fr_drv (snd (poll t n w d))) = binding (noteOwnerClock t d)"
proof (cases "d_activeValid d \<and> ownerClockOk t d")
  case True
  moreover assume "driver_inv d"
  ultimately show ?thesis
    using poll_settled(1) [of d t n w] by (auto simp: sensor_inv_def sound_def)
next
  case False
  then have "snd (poll t n w d) = pollFrame t n w d" by (intro poll_rests) blast
  then show ?thesis by simp
qed

lemma poll_config: "driver_inv d \<Longrightarrow> d_config (fr_drv (snd (poll t n w d))) = d_config d"
  using poll_binding [of d t n w] by (simp add: binding_def)

lemma config_benchPoll: "reachable d \<Longrightarrow> d_config (benchPoll now d) = d_config d"
  unfolding benchPoll_def by (rule poll_config [OF reachable_inv])

text \<open>
  Evaluation simplifies the branches of a case before their variables are known; with the decoding
  behind a function on the result of the transfer, the words are decoded only once they are there.
\<close>

fun decodeRead :: "u8 \<Rightarrow> Status \<times> u8 list \<times> 'w frame \<Rightarrow> Status \<times> u16 list \<times> 'w frame" where
 "decodeRead count (status, bytes, fr) = (if \<not> ok status then (status, [], fr)
                    else
                      (case decodeWordsFrom 0 (unat count) bytes of
                         Inl i \<Rightarrow>
                           (let status = Status_Error Err_CRC_MISMATCH ''CRC mismatch'' (int i)
                            in (status, [], inDrv (recordProtocolFailure status (fr_now fr)) fr))
                       | Inr words \<Rightarrow> (Status_Ok, words, fr)))"

lemma readWords_decode [code]: "readWords count fr =
     (if count = 0 \<or> count > 3 then
        (Status_Error Err_INVALID_PARAM ''Invalid word read'' 0, [], fr)
      else if \<not> ok (fst (checkCommandSpacing (fr_now fr) (fr_drv fr))) then
        (fst (checkCommandSpacing (fr_now fr) (fr_drv fr)), [], fr\<lparr>fr_drv := snd (checkCommandSpacing (fr_now fr) (fr_drv fr))\<rparr>)
      else decodeRead count (attemptTransfer [] (unat count * DATA_WORD_WITH_CRC) Intent_NORMAL False
                       (fr\<lparr>fr_drv := snd (checkCommandSpacing (fr_now fr) (fr_drv fr))\<rparr>)))"
  by (simp add: readWords_def Let_def split: prod.split)

text \<open>The driver after it has attached, with the result of the operation pending.\<close>

definition benchIdentity :: Identity where
  "benchIdentity = \<lparr>idn_serialNumber = 0x00123456789A, idn_variant = Variant_SCD41,
     idn_sensorEpoch = 1, idn_valid = True, idn_variantWord = 0x1440\<rparr>"

definition benchId :: OperationId where
  "benchId = \<lparr>oid_requestId = 7, oid_generation = 1\<rparr>"

definition benchPending :: "u32 driver" where
  "benchPending = driver_init
     \<lparr>d_config := benchConfig, d_bound := True, d_attached := True, d_driverState := State_READY,
      d_operatingMode := Mode_IDLE, d_modeEvidence := Evidence_VERIFIED,
      d_reconciliationRequired := False, d_nextSafeCommandMs := 1564, d_nextSafeCommandValid := True,
      d_sensorEpoch := 1, d_nextGeneration := 2,
      d_terminal :=
        \<lparr>res_id = benchId, res_kind = Kind_ATTACH, res_outcome = Outcome_SUCCEEDED,
         res_effect = Effect_VERIFIED, res_status = Status_Ok,
         res_finalPhase = Phase_READ_VERIFY_RESPONSE, res_startedMs = 1000, res_completedMs = 1563,
         res_deadlineMs = 11000, res_sensorEpoch = 1, res_operatingMode = Mode_IDLE,
         res_modeEvidence = Evidence_VERIFIED, res_completedFieldMask = 0, res_callbacksUsed = 6,
         res_reconciliationRequired = False,
         res_value = OperationValue_init\<lparr>ov_identity := benchIdentity\<rparr>\<rparr>,
      d_terminalValid := True, d_workingValue := OperationValue_init\<lparr>ov_identity := benchIdentity\<rparr>,
      d_identity := benchIdentity,
      d_configuration := ConfigurationSnapshot_init\<lparr>cs_sensorEpoch := 1\<rparr>,
      d_health := HealthSnapshot_init\<lparr>hs_state := State_READY, hs_lastTransferOkMs := 1563,
        hs_totalTransferSuccess := 6, hs_totalOperationSuccess := 1,
        hs_lastOperationId := benchId, hs_lastOperationKind := Kind_ATTACH\<rparr>,
      d_lastTransferDisposition := Disp_COMPLETE, d_lastOwnerNowMs := 1563, d_lastOwnerNowValid := True\<rparr>"

definition benchAttached :: "u32 driver" where
  "benchAttached = snd (snd (takeResult benchId OperationResult_init benchPending))"

lemma reachable_fold_benchPoll: "reachable d \<Longrightarrow> reachable (fold benchPoll ts d)"
  by (induction ts arbitrary: d) (simp_all add: reachable_benchPoll)

lemma config_fold_benchPoll: "reachable d \<Longrightarrow> d_config (fold benchPoll ts d) = d_config d"
  by (induction ts arbitrary: d) (simp_all add: reachable_benchPoll config_benchPoll)

lemma bench_attaches: "fold benchPoll [1030, 1060, 1560, 1561, 1562, 1563] benchAttaching = benchPending"
proof (rule driver_eqI)
  have "d_config benchAttaching = benchConfig"
    by (simp add: benchAttaching_def benchStart_def start_eq Let_def benchBound_def driverBegin_def
        benchConfig_def validateConfig_def Config_init_def driver_init_def)
  then show "d_config (fold benchPoll [1030, 1060, 1560, 1561, 1562, 1563] benchAttaching) = d_config benchPending"
    by (simp only: config_fold_benchPoll [OF reachable_benchAttaching]) (simp add: benchPending_def)
  show "plain (fold benchPoll [1030, 1060, 1560, 1561, 1562, 1563] benchAttaching) = plain benchPending"
    by code_simp
qed

lemma reachable_benchPending: "reachable benchPending"
  unfolding bench_attaches [symmetric] by (intro reachable_fold_benchPoll reachable_benchAttaching)

lemma reachable_benchAttached: "reachable benchAttached"
  unfolding benchAttached_def by (intro reachable_step [OF reachable_benchPending] step_take)

end
