(* ===== verification/Scd_Calls_Of_Poll.thy ===== *)
theory Scd_Calls_Of_Poll
  imports Scd_Bench
begin

text \<open>
  What one poll of a reachable driver puts on the bus: how many calls, when, for which request and with
  which timeout, which commands need a confirmation, when there is no call at all, what deadlines do,
  and why the bound on the loop of \<open>poll\<close> does not matter.
\<close>

subsection \<open>The calls of one poll\<close>

lemma poll_calls:
  assumes "driver_inv d"
  shows "quiet (pollFrame t n w d) (snd (poll t n w d)) \<or>
    d_activeValid d \<and> ownerClockOk t d \<and> spent (pollFrame t n w d) (snd (poll t n w d))"
proof (cases "d_activeValid d \<and> ownerClockOk t d")
  case True
  then show ?thesis using poll_settled(1) [OF assms, of t n w] by auto
next
  case False
  then have "snd (poll t n w d) = pollFrame t n w d" by (intro poll_rests) blast
  then show ?thesis by simp
qed

lemma poll_used: "poll t n w d = (r, fr) \<Longrightarrow> pr_callbacksUsed r = n - fr_budget fr"
  by (auto simp: poll_def Let_def frameFor_def pendingResult_def activeResult_def PollResult_init_def pollSummary_def
      split: if_splits)

text \<open>
  C13. A poll of a reachable driver makes at most one call of the transport, none when its budget is 0;
  the number it reports is the number of calls it made; and it never calls a null callback.
\<close>
theorem poll_single_callback:
  assumes "reachable d" and "poll t n w d = (r, fr)"
  shows "length (fr_trace fr) \<le> min 1 (unat n) \<and> unat (pr_callbacksUsed r) = length (fr_trace fr) \<and> \<not> fr_fault fr"
proof -
  have n: "n \<noteq> 0 \<Longrightarrow> 1 \<le> unat n" by (simp add: unat_gt_0 Suc_le_eq)
  consider "quiet (pollFrame t n w d) fr" | "spent (pollFrame t n w d) fr"
    using poll_calls [OF reachable_inv [OF assms(1)], of t n w] by (auto simp: assms(2))
  then show ?thesis
    using n poll_used [OF assms(2)] by cases (auto simp: quiet_def silent_def spent_def called_def)
qed

theorem poll_single_callback_witness:
  "length (fr_trace (snd (poll 1030 5 1030 benchAttaching))) \<le> min 1 (unat (5 :: u8)) \<and>
   fr_trace (snd (poll 1030 5 1030 benchAttaching)) \<noteq> []"
  using poll_single_callback [OF reachable_benchAttaching prod.collapse [symmetric], of 1030 5 1030]
  by (intro conjI) (blast, code_simp)

lemma trace_call:
  assumes "driver_inv d" and "(at, req) \<in> set (fr_trace (snd (poll t n w d)))"
  shows "d_activeValid d" and "ownerClockOk t d" and "at = t"
    and "called req (pollFrame t n w d) (snd (poll t n w d))" and "permitted (a_request (d_active d)) req"
    and "tq_timeoutMs req = transferTimeout (noteOwnerClock t d) t"
proof -
  have "\<not> quiet (pollFrame t n w d) (snd (poll t n w d))"
    using assms(2) by (auto simp: quiet_def silent_def)
  then show "d_activeValid d" "ownerClockOk t d" and "at = t"
      "called req (pollFrame t n w d) (snd (poll t n w d))" "permitted (a_request (d_active d)) req"
      "tq_timeoutMs req = transferTimeout (noteOwnerClock t d) t"
    using poll_calls [OF assms(1), of t n w] assms(2) by (auto simp: spent_def called_def)
qed

text \<open>
  C3. Every call of a poll is made at the time of the poll, for the active operation, outside the
  sensor's settling window and before the operation's deadline; it is one of the transfers permitted
  to the operation's request; and its timeout is positive and at most both the configured one and the
  time left to the deadline.
\<close>
theorem poll_call_discipline:
  assumes "reachable d" and "(at, req) \<in> set (fr_trace (snd (poll t n w d)))"
  shows "at = t \<and> d_activeValid d \<and> \<not> (d_nextSafeCommandValid d \<and> \<not> timeReached t (d_nextSafeCommandMs d)) \<and>
    \<not> timeReached t (a_deadlineMs (d_active d)) \<and> permitted (a_request (d_active d)) req \<and>
    0 < tq_timeoutMs req \<and> tq_timeoutMs req \<le> cfg_transferTimeoutMs (d_config d) \<and>
    tq_timeoutMs req \<le> a_deadlineMs (d_active d) - t"
proof -
  note c = trace_call [OF reachable_inv [OF assms(1)] assms(2)]
  have "\<not> window d t"
    using c(4,2) by (auto simp: called_def window_def noteOwnerClock_def Let_def split: if_splits)
  moreover have "tq_timeoutMs req \<noteq> 0" "\<not> timeReached t (a_deadlineMs (d_active d))"
    using c(4) by (simp_all add: called_def)
  ultimately show ?thesis
    using c(1,3,5,6) by (auto simp: window_def transferTimeout_def Let_def word_gt_0)
qed

theorem poll_call_discipline_witness:
  "permitted (a_request (d_active benchAttaching))
     \<lparr>tq_address = I2C_ADDRESS, tq_writeData = commandBytes CMD_WAKE_UP, tq_readLength = 0,
      tq_timeoutMs = 50, tq_intent = Intent_EXPECTED_WRITE_NACK\<rparr>"
proof -
  have "(1030, \<lparr>tq_address = I2C_ADDRESS, tq_writeData = commandBytes CMD_WAKE_UP, tq_readLength = 0,
      tq_timeoutMs = 50, tq_intent = Intent_EXPECTED_WRITE_NACK\<rparr>) \<in> set (fr_trace (snd (poll 1030 1 1030 benchAttaching)))"
    by code_simp
  from poll_call_discipline [OF reachable_benchAttaching this] show ?thesis by blast
qed

text \<open>
  A poll that has nothing to do, because no operation is active, a result is pending or the
  owner's clock moved backwards, makes no call and changes nothing of the driver but the noted clock
  and the flag of an expired settling window; with the clock moved backwards, nothing at all.
\<close>
theorem poll_inert:
  assumes "d_terminalValid d \<or> \<not> d_activeValid d \<or> \<not> ownerClockOk t d"
  shows "fr_trace (snd (poll t n w d)) = [] \<and> fr_world (snd (poll t n w d)) = w \<and>
    (if ownerClockOk t d
     then \<exists>b. fr_drv (snd (poll t n w d)) =
       d\<lparr>d_lastOwnerNowMs := t, d_lastOwnerNowValid := True, d_nextSafeCommandValid := b\<rparr>
     else fr_drv (snd (poll t n w d)) = d)"
proof -
  have "snd (poll t n w d) = pollFrame t n w d"
    using assms by (intro poll_rests) blast
  then show ?thesis
    by (auto simp: noteOwnerClock_def Let_def intro: exI [of _ False] exI [of _ "d_nextSafeCommandValid d"])
qed

theorem poll_inert_witness: "fr_drv (snd (poll 999 1 0 benchAttaching)) = benchAttaching"
proof -
  have "\<not> ownerClockOk 999 benchAttaching" by code_simp
  then show ?thesis using poll_inert [of benchAttaching 999 1 0] by simp
qed

text \<open>
  C15. Deadlines are kept: a poll at or after the deadline of the active operation ends it without
  another call, with its own identity; and after any poll that the owner's clock allows, an operation
  is only left active if the time the poll ended at is before its deadline.
\<close>
theorem deadline_kept:
  assumes "reachable d" and "d_activeValid d" and "ownerClockOk t d" and "snd (poll t n w d) = fr"
  shows "(timeReached t (a_deadlineMs (d_active d)) \<longrightarrow>
      d_terminalValid (fr_drv fr) \<and> \<not> d_activeValid (fr_drv fr) \<and>
      res_id (d_terminal (fr_drv fr)) = a_id (d_active d) \<and> fr_trace fr = []) \<and>
    (d_activeValid (fr_drv fr) \<longrightarrow> \<not> timeReached (fr_now fr) (a_deadlineMs (d_active (fr_drv fr))))"
proof -
  note s = poll_settled(1,2) [OF reachable_inv [OF assms(1)] assms(2,3), where n = n and w = w, unfolded assms(4)]
  from s(2) have "timeReached t (a_deadlineMs (d_active d)) \<Longrightarrow> d_terminalValid (fr_drv fr) \<and>
      \<not> d_activeValid (fr_drv fr) \<and> res_id (d_terminal (fr_drv fr)) = a_id (d_active d) \<and> fr_trace fr = []"
    by (auto simp: finished_def quiet_def silent_def)
  moreover have "d_activeValid (fr_drv fr) \<Longrightarrow> \<not> timeReached (fr_now fr) (a_deadlineMs (d_active (fr_drv fr)))"
    using s(1) by (auto simp: finished_def dest!: staged_running) (simp_all add: running_def)
  ultimately show ?thesis by blast
qed

theorem deadline_kept_witness:
  "d_terminalValid (fr_drv (snd (poll 11000 1 11000 benchAttaching))) \<and>
   fr_trace (snd (poll 11000 1 11000 benchAttaching)) = []"
proof -
  have "d_activeValid benchAttaching" "ownerClockOk 11000 benchAttaching"
    "timeReached 11000 (a_deadlineMs (d_active benchAttaching))"
    by code_simp+
  then show ?thesis using deadline_kept [OF reachable_benchAttaching, of 11000 1 11000] by blast
qed

text \<open>
  C16. The bound of 32 iterations that the loop of a poll has in the source never cuts a poll short:
  three rounds are always enough, and any larger bound gives the same result.
\<close>
theorem three_rounds_enough:
  assumes "reachable d" and "d_activeValid d" and "ownerClockOk t d"
    and "\<not> timeReached t (a_deadlineMs (d_active d))" and "3 \<le> k"
  shows "snd (poll t n w d) = pollLoop k (pollFrame t n w d)"
  using poll_settled(3) [OF reachable_inv [OF assms(1)] assms(2-5)] by simp

theorem three_rounds_enough_witness:
  "snd (poll 1030 1 1030 benchAttaching) = pollLoop 3 (pollFrame 1030 1 1030 benchAttaching)"
proof -
  have "d_activeValid benchAttaching" "ownerClockOk 1030 benchAttaching"
    "\<not> timeReached 1030 (a_deadlineMs (d_active benchAttaching))"
    by code_simp+
  then show ?thesis by (intro three_rounds_enough [OF reachable_benchAttaching]) simp_all
qed

subsection \<open>Irreversible commands\<close>

lemma commandBytes_inject: "commandBytes a = commandBytes b \<longleftrightarrow> a = b"
  by (metis commandBytes_def list.inject wordOfBytes_split)

definition confirmed :: "u16 \<Rightarrow> OperationRequest \<Rightarrow> bool" where
  "confirmed c q \<longleftrightarrow>
     (c = CMD_PERFORM_FORCED_RECALIBRATION \<longrightarrow>
        rq_kind q = Kind_FORCED_RECALIBRATION \<and> rq_confirmation q = Confirm_FORCED_RECALIBRATION) \<and>
     (c = CMD_PERSIST_SETTINGS \<longrightarrow>
        rq_kind q = Kind_PERSIST_SETTINGS \<and> rq_confirmation q = Confirm_PERSIST_SETTINGS) \<and>
     (c = CMD_PERFORM_FACTORY_RESET \<longrightarrow>
        rq_kind q = Kind_FACTORY_RESET \<and> rq_confirmation q = Confirm_FACTORY_RESET)"

lemma commandsOf_confirmed:
  "ok (validateRequestValue q) \<Longrightarrow> c \<in> set (commandsOf q) \<Longrightarrow> confirmed c q"
  by (cases "rq_kind q")
    (auto simp: commandsOf_def Let_def isMeasurement_def isModeKind_def isDiagnostic_def KINDS_def confirmed_def
      validateRequestValue_def validateDiagnosticCommand_def isManagedCommand_def resultKind_def split: if_splits)

lemma permitted_confirmed:
  assumes "permitted q req" and "ok (validateRequestValue q)" and "take 2 (tq_writeData req) = commandBytes c"
  shows "confirmed c q"
proof -
  have "\<exists>c' \<in> set (commandsOf q). take 2 (tq_writeData req) = commandBytes c'"
    using assms(1,3) unfolding permitted_def by (elim conjE disjE bexE) (auto simp: commandBytes_def, metis+)
  then show ?thesis
    using assms(2,3) commandsOf_confirmed commandBytes_inject by auto
qed

text \<open>
  C4. The three commands that wear or erase the sensor's memory are only ever sent for the typed
  operation that stands for them and only when its request carried the matching confirmation; no
  diagnostic request and no other operation can send them.
\<close>
theorem irreversible_needs_confirmation:
  assumes "reachable d" and "(at, req) \<in> set (fr_trace (snd (poll t n w d)))"
    and "take 2 (tq_writeData req) = commandBytes c"
  shows "d_activeValid d \<and>
    (c = CMD_PERFORM_FORCED_RECALIBRATION \<longrightarrow> activeKind d = Kind_FORCED_RECALIBRATION \<and>
       rq_confirmation (a_request (d_active d)) = Confirm_FORCED_RECALIBRATION) \<and>
    (c = CMD_PERSIST_SETTINGS \<longrightarrow> activeKind d = Kind_PERSIST_SETTINGS \<and>
       rq_confirmation (a_request (d_active d)) = Confirm_PERSIST_SETTINGS) \<and>
    (c = CMD_PERFORM_FACTORY_RESET \<longrightarrow> activeKind d = Kind_FACTORY_RESET \<and>
       rq_confirmation (a_request (d_active d)) = Confirm_FACTORY_RESET)"
  using permitted_confirmed [OF trace_call(5) [OF reachable_inv [OF assms(1)] assms(2)] _ assms(3)]
    trace_call(1) [OF reachable_inv [OF assms(1)] assms(2)]
    driver_inv_slot(6) [OF reachable_inv [OF assms(1)]]
  by (simp add: confirmed_def)

theorem irreversible_needs_confirmation_witness:
  "activeKind (benchStart factoryReset 1564 benchAttached) = Kind_FACTORY_RESET"
proof -
  let ?r = "\<lparr>tq_address = I2C_ADDRESS, tq_writeData = commandBytes CMD_PERFORM_FACTORY_RESET, tq_readLength = 0,
      tq_timeoutMs = 50, tq_intent = Intent_NORMAL\<rparr>"
  have "(1564, ?r) \<in> set (fr_trace (snd (poll 1564 1 1564 (benchStart factoryReset 1564 benchAttached))))"
    by code_simp
  from irreversible_needs_confirmation [OF reachable_benchStart [OF reachable_benchAttached] this, of CMD_PERFORM_FACTORY_RESET]
  show ?thesis by (simp add: commandBytes_def)
qed

end
