(* ===== verification/Scd_Lifecycle.thy ===== *)
theory Scd_Lifecycle
  imports Scd_Bench
begin

text \<open>
  What the owner of a driver can rely on between polls: consistent state, a slot that holds one thing,
  \<open>start\<close> that admits or leaves no trace, \<open>cancel\<close> and \<open>takeResult\<close> that act on one identity only.
\<close>

subsection \<open>States that calls can reach\<close>

text \<open>
  C7. In every reachable state the attachment, the demand for reconciliation and the operating mode
  agree: the driver is attached exactly when no reconciliation is required and exactly when the mode
  is known, and then it is bound, knows the identity of the sensor in the current epoch, and, if the
  configuration asks for the strict check, the sensor is an SCD41.
\<close>
theorem attachment_consistent:
  assumes "reachable d"
  shows "d_attached d = (\<not> d_reconciliationRequired d) \<and> d_attached d = (d_operatingMode d \<noteq> Mode_UNKNOWN) \<and>
    (d_attached d \<longrightarrow> d_bound d \<and> idn_valid (d_identity d) \<and> idn_sensorEpoch (d_identity d) = d_sensorEpoch d \<and>
       (cfg_strictVariantCheck (d_config d) \<longrightarrow> idn_variant (d_identity d) = Variant_SCD41))"
  using reachable_inv [OF assms] by (auto simp: driver_inv_def core_def bound_ok_def strictMismatch_def)

theorem attachment_consistent_witness:
  "d_attached benchAttached \<and> \<not> d_reconciliationRequired benchAttached \<and> d_operatingMode benchAttached \<noteq> Mode_UNKNOWN"
proof -
  have "d_attached benchAttached" by code_simp
  then show ?thesis using attachment_consistent [OF reachable_benchAttached] by blast
qed

text \<open>
  C8. What a reachable driver has cached can be relied on: a sample that \<open>peekLatestSample\<close> gives
  out was taken in the current epoch of an attached sensor, lies in the sensor's measurement range
  and has a sequence number; every configuration field marked as verified is in its documented range
  and belongs to an attached sensor; and only the six fields that can be persisted are ever dirty.
\<close>
theorem caches_sound:
  assumes "reachable d"
  shows "(d_latestSampleValid d \<longrightarrow> d_attached d \<and> fs_sensorEpoch (d_latestSample d) = d_sensorEpoch d \<and>
       sample_ok (d_latestSample d)) \<and>
    (cs_verifiedMask (d_configuration d) \<noteq> 0 \<longrightarrow> d_attached d \<and> cs_sensorEpoch (d_configuration d) = d_sensorEpoch d) \<and>
    config_ok (d_configuration d)"
  using reachable_inv [OF assms] by (auto simp: driver_inv_def core_def)

theorem caches_sound_witness: "config_ok (d_configuration benchAttached)"
  using caches_sound [OF reachable_benchAttached] by blast

text \<open>
  C12. The slot of the driver holds an active operation or a pending result, never both. An active
  operation has an identity, belongs to a bound driver with a callback, and has made no more calls
  than the limit of its kind; the same limit holds for the calls reported in every result.
\<close>
theorem slot_exclusive:
  assumes "reachable d"
  shows "\<not> (d_activeValid d \<and> d_terminalValid d) \<and>
    (d_activeValid d \<longrightarrow> d_bound d \<and> cfg_transfer (d_config d) \<noteq> None \<and> a_id (d_active d) \<noteq> OperationId_init \<and>
       a_callbacksUsed (d_active d) \<le> lim_maxCallbacks (limits (activeKind d))) \<and>
    (d_terminalValid d \<longrightarrow> res_id (d_terminal d) \<noteq> OperationId_init \<and>
       res_callbacksUsed (d_terminal d) \<le> lim_maxCallbacks (limits (res_kind (d_terminal d))))"
proof -
  have inv: "driver_inv d" by (rule reachable_inv [OF assms])
  have "d_activeValid d \<Longrightarrow> unat (a_callbacksUsed (d_active d)) \<le> allowance (activeKind d)"
    using staged_running [OF driver_inv_slot(5) [OF inv]] by (simp add: running_def)
  then show ?thesis
    using inv driver_inv_slot(1,2,4) [OF inv]
    by (auto simp: driver_inv_def slot_ok_def allowance_def word_le_nat_alt hasCallback_def)
qed

theorem slot_exclusive_witness:
  "res_callbacksUsed (d_terminal benchPending) \<le> lim_maxCallbacks (limits (res_kind (d_terminal benchPending)))"
proof -
  have "d_terminalValid benchPending" by code_simp
  then show ?thesis using slot_exclusive [OF reachable_benchPending] by blast
qed

subsection \<open>Starting, cancelling, taking\<close>

lemma encode_code:
  "st_code (fst (encodeTemperatureOffsetMilliC v raw)) \<in> {Err_OK, Err_INVALID_PARAM}"
  "st_code (fst (encodeAmbientPressurePa w raw)) \<in> {Err_OK, Err_INVALID_PARAM}"
  by (simp_all add: encodeTemperatureOffsetMilliC_def encodeAmbientPressurePa_def Let_def)

lemma validateRequestValue_code:
  "st_code (validateRequestValue q) \<in> {Err_OK, Err_INVALID_PARAM, Err_CONFIRMATION_REQUIRED, Err_UNSUPPORTED}"
  using encode_code(1) [of "rq_signedValue q" 0] encode_code(2) [of "rq_value q" 0]
  by (cases "rq_kind q")
    (simp_all add: validateRequestValue_def validateDiagnosticCommand_def validateAscPeriod_def, blast+)

lemma validateMode_code: "st_code (validateMode k d) \<in> {Err_OK, Err_BUSY}"
  by (simp add: validateMode_def)

lemma validateStart_code: "st_code (validateStart q options d) \<noteq> Err_IN_PROGRESS"
proof -
  have "st_code (validateRequestValue q) \<noteq> Err_IN_PROGRESS" "st_code (validateMode (rq_kind q) d) \<noteq> Err_IN_PROGRESS"
    using validateRequestValue_code [of q] validateMode_code [of "rq_kind q" d] by auto
  then show ?thesis by (simp add: validateStart_def validateAdmission_def Let_def)
qed

lemma nextGeneration_number: "unat (nextGenerationAfter g) = (if unat g = 2 ^ 32 - 1 then 1 else unat g + 1)"
proof -
  have "g = - 1 \<longleftrightarrow> unat g = 2 ^ 32 - 1" by (simp add: word_unat_eq_iff unat_minus_one_word_max)
  moreover have "g \<noteq> - 1 \<Longrightarrow> unat (g + 1) = unat g + 1"
    using unatSuc [of g] by (simp add: add.commute) (metis add.commute add_eq_0_iff2)
  ultimately show ?thesis by (simp add: nextGenerationAfter_def)
qed

lemma nextGeneration_other: "nextGenerationAfter g \<noteq> g"
  by (auto simp: nextGenerationAfter_def)


text \<open>
  C23. In a reachable state \<open>start\<close> answers NOT_INITIALIZED only for a driver that is not bound: a
  sensor that is not attached always needs reconciliation, so the branch of the admission test that
  says "Sensor is not attached" is never taken.
\<close>
theorem not_initialized_means_unbound:
  assumes "reachable d" and "st_code (fst (start request options assigned d)) = Err_NOT_INITIALIZED"
  shows "\<not> d_bound d"
proof -
  have "st_code (validateRequestValue request) \<noteq> Err_NOT_INITIALIZED"
    "st_code (validateMode (rq_kind request) d) \<noteq> Err_NOT_INITIALIZED"
    using validateRequestValue_code [of request] validateMode_code [of "rq_kind request" d] by auto
  moreover have "\<not> d_attached d \<Longrightarrow> d_reconciliationRequired d"
    using reachable_inv [OF assms(1)] by (simp add: driver_inv_def core_def)
  ultimately show ?thesis
    using assms(2) by (auto simp: start_eq validateStart_def validateAdmission_def Let_def split: if_splits)
qed

theorem not_initialized_means_unbound_witness: "\<not> d_bound (driver_init :: u32 driver)"
  by (rule not_initialized_means_unbound [of _ "makeRequest Kind_ATTACH" "benchOptions 0 7" OperationId_init])
    (rule reachable_init, code_simp)

lemma finishOperation_alive:
  assumes "alive d"
  shows "d_activeValid (finishOperation oc ef st t d) = False" and "d_terminalValid (finishOperation oc ef st t d) = True"
    and "res_outcome (d_terminal (finishOperation oc ef st t d)) = oc"
    and "res_effect (d_terminal (finishOperation oc ef st t d)) = ef"
    and "res_status (d_terminal (finishOperation oc ef st t d)) = st"
    and "res_id (d_terminal (finishOperation oc ef st t d)) = a_id (d_active d)"
    and "res_kind (d_terminal (finishOperation oc ef st t d)) = activeKind d"
    and "res_callbacksUsed (d_terminal (finishOperation oc ef st t d)) = a_callbacksUsed (d_active d)"
  using assms
  by (simp_all add: alive_def finishOperation_def Let_def recordOperationOutcome_def resultOf_def settleReset_def setter_defs)

lemma finishOperation_sensor [simp]:
  "d_attached (finishOperation oc ef st t d) = d_attached d"
  "d_operatingMode (finishOperation oc ef st t d) = d_operatingMode d"
  "d_reconciliationRequired (finishOperation oc ef st t d) = d_reconciliationRequired d"
  by (simp_all add: finishOperation_def Let_def recordOperationOutcome_def settleReset_def setter_defs)

lemma doubtPersistence_simps [simp]:
  "d_attached (doubtPersistence d) = d_attached d" "d_operatingMode (doubtPersistence d) = d_operatingMode d"
  "d_reconciliationRequired (doubtPersistence d) = d_reconciliationRequired d"
  "d_active (doubtPersistence d) = d_active d" "alive (doubtPersistence d) = alive d"
  by (simp_all add: doubtPersistence_def setter_defs alive_def)

lemma cancelEffect_simps:
  assumes "cancelEffect d = (effect, d')"
  shows "d_active d' = d_active d" and "alive d' = alive d"
    and "a_callbacksUsed (d_active d) = 0 \<Longrightarrow> d' = d \<and> effect \<in> {Effect_NONE, Effect_NOT_ATTEMPTED}"
    and "a_callbacksUsed (d_active d) \<noteq> 0 \<Longrightarrow> a_effectfulWriteAttempted (d_active d) \<Longrightarrow>
      d_reconciliationRequired d' \<and> \<not> d_attached d' \<and> effect \<noteq> Effect_NOT_ATTEMPTED"
  using assms by (auto simp: cancelEffect_def Let_def markReconciliationRequired_def setMode_def alive_def split: if_splits)

text \<open>
  C17. \<open>cancel\<close> ends the active operation exactly when it is given its identity, with the outcome
  CANCELLED and the number of calls made so far; without a call made it reports no effect and keeps
  the attachment, and once a write with an effect was attempted it never reports NOT_ATTEMPTED and
  demands reconciliation. With any other identity, or with no active operation, it fails and changes
  nothing.
\<close>
theorem cancel_outcomes:
  assumes "reachable d" and "cancel oid t d = (status, d')"
  shows "if d_activeValid d \<and> a_id (d_active d) = oid
    then ok status \<and> operationState d' = Slot_RESULT_PENDING \<and> res_id (d_terminal d') = oid \<and>
      res_outcome (d_terminal d') = Outcome_CANCELLED \<and>
      res_callbacksUsed (d_terminal d') = a_callbacksUsed (d_active d) \<and>
      (a_callbacksUsed (d_active d) = 0 \<longrightarrow> d_attached d' = d_attached d \<and> d_operatingMode d' = d_operatingMode d \<and>
         res_effect (d_terminal d') \<in> {Effect_NONE, Effect_NOT_ATTEMPTED}) \<and>
      (a_callbacksUsed (d_active d) \<noteq> 0 \<and> a_effectfulWriteAttempted (d_active d) \<longrightarrow>
         d_reconciliationRequired d' \<and> \<not> d_attached d' \<and> res_effect (d_terminal d') \<noteq> Effect_NOT_ATTEMPTED)
    else \<not> ok status \<and> d' = d"
proof (cases "d_activeValid d \<and> a_id (d_active d) = oid")
  case True
  define t' where "t' = (if d_lastOwnerNowValid d \<and> \<not> timeReached t (d_lastOwnerNowMs d) then d_lastOwnerNowMs d else t)"
  obtain e d1 where c: "cancelEffect (d\<lparr>d_lastOwnerNowMs := t', d_lastOwnerNowValid := True\<rparr>) = (e, d1)"
    by (metis surj_pair)
  have st: "status = Status_Ok" and d': "d' = finishOperation Outcome_CANCELLED e
      (Status_Error Err_CANCELLED ''Operation cancelled'' 0) t' (doubtPersistence d1)"
    using assms(2) True c by (simp_all add: cancel_def Let_def t'_def [symmetric])
  have "alive d"
    using True driver_inv_slot(1) [OF reachable_inv [OF assms(1)]] by (simp add: alive_def)
  then have "alive (d\<lparr>d_lastOwnerNowMs := t', d_lastOwnerNowValid := True\<rparr>)"
    by (simp add: alive_def)
  then have "alive (doubtPersistence d1)"
    using cancelEffect_simps(2) [OF c] by simp
  then have r: "d_terminalValid d'" "res_id (d_terminal d') = oid" "res_outcome (d_terminal d') = Outcome_CANCELLED"
    "res_effect (d_terminal d') = e" "res_callbacksUsed (d_terminal d') = a_callbacksUsed (d_active d)"
    "d_attached d' = d_attached d1" "d_operatingMode d' = d_operatingMode d1"
    "d_reconciliationRequired d' = d_reconciliationRequired d1"
    using True cancelEffect_simps(1) [OF c] by (simp_all add: d' finishOperation_alive)
  then show ?thesis
    using True cancelEffect_simps(3,4) [OF c] by (auto simp: st operationState_def)
next
  case False
  then show ?thesis using assms(2) by (auto simp: cancel_def split: if_splits)
qed

theorem cancel_outcomes_witness:
  "res_outcome (d_terminal (snd (cancel benchId 1040 (benchPoll 1030 benchAttaching)))) = Outcome_CANCELLED \<and>
   d_reconciliationRequired (snd (cancel benchId 1040 (benchPoll 1030 benchAttaching)))"
proof -
  have "d_activeValid (benchPoll 1030 benchAttaching)" "a_id (d_active (benchPoll 1030 benchAttaching)) = benchId"
    "a_callbacksUsed (d_active (benchPoll 1030 benchAttaching)) \<noteq> 0"
    "a_effectfulWriteAttempted (d_active (benchPoll 1030 benchAttaching))"
    by code_simp+
  then show ?thesis
    using cancel_outcomes [OF reachable_benchPoll [OF reachable_benchAttaching] prod.collapse [symmetric], of 1030 benchId 1040]
    by simp
qed

text \<open>
  A result is handed out exactly once, and only under its own identity: with it, \<open>takeResult\<close>
  gives the pending result and empties the slot, so that every later take says RESULT_NOT_READY; with
  another identity it says STALE_RESULT and the result stays.
\<close>
theorem result_taken_once:
  "let (status, result, d') = takeResult expected out d in
   if d_terminalValid d \<and> res_id (d_terminal d) = expected
   then ok status \<and> result = d_terminal d \<and> \<not> d_terminalValid d' \<and>
     (\<forall>expected' out'. \<exists>status'. takeResult expected' out' d' = (status', out', d') \<and> st_code status' = Err_RESULT_NOT_READY)
   else result = out \<and> d' = d \<and> st_code status = (if d_terminalValid d then Err_STALE_RESULT else Err_RESULT_NOT_READY)"
  by (simp add: takeResult_def Let_def)

end
