(* ===== verification/Scd_Reference.thy ===== *)
theory Scd_Reference
  imports Scd_Lifecycle
begin

text \<open>
  Reference definitions: the admission test as a table of modes, generations as a cycle of numbers, and
  the driver as a slot that goes from free to busy to done and back. The driver implements each of them.
\<close>

unbundle bit_operations_syntax

subsection \<open>Admission\<close>

fun kindsIn :: "OperatingMode \<Rightarrow> OperationKind \<Rightarrow> bool" where
  "kindsIn Mode_IDLE k = (k \<noteq> Kind_FETCH_SAMPLE \<and> k \<noteq> Kind_STOP_PERIODIC)"
| "kindsIn Mode_POWER_DOWN k = (k = Kind_WAKE_UP)"
| "kindsIn Mode_UNKNOWN k = False"
| "kindsIn _ k = (k \<in> {Kind_READ_DATA_READY, Kind_FETCH_SAMPLE, Kind_READ_AMBIENT_PRESSURE,
     Kind_SET_AMBIENT_PRESSURE, Kind_STOP_PERIODIC})"

definition admissible :: "OperationKind \<Rightarrow> 'w driver \<Rightarrow> bool" where
  "admissible k d \<longleftrightarrow> k = Kind_ATTACH \<or>
     d_attached d \<and> kindsIn (d_operatingMode d) k \<and>
     (k = Kind_PERSIST_SETTINGS \<longrightarrow> cs_persistenceIndeterminate (d_configuration d) \<or>
        (\<forall>n < 7. bit (cs_dirtyMask (d_configuration d)) n \<longrightarrow> bit (cs_verifiedMask (d_configuration d)) n)) \<and>
     (variantRestricted k \<longrightarrow> idn_variant (d_identity d) \<in> {Variant_SCD41, Variant_SCD43})"

lemma mask_subset:
  fixes v m :: u16
  assumes "\<And>n. bit v n \<Longrightarrow> n < 7"
  shows "v AND NOT m = 0 \<longleftrightarrow> (\<forall>n < 7. bit v n \<longrightarrow> bit m n)"
proof -
  have "v AND NOT m = 0 \<longleftrightarrow> (\<forall>n. bit v n \<longrightarrow> bit m n)"
  proof
    assume "v AND NOT m = 0"
    then have "\<not> bit (v AND NOT m) n" for n by simp
    then show "\<forall>n. bit v n \<longrightarrow> bit m n" by (simp add: bit_mask_not)
  qed (rule bit_eqI, simp add: bit_mask_not)
  then show ?thesis using assms by blast
qed

lemma periodicAllowed_iff: "periodicAllowed k \<longleftrightarrow> k \<in> {Kind_READ_DATA_READY, Kind_FETCH_SAMPLE,
    Kind_READ_AMBIENT_PRESSURE, Kind_SET_AMBIENT_PRESSURE, Kind_STOP_PERIODIC}"
  by (simp add: periodicAllowed_def)

lemma admission_core:
  assumes "core d"
  shows "ok (validateAdmission k d) \<longleftrightarrow> admissible k d"
proof -
  note c = assms
  have m: "cs_dirtyMask (d_configuration d) AND NOT (cs_verifiedMask (d_configuration d)) = 0 \<longleftrightarrow>
      (\<forall>n < 7. bit (cs_dirtyMask (d_configuration d)) n \<longrightarrow> bit (cs_verifiedMask (d_configuration d)) n)"
    using c by (intro mask_subset) (auto simp: core_def config_ok_def)
  have v: "d_attached d \<Longrightarrow> idn_valid (d_identity d) \<and> \<not> d_reconciliationRequired d \<and> d_operatingMode d \<noteq> Mode_UNKNOWN"
    using c by (auto simp: core_def)
  have mode: "d_operatingMode d \<noteq> Mode_UNKNOWN \<Longrightarrow> ok (validateMode k d) = kindsIn (d_operatingMode d) k"
    by (cases "d_operatingMode d") (simp_all add: validateMode_def periodicAllowed_iff)
  show ?thesis
    using v mode by (cases "d_attached d") (auto simp: validateAdmission_def admissible_def m)
qed

text \<open>
  C6. In a reachable state the admission test accepts exactly what the reference says: ATTACH always;
  otherwise the sensor is attached, its mode permits the kind (all but two when idle, five while it
  measures periodically, only WAKE_UP when powered down), settings are persisted only if every dirty
  field has a verified read-back or a persistence is in doubt, and the kinds the datasheet reserves to
  SCD41 and SCD43 need one of these.
\<close>
theorem admission_iff_reference:
  assumes "reachable d"
  shows "ok (validateAdmission k d) \<longleftrightarrow> admissible k d"
  using reachable_inv [OF assms] by (intro admission_core) (simp add: driver_inv_def)

theorem admission_iff_reference_witness:
  "ok (validateAdmission Kind_PERSIST_SETTINGS benchAttached) \<and> \<not> ok (validateAdmission Kind_FETCH_SAMPLE benchAttached)"
proof -
  have "d_attached benchAttached" "d_operatingMode benchAttached = Mode_IDLE" "cs_dirtyMask (d_configuration benchAttached) = 0"
    by code_simp+
  then have "admissible Kind_PERSIST_SETTINGS benchAttached" "\<not> admissible Kind_FETCH_SAMPLE benchAttached"
    by (simp_all add: admissible_def)
  then show ?thesis using admission_iff_reference [OF reachable_benchAttached] by blast
qed

subsection \<open>Generations\<close>

lemma generation_range: "g \<noteq> 0 \<Longrightarrow> 0 < uint g \<and> uint g < 2 ^ 32" for g :: u32
  using unsigned_less [where ?'a = int, of g] uint_ge_0 [of g] by (simp add: order_less_le) (metis uint_0_iff)

lemma nextGeneration_index:
  assumes "g \<noteq> 0"
  shows "uint (nextGenerationAfter g) - 1 = (uint g - 1 + 1) mod (2 ^ 32 - 1)"
proof (cases "g = - 1")
  case True
  then show ?thesis by (simp add: nextGenerationAfter_def unsigned_minus_1_eq_mask mask_eq_exp_minus_1)
next
  case False
  then have "g + 1 \<noteq> 0" by (metis add.inverse_unique add.commute)
  then have u: "uint (g + 1) = uint g + 1" by (metis add.commute unatSuc uint_nat int_Suc)
  then have "uint g + 1 < 2 ^ 32" using generation_range [OF \<open>g + 1 \<noteq> 0\<close>] by simp
  then have "uint g mod (2 ^ 32 - 1) = uint g"
    using generation_range [OF assms] by (intro mod_pos_pos_trivial) simp_all
  then show ?thesis using False u by (simp add: nextGenerationAfter_def)
qed

lemma nextGeneration_iterate:
  assumes "g \<noteq> 0"
  shows "(nextGenerationAfter ^^ k) g \<noteq> 0 \<and>
    uint ((nextGenerationAfter ^^ k) g) - 1 = (uint g - 1 + int k) mod (2 ^ 32 - 1)"
proof (induction k)
  case 0
  have "(uint g - 1) mod (2 ^ 32 - 1) = uint g - 1"
    using generation_range [OF assms] by (intro mod_pos_pos_trivial) simp_all
  then show ?case using assms by simp
next
  case (Suc k)
  let ?h = "(nextGenerationAfter ^^ k) g"
  have "uint (nextGenerationAfter ?h) - 1 = ((uint g - 1 + int k) mod (2 ^ 32 - 1) + 1) mod (2 ^ 32 - 1)"
    using nextGeneration_index [of ?h] Suc by metis
  also have "\<dots> = (uint g - 1 + int (Suc k)) mod (2 ^ 32 - 1)"
    by (simp only: mod_add_left_eq) (simp add: algebra_simps)
  finally show ?case using nextGenerationAfter_pos by simp
qed

text \<open>
  C22. Generations never repeat before all of them have been used: they skip 0, and from any
  generation on, each of the next \<open>2 ^ 32 - 2\<close> is different from it, so that identities handed out by
  \<open>start\<close> differ even when the owner uses the same number again.
\<close>
theorem generations_distinct:
  assumes "g \<noteq> 0" and "0 < k" and "k < 2 ^ 32 - 1"
  shows "(nextGenerationAfter ^^ k) g \<noteq> g \<and> (nextGenerationAfter ^^ k) g \<noteq> 0"
proof -
  have i: "(uint g - 1) mod (2 ^ 32 - 1) = uint g - 1"
    using generation_range [OF assms(1)] by (intro mod_pos_pos_trivial) simp_all
  have "(uint g - 1 + int k) mod (2 ^ 32 - 1) \<noteq> (uint g - 1) mod (2 ^ 32 - 1)"
  proof
    assume "(uint g - 1 + int k) mod (2 ^ 32 - 1) = (uint g - 1) mod (2 ^ 32 - 1)"
    then have "(2 ^ 32 - 1) dvd int k" by (metis add_diff_cancel_left' mod_eq_dvd_iff)
    then show False using assms(2,3) zdvd_imp_le [of "2 ^ 32 - 1" "int k"] by simp
  qed
  then show ?thesis
    using nextGeneration_iterate [OF assms(1), of k] i by auto
qed

theorem generations_distinct_witness: "(nextGenerationAfter ^^ 3) (- 1) \<noteq> - 1"
  using generations_distinct [of "- 1" 3] by simp

subsection \<open>The slot\<close>

datatype slot = Slot_free | Slot_busy OperationId OperationKind | Slot_done OperationId OperationKind

definition slotOf :: "'w driver \<Rightarrow> slot" where
  "slotOf d = (if d_terminalValid d then Slot_done (res_id (d_terminal d)) (res_kind (d_terminal d))
     else if d_activeValid d then Slot_busy (a_id (d_active d)) (activeKind d) else Slot_free)"

inductive slot_step :: "slot \<Rightarrow> slot \<Rightarrow> bool" where
  slot_stay: "slot_step s s"
| slot_admit: "i \<noteq> OperationId_init \<Longrightarrow> k \<noteq> Kind_NONE \<Longrightarrow> k \<noteq> Kind_INVALID \<Longrightarrow> slot_step Slot_free (Slot_busy i k)"
| slot_finish: "slot_step (Slot_busy i k) (Slot_done i k)"
| slot_take: "slot_step (Slot_done i k) Slot_free"

lemma slot_begin: "slotOf (snd (driverBegin config d)) = slotOf d"
  by (simp add: driverBegin_def Let_def slotOf_def)

lemma slot_start: "slot_step (slotOf d) (slotOf (snd (snd (start request options assigned d))))"
proof (cases "ok (validateStart request options d)")
  case True
  have "\<lparr>oid_requestId = op_requestId options, oid_generation = d_nextGeneration d\<rparr> \<noteq> OperationId_init"
    using validateStart_ok(4) [OF True] by (simp add: OperationId_init_def)
  then show ?thesis
    using validateStart_ok [OF True] True
    by (auto simp: start_eq Let_def slotOf_def admittedActive_def intro: slot_admit)
next
  case False
  then show ?thesis by (simp add: start_eq slot_stay)
qed

lemma slot_running: "running (d_active d) u d' \<Longrightarrow> alive d \<Longrightarrow> slotOf d' = slotOf d"
  by (simp add: running_def slotOf_def alive_def)

lemma slot_finished: "finished (d_active d) u d' \<Longrightarrow> alive d \<Longrightarrow> slot_step (slotOf d) (slotOf d')"
  by (simp add: finished_def slotOf_def alive_def slot_finish)

lemma slot_alive: "driver_inv d \<Longrightarrow> d_activeValid d \<Longrightarrow> alive d"
  using driver_inv_slot(1) by (simp add: alive_def)

lemma slot_poll:
  assumes "driver_inv d"
  shows "slot_step (slotOf d) (slotOf (fr_drv (snd (poll t n w d))))"
proof (cases "d_activeValid d \<and> ownerClockOk t d")
  case True
  then have "staged (d_active d) (allowance (activeKind d)) (fr_drv (snd (poll t n w d))) \<or>
      finished (d_active d) (allowance (activeKind d)) (fr_drv (snd (poll t n w d)))"
    using poll_settled(1) [OF assms, of t n w] by auto
  then show ?thesis
    using slot_running [OF staged_running] slot_finished slot_alive [OF assms] True slot_stay by metis
next
  case False
  then have "snd (poll t n w d) = pollFrame t n w d" by (intro poll_rests) blast
  then have "slotOf (fr_drv (snd (poll t n w d))) = slotOf d" by (simp add: slotOf_def)
  then show ?thesis by (simp add: slot_stay)
qed

lemma slot_finishOperation: "alive d \<Longrightarrow> slot_step (slotOf d) (slotOf (finishOperation oc ef st t d))"
  by (rule slot_finished [OF finished_finishOperation [of _ "unat (a_callbacksUsed (d_active d))"]])
    (simp_all add: running_def alive_def)

lemma slotOf_sensor [simp]:
  "slotOf (markReconciliationRequired d) = slotOf d" "slotOf (doubtPersistence d) = slotOf d"
  "slotOf (d\<lparr>d_lastOwnerNowMs := t, d_lastOwnerNowValid := b\<rparr>) = slotOf d"
  "alive (markReconciliationRequired d) = alive d" "alive (doubtPersistence d) = alive d"
  by (simp_all add: slotOf_def alive_def markReconciliationRequired_def setMode_def doubtPersistence_def
      setPersistenceIndeterminate_def Let_def)

lemma cancelEffect_slot: "cancelEffect d = (e, d') \<Longrightarrow> slotOf d' = slotOf d \<and> alive d' = alive d"
  by (auto simp: cancelEffect_def Let_def split: if_splits)

lemma slot_cancel:
  assumes "driver_inv d"
  shows "slot_step (slotOf d) (slotOf (snd (cancel oid t d)))"
proof (cases "d_activeValid d \<and> a_id (d_active d) = oid")
  case True
  define t' where "t' = (if d_lastOwnerNowValid d \<and> \<not> timeReached t (d_lastOwnerNowMs d) then d_lastOwnerNowMs d else t)"
  obtain e d1 where c: "cancelEffect (d\<lparr>d_lastOwnerNowMs := t', d_lastOwnerNowValid := True\<rparr>) = (e, d1)"
    by (metis surj_pair)
  have eq: "snd (cancel oid t d) = finishOperation Outcome_CANCELLED e
      (Status_Error Err_CANCELLED ''Operation cancelled'' 0) t' (doubtPersistence d1)"
    using True c by (simp add: cancel_def Let_def t'_def [symmetric])
  have "alive (d\<lparr>d_lastOwnerNowMs := t', d_lastOwnerNowValid := True\<rparr>)"
    using slot_alive [OF assms] True by (simp add: alive_def)
  then have "slotOf d1 = slotOf d" "alive d1"
    using cancelEffect_slot [OF c] by simp_all
  then show ?thesis
    unfolding eq using slot_finishOperation [of "doubtPersistence d1"] by simp
next
  case False
  then show ?thesis by (auto simp: cancel_def slot_stay)
qed

lemma slot_end: "slot_step (slotOf d) (slotOf (driverEnd d))"
proof -
  have "slotOf (driverEnd d) = slotOf (cancelForEnd d)"
    by (simp add: driverEnd_def Let_def slotOf_def)
  moreover have "slot_step (slotOf d) (slotOf (cancelForEnd d))"
  proof (cases "alive d")
    case True
    then have "slot_step (slotOf d) (slotOf (finishOperation oc ef st t (doubtPersistence d)))"
      "slot_step (slotOf d) (slotOf (finishOperation oc ef st t (doubtPersistence (markReconciliationRequired d))))" for oc ef st t
      using slot_finishOperation [of "doubtPersistence d"] slot_finishOperation [of "doubtPersistence (markReconciliationRequired d)"]
      by simp_all
    then show ?thesis by (simp add: cancelForEnd_def Let_def slot_stay)
  next
    case False
    then have "cancelForEnd d = d" by (auto simp: cancelForEnd_def alive_def)
    then show ?thesis by (simp add: slot_stay)
  qed
  ultimately show ?thesis by simp
qed

text \<open>
  C5. The driver refines a slot that is free, busy with one operation or done with one: every call of
  the interface, with any arguments and any world, takes a reachable driver either nowhere or along
  one arrow free, busy, done, free. So a result always carries the identity and the kind its operation
  was admitted with, and no result is ever lost, replaced or made up.
\<close>
theorem driver_refines_slot:
  assumes "reachable d" and "driver_step d d'"
  shows "slot_step (slotOf d) (slotOf d')"
proof -
  have inv: "driver_inv d" by (rule reachable_inv [OF assms(1)])
  show ?thesis
    using assms(2)
  proof cases
    case step_take
    then show ?thesis
      by (auto simp: takeResult_def slotOf_def dest: driver_inv_slot(1) [OF inv] intro: slot_step.intros)
  qed (simp_all add: slot_begin slot_start slot_poll [OF inv] slot_cancel [OF inv] slot_end slot_stay)
qed

theorem driver_refines_slot_witness: "slot_step (slotOf benchPending) (slotOf benchAttached)"
  unfolding benchAttached_def by (rule driver_refines_slot [OF reachable_benchPending step_take])

end
