(* ===== verification/Scd_Failures.thy ===== *)
theory Scd_Failures
  imports Scd_Lifecycle
begin

text \<open>
  Failures and health: what a failed operation reports when a command may have been executed, and the
  driver's health as a function of the transfers it made.
\<close>

subsection \<open>Failures\<close>

text \<open>
  The status and the last transfer leave open whether the sensor has executed a command with an
  effect: the transfer of one may have happened, or the deadline passed after one was attempted.
\<close>

definition effectInDoubt :: "Status \<Rightarrow> 'w driver \<Rightarrow> bool" where
  "effectInDoubt status d \<longleftrightarrow>
     d_lastTransferWasEffectful d \<and> d_lastTransferDisposition d = Disp_INDETERMINATE \<or>
     st_code status = Err_TIMEOUT \<and> (a_effectfulWriteAttempted (d_active d) \<or>
       d_lastTransferWasEffectful d \<and> d_lastTransferDisposition d \<notin> {Disp_NOT_STARTED, Disp_NO_EFFECT})"

lemma mark_simps [simp]:
  "d_attached (markReconciliationRequired d) = False" "d_reconciliationRequired (markReconciliationRequired d) = True"
  "d_latestSampleValid (markReconciliationRequired d) = False" "d_operatingMode (markReconciliationRequired d) = Mode_UNKNOWN"
  "d_active (markReconciliationRequired d) = d_active d" "d_activeValid (markReconciliationRequired d) = d_activeValid d"
  "d_terminalValid (markReconciliationRequired d) = d_terminalValid d"
  by (simp_all add: markReconciliationRequired_def setMode_def Let_def)

lemma setPersistence_simps [simp]:
  "d_attached (setPersistenceIndeterminate b d) = d_attached d"
  "d_reconciliationRequired (setPersistenceIndeterminate b d) = d_reconciliationRequired d"
  "d_latestSampleValid (setPersistenceIndeterminate b d) = d_latestSampleValid d"
  "d_operatingMode (setPersistenceIndeterminate b d) = d_operatingMode d"
  "d_active (setPersistenceIndeterminate b d) = d_active d"
  "d_activeValid (setPersistenceIndeterminate b d) = d_activeValid d"
  "d_terminalValid (setPersistenceIndeterminate b d) = d_terminalValid d"
  by (simp_all add: setPersistenceIndeterminate_def)

lemma publishConfiguration_simps [simp]:
  "d_attached (publishConfiguration d) = d_attached d"
  "d_reconciliationRequired (publishConfiguration d) = d_reconciliationRequired d"
  "d_latestSampleValid (publishConfiguration d) = d_latestSampleValid d"
  "d_operatingMode (publishConfiguration d) = d_operatingMode d"
  "d_active (publishConfiguration d) = d_active d"
  "d_activeValid (publishConfiguration d) = d_activeValid d"
  "d_terminalValid (publishConfiguration d) = d_terminalValid d"
  by (simp_all add: publishConfiguration_def)

text \<open>One lemma per adjustment: what it does to the attachment, and to the outcome and the effect.\<close>

definition sensorPart :: "'w driver \<Rightarrow> bool \<times> bool \<times> OperatingMode \<times> ActiveOperation \<times> bool" where
  "sensorPart d = (d_attached d, d_reconciliationRequired d, d_operatingMode d, d_active d, alive d)"

definition doubted :: "bool \<Rightarrow> 'w driver \<Rightarrow> bool \<times> bool \<times> OperatingMode \<times> ActiveOperation \<times> bool" where
  "doubted b d = sensorPart (if b then markReconciliationRequired d else d)"

lemma doubted_again: "sensorPart d' = doubted b d \<Longrightarrow> doubted c d' = doubted (b \<or> c) d"
  by (cases b; cases c) (simp_all add: doubted_def sensorPart_def alive_def)

lemma failureAfterTransfer_parts:
  assumes "failureAfterTransfer st oc ef d = (oc', ef', d')"
    and b: "b \<longleftrightarrow> d_lastTransferWasEffectful d \<and> (d_lastTransferDisposition d = Disp_INDETERMINATE \<or>
      st_code st = Err_TIMEOUT \<and> d_lastTransferDisposition d \<notin> {Disp_NOT_STARTED, Disp_NO_EFFECT})"
  shows "sensorPart d' = doubted b d" and "b \<Longrightarrow> ef' \<noteq> Effect_NOT_ATTEMPTED"
    and "d_lastTransferWasEffectful d \<and> d_lastTransferDisposition d = Disp_INDETERMINATE \<Longrightarrow>
      oc' = Outcome_INDETERMINATE \<and> ef' = Effect_UNKNOWN"
    and "oc \<noteq> Outcome_SUCCEEDED \<Longrightarrow> oc' \<noteq> Outcome_SUCCEEDED"
  using assms(1) by (auto simp: b doubted_def failureAfterTransfer_def split: if_splits)

lemma failureAfterTimeout_parts:
  assumes "failureAfterTimeout st (oc, ef, d) = (oc', ef', d')"
  shows "sensorPart d' = doubted (st_code st = Err_TIMEOUT \<and> a_effectfulWriteAttempted (d_active d)) d"
    and "st_code st = Err_TIMEOUT \<Longrightarrow> a_effectfulWriteAttempted (d_active d) \<Longrightarrow> ef' \<noteq> Effect_NOT_ATTEMPTED"
    and "ef \<noteq> Effect_NOT_ATTEMPTED \<Longrightarrow> ef' = ef" and "oc' = oc"
  using assms by (auto simp: doubted_def failureAfterTimeout_def split: if_splits)

lemma failureRest_parts:
  assumes "failurePartial (failurePersistence st (oc, ef, d)) = (oc', ef', d')"
  shows "sensorPart d' = sensorPart d" and "ef' = ef"
    and "oc' = oc \<or> activeKind d = Kind_READ_CONFIGURATION \<and> oc' = Outcome_PARTIAL"
  using assms by (auto simp: failurePartial_def failurePersistence_def sensorPart_def alive_def split: if_splits)

lemma failure_parts:
  assumes "failurePartial (failurePersistence st (failureAfterTimeout st
      (failureAfterTransfer st oc (a_effect (d_active d)) d))) = (outcome, effect, d3)" and "oc \<noteq> Outcome_SUCCEEDED"
  shows "sensorPart d3 = doubted (effectInDoubt st d) d"
    and "effectInDoubt st d \<Longrightarrow> effect \<noteq> Effect_NOT_ATTEMPTED" and "outcome \<noteq> Outcome_SUCCEEDED"
    and "d_lastTransferWasEffectful d \<and> d_lastTransferDisposition d = Disp_INDETERMINATE \<Longrightarrow>
      effect = Effect_UNKNOWN \<and> (activeKind d \<noteq> Kind_READ_CONFIGURATION \<longrightarrow> outcome = Outcome_INDETERMINATE)"
proof -
  obtain oc1 ef1 d1 where 1: "failureAfterTransfer st oc (a_effect (d_active d)) d = (oc1, ef1, d1)" by (metis prod_cases3)
  obtain oc2 ef2 d2 where 2: "failureAfterTimeout st (oc1, ef1, d1) = (oc2, ef2, d2)" by (metis prod_cases3)
  have 3: "failurePartial (failurePersistence st (oc2, ef2, d2)) = (outcome, effect, d3)"
    using assms(1) by (simp add: 1 2)
  note p1 = failureAfterTransfer_parts [OF 1 refl] and p2 = failureAfterTimeout_parts [OF 2] and p3 = failureRest_parts [OF 3]
  have a: "d_active d1 = d_active d" "d_active d2 = d_active d"
    using p1(1) p2(1) by (auto simp: doubted_def sensorPart_def split: if_splits)
  show "sensorPart d3 = doubted (effectInDoubt st d) d"
  proof -
    have "effectInDoubt st d \<longleftrightarrow> (d_lastTransferWasEffectful d \<and> (d_lastTransferDisposition d = Disp_INDETERMINATE \<or>
        st_code st = Err_TIMEOUT \<and> d_lastTransferDisposition d \<notin> {Disp_NOT_STARTED, Disp_NO_EFFECT})) \<or>
        st_code st = Err_TIMEOUT \<and> a_effectfulWriteAttempted (d_active d)"
      by (auto simp: effectInDoubt_def)
    then show ?thesis
      using p3(1) p2(1) doubted_again [OF p1(1)] a(1) by simp
  qed
  show "effectInDoubt st d \<Longrightarrow> effect \<noteq> Effect_NOT_ATTEMPTED"
    using p1(2) p2(2,3) p3(2) a(1) by (auto simp: effectInDoubt_def)
  show "outcome \<noteq> Outcome_SUCCEEDED"
    using p1(4) [OF assms(2)] p2(4) p3(3) by auto
  show "effect = Effect_UNKNOWN \<and> (activeKind d \<noteq> Kind_READ_CONFIGURATION \<longrightarrow> outcome = Outcome_INDETERMINATE)"
    if "d_lastTransferWasEffectful d \<and> d_lastTransferDisposition d = Disp_INDETERMINATE"
    using p1(3) [OF that] p2(3,4) p3(2,3) a(2) by auto
qed

text \<open>
  A failure as a whole, of any operation that is active and has no result yet: how the driver of a poll
  stands between the transfer that failed and the end of the operation.
\<close>

lemma failure_spec:
  assumes "alive d" and "d' = finishOperationFailure status t d"
  shows "operationState d' = Slot_RESULT_PENDING" and "res_id (d_terminal d') = a_id (d_active d)"
    and "res_kind (d_terminal d') = activeKind d" and "res_status (d_terminal d') = status"
    and "res_outcome (d_terminal d') \<noteq> Outcome_SUCCEEDED"
    and "if effectInDoubt status d
         then \<not> d_attached d' \<and> d_reconciliationRequired d' \<and> res_effect (d_terminal d') \<noteq> Effect_NOT_ATTEMPTED
         else d_attached d' = d_attached d \<and> d_operatingMode d' = d_operatingMode d"
    and "d_lastTransferWasEffectful d \<and> d_lastTransferDisposition d = Disp_INDETERMINATE \<Longrightarrow>
       res_effect (d_terminal d') = Effect_UNKNOWN \<and>
       (activeKind d \<noteq> Kind_READ_CONFIGURATION \<longrightarrow> res_outcome (d_terminal d') = Outcome_INDETERMINATE)"
proof -
  let ?oc = "if st_code status = Err_TIMEOUT then Outcome_TIMED_OUT else Outcome_FAILED"
  obtain outcome effect d1 where
    p: "failurePartial (failurePersistence status (failureAfterTimeout status
      (failureAfterTransfer status ?oc (a_effect (d_active d)) d))) = (outcome, effect, d1)"
    by (metis prod_cases3)
  have d': "d' = finishOperation outcome effect status t d1"
    using assms p by (simp add: finishOperationFailure_def Let_def alive_def)
  note f = failure_parts [OF p]
  have "alive d1" and a: "d_active d1 = d_active d"
    using f(1) assms(1) by (auto simp: doubted_def sensorPart_def alive_def split: if_splits)
  note fin = finishOperation_alive [OF \<open>alive d1\<close>, of outcome effect status t, folded d']
  have same: "d_attached d' = d_attached d1" "d_operatingMode d' = d_operatingMode d1"
    "d_reconciliationRequired d' = d_reconciliationRequired d1"
    by (simp_all add: d')
  show "operationState d' = Slot_RESULT_PENDING" "res_id (d_terminal d') = a_id (d_active d)"
    "res_kind (d_terminal d') = activeKind d" "res_status (d_terminal d') = status"
    "res_outcome (d_terminal d') \<noteq> Outcome_SUCCEEDED"
    using f fin a by (auto simp: operationState_def)
  show "if effectInDoubt status d
     then \<not> d_attached d' \<and> d_reconciliationRequired d' \<and> res_effect (d_terminal d') \<noteq> Effect_NOT_ATTEMPTED
     else d_attached d' = d_attached d \<and> d_operatingMode d' = d_operatingMode d"
    using f(1,2) fin same by (auto simp: doubted_def sensorPart_def split: if_splits)
  show "res_effect (d_terminal d') = Effect_UNKNOWN \<and>
      (activeKind d \<noteq> Kind_READ_CONFIGURATION \<longrightarrow> res_outcome (d_terminal d') = Outcome_INDETERMINATE)"
    if "d_lastTransferWasEffectful d \<and> d_lastTransferDisposition d = Disp_INDETERMINATE"
    using f(4) that fin by auto
qed

subsection \<open>Health\<close>

text \<open>
  The reference: of the transfers that reached the bus, in order of time, the failures after the last
  success.
\<close>

definition succeeded :: "TransferResult \<Rightarrow> bool" where
  "succeeded r \<longleftrightarrow> tr_code r = TransferCode_OK \<and> tr_disposition r = Disp_COMPLETE"

definition trailingFailures :: "TransferResult list \<Rightarrow> nat" where
  "trailingFailures rs = length (takeWhile (\<lambda>r. \<not> succeeded r)
     (rev (filter (\<lambda>r. succeeded r \<or> tr_disposition r \<noteq> Disp_NOT_STARTED) rs)))"

definition healthFor :: "u8 \<Rightarrow> nat \<Rightarrow> DriverState" where
  "healthFor threshold n = (if n = 0 then State_READY
     else if threshold \<noteq> 0 \<and> unat threshold \<le> n then State_OFFLINE else State_DEGRADED)"

lemma trailingFailures_snoc:
  "trailingFailures (rs @ [r]) = (if succeeded r then 0
     else if tr_disposition r = Disp_NOT_STARTED then trailingFailures rs else Suc (trailingFailures rs))"
  by (simp add: trailingFailures_def)

lemma unat_u8_less: "unat (w :: u8) < 256"
  using unsigned_less [where ?'a = nat, of w] by simp

text \<open>
  C19. The health a driver reports follows the transfers it has made: starting from a bound, healthy
  driver, after any series of results the counter of consecutive failures is the number of trailing
  failures, saturated at 255, and the state is READY without any, OFFLINE from the configured
  threshold on (0 disables it), and DEGRADED in between; transfers that never reached the bus do not
  count.
\<close>
theorem health_follows_trailing_failures:
  assumes "d_bound d" and "hs_consecutiveTransferFailures (d_health d) = 0"
    and "d_driverState d = State_READY" and "hs_state (d_health d) = State_READY"
    and "d' = foldl (\<lambda>d r. recordTransfer r False d) d rs"
  shows "unat (hs_consecutiveTransferFailures (d_health d')) = min 255 (trailingFailures rs) \<and>
    d_driverState d' = healthFor (cfg_offlineThreshold (d_config d)) (trailingFailures rs) \<and>
    hs_state (d_health d') = d_driverState d'"
proof -
  have "d_bound d' \<and> d_config d' = d_config d \<and>
    unat (hs_consecutiveTransferFailures (d_health d')) = min 255 (trailingFailures rs) \<and>
    d_driverState d' = healthFor (cfg_offlineThreshold (d_config d)) (trailingFailures rs) \<and>
    hs_state (d_health d') = d_driverState d'"
    unfolding assms(5)
  proof (induction rs rule: rev_induct)
    case Nil
    then show ?case using assms(1-4) by (simp add: trailingFailures_def healthFor_def)
  next
    case (snoc r rs)
    then show ?case
      using unat_u8_less [of "cfg_offlineThreshold (d_config d)"]
      by (auto simp: trailingFailures_snoc recordTransfer_def succeeded_def healthFor_def Let_def
          unat_incrementSaturating word_le_nat_alt)
  qed
  then show ?thesis by blast
qed

theorem health_follows_trailing_failures_witness:
  "d_driverState (recordTransfer (TransferResult_Ok 2 5) False benchBound) = State_READY"
proof -
  have "d_bound benchBound" "hs_consecutiveTransferFailures (d_health benchBound) = 0"
    "d_driverState benchBound = State_READY" "hs_state (d_health benchBound) = State_READY"
    by code_simp+
  from health_follows_trailing_failures [OF this refl, of "[TransferResult_Ok 2 5]"]
  show ?thesis by (simp add: trailingFailures_def succeeded_def TransferResult_Ok_def healthFor_def)
qed

end
