(* ===== verification/Scd_Success.thy ===== *)
theory Scd_Success
  imports Scd_Failures
begin

text \<open>
  Success: what an operation that ends as SUCCEEDED has achieved. Every piece of a step that ends an
  operation is \<open>honest\<close>, which a second interpretation of the loop's contract carries to a whole poll.
\<close>

unbundle bit_operations_syntax

subsection \<open>What a success promises\<close>

fun settingHolds :: "ConfigurationField \<Rightarrow> u16 \<Rightarrow> ConfigurationSnapshot \<Rightarrow> bool" where
  "settingHolds Field_NONE v c = True"
| "settingHolds Field_TEMPERATURE_OFFSET v c = (cs_temperatureOffsetMilliC c = decodeTemperatureOffsetMilliC v)"
| "settingHolds Field_SENSOR_ALTITUDE v c = (cs_sensorAltitudeM c = v)"
| "settingHolds Field_AMBIENT_PRESSURE v c = (cs_ambientPressurePa c = decodeAmbientPressurePa v)"
| "settingHolds Field_ASC_ENABLED v c = (cs_ascEnabled c = (v \<noteq> 0))"
| "settingHolds Field_ASC_TARGET v c = (cs_ascTargetPpm c = v)"
| "settingHolds Field_ASC_INITIAL_PERIOD v c = (cs_ascInitialPeriodHours c = v)"
| "settingHolds Field_ASC_STANDARD_PERIOD v c = (cs_ascStandardPeriodHours c = v)"

definition verifiedSetting :: "ConfigurationField \<Rightarrow> ConfigurationSnapshot \<Rightarrow> bool" where
  "verifiedSetting f c \<longleftrightarrow> cs_verifiedMask c AND configurationFieldMask f = configurationFieldMask f"

definition modeAfter :: "OperationKind \<Rightarrow> OperatingMode option" where
  "modeAfter k = (if k = Kind_START_PERIODIC then Some Mode_PERIODIC
     else if k = Kind_START_LOW_POWER_PERIODIC then Some Mode_LOW_POWER_PERIODIC
     else if k = Kind_POWER_DOWN then Some Mode_POWER_DOWN
     else if k \<in> {Kind_STOP_PERIODIC, Kind_ATTACH, Kind_WAKE_UP, Kind_REINIT, Kind_FACTORY_RESET} then Some Mode_IDLE
     else None)"

definition achieved :: "OperationRequest \<Rightarrow> 'w driver \<Rightarrow> bool" where
  "achieved q d \<longleftrightarrow>
     modeAfter (rq_kind q) \<in> {None, Some (d_operatingMode d)} \<and>
     (rq_kind q \<in> {Kind_ATTACH, Kind_WAKE_UP, Kind_REINIT, Kind_FACTORY_RESET} \<longrightarrow>
        d_attached d \<and> d_modeEvidence d = Evidence_VERIFIED) \<and>
     (isMeasurement (rq_kind q) \<longrightarrow> d_latestSampleValid d) \<and>
     (isSettingWrite (rq_kind q) \<longrightarrow>
        settingHolds (fieldFor (rq_kind q)) (snd (encodeDesired q 0)) (d_configuration d) \<and>
        verifiedSetting (fieldFor (rq_kind q)) (d_configuration d)) \<and>
     (rq_kind q \<in> {Kind_PERSIST_SETTINGS, Kind_REINIT, Kind_FACTORY_RESET} \<longrightarrow>
        cs_dirtyMask (d_configuration d) = 0 \<and> \<not> cs_persistenceIndeterminate (d_configuration d)) \<and>
     (rq_kind q \<in> {Kind_DIAGNOSTIC_WRITE_COMMAND, Kind_DIAGNOSTIC_WRITE_WORD} \<longrightarrow> \<not> d_attached d)"

definition honest :: "OperationRequest \<Rightarrow> Status \<times> 'w frame \<Rightarrow> bool" where
  "honest q res \<longleftrightarrow> (d_terminalValid (fr_drv (snd res)) \<longrightarrow>
     res_outcome (d_terminal (fr_drv (snd res))) = Outcome_SUCCEEDED \<longrightarrow> achieved q (fr_drv (snd res)))"

abbreviation runs :: "ActiveOperation \<Rightarrow> 'w driver \<Rightarrow> bool" where
  "runs a d \<equiv> running a 255 d"

lemma finishOperation_facts:
  "d_operatingMode (finishOperation oc ef st t d) = d_operatingMode d"
  "d_modeEvidence (finishOperation oc ef st t d) = d_modeEvidence d"
  "d_attached (finishOperation oc ef st t d) = d_attached d"
  "d_latestSampleValid (finishOperation oc ef st t d) = d_latestSampleValid d"
  "d_configuration (finishOperation oc ef st t d) = d_configuration d \<or>
   d_configuration (finishOperation oc ef st t d) = (d_configuration d)\<lparr>cs_dirtyMask := 0\<rparr>"
  by (simp_all add: finishOperation_def Let_def recordOperationOutcome_def settleReset_def setter_defs)

lemma settingHolds_dirty [simp]: "settingHolds f v (c\<lparr>cs_dirtyMask := m\<rparr>) = settingHolds f v c"
  by (cases f) simp_all

lemma achieved_finish: "achieved q d \<Longrightarrow> achieved q (finishOperation oc ef st t d)"
  using finishOperation_facts(5) [of oc ef st t d]
  by (elim disjE) (simp_all add: achieved_def finishOperation_facts(1-4) verifiedSetting_def)

lemma finishOperation_outcome:
  "runs a d \<Longrightarrow> res_outcome (d_terminal (finishOperation oc ef st t d)) = oc"
  by (simp add: running_def finishOperation_def Let_def recordOperationOutcome_def resultOf_def settleReset_def setter_defs)

lemma honest_finish:
  "runs a (fr_drv fr) \<Longrightarrow> (oc = Outcome_SUCCEEDED \<Longrightarrow> achieved q (fr_drv fr)) \<Longrightarrow> honest q (finishStep oc ef st fr)"
  by (auto simp: honest_def finishStep_def finishOperation_outcome intro: achieved_finish)

lemma honest_pair: "runs a (fr_drv fr) \<Longrightarrow> honest q (st, fr)"
  by (simp add: honest_def running_def)

lemma honest_toPhase:
  "runs a (fr_drv fr) \<Longrightarrow> honest q (toPhase p m fr)"
  "runs a (fr_drv fr) \<Longrightarrow> honest q (toPhaseAt p ms m fr)"
  by (simp_all add: toPhase_def toPhaseAt_def honest_pair [of a])

lemma honest_wait: "runs a (fr_drv fr) \<Longrightarrow> honest q (k fr) \<Longrightarrow> honest q (waitDue m k fr)"
  by (simp add: waitDue_def honest_pair [of a])

lemma runs_transferred: "transferred d d' \<Longrightarrow> runs a d \<Longrightarrow> runs a d'"
proof (rule transferred_running)
  have "unat (a_callbacksUsed (d_active d')) < 256"
    using unsigned_less [where ?'a = nat, of "a_callbacksUsed (d_active d')"] by simp
  then show "unat (a_callbacksUsed (d_active d')) \<le> 255" by simp
qed

lemma honest_write:
  assumes cb: "hasCallback (fr_drv fr)" and r: "runs a (fr_drv fr)"
    and k: "\<And>fr'. runs a (fr_drv fr') \<Longrightarrow> transferred (fr_drv fr) (fr_drv fr') \<Longrightarrow> honest q (k fr')"
  shows "honest q (on_ok (writeBytes data intent effectful fr) k)"
proof -
  obtain status fr' where w: "writeBytes data intent effectful fr = (status, fr')"
    by (metis surj_pair)
  have tr: "transferred (fr_drv fr) (fr_drv fr')"
    using writeBytes_spec [OF cb w] by (simp add: transfer_spec_def)
  show ?thesis
    using k [OF runs_transferred [OF tr r] tr] honest_pair [OF runs_transferred [OF tr r]] by (simp add: w on_ok_def)
qed

lemma honest_read:
  assumes cb: "hasCallback (fr_drv fr)" and r: "runs a (fr_drv fr)"
    and k: "\<And>words fr'. runs a (fr_drv fr') \<Longrightarrow> transferred (fr_drv fr) (fr_drv fr') \<Longrightarrow> honest q (k words fr')"
  shows "honest q (on_words (readWords count fr) k)"
proof -
  obtain status words fr' where w: "readWords count fr = (status, words, fr')"
    by (metis prod_cases3)
  have tr: "transferred (fr_drv fr) (fr_drv fr')"
    using readWords_spec(1) [OF cb w] by (simp add: transfer_spec_def)
  show ?thesis
    using k [OF runs_transferred [OF tr r] tr] honest_pair [OF runs_transferred [OF tr r]] by (simp add: w on_words_def)
qed

subsection \<open>Every step is honest\<close>

lemma achieved_attach: "rq_kind q = Kind_ATTACH \<Longrightarrow> achieved q (attachSucceeded va w d)"
  by (simp add: achieved_def modeAfter_def attachSucceeded_def markAttached_def setMode_def isMeasurement_def Let_def)

lemma stepAttach_honest:
  assumes cb: "hasCallback (fr_drv fr)" and r: "runs a (fr_drv fr)" and q: "rq_kind (a_request a) = Kind_ATTACH"
  shows "honest (a_request a) (stepAttach fr)"
  using r q
  by (cases "activePhase (fr_drv fr)")
   (auto simp: stepAttach_def attach_phase_defs write_wrappers Let_def
    intro!: honest_write [OF cb r] honest_read [OF cb r] honest_toPhase [of a] honest_wait [of a] honest_finish [of a]
      honest_pair [of a] achieved_attach)

lemma achieved_sample: "isMeasurement (rq_kind q) \<Longrightarrow> achieved q (publishSample (storeSample ws b t d))"
  by (auto simp: achieved_def modeAfter_def isMeasurement_def storeSample_def publishSample_def Let_def)

lemma stepMeasurement_honest:
  assumes cb: "hasCallback (fr_drv fr)" and r: "runs a (fr_drv fr)" and q: "isMeasurement (rq_kind (a_request a))"
  shows "honest (a_request a) (stepMeasurement fr)"
  using r q
  by (cases "activePhase (fr_drv fr)")
   (auto simp: stepMeasurement_def measurement_phase_defs write_wrappers Let_def
    intro!: honest_write [OF cb r] honest_read [OF cb r] honest_toPhase [of a] honest_wait [of a] honest_finish [of a]
      honest_pair [of a] achieved_sample)

lemma achieved_diagnostic:
  "isDiagnostic (rq_kind q) \<Longrightarrow> \<not> d_attached d \<or> rq_kind q = Kind_DIAGNOSTIC_READ_WORDS \<Longrightarrow> achieved q d"
  by (auto simp: achieved_def modeAfter_def isMeasurement_def isDiagnostic_def)

lemma stepDiagnostic_honest:
  assumes cb: "hasCallback (fr_drv fr)" and r: "runs a (fr_drv fr)" and q: "isDiagnostic (rq_kind (a_request a))"
    and p: "rq_kind (a_request a) \<noteq> Kind_DIAGNOSTIC_READ_WORDS \<Longrightarrow> activePhase (fr_drv fr) = Phase_SEND_COMMAND"
  shows "honest (a_request a) (stepDiagnostic fr)"
  using r q p
  by (cases "activePhase (fr_drv fr)")
   (auto simp: stepDiagnostic_def diagnostic_phase_defs write_wrappers Let_def
    intro!: honest_write [OF cb r] honest_read [OF cb r] honest_toPhase [of a] honest_wait [of a] honest_finish [of a]
      honest_pair [of a] achieved_diagnostic)


lemma achieved_persist: "rq_kind q = Kind_PERSIST_SETTINGS \<Longrightarrow> cs_dirtyMask (d_configuration d) = 0 \<Longrightarrow>
    \<not> cs_persistenceIndeterminate (d_configuration d) \<Longrightarrow> achieved q d"
  by (simp add: achieved_def modeAfter_def isMeasurement_def)

lemma achieved_settlePersist: "rq_kind q = Kind_PERSIST_SETTINGS \<Longrightarrow> achieved q (settlePersist d)"
  by (rule achieved_persist) (simp_all add: settlePersist_def setter_defs)

lemma achieved_reset: "resetKind (rq_kind q) \<Longrightarrow> achieved q (resetSucceeded s va w d)"
  by (auto simp: achieved_def modeAfter_def resetSucceeded_def markAttached_def setMode_def setter_defs isMeasurement_def Let_def)

lemma achieved_trivial: "rq_kind q \<in> {Kind_SELF_TEST, Kind_FORCED_RECALIBRATION} \<Longrightarrow> achieved q d"
  by (auto simp: achieved_def modeAfter_def isMeasurement_def)

lemma stepMaintenance_honest:
  assumes cb: "hasCallback (fr_drv fr)" and r: "runs a (fr_drv fr)" and q: "isMaintenance (rq_kind (a_request a))"
    and p: "activePhase (fr_drv fr) = Phase_READ_VERIFY_RESPONSE \<Longrightarrow> resetKind (rq_kind (a_request a))"
    and p': "activePhase (fr_drv fr) = Phase_READ_DEFERRED_RESULT \<Longrightarrow>
      rq_kind (a_request a) \<in> {Kind_SELF_TEST, Kind_FORCED_RECALIBRATION}"
  shows "honest (a_request a) (stepMaintenance fr)"
proof -
  have kind: "runs a d \<Longrightarrow> activeKind d = rq_kind (a_request a)" for d :: "'a driver"
    by (rule running_kind)
  have all: "rq_kind (a_request a) = Kind_PERSIST_SETTINGS \<or> resetKind (rq_kind (a_request a)) \<or>
      rq_kind (a_request a) \<in> {Kind_SELF_TEST, Kind_FORCED_RECALIBRATION}"
    using q by (cases "rq_kind (a_request a)") simp_all
  have other: "rq_kind (a_request a) = Kind_PERSIST_SETTINGS \<Longrightarrow> cs_dirtyMask (d_configuration d) = 0 \<Longrightarrow>
      \<not> cs_persistenceIndeterminate (d_configuration d) \<Longrightarrow> achieved (a_request a) (publishConfiguration d)"
    for d :: "'a driver"
    by (rule achieved_persist) (simp_all add: setter_defs)
  show ?thesis
  using r p p' all
  by (cases "activePhase (fr_drv fr)")
   (auto simp: stepMaintenance_def maintenance_phase_defs persistIndeterminate_def persistNothing_def
      write_wrappers Let_def kind achieved_reset achieved_settlePersist other
    intro!: honest_write [OF cb r] honest_read [OF cb r] honest_toPhase [of a] honest_wait [of a] honest_finish [of a]
      honest_pair [of a] intro: achieved_trivial)
qed

lemma achieved_enterMode: "isModeKind (rq_kind q) \<Longrightarrow> rq_kind q \<noteq> Kind_WAKE_UP \<Longrightarrow> achieved q (enterMode (rq_kind q) d)"
  by (auto simp: achieved_def modeAfter_def isModeKind_def isMeasurement_def enterMode_def setMode_def Let_def)

lemma achieved_wake: "rq_kind q = Kind_WAKE_UP \<Longrightarrow> achieved q (markAttached d)"
  by (simp add: achieved_def modeAfter_def isMeasurement_def markAttached_def setMode_def Let_def)

lemma stepMode_honest:
  assumes cb: "hasCallback (fr_drv fr)" and r: "runs a (fr_drv fr)" and q: "isModeKind (rq_kind (a_request a))"
    and p: "activePhase (fr_drv fr) = Phase_READ_VERIFY_RESPONSE \<Longrightarrow> rq_kind (a_request a) = Kind_WAKE_UP"
  shows "honest (a_request a) (stepMode fr)"
proof -
  have kind: "runs a d \<Longrightarrow> activeKind d = rq_kind (a_request a)" for d :: "'a driver"
    by (rule running_kind)
  show ?thesis
  using r q p
  by (cases "activePhase (fr_drv fr)")
   (auto simp: stepMode_def mode_phase_defs write_wrappers Let_def kind
    intro!: honest_write [OF cb r] honest_read [OF cb r] honest_toPhase [of a] honest_wait [of a] honest_finish [of a]
      honest_pair [of a] achieved_enterMode achieved_wake)
qed


lemma settingHolds_marks [simp]:
  "settingHolds f v (c\<lparr>cs_verifiedMask := m, cs_sensorEpoch := e\<rparr>) = settingHolds f v c"
  by (cases f) simp_all

lemma settingHolds_applyField: "settingHolds f v (fst (applyField f v (c, w)))"
  by (cases f) simp_all

lemma or_and_self: "(m OR k) AND k = k" for m k :: u16
  by (rule bit_eqI) (auto simp: bit_simps)

lemma achieved_settingI:
  "isSettingWrite (rq_kind q) \<Longrightarrow> settingHolds (fieldFor (rq_kind q)) (snd (encodeDesired q 0)) (d_configuration d) \<Longrightarrow>
   verifiedSetting (fieldFor (rq_kind q)) (d_configuration d) \<Longrightarrow> achieved q d"
  by (cases "rq_kind q") (simp_all add: achieved_def modeAfter_def isMeasurement_def)

lemma achieved_setting:
  assumes "isSettingWrite (rq_kind q)" and "v = snd (encodeDesired q 0)"
  shows "achieved q (applyReadValue (rq_kind q) v d)"
proof -
  let ?f = "fieldFor (rq_kind q)"
  obtain c w where cw: "applyField ?f v (d_configuration d, d_workingValue d) = (c, w)"
    by (metis surj_pair)
  have "?f \<noteq> Field_NONE" by (rule isSettingWrite_fieldFor [OF assms(1)])
  then have cfg: "d_configuration (applyReadValue (rq_kind q) v d) =
      c\<lparr>cs_verifiedMask := cs_verifiedMask c OR configurationFieldMask ?f, cs_sensorEpoch := d_sensorEpoch d\<rparr>"
    using cw by (simp add: applyReadValue_def Let_def)
  have "settingHolds ?f v c"
    using settingHolds_applyField [of ?f v "d_configuration d" "d_workingValue d"] cw by simp
  then show ?thesis
    using assms(1) by (intro achieved_settingI) (simp_all add: verifiedSetting_def cfg or_and_self flip: assms(2))
qed

lemma achieved_setters [simp]:
  "achieved q (setSettingValueChanged b d) = achieved q d"
  "achieved q (setPressureCompensation f d) = achieved q d"
  by (simp_all add: achieved_def setter_defs)

lemma sendWrite_honest:
  assumes cb: "hasCallback (fr_drv fr)" and r: "runs a (fr_drv fr)"
  shows "honest q (setting_sendWrite fr)"
proof -
  obtain status fr' where w: "writeCommandWithWord (writeCommandFor (activeKind (fr_drv fr)))
      (a_desiredRaw (d_active (fr_drv fr))) True fr = (status, fr')"
    by (metis surj_pair)
  have "transferred (fr_drv fr) (fr_drv fr')"
    using writeBytes_spec [OF cb w [unfolded write_wrappers]] by (simp add: transfer_spec_def)
  then have "runs a (fr_drv fr')" by (rule runs_transferred [OF _ r])
  then show ?thesis
    by (auto simp: setting_sendWrite_def w on_ok_def intro!: honest_pair [of a] honest_toPhase [of a])
qed

lemma stepSetting_honest:
  assumes cb: "hasCallback (fr_drv fr)" and r: "runs a (fr_drv fr)" and q: "isSettingWrite (rq_kind (a_request a))"
    and e: "a_desiredRaw a = snd (encodeDesired (a_request a) 0)"
  shows "honest (a_request a) (stepSetting fr)"
proof -
  have kind: "runs a d \<Longrightarrow> activeKind d = rq_kind (a_request a)" for d :: "'a driver"
    by (rule running_kind)
  have raw: "runs a d \<Longrightarrow> a_desiredRaw (d_active d) = snd (encodeDesired (a_request a) 0)" for d :: "'a driver"
    using e by (simp add: running_def)
  have set: "rq_kind (a_request a) = k \<Longrightarrow>
      achieved (a_request a) (applyReadValue k (snd (encodeDesired (a_request a) 0)) d)" for k and d :: "'a driver"
    using achieved_setting [OF q refl] by blast
  show ?thesis
    using r q
    by (cases "activePhase (fr_drv fr)")
     (auto simp: stepSetting_def setting_SEND_COMMAND_def setting_sendRead_def setting_sendVerify_def
       setting_WAIT_EXECUTION_def setting_READ_RESPONSE_def setting_compare_def setting_verify_def
       write_wrappers Let_def kind raw set
      intro!: sendWrite_honest [OF cb r] honest_write [OF cb r] honest_read [OF cb r] honest_toPhase [of a]
        honest_wait [of a] honest_finish [of a] honest_pair [of a])
qed

lemma achieved_read: "isReadKind (rq_kind q) \<Longrightarrow> achieved q d"
  by (cases "rq_kind q") (simp_all add: achieved_def modeAfter_def isMeasurement_def)

lemma read_continue_honest: "runs a (fr_drv fr) \<Longrightarrow> isReadKind (rq_kind q) \<Longrightarrow> honest q (read_continue fr)"
  by (auto simp: read_continue_def Let_def achieved_read intro!: honest_finish [of a] honest_toPhase [of a])

lemma read_READ_RESPONSE_honest:
  assumes cb: "hasCallback (fr_drv fr)" and r: "runs a (fr_drv fr)" and q: "isReadKind (rq_kind q)"
  shows "honest q (read_READ_RESPONSE fr)"
proof -
  obtain status words fr' where w: "readWords (if effectiveReadKind (fr_drv fr) = Kind_READ_IDENTITY then 3 else 1) fr = (status, words, fr')"
    by (metis prod_cases3)
  have "transferred (fr_drv fr) (fr_drv fr')"
    using readWords_spec(1) [OF cb w] by (simp add: transfer_spec_def)
  then have "runs a (fr_drv fr')" by (rule runs_transferred [OF _ r])
  then show ?thesis
    by (auto simp: read_READ_RESPONSE_def w Let_def read_identityWords_def read_variantWord_def read_settingWord_def
        partialOr_def achieved_read [OF q]
        intro!: honest_pair [of a] honest_toPhase [of a] honest_finish [of a] read_continue_honest [OF _ q, of a])
qed

lemma stepReadLike_honest:
  assumes cb: "hasCallback (fr_drv fr)" and r: "runs a (fr_drv fr)" and q: "isReadKind (rq_kind q)"
  shows "honest q (stepReadLike fr)"
  using r
  by (cases "activePhase (fr_drv fr)")
   (auto simp: stepReadLike_def read_phase_defs write_wrappers Let_def achieved_read [OF q]
    intro!: read_READ_RESPONSE_honest [OF cb r q] honest_write [OF cb r] honest_read [OF cb r] honest_toPhase [of a]
      honest_wait [of a] honest_finish [of a] honest_pair [of a])

lemma step_honest:
  assumes cb: "hasCallback (fr_drv fr)" and st: "staged a u (fr_drv fr)" and u: "u \<le> 255"
    and e: "a_desiredRaw a = snd (encodeDesired (a_request a) 0)"
  shows "honest (a_request a) (step fr)"
proof -
  let ?k = "rq_kind (a_request a)"
  have r: "runs a (fr_drv fr)" by (rule running_mono [OF staged_running [OF st] u])
  have k: "activeKind (fr_drv fr) = ?k" by (rule running_kind [OF r])
  have rank: "rank ?k (activePhase (fr_drv fr)) (activeIndex (fr_drv fr)) \<noteq> None"
    using st k by (auto simp: staged_def)
  have "isDiagnostic ?k \<Longrightarrow> ?k \<noteq> Kind_DIAGNOSTIC_READ_WORDS \<Longrightarrow> activePhase (fr_drv fr) = Phase_SEND_COMMAND"
    using rank by (cases "activePhase (fr_drv fr)") (auto simp: rank_def isDiagnostic_def isMeasurement_def provided_def)
  moreover have "isMaintenance ?k \<Longrightarrow> activePhase (fr_drv fr) = Phase_READ_VERIFY_RESPONSE \<Longrightarrow> resetKind ?k"
    using rank by (cases ?k) (auto simp: provided_def resultKind_def split: if_splits)
  moreover have "isMaintenance ?k \<Longrightarrow> activePhase (fr_drv fr) = Phase_READ_DEFERRED_RESULT \<Longrightarrow>
      ?k \<in> {Kind_SELF_TEST, Kind_FORCED_RECALIBRATION}"
    using rank by (cases ?k) (auto simp: provided_def resultKind_def split: if_splits)
  moreover have "isModeKind ?k \<Longrightarrow> activePhase (fr_drv fr) = Phase_READ_VERIFY_RESPONSE \<Longrightarrow> ?k = Kind_WAKE_UP"
    using rank by (cases ?k) (auto simp: provided_def isModeKind_def split: if_splits)
  moreover have "honest (a_request a) (st', inDrv (\<lambda>d. setDue (d_nextSafeCommandMs d) d) fr)" for st'
    using r by (intro honest_pair [of a]) simp
  ultimately show ?thesis
    using rank honest_pair [OF r] stepAttach_honest [OF cb r] stepMeasurement_honest [OF cb r]
      stepMaintenance_honest [OF cb r] stepDiagnostic_honest [OF cb r] stepSetting_honest [OF cb r _ e]
      stepMode_honest [OF cb r] stepReadLike_honest [OF cb r]
    by (auto simp: step_def Let_def rank_def isMeasurement_def isModeKind_def stepWriteLike_def k split: if_splits)
qed


subsection \<open>The loop is honest\<close>

fun honestHead :: "'w loop_context \<Rightarrow> 'w frame \<Rightarrow> bool" where
  "honestHead (a, u, fr0) fr \<longleftrightarrow> loopHead (a, u, fr0) fr \<and> u \<le> 255"

fun honestSettled :: "'w loop_context \<Rightarrow> 'w frame \<Rightarrow> bool" where
  "honestSettled (a, u, fr0) fr \<longleftrightarrow> honest (a_request a) (Status_Ok, fr)"

lemma honest_status: "honest q (st, fr) = honest q (st', fr)"
  by (simp add: honest_def)

lemma failure_outcome:
  "alive d \<Longrightarrow> res_outcome (d_terminal (finishOperationFailure status t d)) \<noteq> Outcome_SUCCEEDED"
  by (rule failure_spec(5) [OF _ refl])

lemma honest_failure: "alive (fr_drv fr) \<Longrightarrow> honest q (st, inDrv (finishOperationFailure status t) fr)"
  by (simp add: honest_def failure_outcome)

lemma honest_alive: "alive (fr_drv fr) \<Longrightarrow> honest q (st, fr)"
  by (simp add: honest_def alive_def)

lemma step_loop_honest:
  assumes "honestHead (a, u, fr0) fr"
  shows "honest (a_request a) (step fr)"
proof -
  have h: "loopHead (a, u, fr0) fr" and u: "u \<le> 255" using assms by simp_all
  have "running a u (fr_drv fr0)" and e: "encoded (fr_drv fr0)"
    using h by (auto dest: staged_running)
  then have "a_desiredRaw a = a_desiredRaw (d_active (fr_drv fr0))" "a_request a = a_request (d_active (fr_drv fr0))"
    by (simp_all add: running_def)
  then have "a_desiredRaw a = snd (encodeDesired (a_request a) 0)"
    using e by (simp only: encoded_def)
  moreover have "hasCallback (fr_drv fr)"
    using h by (simp add: hasCallback_def sensor_inv_def sound_def binding_def)
  ultimately show ?thesis
    using h u by (intro step_honest) simp_all
qed

interpretation honesty: bounded_loop step pollLoop honestHead honestSettled rounds
proof unfold_locales
  fix c :: "'a loop_context" and fr fr' :: "'a frame" and status
  obtain a u fr0 where c: "c = (a, u, fr0)" by (metis prod_cases3)
  assume "honestHead c fr" and st: "step fr = (status, fr')"
  then have hh: "honestHead (a, u, fr0) fr" and h: "loopHead (a, u, fr0) fr" by (simp_all add: c)
  show "\<not> alive (fr_drv fr') \<Longrightarrow> honestSettled c fr'"
    using step_loop_honest [OF hh] honest_status [of _ status fr' Status_Ok] by (simp add: c st)
  show "alive (fr_drv fr') \<Longrightarrow> ok status \<or> inProgress status \<Longrightarrow> honestHead c fr'"
    using step_loop(4) [OF h st] hh by (simp add: c del: loopHead.simps)
  show "continues fr status fr' \<Longrightarrow> rounds fr' < rounds fr"
    by (rule step_loop(5) [OF h st])
  show "alive (fr_drv fr') \<Longrightarrow> \<not> ok status \<Longrightarrow> \<not> inProgress status \<Longrightarrow>
      honestSettled c (inDrv (finishOperationFailure status (fr_now fr')) fr')"
    by (simp add: c honest_failure)
next
  fix c :: "'a loop_context" and fr
  assume "honestHead c fr"
  then show "honestSettled c fr"
    by (cases c) (auto intro: honest_alive staged_alive)
qed (auto simp: pollLoop_Suc)

text \<open>
  A poll that ends the operation has accepted the owner's clock; it either finds the deadline passed,
  or runs its loop.
\<close>

lemma poll_ends_clock:
  assumes "driver_inv d" and "d_activeValid d" and "d_terminalValid (fr_drv (snd (poll t n w d)))"
  shows "ownerClockOk t d"
proof (rule ccontr)
  assume "\<not> ownerClockOk t d"
  then have "snd (poll t n w d) = pollFrame t n w d"
    using poll_rests [of d t n w] by simp
  then show False using driver_inv_slot(1) [OF assms(1,2)] assms(3) by simp
qed

lemma poll_late:
  assumes inv: "driver_inv d" and "d_activeValid d" and "ownerClockOk t d" and "timeReached t (a_deadlineMs (d_active d))"
  shows "snd (poll t n w d) = inDrv (finishOperationFailure
      (Status_Error Err_TIMEOUT ''Operation deadline expired'' 0) t) (pollFrame t n w d)"
proof -
  let ?late = "inDrv (finishOperationFailure (Status_Error Err_TIMEOUT ''Operation deadline expired'' 0) t) (pollFrame t n w d)"
  have "running (d_active d) (allowance (activeKind d)) (noteOwnerClock t d)"
    using staged_running [OF driver_inv_slot(5) [OF noteOwnerClock_inv [OF inv]]] assms(2) by simp
  from finished_finishOperationFailure [OF this] have "\<not> d_activeValid (fr_drv ?late)"
    by (simp add: finished_def)
  then have "pollLoop k ?late = ?late" for k
    by (cases k) (simp_all add: pollLoop_Suc)
  then show ?thesis
    using assms poll_runs [OF assms(2) driver_inv_slot(1) [OF inv assms(2)] assms(3)] by (simp add: pollActive_def)
qed

lemma poll_in_time:
  assumes inv: "driver_inv d" and "d_activeValid d" and "ownerClockOk t d" and "\<not> timeReached t (a_deadlineMs (d_active d))"
  shows "snd (poll t n w d) = pollLoop MAX_CPU_TRANSITIONS (pollFrame t n w d)"
    and "honestHead (d_active d, allowance (activeKind d), pollFrame t n w d) (pollFrame t n w d)"
proof -
  have i: "driver_inv (noteOwnerClock t d)" by (rule noteOwnerClock_inv [OF inv])
  show "snd (poll t n w d) = pollLoop MAX_CPU_TRANSITIONS (pollFrame t n w d)"
    using assms poll_runs [OF assms(2) driver_inv_slot(1) [OF inv assms(2)] assms(3)] by (simp add: pollActive_def)
  have "allowance (activeKind d) \<le> 255"
    using unsigned_less [where ?'a = nat, of "lim_maxCallbacks (limits (activeKind d))"] by (simp add: allowance_def)
  then show "honestHead (d_active d, allowance (activeKind d), pollFrame t n w d) (pollFrame t n w d)"
    using driver_inv_slot [OF i] assms i by (simp add: driver_inv_def sensor_inv_self)
qed

lemma poll_honest:
  assumes inv: "driver_inv d" and "d_activeValid d" and "ownerClockOk t d"
  shows "honest (a_request (d_active d)) (Status_Ok, snd (poll t n w d))"
proof (cases "timeReached t (a_deadlineMs (d_active d))")
  case True
  have "alive (noteOwnerClock t d)" using driver_inv_slot(1) [OF inv assms(2)] assms(2) by (simp add: alive_def)
  then show ?thesis using poll_late [OF assms True, of n w] by (simp add: honest_failure)
next
  case False
  from honesty.loop_settles [OF poll_in_time(2) [OF assms False]] show ?thesis
    by (simp add: poll_in_time(1) [OF assms False])
qed

text \<open>
  C1. A success is never claimed without its substance. When a poll ends the active operation of a
  reachable driver with the outcome SUCCEEDED, then: a mode command or an identification has put the
  driver into the mode it stands for; after ATTACH, WAKE_UP, REINIT and FACTORY_RESET the sensor is
  attached with its mode verified; a measurement has left a cached sample; a setting write has left the
  cached setting equal to the encoded value of the request, as a verified field; persisting or resetting
  has left nothing dirty and no persistence in doubt; and a raw diagnostic write has dropped the
  attachment.
\<close>
theorem success_means:
  assumes "reachable d" and "d_activeValid d" and "snd (poll t n w d) = fr"
    and "d_terminalValid (fr_drv fr)" and "res_outcome (d_terminal (fr_drv fr)) = Outcome_SUCCEEDED"
  shows "achieved (a_request (d_active d)) (fr_drv fr)"
proof -
  have inv: "driver_inv d" by (rule reachable_inv [OF assms(1)])
  have "ownerClockOk t d" using poll_ends_clock [OF inv assms(2)] assms(3,4) by metis
  from poll_honest [OF inv assms(2) this, of n w] show ?thesis
    using assms(3-5) by (simp add: honest_def)
qed

theorem success_means_witness: "achieved (makeRequest Kind_ATTACH) benchPending"
proof -
  let ?d = "fold benchPoll [1030, 1060, 1560, 1561, 1562] benchAttaching"
  have "reachable ?d" by (intro reachable_fold_benchPoll reachable_benchAttaching)
  moreover have "d_activeValid ?d" "a_request (d_active ?d) = makeRequest Kind_ATTACH" by code_simp+
  moreover have p: "fr_drv (snd (poll 1563 1 1563 ?d)) = benchPending"
    using bench_attaches by (simp add: benchPoll_def)
  moreover have "d_terminalValid benchPending" "res_outcome (d_terminal benchPending) = Outcome_SUCCEEDED"
    by code_simp+
  ultimately show ?thesis
    using success_means [of ?d 1563 1 1563] by metis
qed

end
