(* ===== verification/Scd_Doubt.thy ===== *)
theory Scd_Doubt
  imports Scd_Success
begin

text \<open>
  Doubt: what the driver does when the transfer a poll has made may have carried out a command. A step
  that ends an operation by itself leaves no doubt behind it; every other end is a failure, which
  settles the doubt. A third interpretation of the loop's contract carries this to a whole poll.
\<close>

subsection \<open>What the last transfer leaves open\<close>

definition lastTransfer :: "'w driver \<Rightarrow> bool \<times> TransferDisposition" where
  "lastTransfer d = (d_lastTransferWasEffectful d, d_lastTransferDisposition d)"

fun suspect :: "Status \<Rightarrow> bool \<times> TransferDisposition \<Rightarrow> bool" where
  "suspect status (effectful, disposition) \<longleftrightarrow> effectful \<and>
     (disposition = Disp_INDETERMINATE \<or>
      st_code status = Err_TIMEOUT \<and> disposition \<notin> {Disp_NOT_STARTED, Disp_NO_EFFECT})"

lemma suspect_harmless [simp]: "\<not> suspect status (False, disposition)" "\<not> suspect Status_Ok (effectful, Disp_COMPLETE)"
  by (simp_all add: Status_Ok_def)

lemma suspect_inDoubt: "suspect status (lastTransfer d) \<Longrightarrow> effectInDoubt status d"
  by (auto simp: lastTransfer_def effectInDoubt_def)

lemma lastTransfer_helpers [simp]:
  "lastTransfer (setPhase p d) = lastTransfer d"
  "lastTransfer (setDue t d) = lastTransfer d"
  "lastTransfer (setFieldIndex i d) = lastTransfer d"
  "lastTransfer (setEffect e d) = lastTransfer d"
  "lastTransfer (setSettingValueChanged x d) = lastTransfer d"
  "lastTransfer (markCompleted m d) = lastTransfer d"
  "lastTransfer (clearVerified m d) = lastTransfer d"
  "lastTransfer (markVerified m d) = lastTransfer d"
  "lastTransfer (markDirty m d) = lastTransfer d"
  "lastTransfer (clearDirty d) = lastTransfer d"
  "lastTransfer (setPersistenceIndeterminate x d) = lastTransfer d"
  "lastTransfer (setPressureCompensation f d) = lastTransfer d"
  "lastTransfer (publishConfiguration d) = lastTransfer d"
  "lastTransfer (publishIdentity d) = lastTransfer d"
  "lastTransfer (stashSerial s d) = lastTransfer d"
  "lastTransfer (setWorkingValue v d) = lastTransfer d"
  "lastTransfer (adoptIdentity s va w d) = lastTransfer d"
  "lastTransfer (setMode mo ev d) = lastTransfer d"
  "lastTransfer (markReconciliationRequired d) = lastTransfer d"
  "lastTransfer (markAttached d) = lastTransfer d"
  "lastTransfer (recordProtocolFailure st t d) = lastTransfer d"
  "lastTransfer (recordOperationOutcome r d) = lastTransfer d"
  "lastTransfer (applyReadValue k w d) = lastTransfer d"
  "lastTransfer (storeSample ws b t d) = lastTransfer d"
  by (simp_all add: lastTransfer_def driver_defs setter_defs storeSample_def applyReadValue_def Let_def
      split: prod.splits)

lemma lastTransfer_composites [simp]:
  "lastTransfer (adoptOther s va w d) = lastTransfer d"
  "lastTransfer (attachSucceeded va w d) = lastTransfer d"
  "lastTransfer (adoptVariantOnly va w d) = lastTransfer d"
  "lastTransfer (refreshVariant va w d) = lastTransfer d"
  "lastTransfer (noteDataReady w d) = lastTransfer d"
  "lastTransfer (noteReadiness w d) = lastTransfer d"
  "lastTransfer (noteSettingWrite d) = lastTransfer d"
  "lastTransfer (rejectSetting st t d) = lastTransfer d"
  "lastTransfer (enterMode k d) = lastTransfer d"
  "lastTransfer (settlePersist d) = lastTransfer d"
  "lastTransfer (resetSucceeded s va w d) = lastTransfer d"
  "lastTransfer (publishSample d) = lastTransfer d"
  "lastTransfer (storeRawWords ws c d) = lastTransfer d"
  "lastTransfer (storeDeferred w d) = lastTransfer d"
  "lastTransfer (storeCorrection w d) = lastTransfer d"
  by (simp_all add: lastTransfer_def driver_defs setter_defs adoptOther_def attachSucceeded_def adoptVariantOnly_def
      refreshVariant_def noteDataReady_def noteReadiness_def noteSettingWrite_def rejectSetting_def
      enterMode_def settlePersist_def resetSucceeded_def publishSample_def storeRawWords_def
      storeDeferred_def storeCorrection_def Let_def)

lemma lastTransfer_finish [simp]: "lastTransfer (finishOperation oc ef st t d) = lastTransfer d"
  by (simp add: lastTransfer_def finishOperation_def resultOf_def settleReset_def setter_defs recordOperationOutcome_def Let_def)

lemma lastTransfer_parts:
  "lastTransfer (snd (snd (failureAfterTransfer st oc ef d))) = lastTransfer d"
  "lastTransfer (snd (snd (failureAfterTimeout st r))) = lastTransfer (snd (snd r))"
  "lastTransfer (snd (snd (failurePersistence st r))) = lastTransfer (snd (snd r))"
  "lastTransfer (snd (snd (failurePartial r))) = lastTransfer (snd (snd r))"
  by (simp_all add: failureAfterTransfer_def failureAfterTimeout_def failurePersistence_def
      failurePartial_def split: prod.split)

lemma lastTransfer_failure [simp]: "lastTransfer (finishOperationFailure st t d) = lastTransfer d"
  by (simp add: finishOperationFailure_def Let_def split: prod.split) (metis lastTransfer_parts snd_conv)

text \<open>What a write and a read leave behind.\<close>

lemma lastTransfer_absorb [simp]:
  "lastTransfer (absorbTransfer intent effectful n startedMs t d) =
     (effectful, tr_disposition (normalized effectful n startedMs t))"
  by (simp add: lastTransfer_def absorbTransfer_def Let_def armSafeCommand_def recordTransfer_def noteEffect_def)

definition settledLast :: "TransferIntent \<Rightarrow> bool \<Rightarrow> 'w frame \<Rightarrow> Status \<Rightarrow> 'w frame \<Rightarrow> bool" where
  "settledLast intent effectful fr status fr' \<longleftrightarrow>
     fr_trace fr' = fr_trace fr \<and> \<not> ok status \<or>
     fst (lastTransfer (fr_drv fr')) = effectful \<and>
     (ok status \<and> intent = Intent_NORMAL \<longrightarrow> lastTransfer (fr_drv fr') = (effectful, Disp_COMPLETE))"

lemma attemptTransfer_last:
  assumes "attemptTransfer data n intent effectful fr = (status, bytes, fr')"
  shows "settledLast intent effectful fr status fr'"
proof -
  have complete: "tr_disposition (normalized effectful k startedMs t) = Disp_COMPLETE"
    if "ok (transferOutcome intent effectful k startedMs deadlineMs t)" and "intent = Intent_NORMAL" for k startedMs deadlineMs t
    using ok_transferOutcome(4) [OF that(1)] that(2) by (simp add: normalized_disposition isExpectedNack_def)
  show ?thesis
    using assms complete
    by (auto simp: attemptTransfer_def settledLast_def Let_def split: if_splits prod.splits)
qed

lemma writeBytes_last:
  assumes "writeBytes data intent effectful fr = (status, fr')"
  shows "settledLast intent effectful fr status fr'"
proof (cases "window (fr_drv fr) (fr_now fr)")
  case True
  then show ?thesis using assms by (auto simp: writeBytes_def checkCommandSpacing_eq settledLast_def)
next
  case False
  obtain st bytes f where a: "attemptTransfer data 0 intent effectful fr = (st, bytes, f)" by (metis prod_cases3)
  show ?thesis
    using assms attemptTransfer_last [OF a] False by (simp add: writeBytes_def checkCommandSpacing_eq a)
qed

lemma readWords_last:
  assumes "readWords count fr = (status, words, fr')"
  shows "fr_trace fr' = fr_trace fr \<and> \<not> ok status \<or> \<not> fst (lastTransfer (fr_drv fr'))"
proof -
  obtain st bytes f where a: "attemptTransfer [] (unat count * 3) Intent_NORMAL False fr = (st, bytes, f)"
    by (metis prod_cases3)
  show ?thesis
    using assms attemptTransfer_last [OF a]
    by (cases "decodeWordsFrom 0 (unat count) bytes")
      (auto simp: readWords_def checkCommandSpacing_eq a Let_def settledLast_def split: if_splits)
qed

subsection \<open>A step that ends an operation leaves no doubt\<close>

definition unsuspicious :: "(u32 \<times> TransferRequest) list \<Rightarrow> Status \<times> 'w frame \<Rightarrow> bool" where
  "unsuspicious tr res \<longleftrightarrow> (d_terminalValid (fr_drv (snd res)) \<longrightarrow>
     fr_trace (snd res) = tr \<or>
     \<not> suspect (res_status (d_terminal (fr_drv (snd res)))) (lastTransfer (fr_drv (snd res))))"

lemma finishOperation_status:
  "runs a d \<Longrightarrow> res_status (d_terminal (finishOperation oc ef st t d)) = st"
  by (simp add: running_def finishOperation_def Let_def recordOperationOutcome_def resultOf_def settleReset_def setter_defs)

lemma clear_finish:
  "runs a (fr_drv fr) \<Longrightarrow> fr_trace fr = tr \<or> \<not> suspect st (lastTransfer (fr_drv fr)) \<Longrightarrow> unsuspicious tr (finishStep oc ef st fr)"
  by (auto simp: unsuspicious_def finishStep_def finishOperation_status)

lemma clear_pair: "runs a (fr_drv fr) \<Longrightarrow> unsuspicious tr (st, fr)"
  by (simp add: unsuspicious_def running_def)

lemma clear_toPhase:
  "runs a (fr_drv fr) \<Longrightarrow> unsuspicious tr (toPhase p m fr)"
  "runs a (fr_drv fr) \<Longrightarrow> unsuspicious tr (toPhaseAt p ms m fr)"
  by (simp_all add: toPhase_def toPhaseAt_def clear_pair [of a])

lemma clear_wait: "runs a (fr_drv fr) \<Longrightarrow> unsuspicious tr (k fr) \<Longrightarrow> unsuspicious tr (waitDue m k fr)"
  by (simp add: waitDue_def clear_pair [of a])

lemma clear_write:
  assumes cb: "hasCallback (fr_drv fr)" and r: "runs a (fr_drv fr)"
    and k: "\<And>fr'. runs a (fr_drv fr') \<Longrightarrow>
      (intent = Intent_NORMAL \<Longrightarrow> lastTransfer (fr_drv fr') = (effectful, Disp_COMPLETE)) \<Longrightarrow> unsuspicious tr (k fr')"
  shows "unsuspicious tr (on_ok (writeBytes data intent effectful fr) k)"
proof -
  obtain status fr' where w: "writeBytes data intent effectful fr = (status, fr')"
    by (metis surj_pair)
  have "transferred (fr_drv fr) (fr_drv fr')"
    using writeBytes_spec [OF cb w] by (simp add: transfer_spec_def)
  then have r': "runs a (fr_drv fr')" by (rule runs_transferred [OF _ r])
  show ?thesis
    using k [OF r'] clear_pair [OF r'] writeBytes_last [OF w] by (auto simp: w on_ok_def settledLast_def)
qed

lemma clear_read:
  assumes cb: "hasCallback (fr_drv fr)" and r: "runs a (fr_drv fr)"
    and k: "\<And>words fr'. runs a (fr_drv fr') \<Longrightarrow> \<not> fst (lastTransfer (fr_drv fr')) \<Longrightarrow> unsuspicious tr (k words fr')"
  shows "unsuspicious tr (on_words (readWords count fr) k)"
proof -
  obtain status words fr' where w: "readWords count fr = (status, words, fr')"
    by (metis prod_cases3)
  have "transferred (fr_drv fr) (fr_drv fr')"
    using readWords_spec(1) [OF cb w] by (simp add: transfer_spec_def)
  then have r': "runs a (fr_drv fr')" by (rule runs_transferred [OF _ r])
  show ?thesis
    using k [OF r'] clear_pair [OF r'] readWords_last [OF w] by (auto simp: w on_words_def)
qed

lemma suspect_read [simp]: "\<not> fst l \<Longrightarrow> \<not> suspect st l"
  by (cases l) simp

lemmas clear_intros = clear_toPhase clear_wait clear_finish clear_pair

lemma stepAttach_clear:
  assumes cb: "hasCallback (fr_drv fr)" and r: "runs a (fr_drv fr)"
  shows "unsuspicious (fr_trace fr) (stepAttach fr)"
  using r
  by (cases "activePhase (fr_drv fr)")
   (auto simp: stepAttach_def attach_phase_defs write_wrappers Let_def
    intro!: clear_write [OF cb r] clear_read [OF cb r] clear_intros [of a])

lemma stepMeasurement_clear:
  assumes cb: "hasCallback (fr_drv fr)" and r: "runs a (fr_drv fr)"
  shows "unsuspicious (fr_trace fr) (stepMeasurement fr)"
  using r
  by (cases "activePhase (fr_drv fr)")
   (auto simp: stepMeasurement_def measurement_phase_defs write_wrappers Let_def
    intro!: clear_write [OF cb r] clear_read [OF cb r] clear_intros [of a])

lemma stepDiagnostic_clear:
  assumes cb: "hasCallback (fr_drv fr)" and r: "runs a (fr_drv fr)"
  shows "unsuspicious (fr_trace fr) (stepDiagnostic fr)"
  using r
  by (cases "activePhase (fr_drv fr)")
   (auto simp: stepDiagnostic_def diagnostic_phase_defs write_wrappers Let_def
    intro!: clear_write [OF cb r] clear_read [OF cb r] clear_intros [of a])

lemma stepMaintenance_clear:
  assumes cb: "hasCallback (fr_drv fr)" and r: "runs a (fr_drv fr)"
  shows "unsuspicious (fr_trace fr) (stepMaintenance fr)"
  using r
  by (cases "activePhase (fr_drv fr)")
   (auto simp: stepMaintenance_def maintenance_phase_defs write_wrappers Let_def
    intro!: clear_write [OF cb r] clear_read [OF cb r] clear_intros [of a])

lemma stepMode_clear:
  assumes cb: "hasCallback (fr_drv fr)" and r: "runs a (fr_drv fr)"
  shows "unsuspicious (fr_trace fr) (stepMode fr)"
  using r
  by (cases "activePhase (fr_drv fr)")
   (auto simp: stepMode_def mode_phase_defs write_wrappers Let_def
    intro!: clear_write [OF cb r] clear_read [OF cb r] clear_intros [of a])

lemma sendWrite_clear:
  assumes cb: "hasCallback (fr_drv fr)" and r: "runs a (fr_drv fr)"
  shows "unsuspicious tr (setting_sendWrite fr)"
proof -
  obtain status fr' where w: "writeCommandWithWord (writeCommandFor (activeKind (fr_drv fr)))
      (a_desiredRaw (d_active (fr_drv fr))) True fr = (status, fr')"
    by (metis surj_pair)
  have "transferred (fr_drv fr) (fr_drv fr')"
    using writeBytes_spec [OF cb w [unfolded write_wrappers]] by (simp add: transfer_spec_def)
  then have "runs a (fr_drv fr')" by (rule runs_transferred [OF _ r])
  then show ?thesis
    by (auto simp: setting_sendWrite_def w on_ok_def intro!: clear_intros [of a])
qed

lemma stepSetting_clear:
  assumes cb: "hasCallback (fr_drv fr)" and r: "runs a (fr_drv fr)"
  shows "unsuspicious (fr_trace fr) (stepSetting fr)"
  using r
  by (cases "activePhase (fr_drv fr)")
   (auto simp: stepSetting_def setting_SEND_COMMAND_def setting_sendRead_def setting_sendVerify_def
     setting_WAIT_EXECUTION_def setting_READ_RESPONSE_def setting_compare_def setting_verify_def
     write_wrappers Let_def
    intro!: sendWrite_clear [OF cb r] clear_write [OF cb r] clear_read [OF cb r] clear_intros [of a])

lemma clear_if: "unsuspicious tr x \<Longrightarrow> unsuspicious tr y \<Longrightarrow> unsuspicious tr (if b then x else y)"
  by simp

definition readOnly :: "(u32 \<times> TransferRequest) list \<Rightarrow> 'w frame \<Rightarrow> bool" where
  "readOnly tr fr \<longleftrightarrow> fr_trace fr = tr \<or> \<not> fst (lastTransfer (fr_drv fr))"

lemma readOnly_inDrv: "lastTransfer (f (fr_drv fr)) = lastTransfer (fr_drv fr) \<Longrightarrow> readOnly tr (inDrv f fr) = readOnly tr fr"
  by (simp add: readOnly_def)

lemma clear_readOnly: "runs a (fr_drv fr) \<Longrightarrow> readOnly tr fr \<Longrightarrow> unsuspicious tr (finishStep oc ef st fr)"
  by (rule clear_finish) (auto simp: readOnly_def)

lemmas readOnly_intros = clear_toPhase clear_readOnly clear_pair

lemma partialOr_clear: "runs a (fr_drv fr) \<Longrightarrow> readOnly tr fr \<Longrightarrow> unsuspicious tr (partialOr st fr)"
  by (auto simp: partialOr_def readOnly_inDrv intro!: readOnly_intros [of a])

lemma read_continue_clear: "runs a (fr_drv fr) \<Longrightarrow> readOnly tr fr \<Longrightarrow> unsuspicious tr (read_continue fr)"
  by (auto simp: read_continue_def Let_def readOnly_inDrv intro!: readOnly_intros [of a])

lemma read_word_clear:
  assumes r: "runs a (fr_drv fr)" and q: "readOnly tr fr"
  shows "unsuspicious tr (read_identityWords words fr)" and "unsuspicious tr (read_variantWord word fr)"
    and "unsuspicious tr (read_settingWord k word fr)" and "unsuspicious tr (read_continue (inDrv (noteDataReady word) fr))"
proof -
  show "unsuspicious tr (read_identityWords words fr)"
    using r by (simp add: read_identityWords_def clear_toPhase [of a])
  have "unsuspicious tr (read_continue (inDrv (refreshVariant variant word) fr))" for variant
    using r q by (intro read_continue_clear [of a]) (simp_all add: readOnly_inDrv)
  moreover have "unsuspicious tr (finishStep oc ef st (inDrv (adoptVariantOnly variant word) fr))" for oc ef st variant
    using r q by (intro clear_readOnly [of a]) (simp_all add: readOnly_inDrv)
  ultimately show "unsuspicious tr (read_variantWord word fr)"
    by (simp only: read_variantWord_def Let_def split: if_split) blast
  show "unsuspicious tr (read_settingWord k word fr)"
    using r q by (auto simp: read_settingWord_def Let_def readOnly_inDrv
        intro!: partialOr_clear [of a] read_continue_clear [of a])
  show "unsuspicious tr (read_continue (inDrv (noteDataReady word) fr))"
    using r q by (intro read_continue_clear [of a]) (simp_all add: readOnly_inDrv)
qed

lemma read_READ_RESPONSE_clear:
  assumes cb: "hasCallback (fr_drv fr)" and r: "runs a (fr_drv fr)"
  shows "unsuspicious (fr_trace fr) (read_READ_RESPONSE fr)"
proof -
  obtain status words fr' where w: "readWords (if effectiveReadKind (fr_drv fr) = Kind_READ_IDENTITY then 3 else 1) fr = (status, words, fr')"
    by (metis prod_cases3)
  have "transferred (fr_drv fr) (fr_drv fr')"
    using readWords_spec(1) [OF cb w] by (simp add: transfer_spec_def)
  then have r': "runs a (fr_drv fr')" by (rule runs_transferred [OF _ r])
  have q: "readOnly (fr_trace fr) fr'" using readWords_last [OF w] by (auto simp: readOnly_def)
  note all = clear_pair [OF r'] partialOr_clear [OF r' q] read_word_clear [OF r' q]
  show ?thesis
    unfolding read_READ_RESPONSE_def Let_def w prod.case by (intro clear_if all)
qed

lemma stepReadLike_clear:
  assumes cb: "hasCallback (fr_drv fr)" and r: "runs a (fr_drv fr)"
  shows "unsuspicious (fr_trace fr) (stepReadLike fr)"
  using r
  by (cases "activePhase (fr_drv fr)")
   (auto simp: stepReadLike_def read_phase_defs write_wrappers Let_def
    intro!: read_READ_RESPONSE_clear [OF cb r] clear_write [OF cb r] clear_read [OF cb r] clear_intros [of a])

lemma step_clear:
  assumes cb: "hasCallback (fr_drv fr)" and r: "runs a (fr_drv fr)"
  shows "unsuspicious (fr_trace fr) (step fr)"
proof -
  have "runs a (fr_drv (inDrv (\<lambda>d. setDue (d_nextSafeCommandMs d) d) fr))" using r by simp
  then show ?thesis
    unfolding step_def Let_def stepWriteLike_def
    by (intro clear_if stepAttach_clear [OF cb r] stepMeasurement_clear [OF cb r]
      stepMaintenance_clear [OF cb r] stepDiagnostic_clear [OF cb r] stepSetting_clear [OF cb r]
      stepMode_clear [OF cb r] stepReadLike_clear [OF cb r] clear_pair [OF r] clear_pair)
qed

subsection \<open>The loop leaves no doubt\<close>

text \<open>The result admits the doubt that the last transfer has left.\<close>

definition admitted :: "'w driver \<Rightarrow> bool" where
  "admitted d \<longleftrightarrow> \<not> d_attached d \<and> d_reconciliationRequired d \<and>
     res_outcome (d_terminal d) \<noteq> Outcome_SUCCEEDED \<and> res_effect (d_terminal d) \<noteq> Effect_NOT_ATTEMPTED \<and>
     (snd (lastTransfer d) = Disp_INDETERMINATE \<longrightarrow> res_effect (d_terminal d) = Effect_UNKNOWN \<and>
       (res_kind (d_terminal d) \<noteq> Kind_READ_CONFIGURATION \<longrightarrow> res_outcome (d_terminal d) = Outcome_INDETERMINATE))"

fun doubtSettled :: "'w loop_context \<Rightarrow> 'w frame \<Rightarrow> bool" where
  "doubtSettled (a, u, fr0) fr \<longleftrightarrow> d_terminalValid (fr_drv fr) \<longrightarrow> fr_trace fr \<noteq> fr_trace fr0 \<longrightarrow>
     suspect (res_status (d_terminal (fr_drv fr))) (lastTransfer (fr_drv fr)) \<longrightarrow> admitted (fr_drv fr)"

lemma failure_admitted:
  assumes "alive d" and "d' = finishOperationFailure status t d" and "suspect status (lastTransfer d)"
  shows "admitted d'"
proof -
  have e: "effectInDoubt status d" by (rule suspect_inDoubt [OF assms(3)])
  have l: "lastTransfer d' = lastTransfer d" by (simp add: assms(2))
  have "fst (lastTransfer d)" using assms(3) by (cases "lastTransfer d") simp
  then show ?thesis
    using failure_spec(5-7) [OF assms(1,2)] failure_spec(3) [OF assms(1,2)] e l
    by (auto simp: admitted_def lastTransfer_def)
qed

lemma step_loop_doubt:
  assumes hh: "honestHead (a, u, fr0) fr" and st: "step fr = (status, fr')" and dead: "\<not> alive (fr_drv fr')"
  shows "doubtSettled (a, u, fr0) fr'"
proof -
  have h: "loopHead (a, u, fr0) fr" and u: "u \<le> 255" using hh by simp_all
  have s: "staged a u (fr_drv fr)" using h by simp
  then have r: "runs a (fr_drv fr)" by (intro running_mono [OF staged_running u])
  have "hasCallback (fr_drv fr)"
    using h by (simp add: hasCallback_def sensor_inv_def sound_def binding_def)
  from step_clear [OF this r] have c: "unsuspicious (fr_trace fr) (status, fr')" by (simp add: st)
  have "\<not> window (fr_drv fr) (fr_now fr)"
  proof
    assume "window (fr_drv fr) (fr_now fr)"
    then have "alive (fr_drv fr')"
      using st staged_alive [OF s] by (auto simp: step_def window_def Let_def alive_def setDue_def split: if_splits)
    then show False using dead by simp
  qed
  then have "quiet fr0 fr" using h by simp
  then have "fr_trace fr = fr_trace fr0" by (simp add: quiet_def silent_def)
  then show ?thesis using c by (auto simp: unsuspicious_def)
qed

interpretation doubts: bounded_loop step pollLoop honestHead doubtSettled rounds
proof unfold_locales
  fix c :: "'a loop_context" and fr fr' :: "'a frame" and status
  obtain a u fr0 where c: "c = (a, u, fr0)" by (metis prod_cases3)
  assume "honestHead c fr" and st: "step fr = (status, fr')"
  then have hh: "honestHead (a, u, fr0) fr" and h: "loopHead (a, u, fr0) fr" by (simp_all add: c)
  show "\<not> alive (fr_drv fr') \<Longrightarrow> doubtSettled c fr'"
    using step_loop_doubt [OF hh st] by (simp add: c)
  show "alive (fr_drv fr') \<Longrightarrow> ok status \<or> inProgress status \<Longrightarrow> honestHead c fr'"
    by (rule honesty.goes [OF \<open>honestHead c fr\<close> st])
  show "continues fr status fr' \<Longrightarrow> rounds fr' < rounds fr"
    by (rule honesty.rounds_less [OF \<open>honestHead c fr\<close> st])
  show "alive (fr_drv fr') \<Longrightarrow> \<not> ok status \<Longrightarrow> \<not> inProgress status \<Longrightarrow>
      doubtSettled c (inDrv (finishOperationFailure status (fr_now fr')) fr')"
    using failure_admitted [OF _ refl, of "fr_drv fr'" status "fr_now fr'"] failure_spec(4) [OF _ refl, of "fr_drv fr'" status "fr_now fr'"]
    by (simp add: c)
next
  fix c :: "'a loop_context" and fr
  assume "honestHead c fr"
  then have "alive (fr_drv fr)" by (cases c) (auto intro: staged_alive)
  then show "doubtSettled c fr" by (cases c) (simp add: alive_def)
qed (auto simp: pollLoop_Suc)

text \<open>
  C2. A failed operation never hides an effect. Take any poll of a reachable driver that ends its
  operation. When the poll has made a transfer and that transfer may have carried out a command with an
  effect (it was of such a command and is indeterminate, or the operation timed out and the transfer is
  not known to have had no effect), the attachment is dropped, reconciliation is demanded, the outcome
  is not SUCCEEDED and the effect not NOT_ATTEMPTED; for an indeterminate transfer the effect is UNKNOWN
  and, but for READ_CONFIGURATION, the outcome INDETERMINATE. When the poll comes at or after the
  deadline, the result is a failure with the status TIMEOUT; the attachment is dropped, reconciliation
  demanded and an effect reported when an earlier transfer may have had one, and without such doubt the
  attachment and the mode stay as they are.
\<close>
theorem failure_hides_no_effect:
  assumes "reachable d" and "d_activeValid d" and "snd (poll t n w d) = fr" and "d_terminalValid (fr_drv fr)"
  shows "(fr_trace fr \<noteq> [] \<and> d_lastTransferWasEffectful (fr_drv fr) \<and>
      (d_lastTransferDisposition (fr_drv fr) = Disp_INDETERMINATE \<or>
       st_code (res_status (d_terminal (fr_drv fr))) = Err_TIMEOUT \<and>
       d_lastTransferDisposition (fr_drv fr) \<notin> {Disp_NOT_STARTED, Disp_NO_EFFECT}) \<longrightarrow>
      \<not> d_attached (fr_drv fr) \<and> d_reconciliationRequired (fr_drv fr) \<and>
      res_outcome (d_terminal (fr_drv fr)) \<noteq> Outcome_SUCCEEDED \<and>
      res_effect (d_terminal (fr_drv fr)) \<noteq> Effect_NOT_ATTEMPTED \<and>
      (d_lastTransferDisposition (fr_drv fr) = Disp_INDETERMINATE \<longrightarrow>
        res_effect (d_terminal (fr_drv fr)) = Effect_UNKNOWN \<and>
        (res_kind (d_terminal (fr_drv fr)) \<noteq> Kind_READ_CONFIGURATION \<longrightarrow>
          res_outcome (d_terminal (fr_drv fr)) = Outcome_INDETERMINATE))) \<and>
    (timeReached t (a_deadlineMs (d_active d)) \<longrightarrow>
      res_outcome (d_terminal (fr_drv fr)) \<noteq> Outcome_SUCCEEDED \<and>
      st_code (res_status (d_terminal (fr_drv fr))) = Err_TIMEOUT \<and>
      (if effectInDoubt (res_status (d_terminal (fr_drv fr))) d
       then \<not> d_attached (fr_drv fr) \<and> d_reconciliationRequired (fr_drv fr) \<and>
         res_effect (d_terminal (fr_drv fr)) \<noteq> Effect_NOT_ATTEMPTED
       else d_attached (fr_drv fr) = d_attached d \<and> d_operatingMode (fr_drv fr) = d_operatingMode d))"
proof -
  have inv: "driver_inv d" by (rule reachable_inv [OF assms(1)])
  have clock: "ownerClockOk t d" using poll_ends_clock [OF inv assms(2)] assms(3,4) by metis
  show ?thesis
  proof (cases "timeReached t (a_deadlineMs (d_active d))")
    case True
    let ?late = "Status_Error Err_TIMEOUT ''Operation deadline expired'' 0"
    have fr: "fr = inDrv (finishOperationFailure ?late t) (pollFrame t n w d)"
      using poll_late [OF inv assms(2) clock True] assms(3) by simp
    have "alive (noteOwnerClock t d)" using driver_inv_slot(1) [OF inv assms(2)] assms(2) by (simp add: alive_def)
    note f = failure_spec [OF this refl, of ?late t]
    have "effectInDoubt ?late (noteOwnerClock t d) = effectInDoubt ?late d"
      "d_attached (noteOwnerClock t d) = d_attached d" "d_operatingMode (noteOwnerClock t d) = d_operatingMode d"
      by (simp_all add: effectInDoubt_def noteOwnerClock_def Let_def)
    then show ?thesis using f(4-6) True by (simp add: fr split: if_splits)
  next
    case False
    note start = poll_in_time [OF inv assms(2) clock False, of n w]
    have "doubtSettled (d_active d, allowance (activeKind d), pollFrame t n w d) fr"
      using doubts.loop_settles [OF start(2)] start(1) assms(3) by metis
    then show ?thesis using False assms(4) by (simp add: admitted_def lastTransfer_def)
  qed
qed


text \<open>
  On the bench: an attached driver starts periodic measurement, and the transfer of the command is
  reported as completed a millisecond before it began.
\<close>

definition benchStarting :: "u32 driver" where
  "benchStarting = benchStart (makeRequest Kind_START_PERIODIC) 2000 benchAttached"

theorem failure_hides_no_effect_witness:
  "d_attached benchStarting \<and> \<not> d_attached (fr_drv (snd (poll 2001 1 2000 benchStarting))) \<and>
   d_reconciliationRequired (fr_drv (snd (poll 2001 1 2000 benchStarting))) \<and>
   res_outcome (d_terminal (fr_drv (snd (poll 2001 1 2000 benchStarting)))) = Outcome_INDETERMINATE"
proof -
  let ?fr = "snd (poll 2001 1 2000 benchStarting)"
  have "reachable benchStarting" unfolding benchStarting_def by (intro reachable_benchStart reachable_benchAttached)
  moreover have "d_activeValid benchStarting" "d_attached benchStarting" by code_simp+
  moreover have "d_terminalValid (fr_drv ?fr)" "fr_trace ?fr \<noteq> []" by code_simp+
  moreover have "d_lastTransferWasEffectful (fr_drv ?fr)" "d_lastTransferDisposition (fr_drv ?fr) = Disp_INDETERMINATE"
    "res_kind (d_terminal (fr_drv ?fr)) \<noteq> Kind_READ_CONFIGURATION" by code_simp+
  ultimately show ?thesis
    using failure_hides_no_effect [of benchStarting 2001 1 2000 ?fr] by simp
qed

end
