(* ===== verification/Scd_Line.thy ===== *)
theory Scd_Line
  imports Scd_Prelude
begin

text \<open>
The command line of the ESP-IDF example (examples/idf/basic/main/main.cpp): lines of text and their splitting, numbers, and the line editor.
\<close>

subsection \<open>Lines\<close>

text \<open>
  A \<open>Line\<close> is its first \<open>length\<close> characters; \<open>c_str\<close> is what a C function sees of it, up to
  the first null character. Characters past the end read as null.
\<close>

type_synonym Line = string

abbreviation CLI_LINE_CAPACITY :: nat where "CLI_LINE_CAPACITY \<equiv> 128"

definition lineAssign :: "string \<Rightarrow> bool \<times> Line" where
  "lineAssign source = (if length source \<ge> CLI_LINE_CAPACITY then (False, []) else (True, source))"

definition c_str :: "Line \<Rightarrow> string" where
  "c_str l = takeWhile (\<lambda>c. c \<noteq> CHR 0x00) l"

definition lineAt :: "Line \<Rightarrow> nat \<Rightarrow> char" where
  "lineAt l index = (if index < length l then l ! index else CHR 0x00)"

fun lineFind :: "char \<Rightarrow> Line \<Rightarrow> nat option" where
  "lineFind needle [] = None"
| "lineFind needle (c # cs) = (if c = needle then Some 0 else map_option Suc (lineFind needle cs))"

definition lineIs :: "Line \<Rightarrow> string \<Rightarrow> bool" where
  "lineIs left right \<longleftrightarrow> c_str left = right"

definition blank :: "char \<Rightarrow> bool" where
  "blank c \<longleftrightarrow> c = CHR '' '' \<or> c = CHR 0x09"

text \<open>The two loops of \<open>trimCopy\<close>.\<close>

function trimFirst :: "Line \<Rightarrow> nat \<Rightarrow> nat" where
  "trimFirst l first = (if first < length l \<and> blank (lineAt l first) then trimFirst l (first + 1) else first)"
  by pat_completeness auto
termination by (relation "measure (\<lambda>(l, first). length l - first)") auto

fun trimLast :: "Line \<Rightarrow> nat \<Rightarrow> nat \<Rightarrow> nat" where
  "trimLast l first 0 = 0"
| "trimLast l first (Suc n) =
     (if first < Suc n \<and> blank (lineAt l n) then trimLast l first n else Suc n)"

declare trimFirst.simps [simp del]

definition trimCopy :: "Line \<Rightarrow> Line" where
  "trimCopy l =
     (let first = trimFirst l 0; last = trimLast l first (length l)
      in snd (lineAssign (take (last - first) (drop first l))))"

definition splitHeadTail :: "Line \<Rightarrow> bool \<times> Line \<times> Line" where
  "splitHeadTail l =
     (let trimmed = trimCopy l in
      case lineFind (CHR '' '') trimmed of
        None \<Rightarrow> (trimmed \<noteq> [], trimmed, [])
      | Some split \<Rightarrow>
          (let head = snd (lineAssign (take split trimmed));
               rawTail = snd (lineAssign (drop (split + 1) trimmed))
           in (head \<noteq> [], head, trimCopy rawTail)))"

subsection \<open>Numbers\<close>

text \<open>
  \<open>strtoul\<close> and \<open>strtol\<close> of the C library with base 0: white space, a sign, a prefix that
  selects the base, and the longest run of digits. They return the mathematical value without its
  sign, whether the sign was minus, and the rest of the text, which is the whole text when there was
  no number.
\<close>

definition isSpace :: "char \<Rightarrow> bool" where
  "isSpace c \<longleftrightarrow> c = CHR '' '' \<or> (9 \<le> (of_char c :: int) \<and> (of_char c :: int) \<le> 13)"

definition digitValue :: "char \<Rightarrow> int option" where
  "digitValue c =
     (let n = (of_char c :: int)
      in if 48 \<le> n \<and> n \<le> 57 then Some (n - 48)
         else if 97 \<le> n \<and> n \<le> 122 then Some (n - 87)
         else if 65 \<le> n \<and> n \<le> 90 then Some (n - 55) else None)"

definition isDigitOf :: "int \<Rightarrow> char \<Rightarrow> bool" where
  "isDigitOf base c \<longleftrightarrow> (case digitValue c of None \<Rightarrow> False | Some v \<Rightarrow> v < base)"

definition digitsValue :: "int \<Rightarrow> string \<Rightarrow> int" where
  "digitsValue base cs = foldl (\<lambda>acc c. acc * base + the (digitValue c)) 0 cs"

definition numberPrefix :: "string \<Rightarrow> int \<times> string" where
  "numberPrefix s =
     (case s of
        z # x # d # _ \<Rightarrow>
          (if z = CHR ''0'' \<and> (x = CHR ''x'' \<or> x = CHR ''X'') \<and> isDigitOf 16 d then (16, drop 2 s)
           else if z = CHR ''0'' then (8, s) else (10, s))
      | z # _ \<Rightarrow> (if z = CHR ''0'' then (8, s) else (10, s))
      | [] \<Rightarrow> (10, s))"

definition scanNumber :: "string \<Rightarrow> int \<times> bool \<times> string" where
  "scanNumber s =
     (let t = dropWhile isSpace s;
          neg = (t \<noteq> [] \<and> hd t = CHR ''-'');
          t = (if t \<noteq> [] \<and> (hd t = CHR ''-'' \<or> hd t = CHR ''+'') then tl t else t);
          (base, t) = numberPrefix t;
          digits = takeWhile (isDigitOf base) t
      in if digits = [] then (0, False, s) else (digitsValue base digits, neg, drop (length digits) t))"

text \<open>
  The results: the value, the rest and whether \<open>errno\<close> became \<open>ERANGE\<close>. \<open>longBits\<close> is the
  width of \<open>long\<close>, 32 on the targets of the example.
\<close>

definition strtoul :: "nat \<Rightarrow> string \<Rightarrow> int \<times> string \<times> bool" where
  "strtoul longBits s =
     (case scanNumber s of (n, neg, rest) \<Rightarrow>
        if n \<ge> 2 ^ longBits then (2 ^ longBits - 1, rest, True)
        else (if neg \<and> n \<noteq> 0 then 2 ^ longBits - n else n, rest, False))"

definition strtol :: "nat \<Rightarrow> string \<Rightarrow> int \<times> string \<times> bool" where
  "strtol longBits s =
     (case scanNumber s of (n, neg, rest) \<Rightarrow>
        if neg then (if n > 2 ^ (longBits - 1) then (- (2 ^ (longBits - 1)), rest, True) else (- n, rest, False))
        else (if n \<ge> 2 ^ (longBits - 1) then (2 ^ (longBits - 1) - 1, rest, True) else (n, rest, False)))"

definition parseU32 :: "nat \<Rightarrow> Line \<Rightarrow> u32 \<Rightarrow> bool \<times> u32" where
  "parseU32 longBits token value =
     (if token = [] \<or> lineAt token 0 = CHR ''-'' then (False, value)
      else case strtoul longBits (c_str token) of (parsed, rest, erange) \<Rightarrow>
        if erange \<or> rest = c_str token \<or> rest \<noteq> [] \<or> parsed > 0xFFFFFFFF then (False, value)
        else (True, word_of_int parsed))"

definition parseU16 :: "nat \<Rightarrow> Line \<Rightarrow> u16 \<Rightarrow> bool \<times> u16" where
  "parseU16 longBits token value =
     (case parseU32 longBits token 0 of (success, parsed) \<Rightarrow>
        if \<not> success \<or> parsed > 0xFFFF then (False, value) else (True, ucast parsed))"

definition parseI32 :: "nat \<Rightarrow> Line \<Rightarrow> i32 \<Rightarrow> bool \<times> i32" where
  "parseI32 longBits token value =
     (if token = [] then (False, value)
      else case strtol longBits (c_str token) of (parsed, rest, erange) \<Rightarrow>
        if erange \<or> rest = c_str token \<or> rest \<noteq> [] \<or> parsed < - (2 ^ 31) \<or> parsed > 2 ^ 31 - 1
        then (False, value) else (True, parsed))"

definition parseBool :: "Line \<Rightarrow> bool \<Rightarrow> bool \<times> bool" where
  "parseBool token value =
     (if lineIs token ''1'' \<or> lineIs token ''on'' \<or> lineIs token ''true'' \<or> lineIs token ''enable''
      then (True, True)
      else if lineIs token ''0'' \<or> lineIs token ''off'' \<or> lineIs token ''false'' \<or> lineIs token ''disable''
      then (True, False) else (False, value))"

subsection \<open>The line editor\<close>

text \<open>
  The static variables of \<open>readLine\<close>, and its loop. \<open>input\<close> is what a read of the nonblocking
  standard input would deliver now; the loop returns the output line of a \<open>true\<close>, the editor, the
  input not read, and whether it warned about a discarded line.
\<close>

record editor =
  ed_buffer :: string
  ed_overflow :: bool

definition editor_init :: editor where
  "editor_init = \<lparr>ed_buffer = [], ed_overflow = False\<rparr>"

definition editKey :: "char \<Rightarrow> editor \<Rightarrow> editor" where
  "editKey value ed =
     (if value = CHR 0x08 \<or> value = CHR 0x7F then
        (if \<not> ed_overflow ed \<and> length (ed_buffer ed) > 0 then ed\<lparr>ed_buffer := butlast (ed_buffer ed)\<rparr> else ed)
      else if \<not> ed_overflow ed then
        (if length (ed_buffer ed) + 1 < CLI_LINE_CAPACITY then ed\<lparr>ed_buffer := ed_buffer ed @ [value]\<rparr>
         else ed\<lparr>ed_overflow := True\<rparr>)
      else ed)"

definition endOfLine :: "char \<Rightarrow> bool" where
  "endOfLine value \<longleftrightarrow> value = CHR 0x0D \<or> value = CHR 0x0A"

fun readLoop :: "nat \<Rightarrow> string \<Rightarrow> editor \<Rightarrow> Line option \<times> bool \<times> editor \<times> string" where
  "readLoop 0 input ed = (None, False, ed, input)"
| "readLoop (Suc n) [] ed = (None, False, ed, [])"
| "readLoop (Suc n) (value # input) ed =
     (if endOfLine value then
        (if ed_overflow ed then (None, True, editor_init, input)
         else (let output = trimCopy (snd (lineAssign (ed_buffer ed)))
               in (if output \<noteq> [] then Some output else None, False, ed\<lparr>ed_buffer := []\<rparr>, input)))
      else readLoop n input (editKey value ed))"

definition readLine :: "string \<Rightarrow> editor \<Rightarrow> Line option \<times> bool \<times> editor \<times> string" where
  "readLine input ed = readLoop CLI_LINE_CAPACITY input ed"

subsection \<open>Trimming and splitting\<close>

lemma trimFirst_eq:
  "first \<le> length l \<Longrightarrow> trimFirst l first = first + length (takeWhile blank (drop first l))"
proof (induction l first rule: trimFirst.induct)
  case (1 l first)
  show ?case
  proof (cases "first < length l")
    case True
    then have "drop first l = l ! first # drop (first + 1) l" by (simp add: Cons_nth_drop_Suc)
    then show ?thesis using 1 True by (subst trimFirst.simps) (auto simp: lineAt_def)
  next
    case False
    then show ?thesis using 1(2) by (subst trimFirst.simps) simp
  qed
qed

text \<open>The reference: blanks off both ends.\<close>

definition trimmed :: "string \<Rightarrow> string" where
  "trimmed s = rev (dropWhile blank (rev (dropWhile blank s)))"

lemma trimLast_eq:
  "first \<le> n \<Longrightarrow> n \<le> length l \<Longrightarrow>
   first \<le> trimLast l first n \<and> trimLast l first n \<le> n \<and>
   take (trimLast l first n - first) (drop first l) = rev (dropWhile blank (rev (take (n - first) (drop first l))))"
proof (induction n)
  case (Suc n)
  show ?case
  proof (cases "first < Suc n")
    case True
    then have "take (Suc n - first) (drop first l) = take (n - first) (drop first l) @ [l ! n]"
      using Suc.prems by (simp add: Suc_diff_le take_Suc_conv_app_nth)
    then show ?thesis using Suc True by (auto simp: lineAt_def)
  next
    case False
    then show ?thesis using Suc.prems by simp
  qed
qed simp

lemma trimCopy_eq: "length l < CLI_LINE_CAPACITY \<Longrightarrow> trimCopy l = trimmed l"
proof -
  assume l: "length l < CLI_LINE_CAPACITY"
  define first where "first = trimFirst l 0"
  have f: "first = length (takeWhile blank l)" by (simp add: first_def trimFirst_eq)
  then have "first \<le> length l" by (simp add: length_takeWhile_le)
  note t = trimLast_eq [OF this order_refl]
  have d: "drop first l = dropWhile blank l" using f by (simp add: dropWhile_eq_drop)
  have "take (length l - first) (drop first l) = drop first l" by simp
  then have "take (trimLast l first (length l) - first) (drop first l) = trimmed l"
    using t d by (simp only: trimmed_def)
  moreover have "length (trimmed l) < CLI_LINE_CAPACITY"
    using l length_dropWhile_le [of blank l] length_dropWhile_le [of blank "rev (dropWhile blank l)"]
    by (simp add: trimmed_def)
  ultimately show ?thesis
    by (simp only: trimCopy_def Let_def first_def [symmetric] lineAssign_def not_le [symmetric] if_False if_not_P snd_conv)
qed

lemma length_trimmed: "length (trimmed s) \<le> length s"
  using length_dropWhile_le [of blank s] length_dropWhile_le [of blank "rev (dropWhile blank s)"]
  by (simp add: trimmed_def)

text \<open>A text that has no blank at its ends.\<close>

definition tight :: "string \<Rightarrow> bool" where
  "tight s \<longleftrightarrow> s = [] \<or> \<not> blank (hd s) \<and> \<not> blank (last s)"

lemma dropWhile_id: "l \<noteq> [] \<Longrightarrow> \<not> P (hd l) \<Longrightarrow> dropWhile P l = l"
  by (cases l) simp_all

lemma trimmed_pad:
  assumes "\<forall>c \<in> set pad. blank c" and "\<forall>c \<in> set pad'. blank c" and "tight s"
  shows "trimmed (pad @ s @ pad') = s"
proof (cases "s = []")
  case True
  have "dropWhile blank (pad @ pad') = []" using assms(1,2) by auto
  then show ?thesis unfolding trimmed_def True append_Nil by (simp only: list.simps dropWhile.simps rev.simps)
next
  case False
  have 1: "dropWhile blank (pad @ s @ pad') = s @ pad'"
    using assms(1,3) False by (auto simp: tight_def dropWhile_append2 neq_Nil_conv)
  have "dropWhile blank (rev pad' @ rev s) = rev s"
  proof -
    have "dropWhile blank (rev s) = rev s"
      using assms(3) False by (simp add: dropWhile_id tight_def hd_rev)
    then show ?thesis using assms(2) by (subst dropWhile_append2) simp_all
  qed
  then show ?thesis using 1 by (simp add: trimmed_def)
qed

lemma lineFind_None: "lineFind c l = None \<longleftrightarrow> c \<notin> set l"
  by (induction l) auto

lemma lineFind_append: "c \<notin> set w \<Longrightarrow> lineFind c (w @ c # t) = Some (length w)"
  by (induction w) auto

text \<open>
  C37. A command line is taken apart the way it was put together: a first word without spaces, at
  least one space, and a tail that has no blank at its ends are found again whatever blanks stand
  before, between and after them, as long as the whole is shorter than the line's capacity; with the
  first word alone the tail is empty.
\<close>
theorem split_head_tail_roundtrip:
  assumes "w \<noteq> []" and "tight w" and "CHR '' '' \<notin> set w" and "tight t"
    and "\<forall>c \<in> set (pad @ gap @ pad'). blank c"
    and "length (pad @ w @ CHR '' '' # gap @ t @ pad') < CLI_LINE_CAPACITY"
  shows "splitHeadTail (pad @ w @ CHR '' '' # gap @ t @ pad') = (True, w, t)"
proof -
  define l where "l = pad @ w @ CHR '' '' # gap @ t @ pad'"
  have len: "length l < CLI_LINE_CAPACITY" using assms(6) by (simp add: l_def)
  have b: "blank (CHR '' '')" by (simp add: blank_def)
  show ?thesis
  proof (cases "t = []")
    case True
    have "trimCopy l = trimmed (pad @ w @ (CHR '' '' # gap @ pad'))"
      using len True by (simp add: trimCopy_eq) (simp add: l_def)
    also have "\<dots> = w" using assms(2,5) b by (intro trimmed_pad) auto
    finally show ?thesis using assms(1,3) True lineFind_None [of "CHR '' ''" w]
      by (simp add: splitHeadTail_def l_def)
  next
    case False
    have m: "tight (w @ CHR '' '' # gap @ t)" using assms(1,2,4) False by (simp add: tight_def hd_append)
    have "trimCopy l = trimmed (pad @ (w @ CHR '' '' # gap @ t) @ pad')"
      using len by (simp add: trimCopy_eq) (simp add: l_def)
    also have "\<dots> = w @ CHR '' '' # gap @ t" using assms(5) m by (intro trimmed_pad) auto
    finally have e: "trimCopy l = w @ CHR '' '' # gap @ t" .
    have "trimmed (gap @ t @ []) = t" using assms(4,5) by (intro trimmed_pad) auto
    then have "trimCopy (gap @ t) = t" using len by (simp add: trimCopy_eq l_def)
    then show ?thesis using assms(1,3) len e
      by (simp add: splitHeadTail_def l_def [symmetric] lineFind_append Let_def lineAssign_def) (simp add: l_def)
  qed
qed

theorem split_head_tail_roundtrip_witness:
  "splitHeadTail ''  frc   confirm 400 '' = (True, ''frc'', ''confirm 400'')"
  using split_head_tail_roundtrip [of "''frc''" "''confirm 400''" "''  ''" "''  ''" "'' ''"]
  by (simp add: tight_def blank_def)

subsection \<open>Decimal numbers\<close>

definition digitChar :: "nat \<Rightarrow> char" where
  "digitChar n = ''0123456789'' ! n"

fun decimal :: "nat \<Rightarrow> string" where
  "decimal n = (if n < 10 then [digitChar n] else decimal (n div 10) @ [digitChar (n mod 10)])"

declare decimal.simps [simp del]

definition signedDecimal :: "int \<Rightarrow> string" where
  "signedDecimal i = (if i < 0 then CHR ''-'' # decimal (nat (- i)) else decimal (nat i))"

lemma digit_cases: "n < 10 \<Longrightarrow> n \<in> {0, 1, 2, 3, 4, 5, 6, 7, 8, 9}" for n :: nat
  by auto

lemma digitChar_facts:
  assumes "n < 10"
  shows "digitValue (digitChar n) = Some (int n)" "\<not> isSpace (digitChar n)" "digitChar n \<noteq> CHR 0x00"
    "digitChar n \<noteq> CHR ''-''" "digitChar n \<noteq> CHR ''+''" "digitChar n = CHR ''0'' \<longleftrightarrow> n = 0"
  using digit_cases [OF assms] by (auto simp: digitChar_def digitValue_def isSpace_def)

lemma decimal_digits: "c \<in> set (decimal n) \<Longrightarrow> \<exists>v < 10. c = digitChar v"
proof (induction n rule: decimal.induct)
  case (1 n)
  have "n mod 10 < 10" by simp
  then have "\<exists>v < 10. digitChar (n mod 10) = digitChar v" by blast
  with 1 show ?case by (cases "n < 10") (auto simp: decimal.simps [of n])
qed

lemma decimal_nonempty [simp]: "decimal n \<noteq> []" "[] \<noteq> decimal n"
  by (simp_all add: decimal.simps [of n])

lemma hd_decimal: "hd (decimal n) = CHR ''0'' \<Longrightarrow> n = 0"
proof (induction n rule: decimal.induct)
  case (1 n)
  then show ?case by (cases "n < 10") (auto simp: decimal.simps [of n] digitChar_facts)
qed

lemma digitsValue_snoc: "digitsValue b (cs @ [c]) = digitsValue b cs * b + the (digitValue c)"
  by (simp add: digitsValue_def)

lemma digitsValue_decimal: "digitsValue 10 (decimal n) = int n"
proof (induction n rule: decimal.induct)
  case (1 n)
  show ?case
  proof (cases "n < 10")
    case True
    then show ?thesis by (simp add: decimal.simps [of n] digitsValue_def digitChar_facts)
  next
    case False
    then have "digitsValue 10 (decimal n) = int (n div 10) * 10 + int (n mod 10)"
      using 1 by (simp add: decimal.simps [of n] digitsValue_snoc digitChar_facts)
    also have "\<dots> = int n" by (metis div_mult_mod_eq of_nat_add of_nat_mult of_nat_numeral)
    finally show ?thesis .
  qed
qed

lemma takeWhile_decimal: "takeWhile (isDigitOf 10) (decimal n) = decimal n"
  using decimal_digits by (fastforce simp: takeWhile_eq_all_conv isDigitOf_def digitChar_facts)

lemma prefix_decimal: "numberPrefix (decimal n) = (if n = 0 then 8 else 10, decimal n)"
proof (cases "n = 0")
  case True
  then show ?thesis by (simp add: decimal.simps numberPrefix_def digitChar_def)
next
  case False
  then have "hd (decimal n) \<noteq> CHR ''0''" using hd_decimal by blast
  then show ?thesis using False by (cases "decimal n") (auto simp: numberPrefix_def split: list.split)
qed

lemma scan_decimal:
  "scanNumber (decimal n) = (int n, False, [])" "scanNumber (CHR ''-'' # decimal n) = (int n, True, [])"
proof -
  obtain v where v: "v < 10" "hd (decimal n) = digitChar v" using decimal_digits hd_in_set decimal_nonempty by metis
  then have h: "\<not> isSpace (hd (decimal n))" "hd (decimal n) \<noteq> CHR ''-''" "hd (decimal n) \<noteq> CHR ''+''"
    by (simp_all add: digitChar_facts)
  then have d: "dropWhile isSpace (decimal n) = decimal n" by (cases "decimal n") auto
  have z: "decimal 0 = ''0''" by (simp add: decimal.simps digitChar_def)
  have 8: "takeWhile (isDigitOf 8) ''0'' = ''0''" "digitsValue 8 ''0'' = 0"
    "isDigitOf 8 (CHR ''0'')" by (simp_all add: isDigitOf_def digitValue_def digitsValue_def)
  show "scanNumber (decimal n) = (int n, False, [])"
    using h d by (cases "n = 0") (simp_all add: scanNumber_def Let_def prefix_decimal [of 0, unfolded z] prefix_decimal
      takeWhile_decimal digitsValue_decimal z 8)
  have "\<not> isSpace (CHR ''-'')" by (simp add: isSpace_def)
  then show "scanNumber (CHR ''-'' # decimal n) = (int n, True, [])"
    by (cases "n = 0") (simp_all add: scanNumber_def Let_def prefix_decimal [of 0, unfolded z] prefix_decimal
      takeWhile_decimal digitsValue_decimal z 8)
qed

lemma c_str_decimal: "c_str (decimal n) = decimal n" "c_str (CHR ''-'' # decimal n) = CHR ''-'' # decimal n"
proof -
  show "c_str (decimal n) = decimal n"
    unfolding c_str_def takeWhile_eq_all_conv using decimal_digits digitChar_facts(3) by metis
  then show "c_str (CHR ''-'' # decimal n) = CHR ''-'' # decimal n" by (simp add: c_str_def)
qed

lemma first_decimal: "lineAt (decimal n) 0 \<noteq> CHR ''-''"
proof -
  have "hd (decimal n) \<in> set (decimal n)" by simp
  then show ?thesis using decimal_digits digitChar_facts by (metis decimal_nonempty hd_conv_nth length_greater_0_conv lineAt_def)
qed

text \<open>
  C38. Numbers are read back as they were written: on targets whose \<open>long\<close> has at least 32 bits the
  decimal notation of every value in the range of the type is accepted and gives exactly this value,
  and that of every larger value is rejected and leaves the caller's variable alone.
\<close>
theorem decimal_roundtrip:
  assumes "32 \<le> longBits"
  shows "parseU32 longBits (decimal n) v32 = (if n < 2 ^ 32 then (True, word_of_nat n) else (False, v32)) \<and>
    parseU16 longBits (decimal n) v16 = (if n < 2 ^ 16 then (True, word_of_nat n) else (False, v16)) \<and>
    parseI32 longBits (signedDecimal i) w32 = (if - (2 ^ 31) \<le> i \<and> i < 2 ^ 31 then (True, i) else (False, w32))"
proof -
  have l: "(2 :: int) ^ 32 \<le> 2 ^ longBits" "(2 :: int) ^ 31 \<le> 2 ^ (longBits - 1)"
    using assms by (intro power_increasing; simp)+
  have u: "parseU32 longBits (decimal n) v = (if n < 2 ^ 32 then (True, word_of_nat n) else (False, v))" for v
  proof -
    have "int n < 2 ^ 32 \<longleftrightarrow> n < 2 ^ 32" by simp
    moreover have "n < 2 ^ 32 \<Longrightarrow> int n < 2 ^ longBits" by (rule order.strict_trans2 [OF _ l(1)]) simp
    ultimately show ?thesis
      by (auto simp: parseU32_def strtoul_def scan_decimal c_str_decimal first_decimal)
  qed
  have s: "parseU16 longBits (decimal n) v16 = (if n < 2 ^ 16 then (True, word_of_nat n) else (False, v16))"
  proof (cases "n < 2 ^ 32")
    case True
    then have "unat (word_of_nat n :: u32) = n" by (simp add: unsigned_of_nat take_bit_nat_eq_self)
    then have "(word_of_nat n :: u32) > 0xFFFF \<longleftrightarrow> \<not> n < 2 ^ 16" by (auto simp: word_less_nat_alt)
    moreover have "ucast (word_of_nat n :: u32) = (word_of_nat n :: u16)"
      using \<open>unat (word_of_nat n :: u32) = n\<close> by (simp add: ucast_eq uint_nat)
    ultimately show ?thesis using True by (simp add: parseU16_def u)
  next
    case False
    then show ?thesis by (simp add: parseU16_def u)
  qed
  have "signedDecimal i \<noteq> []" by (simp add: signedDecimal_def)
  then have i: "parseI32 longBits (signedDecimal i) w32 = (if - (2 ^ 31) \<le> i \<and> i < 2 ^ 31 then (True, i) else (False, w32))"
    using l by (auto simp: parseI32_def strtol_def signedDecimal_def scan_decimal c_str_decimal split: if_splits)
  show ?thesis using u s i by blast
qed

theorem decimal_roundtrip_witness:
  "parseU16 32 (decimal 400) 0 = (True, 400) \<and> parseI32 32 (signedDecimal (-12)) 0 = (True, -12)"
  using decimal_roundtrip [of 32 400 0 0 "-12" 0] by simp

subsection \<open>Lines of input\<close>

text \<open>
  Every line that calls of \<open>readLine\<close>, one after the other, take from an input. A call that is
  given some input reads some of it.
\<close>

lemma readLoop_shorter: "length (snd (snd (snd (readLoop n input ed)))) \<le> length input - (if n = 0 then 0 else 1)"
  by (induction n input ed rule: readLoop.induct) (auto simp: Let_def)

function readLines :: "string \<Rightarrow> editor \<Rightarrow> Line list \<times> editor" where
  "readLines input ed =
     (if input = [] then ([], ed)
      else case readLine input ed of (output, _, ed, rest) \<Rightarrow>
        case readLines rest ed of (ls, ed) \<Rightarrow>
          ((case output of None \<Rightarrow> ls | Some l \<Rightarrow> l # ls), ed))"
  by pat_completeness auto
termination
proof (relation "measure (\<lambda>(input, ed). length input)", goal_cases)
  case (2 input ed a b c d e f)
  then have "length (snd (snd (snd (readLine input ed)))) < length input"
    using readLoop_shorter [of CLI_LINE_CAPACITY input ed] by (cases input) (auto simp: readLine_def)
  with 2 show ?case by (metis case_prod_conv in_measure snd_conv)
qed simp

declare readLines.simps [simp del]

definition ordinary :: "char \<Rightarrow> bool" where
  "ordinary c \<longleftrightarrow> \<not> endOfLine c \<and> c \<noteq> CHR 0x08 \<and> c \<noteq> CHR 0x7F"

text \<open>What the end of a line does, and the reference: an editor that takes one character at a time.\<close>

definition finishLine :: "editor \<Rightarrow> Line option \<times> editor" where
  "finishLine ed =
     (if ed_overflow ed then (None, editor_init)
      else (let output = trimCopy (snd (lineAssign (ed_buffer ed)))
            in (if output \<noteq> [] then Some output else None, ed\<lparr>ed_buffer := []\<rparr>)))"

definition delivered :: "Line option \<Rightarrow> Line list \<times> 'a \<Rightarrow> Line list \<times> 'a" where
  "delivered output r = ((case output of None \<Rightarrow> fst r | Some l \<Rightarrow> l # fst r), snd r)"

fun linesOf :: "string \<Rightarrow> editor \<Rightarrow> Line list \<times> editor" where
  "linesOf [] ed = ([], ed)"
| "linesOf (c # cs) ed =
     (if endOfLine c then delivered (fst (finishLine ed)) (linesOf cs (snd (finishLine ed)))
      else linesOf cs (editKey c ed))"

lemma linesOf_append:
  "linesOf (as @ bs) ed = (fst (linesOf as ed) @ fst (linesOf bs (snd (linesOf as ed))), snd (linesOf bs (snd (linesOf as ed))))"
  by (induction as ed rule: linesOf.induct) (auto simp: delivered_def split: option.split)

lemma linesOf_line:
  "\<forall>c \<in> set cs. ordinary c \<Longrightarrow> linesOf (cs @ rest) ed = linesOf rest (fold editKey cs ed)"
  by (induction cs arbitrary: ed) (simp_all add: ordinary_def)

text \<open>
  The input as it arrives: before each call of \<open>readLine\<close> some more of it, or nothing, comes in behind
  what the calls before left unread. \<open>serveInput\<close> makes one call per arrival.
\<close>

fun serveInput :: "string \<Rightarrow> string list \<Rightarrow> editor \<Rightarrow> Line list \<times> editor \<times> string" where
  "serveInput unread [] ed = ([], ed, unread)"
| "serveInput unread (arrival # arrivals) ed =
     (case readLine (unread @ arrival) ed of (output, _, ed, unread) \<Rightarrow>
        delivered output (serveInput unread arrivals ed))"

lemma readLoop_linesOf:
  "readLoop n input ed = (out, discarded, ed', rest) \<Longrightarrow> linesOf input ed = delivered out (linesOf rest ed')"
  by (induction n input ed arbitrary: out discarded ed' rest rule: readLoop.induct)
    (auto simp: delivered_def finishLine_def Let_def split: if_splits)

lemma readLines_linesOf: "readLines input ed = linesOf input ed"
proof (induction input ed rule: readLines.induct)
  case (1 input ed)
  obtain out discarded ed' rest where r: "readLine input ed = (out, discarded, ed', rest)" by (metis surj_pair)
  have "input \<noteq> [] \<Longrightarrow> readLines rest ed' = linesOf rest ed'" using 1 r by simp
  then show ?case
    using readLoop_linesOf [OF r [unfolded readLine_def]]
    by (subst readLines.simps) (auto simp: r delivered_def split: prod.split option.split)
qed

lemma serveInput_linesOf:
  "serveInput unread arrivals ed = (ls, ed', unread') \<Longrightarrow>
   linesOf (unread @ concat arrivals) ed = (ls @ fst (linesOf unread' ed'), snd (linesOf unread' ed'))"
proof (induction unread arrivals ed arbitrary: ls rule: serveInput.induct)
  case (1 unread ed)
  then show ?case by simp
next
  case (2 unread arrival arrivals ed)
  obtain out discarded ed1 rest where r: "readLine (unread @ arrival) ed = (out, discarded, ed1, rest)"
    by (metis surj_pair)
  obtain ls1 e u where s: "serveInput rest arrivals ed1 = (ls1, e, u)" by (metis prod_cases3)
  from "2.prems" have eu: "e = ed'" "u = unread'" and ls: "ls = fst (delivered out (ls1, ()))"
    by (auto simp: r s delivered_def split: option.splits)
  have "linesOf ((unread @ arrival) @ concat arrivals) ed = delivered out (linesOf (rest @ concat arrivals) ed1)"
    unfolding linesOf_append [of "unread @ arrival"] linesOf_append [of rest] readLoop_linesOf [OF r [unfolded readLine_def]]
    by (simp add: delivered_def split: option.split)
  then show ?case
    using "2.IH" [OF r [symmetric] refl refl s [unfolded eu]] by (simp add: ls delivered_def split: option.split)
qed

lemma fold_editKey:
  assumes "\<forall>c \<in> set cs. ordinary c"
  shows "fold editKey cs editor_init =
    (if length cs < CLI_LINE_CAPACITY then \<lparr>ed_buffer = cs, ed_overflow = False\<rparr>
     else \<lparr>ed_buffer = take (CLI_LINE_CAPACITY - 1) cs, ed_overflow = True\<rparr>)"
  using assms
proof (induction cs rule: rev_induct)
  case (snoc c cs)
  then show ?case by (auto simp: editKey_def ordinary_def)
qed (simp add: editor_init_def)

lemma linesOf_lines:
  assumes "\<forall>(cs, nl) \<in> set ls. (\<forall>c \<in> set cs. ordinary c) \<and> endOfLine nl"
  shows "linesOf (concat (map (\<lambda>(cs, nl). cs @ [nl]) ls) @ part) editor_init =
    (filter (\<lambda>l. l \<noteq> []) (map trimmed (filter (\<lambda>cs. length cs < CLI_LINE_CAPACITY) (map fst ls))) @
       fst (linesOf part editor_init), snd (linesOf part editor_init))"
  using assms
proof (induction ls)
  case (Cons l ls)
  obtain cs nl where l: "l = (cs, nl)" by (metis surj_pair)
  have o: "\<forall>c \<in> set cs. ordinary c" and nl: "endOfLine nl" using Cons.prems by (simp_all add: l)
  have "fst (finishLine (fold editKey cs editor_init)) =
      (if length cs < CLI_LINE_CAPACITY \<and> trimmed cs \<noteq> [] then Some (trimmed cs) else None)"
    and "snd (finishLine (fold editKey cs editor_init)) = editor_init"
    unfolding fold_editKey [OF o] finishLine_def
    by (simp_all add: Let_def lineAssign_def trimCopy_eq) (simp_all add: editor_init_def)
  then show ?case
    using Cons by (simp add: l linesOf_line [OF o] nl delivered_def)
qed simp

text \<open>
  C36. The commands of the console are the lines of its input, however the input arrives: cut into
  any pieces, with any number of calls of \<open>readLine\<close> in between that find nothing, in the middle of a
  line or not, and whatever of it a call leaves unread. Let the input be any lines without editing keys,
  each closed by a carriage return or a newline, and a last line that is not closed yet. The lines that
  the calls have returned, and those that further calls return from what is still unread, are then
  exactly the trimmed text of the closed lines that are shorter than 128 characters and not blank, in
  order; a longer line is dropped as a whole, and no part of it is ever taken for a command. The open
  line is kept, character by character, for the calls to come.
\<close>
theorem console_reads_lines:
  assumes "\<forall>(cs, nl) \<in> set ls. (\<forall>c \<in> set cs. ordinary c) \<and> endOfLine nl" and "\<forall>c \<in> set part. ordinary c"
    and "concat arrivals = concat (map (\<lambda>(cs, nl). cs @ [nl]) ls) @ part"
    and "serveInput [] arrivals editor_init = (taken, ed, unread)"
  shows "taken @ fst (readLines unread ed) =
      filter (\<lambda>l. l \<noteq> []) (map trimmed (filter (\<lambda>cs. length cs < CLI_LINE_CAPACITY) (map fst ls))) \<and>
    snd (readLines unread ed) =
      (if length part < CLI_LINE_CAPACITY then \<lparr>ed_buffer = part, ed_overflow = False\<rparr>
       else \<lparr>ed_buffer = take (CLI_LINE_CAPACITY - 1) part, ed_overflow = True\<rparr>)"
  using serveInput_linesOf [OF assms(4)] linesOf_lines [OF assms(1), of part] linesOf_line [OF assms(2), of "[]" editor_init]
  by (simp add: assms(3) readLines_linesOf fold_editKey [OF assms(2)])

theorem console_reads_lines_witness:
  "fst (serveInput [] ['' re'', [], ''ad '' @ [CHR 0x0D, CHR 0x0A], ''can'', ''cel'' @ [CHR 0x0A, CHR ''x''], []] editor_init) =
   [''read'', ''cancel'']"
proof -
  define arrivals where "arrivals = ['' re'', [], ''ad '' @ [CHR 0x0D, CHR 0x0A], ''can'', ''cel'' @ [CHR 0x0A, CHR ''x''], []]"
  have "serveInput [] arrivals editor_init = ([''read'', ''cancel''], \<lparr>ed_buffer = ''x'', ed_overflow = False\<rparr>, [])"
    unfolding arrivals_def by code_simp
  then obtain taken ed where s: "serveInput [] arrivals editor_init = (taken, ed, [])" by blast
  define ls where "ls = [('' read '', CHR 0x0D), ([], CHR 0x0A), (''cancel'', CHR 0x0A)]"
  have a: "\<forall>(cs, nl) \<in> set ls. (\<forall>c \<in> set cs. ordinary c) \<and> endOfLine nl" and p: "\<forall>c \<in> set ''x''. ordinary c"
    by (simp_all add: ls_def ordinary_def endOfLine_def)
  have c: "concat arrivals = concat (map (\<lambda>(cs, nl). cs @ [nl]) ls) @ ''x''" by (simp add: ls_def arrivals_def)
  from console_reads_lines [OF a p c s] show ?thesis
    unfolding arrivals_def [symmetric] by (simp add: s readLines.simps trimmed_def blank_def ls_def)
qed

text \<open>
  The test for a minus sign in \<open>parseU32\<close> looks at the first character only, but the conversion
  skips a vertical tab or a form feed, which the trimming leaves: where \<open>long\<close> has 32 bits a
  negative number after one is accepted and wraps around.
\<close>
lemma minus_after_form_feed: "parseU32 32 [CHR 0x0C, CHR ''-'', CHR ''1''] 0 = (True, 4294967295)"
  by code_simp

end
