(* ===== verification/Scd_Adapters.thy ===== *)
theory Scd_Adapters
  imports Scd_Bench "HOL-Library.Signed_Division"
begin

text \<open>
The two transport adapters of the examples, for ESP-IDF (examples/idf/basic/main/IdfI2cTransport.cpp) and for Arduino's Wire (examples/common/I2cTransport.h). What they call of the frameworks is not part of the repository, so it is an argument: a record of functions on the state of the world behind them.
\<close>

subsection \<open>The contract of the callback\<close>

text \<open>
  What Config.h asks of a result: valid enumerators, no more bytes than requested, none when nothing
  was started, OK exactly with COMPLETE and all bytes, and NO_EFFECT never for a request that wrote.
\<close>

definition honours :: "TransferRequest \<Rightarrow> TransferResult \<Rightarrow> bool" where
  "honours q r \<longleftrightarrow> tr_code r \<noteq> TransferCode_INVALID \<and> tr_disposition r \<noteq> Disp_INVALID \<and>
     tr_bytesTransferred r \<le> length (tq_writeData q) + tq_readLength q \<and>
     (tr_disposition r = Disp_NOT_STARTED \<longrightarrow> tr_bytesTransferred r = 0) \<and>
     (tr_code r = TransferCode_OK \<longleftrightarrow> tr_disposition r = Disp_COMPLETE) \<and>
     (tr_code r = TransferCode_OK \<longrightarrow>
        tr_bytesTransferred r = length (tq_writeData q) + tq_readLength q) \<and>
     (tr_disposition r = Disp_NO_EFFECT \<longrightarrow> tq_writeData q = [])"

lemma honours_normalized:
  assumes "honours q r" and "completionClockValid startedMs r" and "effectful \<Longrightarrow> tq_writeData q \<noteq> []"
  shows "normalized effectful (length (tq_writeData q) + tq_readLength q) startedMs r = r"
  using assms
  by (auto simp: honours_def normalized_def normalizeClock_def normalizeInvalid_def normalizeShort_def
      invalidTransport_def contradictoryBytes_def invalid_code_iff invalid_disposition_iff)

subsection \<open>ESP-IDF\<close>

text \<open>
  The framework functions and error codes the adapter uses, which are not part of the repository.
  Each function of the I2C master driver returns an error code; the timer counts microseconds.
\<close>

record 'w idf_framework =
  idf_transmit_receive :: "nat \<Rightarrow> u8 list \<Rightarrow> nat \<Rightarrow> i32 \<Rightarrow> 'w \<Rightarrow> i32 \<times> u8 list \<times> 'w"
  idf_transmit :: "nat \<Rightarrow> u8 list \<Rightarrow> i32 \<Rightarrow> 'w \<Rightarrow> i32 \<times> 'w"
  idf_receive :: "nat \<Rightarrow> nat \<Rightarrow> i32 \<Rightarrow> 'w \<Rightarrow> i32 \<times> u8 list \<times> 'w"
  idf_get_time :: "'w \<Rightarrow> int \<times> 'w"
  idf_ESP_OK :: i32
  idf_ESP_ERR_INVALID_RESPONSE :: i32
  idf_ESP_ERR_TIMEOUT :: i32
  idf_ESP_ERR_INVALID_ARG :: i32

record IdfI2cContext =
  ictx_device :: nat
  ictx_address :: u8

definition IdfI2cContext_init :: IdfI2cContext where
  "IdfI2cContext_init = \<lparr>ictx_device = 0, ictx_address = 0x62\<rparr>"

definition timeoutToIdf :: "u32 \<Rightarrow> i32" where
  "timeoutToIdf timeoutMs = (if timeoutMs > 0x7FFFFFFF then 0x7FFFFFFF else uint timeoutMs)"

definition idf_nowMs :: "'w idf_framework \<Rightarrow> 'w \<Rightarrow> u32 \<times> 'w" where
  "idf_nowMs fw w = (case idf_get_time fw w of (us, w) \<Rightarrow> (word_of_int (us sdiv 1000), w))"

definition mappedResult :: "'w idf_framework \<Rightarrow> i32 \<Rightarrow> nat \<Rightarrow> bool \<Rightarrow> 'w \<Rightarrow> TransferResult \<times> 'w" where
  "mappedResult fw error bytes effectfulWrite w =
     (let (code, disposition) =
        (if error = idf_ESP_OK fw then (TransferCode_OK, Disp_COMPLETE)
         else if error = idf_ESP_ERR_INVALID_RESPONSE fw
         then (TransferCode_NACK, if effectfulWrite then Disp_INDETERMINATE else Disp_NO_EFFECT)
         else if error = idf_ESP_ERR_TIMEOUT fw then (TransferCode_TIMEOUT, Disp_INDETERMINATE)
         else (TransferCode_BUS_ERROR, Disp_INDETERMINATE));
        (now, w) = idf_nowMs fw w
      in (\<lparr>tr_code = code, tr_disposition = disposition, tr_detail = error,
           tr_bytesTransferred = (if error = idf_ESP_OK fw then bytes else 0),
           tr_completedMs = now\<rparr>, w))"

text \<open>
  The adapter. The opaque pointer is resolved by \<open>resolve\<close>, null and foreign pointers by
  \<open>None\<close>; a null device handle is 0. A request of the model cannot have bytes without a buffer, so
  the two tests for null buffers are left out.
\<close>

definition idfI2cTransfer ::
    "'w idf_framework \<Rightarrow> (nat \<Rightarrow> IdfI2cContext option) \<Rightarrow> 'w I2cTransferFn" where
  "idfI2cTransfer fw resolve request user w =
     (let reject = (\<lambda>w. case idf_nowMs fw w of (now, w) \<Rightarrow>
            (\<lparr>tr_code = TransferCode_FAILED, tr_disposition = Disp_NOT_STARTED,
              tr_detail = idf_ESP_ERR_INVALID_ARG fw, tr_bytesTransferred = 0,
              tr_completedMs = now\<rparr>, [], w))
      in case resolve user of
           None \<Rightarrow> reject w
         | Some context \<Rightarrow>
             if ictx_device context = 0 \<or> tq_address request \<noteq> ictx_address context \<or>
                tq_timeoutMs request = 0 \<or>
                (tq_writeData request = [] \<and> tq_readLength request = 0)
             then reject w
             else
               (let timeout = timeoutToIdf (tq_timeoutMs request);
                    (error, bytes, w) =
                      (if tq_writeData request \<noteq> [] \<and> tq_readLength request > 0
                       then idf_transmit_receive fw (ictx_device context) (tq_writeData request)
                              (tq_readLength request) timeout w
                       else if tq_writeData request \<noteq> []
                       then (case idf_transmit fw (ictx_device context) (tq_writeData request) timeout w of
                               (error, w) \<Rightarrow> (error, [], w))
                       else if tq_readLength request > 0
                       then idf_receive fw (ictx_device context) (tq_readLength request) timeout w
                       else (idf_ESP_OK fw, [], w));
                    (result, w) = mappedResult fw error
                      (length (tq_writeData request) + tq_readLength request)
                      (tq_writeData request \<noteq> []) w
                in (result, bytes, w)))"

subsection \<open>Arduino\<close>

record 'w wire_framework =
  wire_begin :: "int \<Rightarrow> int \<Rightarrow> 'w \<Rightarrow> bool \<times> 'w"
  wire_setClock :: "u32 \<Rightarrow> 'w \<Rightarrow> bool \<times> 'w"
  wire_setTimeOut :: "u16 \<Rightarrow> 'w \<Rightarrow> 'w"
  wire_beginTransmission :: "u8 \<Rightarrow> 'w \<Rightarrow> 'w"
  wire_write :: "u8 list \<Rightarrow> 'w \<Rightarrow> nat \<times> 'w"
  wire_endTransmission :: "bool \<Rightarrow> 'w \<Rightarrow> u8 \<times> 'w"
  wire_requestFrom :: "u8 \<Rightarrow> nat \<Rightarrow> bool \<Rightarrow> 'w \<Rightarrow> nat \<times> 'w"
  wire_available :: "'w \<Rightarrow> int \<times> 'w"
  wire_read :: "'w \<Rightarrow> int \<times> 'w"
  wire_millis :: "'w \<Rightarrow> u32 \<times> 'w"

definition initWire :: "'w wire_framework \<Rightarrow> int \<Rightarrow> int \<Rightarrow> u32 \<Rightarrow> u32 \<Rightarrow> 'w \<Rightarrow> bool \<times> 'w" where
  "initWire fw sda scl freqHz timeoutMs w =
     (if timeoutMs = 0 \<or> timeoutMs > 65535 then (False, w)
      else case wire_begin fw sda scl w of (started, w) \<Rightarrow>
        if \<not> started then (False, w)
        else case wire_setClock fw freqHz w of (clocked, w) \<Rightarrow>
          if \<not> clocked then (False, w)
          else (True, wire_setTimeOut fw (ucast timeoutMs) w))"

definition wireResult :: "'w wire_framework \<Rightarrow> TransferCode \<Rightarrow> TransferDisposition \<Rightarrow> i32 \<Rightarrow> nat \<Rightarrow>
    'w \<Rightarrow> TransferResult \<times> 'w" where
  "wireResult fw code disposition detail bytes w =
     (case wire_millis fw w of (now, w) \<Rightarrow>
        (\<lparr>tr_code = code, tr_disposition = disposition, tr_detail = detail,
          tr_bytesTransferred = bytes, tr_completedMs = now\<rparr>, w))"

text \<open>The switch over the status of \<open>endTransmission\<close>; \<open>None\<close> is \<open>case 0\<close>, which goes on.\<close>

definition wireStatusOutcome :: "TransferRequest \<Rightarrow> u8 \<Rightarrow> (TransferCode \<times> TransferDisposition) option" where
  "wireStatusOutcome request wireStatus =
     (if wireStatus = 0 then None
      else if wireStatus = 1 then Some (TransferCode_SHORT_TRANSFER, Disp_INDETERMINATE)
      else if wireStatus = 2 \<or> wireStatus = 3
      then Some (TransferCode_NACK,
                 if tq_writeData request \<noteq> [] then Disp_INDETERMINATE else Disp_NO_EFFECT)
      else if wireStatus = 4 then Some (TransferCode_BUS_ERROR, Disp_INDETERMINATE)
      else if wireStatus = 5 then Some (TransferCode_TIMEOUT, Disp_INDETERMINATE)
      else Some (TransferCode_FAILED, Disp_INDETERMINATE))"

text \<open>The loops over the bytes the framework has buffered.\<close>

primrec drainWire :: "'w wire_framework \<Rightarrow> nat \<Rightarrow> 'w \<Rightarrow> 'w" where
  "drainWire fw 0 w = w"
| "drainWire fw (Suc n) w =
     (case wire_available fw w of (count, w) \<Rightarrow>
        if count > 0 then drainWire fw n (snd (wire_read fw w)) else w)"

primrec readWire :: "'w wire_framework \<Rightarrow> nat \<Rightarrow> 'w \<Rightarrow> u8 list \<times> 'w" where
  "readWire fw 0 w = ([], w)"
| "readWire fw (Suc n) w =
     (case wire_read fw w of (byte, w) \<Rightarrow>
      case readWire fw n w of (bytes, w) \<Rightarrow> (word_of_int byte # bytes, w))"

definition wireReceive :: "'w wire_framework \<Rightarrow> TransferRequest \<Rightarrow> nat \<Rightarrow> 'w \<Rightarrow> TransferResult \<times> u8 list \<times> 'w" where
  "wireReceive fw request moved w =
     (if tq_readLength request > 0 then
        (case wire_requestFrom fw (tq_address request) (tq_readLength request) True w of (received, w) \<Rightarrow>
           if received = 0 then
             (case wireResult fw TransferCode_FAILED Disp_INDETERMINATE 0 moved w of
                (result, w) \<Rightarrow> (result, [], w))
           else if received \<noteq> tq_readLength request then
             (case wireResult fw TransferCode_SHORT_TRANSFER Disp_INDETERMINATE
                     (sint (word_of_nat received :: u32)) (moved + received)
                     (drainWire fw received w) of
                (result, w) \<Rightarrow> (result, [], w))
           else
             (case readWire fw (tq_readLength request) w of (bytes, w) \<Rightarrow>
              case wireResult fw TransferCode_OK Disp_COMPLETE 0 (moved + received) w of
                (result, w) \<Rightarrow> (result, bytes, w)))
      else (case wireResult fw TransferCode_OK Disp_COMPLETE 0 moved w of
              (result, w) \<Rightarrow> (result, [], w)))"

definition wireWrite :: "'w wire_framework \<Rightarrow> TransferRequest \<Rightarrow> 'w \<Rightarrow> TransferResult \<times> u8 list \<times> 'w" where
  "wireWrite fw request w =
     (let w = wire_beginTransmission fw (tq_address request) w;
          (written, w) = wire_write fw (tq_writeData request) w;
          (wireStatus, w) = wire_endTransmission fw (tq_readLength request = 0) w
      in if written \<noteq> length (tq_writeData request) then
           (case wireResult fw TransferCode_SHORT_TRANSFER Disp_INDETERMINATE (uint wireStatus) 0 w of
              (result, w) \<Rightarrow> (result, [], w))
         else (case wireStatusOutcome request wireStatus of
                 None \<Rightarrow> wireReceive fw request written w
               | Some (code, disposition) \<Rightarrow>
                   (case wireResult fw code disposition (uint wireStatus) 0 w of
                      (result, w) \<Rightarrow> (result, [], w))))"

text \<open>The opaque pointer is the bus object, null when it is 0; \<open>fw\<close> holds its methods.\<close>

definition wireTransfer :: "'w wire_framework \<Rightarrow> 'w I2cTransferFn" where
  "wireTransfer fw request user w =
     (if user = 0 \<or> tq_timeoutMs request = 0 \<or> tq_timeoutMs request > 65535 \<or>
         (tq_writeData request = [] \<and> tq_readLength request = 0)
      then (case wireResult fw TransferCode_FAILED Disp_NOT_STARTED 0 0 w of
              (result, w) \<Rightarrow> (result, [], w))
      else
        (let w = wire_setTimeOut fw (ucast (tq_timeoutMs request)) w
         in if tq_writeData request \<noteq> [] then wireWrite fw request w
            else wireReceive fw request 0 w))"

subsection \<open>What the adapters promise\<close>

lemma mappedResult_honours:
  assumes "writes \<longleftrightarrow> tq_writeData q \<noteq> []"
  shows "honours q (fst (mappedResult fw error (length (tq_writeData q) + tq_readLength q) writes w)) \<and>
    tr_disposition (fst (mappedResult fw error (length (tq_writeData q) + tq_readLength q) writes w)) \<noteq> Disp_NOT_STARTED"
  using assms by (simp add: mappedResult_def honours_def split: prod.split)

lemma idf_attempts:
  assumes "idfI2cTransfer fw resolve q user w = (r, bytes, w')"
  shows "honours q r \<and> (tr_disposition r = Disp_NOT_STARTED \<longrightarrow> w' = snd (idf_nowMs fw w)) \<and>
    (tr_disposition r = Disp_NOT_STARTED \<longleftrightarrow>
       (case resolve user of None \<Rightarrow> True
        | Some c \<Rightarrow> ictx_device c = 0 \<or> tq_address q \<noteq> ictx_address c \<or> tq_timeoutMs q = 0 \<or>
            tq_writeData q = [] \<and> tq_readLength q = 0))"
proof (cases "resolve user")
  case None
  then show ?thesis using assms
    by (auto simp: idfI2cTransfer_def Let_def honours_def split: prod.splits)
next
  case (Some c)
  show ?thesis
  proof (cases "ictx_device c = 0 \<or> tq_address q \<noteq> ictx_address c \<or> tq_timeoutMs q = 0 \<or>
      tq_writeData q = [] \<and> tq_readLength q = 0")
    case True
    then show ?thesis using assms Some
      by (auto simp: idfI2cTransfer_def Let_def honours_def split: prod.splits)
  next
    case False
    then obtain error w1 where "r = fst (mappedResult fw error
        (length (tq_writeData q) + tq_readLength q) (tq_writeData q \<noteq> []) w1)"
      using assms Some by (auto simp: idfI2cTransfer_def Let_def split: prod.splits if_splits) (metis fst_conv)+
    then show ?thesis using mappedResult_honours [of "tq_writeData q \<noteq> []" q fw error w1] False Some by auto
  qed
qed

text \<open>
  C34. The ESP-IDF adapter keeps the contract of the callback whatever the framework answers: its
  results have valid codes, never more bytes than requested, OK exactly when the transfer completed,
  and no claim of NO_EFFECT for a request that wrote; the driver's normalisation leaves them as they
  are. A request it rejects is reported as NOT_STARTED and touches nothing but the timer, every other
  request is attempted.
\<close>
theorem idf_adapter_honours_contract:
  assumes "idfI2cTransfer fw resolve q user w = (r, bytes, w')"
    and "completionClockValid startedMs r" and "effectful \<Longrightarrow> tq_writeData q \<noteq> []"
  shows "honours q r \<and>
    normalized effectful (length (tq_writeData q) + tq_readLength q) startedMs r = r \<and>
    (tr_disposition r = Disp_NOT_STARTED \<longrightarrow> w' = snd (idf_nowMs fw w)) \<and>
    (tr_disposition r = Disp_NOT_STARTED \<longleftrightarrow>
       (case resolve user of None \<Rightarrow> True
        | Some c \<Rightarrow> ictx_device c = 0 \<or> tq_address q \<noteq> ictx_address c \<or> tq_timeoutMs q = 0 \<or>
            tq_writeData q = [] \<and> tq_readLength q = 0))"
  using honours_normalized [OF _ assms(2,3)] idf_attempts [OF assms(1)] by blast

text \<open>A framework with a device that acknowledges nothing, and a clock that stands still.\<close>

definition benchIdf :: "nat idf_framework" where
  "benchIdf = \<lparr>idf_transmit_receive = (\<lambda>_ _ n _ w. (264, replicate n 0, Suc w)),
     idf_transmit = (\<lambda>_ _ _ w. (264, Suc w)), idf_receive = (\<lambda>_ n _ w. (264, replicate n 0, Suc w)),
     idf_get_time = (\<lambda>w. (5000000, w)), idf_ESP_OK = 0, idf_ESP_ERR_INVALID_RESPONSE = 264,
     idf_ESP_ERR_TIMEOUT = 263, idf_ESP_ERR_INVALID_ARG = 258\<rparr>"

definition benchRequest :: TransferRequest where
  "benchRequest = \<lparr>tq_address = I2C_ADDRESS, tq_writeData = commandBytes CMD_WAKE_UP, tq_readLength = 0,
     tq_timeoutMs = 50, tq_intent = Intent_EXPECTED_WRITE_NACK\<rparr>"

theorem idf_adapter_honours_contract_witness:
  "honours benchRequest (fst (idfI2cTransfer benchIdf (\<lambda>_. Some (IdfI2cContext_init\<lparr>ictx_device := 1\<rparr>)) benchRequest 0 0))"
proof -
  define out where "out = idfI2cTransfer benchIdf (\<lambda>_. Some (IdfI2cContext_init\<lparr>ictx_device := 1\<rparr>)) benchRequest 0 0"
  obtain r bytes w where o: "out = (r, bytes, w)" by (cases out)
  have "completionClockValid 4999 (fst out)" unfolding out_def by code_simp
  moreover have "tq_writeData benchRequest \<noteq> []" by code_simp
  ultimately show ?thesis
    using idf_adapter_honours_contract [OF o [unfolded out_def], of 4999 True] o unfolding out_def by simp
qed

lemma wireResult_eq: "wireResult fw code disposition detail bytes w =
  (\<lparr>tr_code = code, tr_disposition = disposition, tr_detail = detail, tr_bytesTransferred = bytes,
    tr_completedMs = fst (wire_millis fw w)\<rparr>, snd (wire_millis fw w))"
  by (simp add: wireResult_def split: prod.split)

lemma wireReceive_honours:
  assumes "\<And>a n b w. fst (wire_requestFrom fw a n b w) \<le> n" and "moved = length (tq_writeData q)"
    and "0 < tq_readLength q \<or> tq_writeData q \<noteq> []"
  shows "honours q (fst (wireReceive fw q moved w)) \<and> tr_code (fst (wireReceive fw q moved w)) \<noteq> TransferCode_NACK \<and>
    tr_disposition (fst (wireReceive fw q moved w)) \<noteq> Disp_NOT_STARTED"
proof (cases "tq_readLength q")
  case 0
  then show ?thesis using assms(2) by (simp add: wireReceive_def wireResult_eq honours_def)
next
  case (Suc n)
  obtain received w1 where "wire_requestFrom fw (tq_address q) (tq_readLength q) True w = (received, w1)" by fastforce
  moreover from this have "received \<le> tq_readLength q" using assms(1) by (metis fst_conv)
  ultimately show ?thesis using Suc assms(2)
    by (simp add: wireReceive_def wireResult_eq honours_def split: prod.split)
qed

lemma wireWrite_honours:
  assumes "\<And>a n b w. fst (wire_requestFrom fw a n b w) \<le> n" and "tq_writeData q \<noteq> []"
  shows "honours q (fst (wireWrite fw q w)) \<and> tr_disposition (fst (wireWrite fw q w)) \<noteq> Disp_NOT_STARTED"
proof -
  obtain written w1 where 1: "wire_write fw (tq_writeData q) (wire_beginTransmission fw (tq_address q) w) = (written, w1)"
    by fastforce
  obtain status w2 where 2: "wire_endTransmission fw (tq_readLength q = 0) w1 = (status, w2)" by fastforce
  show ?thesis
  proof (cases "written = length (tq_writeData q) \<and> wireStatusOutcome q status = None")
    case True
    then show ?thesis using wireReceive_honours [OF assms(1), of written q w2] assms(2)
      by (simp add: wireWrite_def 1 2)
  next
    case False
    then show ?thesis using assms(2)
      by (auto simp: wireWrite_def 1 2 Let_def wireResult_eq honours_def wireStatusOutcome_def split: option.splits if_splits)
  qed
qed

lemma wire_attempts:
  assumes "\<And>a n b w. fst (wire_requestFrom fw a n b w) \<le> n" and "wireTransfer fw q user w = (r, bytes, w')"
  shows "honours q r \<and> (tr_code r = TransferCode_NACK \<longrightarrow> tq_writeData q \<noteq> []) \<and>
    (tr_disposition r = Disp_NOT_STARTED \<longleftrightarrow> user = 0 \<or> tq_timeoutMs q = 0 \<or> tq_timeoutMs q > 65535 \<or> tq_writeData q = [] \<and> tq_readLength q = 0)"
proof (cases "user = 0 \<or> tq_timeoutMs q = 0 \<or> tq_timeoutMs q > 65535 \<or> tq_writeData q = [] \<and> tq_readLength q = 0")
  case True
  then show ?thesis using assms(2) by (auto simp: wireTransfer_def wireResult_eq honours_def)
next
  case False
  let ?w = "wire_setTimeOut fw (ucast (tq_timeoutMs q)) w"
  have r: "r = (if tq_writeData q \<noteq> [] then fst (wireWrite fw q ?w) else fst (wireReceive fw q 0 ?w))"
    using assms(2) False by (auto simp: wireTransfer_def Let_def split: if_splits)
  show ?thesis using False wireWrite_honours [OF assms(1), of q ?w] wireReceive_honours [OF assms(1), of 0 q ?w]
    by (auto simp: r)
qed

text \<open>
  C35. The Arduino adapter keeps the contract as well, given only that the bus never returns more
  bytes than it was asked for: its results are valid, honest about bytes and effect, left alone by the
  driver's normalisation, and it reports a NACK only for a request that wrote, never for a plain read,
  where the framework cannot tell one from a fault. Timeouts beyond 16 bits are rejected.
\<close>
theorem wire_adapter_honours_contract:
  assumes "\<And>a n b w. fst (wire_requestFrom fw a n b w) \<le> n"
    and "wireTransfer fw q user w = (r, bytes, w')"
    and "completionClockValid startedMs r" and "effectful \<Longrightarrow> tq_writeData q \<noteq> []"
  shows "honours q r \<and>
    normalized effectful (length (tq_writeData q) + tq_readLength q) startedMs r = r \<and>
    (tr_code r = TransferCode_NACK \<longrightarrow> tq_writeData q \<noteq> []) \<and>
    (tr_disposition r = Disp_NOT_STARTED \<longleftrightarrow> user = 0 \<or> tq_timeoutMs q = 0 \<or> tq_timeoutMs q > 65535 \<or>
       tq_writeData q = [] \<and> tq_readLength q = 0)"
  using honours_normalized [OF _ assms(3,4)] wire_attempts [OF assms(1,2)] by blast

definition benchWire :: "nat wire_framework" where
  "benchWire = \<lparr>wire_begin = (\<lambda>_ _ w. (True, w)), wire_setClock = (\<lambda>_ w. (True, w)), wire_setTimeOut = (\<lambda>_ w. w),
     wire_beginTransmission = (\<lambda>_ w. w), wire_write = (\<lambda>bytes w. (length bytes, w)),
     wire_endTransmission = (\<lambda>_ w. (2, w)), wire_requestFrom = (\<lambda>_ n _ w. (n, w)),
     wire_available = (\<lambda>w. (1, w)), wire_read = (\<lambda>w. (-1, w)), wire_millis = (\<lambda>w. (5000, Suc w))\<rparr>"

theorem wire_adapter_honours_contract_witness:
  "honours benchRequest (fst (wireTransfer benchWire benchRequest 1 0))"
proof -
  obtain r bytes w where o: "wireTransfer benchWire benchRequest 1 0 = (r, bytes, w)" by (cases "wireTransfer benchWire benchRequest 1 0")
  have "completionClockValid 4999 (fst (wireTransfer benchWire benchRequest 1 0))" by code_simp
  moreover have "tq_writeData benchRequest \<noteq> []" by code_simp
  moreover have "fst (wire_requestFrom benchWire a n b w) \<le> n" for a n b w by (simp add: benchWire_def)
  ultimately show ?thesis
    using wire_adapter_honours_contract [OF _ o, of 4999 True] o by simp
qed

end
