(* ===== verification/Scd_Workflow.thy ===== *)
theory Scd_Workflow
  imports Scd_Success Scd_Reference
begin

text \<open>
The diagnostic sequencer of the examples: repeated operations with their accounts, as the record of its private members, its methods, and the state machine of all calls.
\<close>

datatype WorkflowKind = Workflow_NONE | Workflow_STRESS | Workflow_STRESS_MIX | Workflow_SELFCHECK

abbreviation DEFAULT_STRESS_CYCLES :: u32 where "DEFAULT_STRESS_CYCLES \<equiv> 50"

abbreviation MAX_STRESS_CYCLES :: u32 where "MAX_STRESS_CYCLES \<equiv> 1000"

fun workflowName :: "WorkflowKind \<Rightarrow> string" where
  "workflowName Workflow_NONE = ''none''"
| "workflowName Workflow_STRESS = ''stress''"
| "workflowName Workflow_STRESS_MIX = ''stress_mix''"
| "workflowName Workflow_SELFCHECK = ''selfcheck''"

record workflow =
  wf_kind :: WorkflowKind
  wf_operatingMode :: OperatingMode
  wf_operationId :: OperationId
  wf_operation :: OperationKind
  wf_cyclesTotal :: u32
  wf_cyclesCompleted :: u32
  wf_totalSteps :: u32
  wf_stepsCompleted :: u32
  wf_passed :: u32
  wf_warnings :: u32
  wf_failed :: u32
  wf_waiting :: bool
  wf_finished :: bool
  wf_stopRequested :: bool

definition workflow_init :: workflow where
  "workflow_init = \<lparr>wf_kind = Workflow_NONE, wf_operatingMode = Mode_UNKNOWN,
     wf_operationId = OperationId_init, wf_operation = Kind_NONE, wf_cyclesTotal = 0,
     wf_cyclesCompleted = 0, wf_totalSteps = 0, wf_stepsCompleted = 0, wf_passed = 0,
     wf_warnings = 0, wf_failed = 0, wf_waiting = False, wf_finished = False,
     wf_stopRequested = False\<rparr>"

definition workflowActive :: "workflow \<Rightarrow> bool" where
  "workflowActive f \<longleftrightarrow> wf_kind f \<noteq> Workflow_NONE \<and> \<not> wf_finished f"

definition stepsPerCycle :: "workflow \<Rightarrow> u32" where
  "stepsPerCycle f =
     (if wf_kind f = Workflow_SELFCHECK then 4
      else if wf_kind f = Workflow_STRESS_MIX then (if wf_operatingMode f = Mode_IDLE then 4 else 3)
      else 1)"

text \<open>The three constant sequences of \<open>operationForStep\<close>.\<close>

definition SEQUENCE :: "OperationKind list" where
  "SEQUENCE = [Kind_READ_IDENTITY, Kind_READ_SENSOR_VARIANT, Kind_READ_CONFIGURATION, Kind_SELF_TEST]"

definition IDLE_SEQUENCE :: "OperationKind list" where
  "IDLE_SEQUENCE = [Kind_READ_IDENTITY, Kind_READ_CONFIGURATION, Kind_READ_SENSOR_VARIANT, Kind_READ_DATA_READY]"

definition PERIODIC_SEQUENCE :: "OperationKind list" where
  "PERIODIC_SEQUENCE = [Kind_READ_DATA_READY, Kind_FETCH_SAMPLE, Kind_READ_AMBIENT_PRESSURE]"

definition operationForStep :: "u32 \<Rightarrow> workflow \<Rightarrow> OperationKind" where
  "operationForStep absoluteStep f =
     (if wf_kind f = Workflow_STRESS then Kind_READ_DATA_READY
      else if wf_kind f = Workflow_SELFCHECK then SEQUENCE ! unat (absoluteStep mod 4)
      else if wf_kind f = Workflow_STRESS_MIX then
        (if wf_operatingMode f = Mode_IDLE then IDLE_SEQUENCE ! unat (absoluteStep mod 4)
         else PERIODIC_SEQUENCE ! unat (absoluteStep mod 3))
      else Kind_NONE)"

text \<open>\<open>begin\<close>, whose name is a keyword here; \<open>clear\<close> is \<open>workflow_init\<close>.\<close>

definition workflowBegin :: "WorkflowKind \<Rightarrow> u32 \<Rightarrow> OperatingMode \<Rightarrow> workflow \<Rightarrow> bool \<times> workflow" where
  "workflowBegin kind cycles operatingMode f =
     (if workflowActive f \<or> kind = Workflow_NONE \<or> cycles = 0 \<or> cycles > MAX_STRESS_CYCLES then (False, f)
      else if operatingMode \<noteq> Mode_IDLE \<and> operatingMode \<noteq> Mode_PERIODIC \<and>
              operatingMode \<noteq> Mode_LOW_POWER_PERIODIC then (False, f)
      else if kind = Workflow_SELFCHECK \<and> operatingMode \<noteq> Mode_IDLE then (False, f)
      else (let f = workflow_init\<lparr>wf_kind := kind, wf_operatingMode := operatingMode,
                       wf_cyclesTotal := (if kind = Workflow_SELFCHECK then 1 else cycles)\<rparr>
            in (True, f\<lparr>wf_totalSteps := wf_cyclesTotal f * stepsPerCycle f\<rparr>)))"

definition nextRequest :: "OperationRequest \<Rightarrow> workflow \<Rightarrow> bool \<times> OperationRequest" where
  "nextRequest request f =
     (if \<not> workflowActive f \<or> wf_waiting f \<or> wf_stepsCompleted f \<ge> wf_totalSteps f then (False, request)
      else (let request = makeRequest (operationForStep (wf_stepsCompleted f) f)
            in (rq_kind request \<noteq> Kind_NONE, request)))"

definition markStarted :: "OperationId \<Rightarrow> OperationKind \<Rightarrow> workflow \<Rightarrow> bool \<times> workflow" where
  "markStarted oid operation f =
     (if \<not> workflowActive f \<or> wf_waiting f \<or> operation \<noteq> operationForStep (wf_stepsCompleted f) f
      then (False, f)
      else (True, f\<lparr>wf_operationId := oid, wf_operation := operation, wf_waiting := True\<rparr>))"

definition acceptResult :: "OperationResult \<Rightarrow> workflow \<Rightarrow> bool \<times> workflow" where
  "acceptResult result f =
     (if \<not> wf_waiting f \<or> res_id result \<noteq> wf_operationId f \<or> res_kind result \<noteq> wf_operation f
      then (False, f)
      else (let f = f\<lparr>wf_waiting := False\<rparr>;
                f = (if res_outcome result = Outcome_SUCCEEDED then f\<lparr>wf_passed := wf_passed f + 1\<rparr>
                      else if res_outcome result = Outcome_NO_DATA \<and> res_kind result = Kind_FETCH_SAMPLE
                      then f\<lparr>wf_warnings := wf_warnings f + 1\<rparr>
                      else f\<lparr>wf_failed := wf_failed f + 1\<rparr>);
                f = f\<lparr>wf_stepsCompleted := wf_stepsCompleted f + 1\<rparr>;
                f = f\<lparr>wf_cyclesCompleted := wf_stepsCompleted f div stepsPerCycle f\<rparr>
            in (True, if wf_stopRequested f \<or> wf_stepsCompleted f \<ge> wf_totalSteps f
                      then f\<lparr>wf_finished := True\<rparr> else f)))"

definition markStartFailure :: "workflow \<Rightarrow> workflow" where
  "markStartFailure f =
     (if \<not> workflowActive f \<or> wf_waiting f then f
      else f\<lparr>wf_failed := wf_failed f + 1, wf_finished := True\<rparr>)"

definition requestStop :: "workflow \<Rightarrow> workflow" where
  "requestStop f =
     (if \<not> workflowActive f then f
      else (let f = f\<lparr>wf_stopRequested := True\<rparr>
            in if wf_waiting f then f else f\<lparr>wf_finished := True\<rparr>))"

subsection \<open>The workflow as a state machine\<close>

inductive workflow_step :: "workflow \<Rightarrow> workflow \<Rightarrow> bool" where
  wf_begin: "workflow_step f (snd (workflowBegin kind cycles mode f))"
| wf_start: "workflow_step f (snd (markStarted oid operation f))"
| wf_accept: "workflow_step f (snd (acceptResult result f))"
| wf_fail: "workflow_step f (markStartFailure f)"
| wf_stop: "workflow_step f (requestStop f)"
| wf_clear: "workflow_step f workflow_init"

inductive workflow_reachable :: "workflow \<Rightarrow> bool" where
  workflow_reachable_init: "workflow_reachable workflow_init"
| workflow_reachable_step: "workflow_reachable f \<Longrightarrow> workflow_step f f' \<Longrightarrow> workflow_reachable f'"

inductive_cases workflow_stepE: "workflow_step f f'"

definition tally :: "workflow \<Rightarrow> nat" where
  "tally f = unat (wf_passed f) + unat (wf_warnings f) + unat (wf_failed f)"

definition workflow_inv :: "workflow \<Rightarrow> bool" where
  "workflow_inv f \<longleftrightarrow>
     unat (wf_totalSteps f) \<le> 4000 \<and> wf_stepsCompleted f \<le> wf_totalSteps f \<and>
     (wf_kind f \<noteq> Workflow_NONE \<longrightarrow>
        wf_operatingMode f \<in> {Mode_IDLE, Mode_PERIODIC, Mode_LOW_POWER_PERIODIC} \<and>
        (wf_kind f = Workflow_SELFCHECK \<longrightarrow> wf_operatingMode f = Mode_IDLE) \<and>
        unat (wf_totalSteps f) = unat (wf_cyclesTotal f) * unat (stepsPerCycle f)) \<and>
     wf_cyclesCompleted f = wf_stepsCompleted f div stepsPerCycle f \<and>
     (tally f = unat (wf_stepsCompleted f) \<or>
        tally f = Suc (unat (wf_stepsCompleted f)) \<and> wf_finished f \<and> wf_failed f \<noteq> 0 \<and>
          wf_stepsCompleted f < wf_totalSteps f) \<and>
     (wf_waiting f \<longrightarrow> workflowActive f \<and> wf_operation f = operationForStep (wf_stepsCompleted f) f) \<and>
     (workflowActive f \<longrightarrow> wf_stepsCompleted f < wf_totalSteps f \<and> tally f = unat (wf_stepsCompleted f)) \<and>
     (workflowActive f \<and> wf_stopRequested f \<longrightarrow> wf_waiting f)"

lemma workflow_inv_init: "workflow_inv workflow_init"
  by (simp add: workflow_inv_def workflow_init_def tally_def workflowActive_def stepsPerCycle_def)

lemma suc_below: "w < t \<Longrightarrow> w + 1 \<le> (t :: u32)"
  by (simp add: inc_le)

lemma unat_suc_below:
  fixes t :: u32
  assumes "w < t" shows "unat (w + 1) = Suc (unat w)"
proof -
  have "unat t < 2 ^ 32" using unsigned_less [of t] by simp
  with assms show ?thesis by (simp add: unat_word_ariths word_less_nat_alt)
qed

lemma stepsPerCycle_cases: "stepsPerCycle f = 1 \<or> stepsPerCycle f = 3 \<or> stepsPerCycle f = 4"
  by (simp add: stepsPerCycle_def)

lemma workflowBegin_True:
  assumes "workflowBegin kind cycles mode f = (True, f')"
  shows "kind \<noteq> Workflow_NONE" "cycles \<noteq> 0" "cycles \<le> MAX_STRESS_CYCLES"
    "mode = Mode_IDLE \<or> mode = Mode_PERIODIC \<or> mode = Mode_LOW_POWER_PERIODIC"
    "kind = Workflow_SELFCHECK \<longrightarrow> mode = Mode_IDLE"
    "f' = workflow_init\<lparr>wf_kind := kind, wf_operatingMode := mode,
       wf_cyclesTotal := (if kind = Workflow_SELFCHECK then 1 else cycles),
       wf_totalSteps := (if kind = Workflow_SELFCHECK then 1 else cycles) * stepsPerCycle f'\<rparr>"
proof -
  have g: "\<not> (workflowActive f \<or> kind = Workflow_NONE \<or> cycles = 0 \<or> cycles > MAX_STRESS_CYCLES)"
    "\<not> (mode \<noteq> Mode_IDLE \<and> mode \<noteq> Mode_PERIODIC \<and> mode \<noteq> Mode_LOW_POWER_PERIODIC)"
    "\<not> (kind = Workflow_SELFCHECK \<and> mode \<noteq> Mode_IDLE)"
    using assms by (auto simp: workflowBegin_def split: if_splits)
  let ?g = "workflow_init\<lparr>wf_kind := kind, wf_operatingMode := mode,
       wf_cyclesTotal := (if kind = Workflow_SELFCHECK then 1 else cycles)\<rparr>"
  have f': "f' = ?g\<lparr>wf_totalSteps := wf_cyclesTotal ?g * stepsPerCycle ?g\<rparr>"
    using assms unfolding workflowBegin_def Let_def if_not_P [OF g(1)] if_not_P [OF g(2)] if_not_P [OF g(3)]
    by (simp only: prod.inject simp_thms)
  have "stepsPerCycle f' = stepsPerCycle ?g" unfolding stepsPerCycle_def f' by simp
  then show "f' = ?g\<lparr>wf_totalSteps := (if kind = Workflow_SELFCHECK then 1 else cycles) * stepsPerCycle f'\<rparr>"
    unfolding f' by simp
  show "kind \<noteq> Workflow_NONE" "cycles \<noteq> 0" "cycles \<le> MAX_STRESS_CYCLES"
    "mode = Mode_IDLE \<or> mode = Mode_PERIODIC \<or> mode = Mode_LOW_POWER_PERIODIC"
    "kind = Workflow_SELFCHECK \<longrightarrow> mode = Mode_IDLE" using g by auto
qed

lemma workflowBegin_False: "\<not> fst (workflowBegin kind cycles mode f) \<Longrightarrow> snd (workflowBegin kind cycles mode f) = f"
  by (auto simp: workflowBegin_def Let_def split: if_splits)

text \<open>The number of steps does not wrap around.\<close>

lemma workflowBegin_totalSteps:
  assumes "workflowBegin kind cycles mode f = (True, f')"
  shows "unat (wf_totalSteps f') = unat (wf_cyclesTotal f') * unat (stepsPerCycle f')"
    and "unat (wf_totalSteps f') \<le> 4000" and "0 < unat (wf_totalSteps f')"
proof -
  define n where "n = (if kind = Workflow_SELFCHECK then 1 else cycles)"
  note f' = workflowBegin_True(6) [OF assms, folded n_def]
  have c: "wf_cyclesTotal f' = n" by (subst f') simp
  have t: "wf_totalSteps f' = n * stepsPerCycle f'" by (subst f') simp
  have n: "0 < unat n" "unat n \<le> 1000"
    using workflowBegin_True(2,3) [OF assms] by (auto simp: n_def word_le_nat_alt unat_gt_0)
  have s: "0 < unat (stepsPerCycle f')" "unat (stepsPerCycle f') \<le> 4"
    using stepsPerCycle_cases [of f'] by auto
  have m: "unat n * unat (stepsPerCycle f') \<le> 1000 * 4" using n s by (intro mult_le_mono) auto
  then have u: "unat (wf_totalSteps f') = unat n * unat (stepsPerCycle f')"
    by (simp add: t unat_word_ariths)
  show "unat (wf_totalSteps f') = unat (wf_cyclesTotal f') * unat (stepsPerCycle f')"
    "unat (wf_totalSteps f') \<le> 4000" "0 < unat (wf_totalSteps f')" using u c m n s by simp_all
qed

lemma workflow_inv_begin:
  assumes "workflow_inv f" shows "workflow_inv (snd (workflowBegin kind cycles mode f))"
proof (cases "fst (workflowBegin kind cycles mode f)")
  case False
  then show ?thesis using assms by (simp add: workflowBegin_False)
next
  case True
  then obtain f' where b: "workflowBegin kind cycles mode f = (True, f')" by (metis prod.collapse)
  obtain t where t: "t = wf_totalSteps f'" by blast
  have f': "f' = workflow_init\<lparr>wf_kind := kind, wf_operatingMode := mode,
      wf_cyclesTotal := (if kind = Workflow_SELFCHECK then 1 else cycles), wf_totalSteps := t\<rparr>"
    unfolding t by (subst (1 2) workflowBegin_True(6) [OF b]) simp
  have fs: "wf_kind f' = kind" "wf_operatingMode f' = mode"
    "wf_stepsCompleted f' = 0" "wf_cyclesCompleted f' = 0"
    "wf_passed f' = 0" "wf_warnings f' = 0" "wf_failed f' = 0" "\<not> wf_waiting f'" "\<not> wf_finished f'"
    "\<not> wf_stopRequested f'"
    by (simp_all add: f' workflow_init_def)
  show ?thesis
    using workflowBegin_True(1-5) [OF b] workflowBegin_totalSteps [OF b]
    by (auto simp: b fs workflow_inv_def tally_def workflowActive_def word_less_nat_alt)
qed

lemma tally_le: "workflow_inv f \<Longrightarrow> tally f \<le> 4001"
  by (auto simp: workflow_inv_def word_le_nat_alt)

lemma workflow_inv_started:
  assumes "workflow_inv f" shows "workflow_inv (snd (markStarted oid operation f))"
proof (cases "fst (markStarted oid operation f)")
  case True
  define f' where "f' = f\<lparr>wf_operationId := oid, wf_operation := operation, wf_waiting := True\<rparr>"
  have g: "workflowActive f" "operation = operationForStep (wf_stepsCompleted f) f"
    and e: "snd (markStarted oid operation f) = f'"
    using True by (auto simp: markStarted_def f'_def split: if_splits)
  have fs: "wf_kind f' = wf_kind f" "wf_operatingMode f' = wf_operatingMode f" "wf_cyclesTotal f' = wf_cyclesTotal f"
    "wf_totalSteps f' = wf_totalSteps f" "wf_stepsCompleted f' = wf_stepsCompleted f"
    "wf_cyclesCompleted f' = wf_cyclesCompleted f" "wf_finished f' = wf_finished f" "wf_failed f' = wf_failed f"
    "wf_waiting f' = True" "wf_operation f' = operationForStep (wf_stepsCompleted f) f" "tally f' = tally f"
    by (simp_all add: f'_def tally_def g)
  have s: "stepsPerCycle f' = stepsPerCycle f" "operationForStep k f' = operationForStep k f" for k
    by (simp_all add: fs stepsPerCycle_def operationForStep_def)
  show ?thesis unfolding e using assms g unfolding workflow_inv_def workflowActive_def fs s by blast
qed (use assms in \<open>auto simp: markStarted_def split: if_splits\<close>)

lemma workflow_inv_accepted:
  assumes "workflow_inv f" shows "workflow_inv (snd (acceptResult result f))"
proof (cases "fst (acceptResult result f)")
  case True
  define p where "p = wf_passed f + (if res_outcome result = Outcome_SUCCEEDED then 1 else 0)"
  define q where "q = wf_warnings f + (if res_outcome result \<noteq> Outcome_SUCCEEDED \<and>
     res_outcome result = Outcome_NO_DATA \<and> res_kind result = Kind_FETCH_SAMPLE then 1 else 0)"
  define r where "r = wf_failed f + (if res_outcome result \<noteq> Outcome_SUCCEEDED \<and>
     \<not> (res_outcome result = Outcome_NO_DATA \<and> res_kind result = Kind_FETCH_SAMPLE) then 1 else 0)"
  define k where "k = wf_stepsCompleted f + 1"
  define e where "e = (wf_stopRequested f \<or> k \<ge> wf_totalSteps f)"
  define f' where "f' = snd (acceptResult result f)"
  have w: "wf_waiting f" using True by (simp add: acceptResult_def split: if_splits)
  have a: "workflowActive f" "\<not> wf_finished f" "wf_stepsCompleted f < wf_totalSteps f"
    and t: "tally f = unat (wf_stepsCompleted f)" and l: "unat (wf_totalSteps f) \<le> 4000"
    using assms w by (auto simp: workflow_inv_def workflowActive_def)
  have fs: "wf_kind f' = wf_kind f" "wf_operatingMode f' = wf_operatingMode f" "wf_cyclesTotal f' = wf_cyclesTotal f"
    "wf_totalSteps f' = wf_totalSteps f" "wf_passed f' = p" "wf_warnings f' = q" "wf_failed f' = r"
    "wf_stepsCompleted f' = k" "\<not> wf_waiting f'" "wf_finished f' = e" "wf_stopRequested f' = wf_stopRequested f"
    and c: "wf_cyclesCompleted f' = k div stepsPerCycle f"
    using True a by (auto simp: f'_def acceptResult_def Let_def p_def q_def r_def k_def e_def
      stepsPerCycle_def split: if_splits)
  have s: "stepsPerCycle f' = stepsPerCycle f" by (simp add: stepsPerCycle_def fs)
  have k: "unat k = Suc (unat (wf_stepsCompleted f))" "k \<le> wf_totalSteps f"
    using a unat_suc_below suc_below by (auto simp: k_def)
  have u: "unat (wf_passed f + 1) = Suc (unat (wf_passed f))" "unat (wf_warnings f + 1) = Suc (unat (wf_warnings f))"
    "unat (wf_failed f + 1) = Suc (unat (wf_failed f))"
    using t l a by (auto simp: tally_def unat_word_ariths word_less_nat_alt)
  have t': "tally f' = unat k"
    using t k u by (auto simp: tally_def fs p_def q_def r_def)
  show ?thesis unfolding f'_def [symmetric]
    using assms k t' a by (auto simp: workflow_inv_def workflowActive_def fs s c e_def)
qed (use assms in \<open>auto simp: acceptResult_def Let_def split: if_splits\<close>)

lemma workflow_inv_startFailure:
  assumes "workflow_inv f" shows "workflow_inv (markStartFailure f)"
proof (cases "workflowActive f \<and> \<not> wf_waiting f")
  case True
  define f' where "f' = markStartFailure f"
  have fs: "wf_kind f' = wf_kind f" "wf_operatingMode f' = wf_operatingMode f" "wf_cyclesTotal f' = wf_cyclesTotal f"
    "wf_totalSteps f' = wf_totalSteps f" "wf_stepsCompleted f' = wf_stepsCompleted f"
    "wf_cyclesCompleted f' = wf_cyclesCompleted f" "wf_finished f'" "wf_failed f' = wf_failed f + 1"
    "\<not> wf_waiting f'" "wf_passed f' = wf_passed f" "wf_warnings f' = wf_warnings f"
    using True by (simp_all add: f'_def markStartFailure_def)
  have s: "stepsPerCycle f' = stepsPerCycle f" by (simp add: fs stepsPerCycle_def)
  have "unat (wf_failed f) < 4000" using assms True by (auto simp: workflow_inv_def tally_def word_less_nat_alt)
  then have u: "unat (wf_failed f + 1) = Suc (unat (wf_failed f))" by (simp add: unat_word_ariths)
  then have "wf_failed f + 1 \<noteq> 0" by (metis nat.distinct(1) unsigned_0)
  moreover have "tally f' = Suc (unat (wf_stepsCompleted f'))"
    using assms True u by (simp add: workflow_inv_def tally_def fs)
  ultimately show ?thesis unfolding f'_def [symmetric]
    using assms True by (auto simp: workflow_inv_def workflowActive_def fs s)
qed (use assms in \<open>auto simp: markStartFailure_def\<close>)

lemma workflow_inv_stop:
  assumes "workflow_inv f" shows "workflow_inv (requestStop f)"
proof (cases "workflowActive f")
  case True
  define f' where "f' = requestStop f"
  have fs: "wf_kind f' = wf_kind f" "wf_operatingMode f' = wf_operatingMode f" "wf_cyclesTotal f' = wf_cyclesTotal f"
    "wf_totalSteps f' = wf_totalSteps f" "wf_stepsCompleted f' = wf_stepsCompleted f"
    "wf_cyclesCompleted f' = wf_cyclesCompleted f" "wf_failed f' = wf_failed f" "wf_waiting f' = wf_waiting f"
    "wf_operation f' = wf_operation f" "wf_finished f' = (wf_finished f \<or> \<not> wf_waiting f)" "tally f' = tally f"
    using True by (simp_all add: f'_def requestStop_def Let_def tally_def)
  have s: "stepsPerCycle f' = stepsPerCycle f" "operationForStep k f' = operationForStep k f" for k
    by (simp_all add: fs stepsPerCycle_def operationForStep_def)
  show ?thesis unfolding f'_def [symmetric]
    using assms True unfolding workflow_inv_def workflowActive_def fs s by blast
qed (use assms in \<open>auto simp: requestStop_def\<close>)

lemma workflow_reachable_inv: "workflow_reachable f \<Longrightarrow> workflow_inv f"
  by (induction rule: workflow_reachable.induct)
     (auto elim!: workflow_stepE intro: workflow_inv_init workflow_inv_begin workflow_inv_started
        workflow_inv_accepted workflow_inv_startFailure workflow_inv_stop)

subsection \<open>Serving a workflow\<close>

text \<open>
  One step as \<open>serviceWorkflow\<close> and \<open>takeAndPrint\<close> of the example make it: the
  request is asked for and started under an identity, and later a result comes back under it.
\<close>

definition workflowServe :: "OperationId \<times> OperationOutcome \<Rightarrow> workflow \<Rightarrow> workflow" where
  "workflowServe x f =
     (case nextRequest OperationRequest_init f of
        (False, _) \<Rightarrow> f
      | (True, request) \<Rightarrow>
          (case markStarted (fst x) (rq_kind request) f of
             (False, f) \<Rightarrow> f
           | (True, f) \<Rightarrow> snd (acceptResult (OperationResult_init\<lparr>res_id := fst x,
                 res_kind := rq_kind request, res_outcome := snd x\<rparr>) f)))"

text \<open>What the sequences contain.\<close>

lemma workflow_operations:
  assumes "wf_kind f \<noteq> Workflow_NONE"
  shows "operationForStep k f \<in>
    (if wf_kind f = Workflow_STRESS then {Kind_READ_DATA_READY}
     else if wf_kind f = Workflow_SELFCHECK then set SEQUENCE
     else if wf_operatingMode f = Mode_IDLE then set IDLE_SEQUENCE else set PERIODIC_SEQUENCE)"
proof -
  have "unat (k mod 4) < 4" "unat (k mod 3) < 3" by (simp_all add: unat_mod)
  then have "SEQUENCE ! unat (k mod 4) \<in> set SEQUENCE" "IDLE_SEQUENCE ! unat (k mod 4) \<in> set IDLE_SEQUENCE"
    "PERIODIC_SEQUENCE ! unat (k mod 3) \<in> set PERIODIC_SEQUENCE"
    by (intro nth_mem; simp add: SEQUENCE_def IDLE_SEQUENCE_def PERIODIC_SEQUENCE_def)+
  with assms show ?thesis by (cases "wf_kind f") (auto simp: operationForStep_def)
qed

lemmas sequence_defs = SEQUENCE_def IDLE_SEQUENCE_def PERIODIC_SEQUENCE_def

lemma operationForStep_some: "wf_kind f \<noteq> Workflow_NONE \<Longrightarrow> operationForStep k f \<noteq> Kind_NONE"
  using workflow_operations [of f k] by (auto simp: sequence_defs split: if_splits)

lemma nextRequest_True:
  "nextRequest request f = (True, r) \<longleftrightarrow> workflowActive f \<and> \<not> wf_waiting f \<and>
     wf_stepsCompleted f < wf_totalSteps f \<and> r = makeRequest (operationForStep (wf_stepsCompleted f) f)"
  using operationForStep_some [of f]
  by (auto simp: nextRequest_def makeRequest_def workflowActive_def Let_def)

lemma workflow_kind_ok:
  assumes "x \<in> (if kind = Workflow_STRESS then {Kind_READ_DATA_READY}
     else if kind = Workflow_SELFCHECK then set SEQUENCE
     else if mode = Mode_IDLE then set IDLE_SEQUENCE else set PERIODIC_SEQUENCE)"
    and "kind = Workflow_SELFCHECK \<Longrightarrow> mode = Mode_IDLE"
    and "mode \<in> {Mode_IDLE, Mode_PERIODIC, Mode_LOW_POWER_PERIODIC}"
  shows "kindsIn mode x \<and> x \<noteq> Kind_PERSIST_SETTINGS"
proof -
  have "kindsIn mode Kind_READ_DATA_READY" using assms(3) by auto
  moreover have "mode \<noteq> Mode_IDLE \<Longrightarrow> \<forall>x \<in> set PERIODIC_SEQUENCE. kindsIn mode x" using assms(3) by (auto simp: sequence_defs)
  moreover have "mode = Mode_IDLE \<Longrightarrow> \<forall>x \<in> set SEQUENCE \<union> set IDLE_SEQUENCE. kindsIn mode x"
    by (auto simp: sequence_defs)
  moreover have "Kind_PERSIST_SETTINGS \<notin> insert Kind_READ_DATA_READY (set SEQUENCE \<union> set IDLE_SEQUENCE \<union> set PERIODIC_SEQUENCE)"
    by (simp add: sequence_defs)
  ultimately show ?thesis using assms(1,2) by (cases kind; cases "mode = Mode_IDLE") auto
qed

lemma workflow_value_ok:
  "rq_kind r \<in> insert Kind_READ_DATA_READY (set SEQUENCE \<union> set IDLE_SEQUENCE \<union> set PERIODIC_SEQUENCE) \<Longrightarrow>
   ok (validateRequestValue r)"
  unfolding sequence_defs by (simp only: set_simps insert_iff empty_iff Un_iff)
    (elim disjE; simp add: validateRequestValue_def)

text \<open>
  C31. A workflow only asks for operations the driver accepts: in every state that the calls of the
  sequencer can produce, a request it offers has a valid value, its kind passes the admission test of a
  reachable driver that is attached to an SCD41 or SCD43 in the mode the workflow began in, and the
  sequencer itself accepts the start of this kind.
\<close>
theorem workflow_requests_admitted:
  assumes "workflow_reachable f" and "nextRequest request f = (True, r)"
    and "reachable d" and "d_attached d" and "d_operatingMode d = wf_operatingMode f"
    and "idn_variant (d_identity d) \<in> {Variant_SCD41, Variant_SCD43}"
  shows "ok (validateRequestValue r) \<and> ok (validateAdmission (rq_kind r) d) \<and>
    fst (markStarted oid (rq_kind r) f)"
proof -
  note next' = assms(2) [unfolded nextRequest_True]
  have r: "rq_kind r = operationForStep (wf_stepsCompleted f) f" using next' by (simp add: makeRequest_def)
  have a: "wf_kind f \<noteq> Workflow_NONE" using next' by (simp add: workflowActive_def)
  note op = workflow_operations [OF a, of "wf_stepsCompleted f", folded r]
  have m: "wf_operatingMode f = Mode_IDLE \<or> wf_operatingMode f = Mode_PERIODIC \<or> wf_operatingMode f = Mode_LOW_POWER_PERIODIC"
    "wf_kind f = Workflow_SELFCHECK \<Longrightarrow> wf_operatingMode f = Mode_IDLE"
    using workflow_reachable_inv [OF assms(1)] a by (auto simp: workflow_inv_def)
  have "kindsIn (wf_operatingMode f) (rq_kind r) \<and> rq_kind r \<noteq> Kind_PERSIST_SETTINGS"
    using m by (intro workflow_kind_ok [OF op]) auto
  then have "admissible (rq_kind r) d" using assms(4-6) by (simp add: admissible_def)
  moreover have "core d" using reachable_inv [OF assms(3)] by (simp add: driver_inv_def)
  moreover have "ok (validateRequestValue r)"
    using workflow_value_ok op by (auto split: if_splits)
  moreover have "fst (markStarted oid (rq_kind r) f)" using next' r by (simp add: markStarted_def)
  ultimately show ?thesis by (simp add: admission_core)
qed

theorem workflow_requests_admitted_witness:
  "ok (validateAdmission Kind_READ_IDENTITY benchAttached)"
proof -
  define f where "f = snd (workflowBegin Workflow_SELFCHECK 7 Mode_IDLE workflow_init)"
  have "workflow_reachable f"
    unfolding f_def by (rule workflow_reachable_step [OF workflow_reachable_init wf_begin])
  moreover have "nextRequest OperationRequest_init f = (True, makeRequest Kind_READ_IDENTITY)"
    unfolding f_def by code_simp
  moreover have "d_attached benchAttached \<and> d_operatingMode benchAttached = wf_operatingMode f \<and>
      idn_variant (d_identity benchAttached) = Variant_SCD41"
    unfolding f_def by code_simp
  ultimately show ?thesis
    using workflow_requests_admitted [OF _ _ reachable_benchAttached, of f OperationRequest_init "makeRequest Kind_READ_IDENTITY"]
    by (simp add: makeRequest_def)
qed

text \<open>The steps of a workflow that fetch a sample: one in three of a mixed run in a periodic mode.\<close>

definition fetchesSample :: "workflow \<Rightarrow> nat \<Rightarrow> bool" where
  "fetchesSample f i \<longleftrightarrow> wf_kind f = Workflow_STRESS_MIX \<and> wf_operatingMode f \<noteq> Mode_IDLE \<and> i mod 3 = 1"

lemma operationForStep_fetch: "operationForStep k f = Kind_FETCH_SAMPLE \<longleftrightarrow> fetchesSample f (unat k)"
proof -
  have "unat (k mod 4) \<in> {0, 1, 2, 3}" "unat (k mod 3) = unat k mod 3" "unat k mod 3 \<in> {0, 1, 2}"
    by (auto simp: unat_mod)
  then show ?thesis by (auto simp: operationForStep_def fetchesSample_def sequence_defs)
qed

lemma workflowServe_ready:
  assumes "workflow_inv f" and "workflowActive f" and "\<not> wf_waiting f" and "\<not> wf_stopRequested f"
  shows "workflow_inv (workflowServe x f)" and "\<not> wf_waiting (workflowServe x f)"
    and "\<not> wf_stopRequested (workflowServe x f)"
    and "wf_kind (workflowServe x f) = wf_kind f" and "wf_operatingMode (workflowServe x f) = wf_operatingMode f"
    and "wf_totalSteps (workflowServe x f) = wf_totalSteps f"
    and "wf_stepsCompleted (workflowServe x f) = wf_stepsCompleted f + 1"
    and "wf_finished (workflowServe x f) \<longleftrightarrow> wf_stepsCompleted f + 1 \<ge> wf_totalSteps f"
    and "wf_passed (workflowServe x f) = wf_passed f + (if snd x = Outcome_SUCCEEDED then 1 else 0)"
    and "wf_warnings (workflowServe x f) =
      wf_warnings f + (if snd x = Outcome_NO_DATA \<and> fetchesSample f (unat (wf_stepsCompleted f)) then 1 else 0)"
proof -
  define op where "op = operationForStep (wf_stepsCompleted f) f"
  define g where "g = snd (markStarted (fst x) op f)"
  define r where "r = OperationResult_init\<lparr>res_id := fst x, res_kind := op, res_outcome := snd x\<rparr>"
  have l: "wf_stepsCompleted f < wf_totalSteps f" using assms(1,2) by (simp add: workflow_inv_def)
  have "nextRequest OperationRequest_init f = (True, makeRequest op)"
    using assms(2,3) l by (simp add: nextRequest_True op_def)
  moreover have m: "markStarted (fst x) op f = (True, g)" "g = f\<lparr>wf_operationId := fst x, wf_operation := op, wf_waiting := True\<rparr>"
    using assms(2,3) by (simp_all add: markStarted_def g_def op_def)
  ultimately have e: "workflowServe x f = snd (acceptResult r g)"
    by (simp add: workflowServe_def r_def makeRequest_def)
  have "workflow_inv g" unfolding g_def by (rule workflow_inv_started [OF assms(1)])
  then show "workflow_inv (workflowServe x f)" unfolding e by (rule workflow_inv_accepted)
  have acc: "wf_waiting g" "res_id r = wf_operationId g" "res_kind r = wf_operation g" "\<not> wf_finished g"
    using assms(2) by (simp_all add: m(2) r_def workflowActive_def)
  note d = e acceptResult_def Let_def acc
  show "\<not> wf_waiting (workflowServe x f)" "\<not> wf_stopRequested (workflowServe x f)"
    "wf_kind (workflowServe x f) = wf_kind f" "wf_operatingMode (workflowServe x f) = wf_operatingMode f"
    "wf_totalSteps (workflowServe x f) = wf_totalSteps f"
    "wf_stepsCompleted (workflowServe x f) = wf_stepsCompleted f + 1"
    "wf_passed (workflowServe x f) = wf_passed f + (if snd x = Outcome_SUCCEEDED then 1 else 0)"
    "wf_finished (workflowServe x f) \<longleftrightarrow> wf_stepsCompleted f + 1 \<ge> wf_totalSteps f"
    "wf_warnings (workflowServe x f) =
      wf_warnings f + (if snd x = Outcome_NO_DATA \<and> fetchesSample f (unat (wf_stepsCompleted f)) then 1 else 0)"
    using assms(2-4) by (simp_all add: d) (simp_all add: m(2) r_def workflowActive_def op_def operationForStep_fetch)
qed

lemma stepsPerCycle_cong: "wf_kind f = wf_kind g \<Longrightarrow> wf_operatingMode f = wf_operatingMode g \<Longrightarrow>
  stepsPerCycle f = stepsPerCycle g"
  by (simp add: stepsPerCycle_def)

lemma workflowBegin_ready:
  assumes "workflowBegin kind cycles mode f = (True, f')"
  shows "workflowActive f' \<and> \<not> wf_waiting f' \<and> \<not> wf_stopRequested f' \<and> \<not> wf_finished f' \<and>
    wf_stepsCompleted f' = 0 \<and> wf_passed f' = 0 \<and> wf_warnings f' = 0 \<and> wf_kind f' = kind"
  by (subst (1 2 3 4 5 6 7 8) workflowBegin_True(6) [OF assms])
     (simp add: workflowActive_def workflow_init_def workflowBegin_True(1) [OF assms])

text \<open>Every result is of one of three sorts.\<close>

lemma three_sorts:
  assumes "\<forall>x \<in> set xs. \<not> (P x \<and> Q x)"
  shows "length (filter P xs) + length (filter Q xs) + length (filter (\<lambda>x. \<not> P x \<and> \<not> Q x) xs) = length xs"
  using assms by (induction xs) auto

lemma workflowBegin_inv: "workflowBegin kind cycles mode f = (True, f0) \<Longrightarrow> workflow_inv f0"
proof -
  assume b: "workflowBegin kind cycles mode f = (True, f0)"
  have "workflowBegin kind cycles mode workflow_init = (True, f0)"
    using workflowBegin_True [OF b] b
    by (auto simp: workflowBegin_def workflowActive_def workflow_init_def split: if_splits)
  then show ?thesis using workflow_inv_begin [OF workflow_inv_init, of kind cycles mode] by simp
qed

lemma fetchesSample_cong: "wf_kind f = wf_kind g \<Longrightarrow> wf_operatingMode f = wf_operatingMode g \<Longrightarrow> fetchesSample f = fetchesSample g"
  by (simp add: fetchesSample_def fun_eq_iff)

lemma workflowServe_run:
  assumes "workflow_inv f" "workflowActive f" "\<not> wf_waiting f" "\<not> wf_stopRequested f" "wf_stepsCompleted f = 0"
    "wf_passed f = 0" "wf_warnings f = 0" and "length xs \<le> unat (wf_totalSteps f)"
  shows "let g = foldl (\<lambda>f x. workflowServe x f) f xs
    in workflow_inv g \<and> \<not> wf_waiting g \<and> \<not> wf_stopRequested g \<and> wf_kind g = wf_kind f \<and>
      wf_operatingMode g = wf_operatingMode f \<and> wf_totalSteps g = wf_totalSteps f \<and>
      unat (wf_stepsCompleted g) = length xs \<and> (wf_finished g \<longleftrightarrow> length xs = unat (wf_totalSteps f)) \<and>
      unat (wf_passed g) = length (filter (\<lambda>(i, x). snd x = Outcome_SUCCEEDED) (enumerate 0 xs)) \<and>
      unat (wf_warnings g) = length (filter (\<lambda>(i, x). snd x = Outcome_NO_DATA \<and> fetchesSample f i) (enumerate 0 xs))"
  using assms(8)
proof (induction xs rule: rev_induct)
  case Nil
  have "0 < unat (wf_totalSteps f)" using assms by (auto simp: workflow_inv_def word_less_nat_alt)
  with assms show ?case by (simp add: workflowActive_def Let_def)
next
  case (snoc x xs)
  define g where "g = foldl (\<lambda>f x. workflowServe x f) f xs"
  have IH: "workflow_inv g" "\<not> wf_waiting g" "\<not> wf_stopRequested g" "wf_kind g = wf_kind f"
    "wf_operatingMode g = wf_operatingMode f" "wf_totalSteps g = wf_totalSteps f"
    "unat (wf_stepsCompleted g) = length xs" "wf_finished g \<longleftrightarrow> length xs = unat (wf_totalSteps f)"
    "unat (wf_passed g) = length (filter (\<lambda>(i, x). snd x = Outcome_SUCCEEDED) (enumerate 0 xs))"
    "unat (wf_warnings g) = length (filter (\<lambda>(i, x). snd x = Outcome_NO_DATA \<and> fetchesSample f i) (enumerate 0 xs))"
    using snoc by (simp_all add: g_def Let_def)
  have a: "workflowActive g" using IH(4,8) assms(2) snoc.prems by (simp add: workflowActive_def)
  have l: "wf_stepsCompleted g < wf_totalSteps f" using IH(7) snoc.prems by (simp add: word_less_nat_alt)
  have n: "unat (wf_stepsCompleted g + 1) = Suc (length xs)" using unat_suc_below [OF l] IH(7) by simp
  have "unat (wf_passed g) < 4000" "unat (wf_warnings g) < 4000"
    using IH(1) a by (auto simp: workflow_inv_def tally_def word_less_nat_alt)
  then have p: "unat (wf_passed g + 1) = Suc (unat (wf_passed g))" "unat (wf_warnings g + 1) = Suc (unat (wf_warnings g))"
    by (simp_all add: unat_word_ariths)
  note s = workflowServe_ready [OF IH(1) a IH(2,3), of x, unfolded fetchesSample_cong [OF IH(4,5)] IH(7)]
  have f: "wf_totalSteps f \<le> wf_stepsCompleted g + 1 \<longleftrightarrow> Suc (length xs) = unat (wf_totalSteps f)"
    using n snoc.prems by (auto simp: word_le_nat_alt)
  show ?case
    using s IH n p f by (simp add: g_def [symmetric] Let_def enumerate_append_eq)
qed

text \<open>
  C32. A workflow that was begun runs to its end: when its steps are served one after the other, each
  with a result under its own identity, then after every result the number of completed steps is the
  number of results, and each of the three counters is the number of results of its sort: passed those
  that SUCCEEDED, warnings those that brought NO_DATA in a step that fetches a sample (every third, from
  the second on, of a mixed run in a periodic mode), and failed all others. The completed cycles are the
  whole cycles in them, and the workflow is finished exactly when all its steps, the requested cycles
  times the steps of a cycle, are done.
\<close>
theorem workflow_runs_to_end:
  assumes "workflowBegin kind cycles mode f = (True, f0)"
    and "n = unat (wf_cyclesTotal f0) * unat (stepsPerCycle f0)" and "length xs \<le> n"
    and "f' = foldl (\<lambda>f x. workflowServe x f) f0 xs"
  shows "unat (wf_stepsCompleted f') = length xs \<and> (wf_finished f' \<longleftrightarrow> length xs = n) \<and>
    unat (wf_passed f') = length (filter (\<lambda>(i, x). snd x = Outcome_SUCCEEDED) (enumerate 0 xs)) \<and>
    unat (wf_warnings f') = length (filter (\<lambda>(i, x). snd x = Outcome_NO_DATA \<and> fetchesSample f0 i) (enumerate 0 xs)) \<and>
    unat (wf_failed f') = length (filter (\<lambda>(i, x). snd x \<noteq> Outcome_SUCCEEDED \<and>
      \<not> (snd x = Outcome_NO_DATA \<and> fetchesSample f0 i)) (enumerate 0 xs)) \<and>
    unat (wf_cyclesCompleted f') = length xs div unat (stepsPerCycle f0)"
proof -
  note b = workflowBegin_ready [OF assms(1)]
  have n: "n = unat (wf_totalSteps f0)" using workflowBegin_totalSteps(1) [OF assms(1)] assms(2) by simp
  note r = workflowServe_run [OF workflowBegin_inv [OF assms(1)], of xs, unfolded Let_def, folded assms(4) n]
  have r: "workflow_inv f'" "wf_kind f' = wf_kind f0" "wf_operatingMode f' = wf_operatingMode f0"
    "unat (wf_stepsCompleted f') = length xs" "wf_finished f' \<longleftrightarrow> length xs = n" "wf_totalSteps f' = wf_totalSteps f0"
    "unat (wf_passed f') = length (filter (\<lambda>(i, x). snd x = Outcome_SUCCEEDED) (enumerate 0 xs))"
    "unat (wf_warnings f') = length (filter (\<lambda>(i, x). snd x = Outcome_NO_DATA \<and> fetchesSample f0 i) (enumerate 0 xs))"
    using r b assms(3) by simp_all
  have "wf_cyclesCompleted f' = wf_stepsCompleted f' div stepsPerCycle f0"
    using r(1) stepsPerCycle_cong [OF r(2,3)] by (simp add: workflow_inv_def)
  then have c: "unat (wf_cyclesCompleted f') = length xs div unat (stepsPerCycle f0)" using r(4) by (simp add: unat_div)
  have "workflowActive f' \<or> wf_stepsCompleted f' = wf_totalSteps f'"
    using r b n by (auto simp: workflowActive_def word_unat_eq_iff)
  then have "tally f' = length xs" using r(1,4) by (auto simp: workflow_inv_def)
  moreover have "length (filter (\<lambda>(i, x). snd x = Outcome_SUCCEEDED) (enumerate 0 xs)) +
      length (filter (\<lambda>(i, x). snd x = Outcome_NO_DATA \<and> fetchesSample f0 i) (enumerate 0 xs)) +
      length (filter (\<lambda>(i, x). snd x \<noteq> Outcome_SUCCEEDED \<and>
        \<not> (snd x = Outcome_NO_DATA \<and> fetchesSample f0 i)) (enumerate 0 xs)) = length xs"
    using three_sorts [of "enumerate 0 xs" "\<lambda>(i, x). snd x = Outcome_SUCCEEDED"
        "\<lambda>(i, x). snd x = Outcome_NO_DATA \<and> fetchesSample f0 i"]
    by (simp add: case_prod_beta')
  ultimately show ?thesis using r c by (simp add: tally_def)
qed

theorem workflow_runs_to_end_witness:
  "let f0 = snd (workflowBegin Workflow_STRESS_MIX 2 Mode_PERIODIC workflow_init);
       xs = [(OperationId_init, Outcome_SUCCEEDED), (OperationId_init, Outcome_NO_DATA),
             (OperationId_init, Outcome_FAILED), (OperationId_init, Outcome_NO_DATA)];
       f' = foldl (\<lambda>f x. workflowServe x f) f0 xs
   in unat (wf_passed f') = 1 \<and> unat (wf_warnings f') = 1 \<and> unat (wf_failed f') = 2 \<and>
      unat (wf_cyclesCompleted f') = 1 \<and> \<not> wf_finished f'"
proof -
  define f0 where "f0 = snd (workflowBegin Workflow_STRESS_MIX 2 Mode_PERIODIC workflow_init)"
  have b: "workflowBegin Workflow_STRESS_MIX 2 Mode_PERIODIC workflow_init = (True, f0)"
    unfolding f0_def by code_simp
  have c: "unat (wf_cyclesTotal f0) = 2 \<and> unat (stepsPerCycle f0) = 3 \<and>
      wf_kind f0 = Workflow_STRESS_MIX \<and> wf_operatingMode f0 = Mode_PERIODIC"
    unfolding f0_def by code_simp
  show ?thesis
    using workflow_runs_to_end [OF b refl _ refl, of "[(OperationId_init, Outcome_SUCCEEDED),
      (OperationId_init, Outcome_NO_DATA), (OperationId_init, Outcome_FAILED), (OperationId_init, Outcome_NO_DATA)]"] c
    unfolding f0_def [symmetric] Let_def by (simp add: fetchesSample_def)
qed

text \<open>
  C33. In every state that the calls of the sequencer can produce, in any order and with any
  arguments, its accounts balance and nothing wraps around: it has at most 4000 steps, the product of
  its cycles and the steps of one; the completed steps never exceed them; and the three counters add up
  to the completed steps, plus one failure when a start failed and ended the workflow. While it waits
  it is active and waits for the operation of the current step, and a requested stop leaves it active
  only until that operation's result is in.
\<close>
theorem workflow_accounts:
  assumes "workflow_reachable f"
  shows "unat (wf_stepsCompleted f) \<le> unat (wf_totalSteps f) \<and> unat (wf_totalSteps f) \<le> 4000 \<and>
    (wf_kind f \<noteq> Workflow_NONE \<longrightarrow> unat (wf_totalSteps f) = unat (wf_cyclesTotal f) * unat (stepsPerCycle f)) \<and>
    (tally f = unat (wf_stepsCompleted f) \<or>
     tally f = Suc (unat (wf_stepsCompleted f)) \<and> wf_finished f \<and> wf_failed f \<noteq> 0) \<and>
    (wf_waiting f \<longrightarrow> workflowActive f \<and> wf_operation f = operationForStep (wf_stepsCompleted f) f) \<and>
    (workflowActive f \<and> wf_stopRequested f \<longrightarrow> wf_waiting f)"
  using workflow_reachable_inv [OF assms] unfolding workflow_inv_def word_le_nat_alt by blast

theorem workflow_accounts_witness:
  "\<not> workflowActive (requestStop (snd (workflowBegin Workflow_STRESS 9 Mode_IDLE workflow_init)))"
proof -
  define f where "f = requestStop (snd (workflowBegin Workflow_STRESS 9 Mode_IDLE workflow_init))"
  have "workflow_reachable f"
    unfolding f_def by (intro workflow_reachable_step [OF _ wf_stop] workflow_reachable_step [OF _ wf_begin] workflow_reachable_init)
  moreover have "\<not> wf_waiting f \<and> wf_stopRequested f" unfolding f_def by code_simp
  ultimately show ?thesis using workflow_accounts [of f] unfolding f_def [symmetric] by blast
qed

end
