(* ===== verification/Scd_Console.thy ===== *)
theory Scd_Console
  imports Scd_Line Scd_Adapters Scd_Workflow
begin

text \<open>
The ESP-IDF example program (examples/idf/basic/main/main.cpp), which owns a driver: its globals as one record, the start of operations and the taking of results, the service of the diagnostic workflow, every command of the console, and the turns of the main loop. Printing is a list of the values the text is made of.
\<close>

subsection \<open>The owner's state\<close>

text \<open>What is printed, by the values the text is made of.\<close>

datatype printed =
    Out_status Status
  | Out_result OperationResult
  | Out_sample FixedSample
  | Out_started OperationId OperationKind u32
  | Out_workflow workflow
  | Out_workflow_summary workflow
  | Out_workflow_start WorkflowKind u32 u32
  | Out_runtime RuntimeSnapshot HealthSnapshot
  | Out_found u8 bool
  | Out_count nat
  | Out_no_result
  | Out_help
  | Out_version
  | Out_prompt
  | Out_info string
  | Out_warning string
  | Out_error string

text \<open>
  What the program gets from its platform: the clock, the callback for its driver and the opaque
  pointer passed to it, the scan of the bus with what it prints, and the width of \<open>long\<close>. The
  Arduino program is the same program on another platform.
\<close>

record 'w console_env =
  env_nowMs :: "'w \<Rightarrow> u32 \<times> 'w"
  env_transfer :: "'w I2cTransferFn"
  env_transferUser :: nat
  env_scan :: "'w \<Rightarrow> printed list \<times> 'w"
  env_longBits :: nat

text \<open>
  The platform of ESP-IDF: the framework's calls, the probe of the bus, and the context that
  \<open>app_main\<close> fills, to which the opaque pointer 1 points. The bus is initialised before the first
  command, so the null test of \<open>scanBus\<close> is left out.
\<close>

record 'w idf_platform =
  ip_framework :: "'w idf_framework"
  ip_probe :: "u8 \<Rightarrow> i32 \<Rightarrow> 'w \<Rightarrow> i32 \<times> 'w"
  ip_context :: IdfI2cContext
  ip_longBits :: nat

fun scanFrom :: "'w idf_platform \<Rightarrow> u8 list \<Rightarrow> nat \<Rightarrow> 'w \<Rightarrow> printed list \<times> nat \<times> 'w" where
  "scanFrom ip [] count w = ([], count, w)"
| "scanFrom ip (address # addresses) count w =
     (case ip_probe ip address 20 w of (error, w) \<Rightarrow>
        if error = idf_ESP_OK (ip_framework ip)
        then (case scanFrom ip addresses (count + 1) w of (printed, count, w) \<Rightarrow>
                (Out_found address (address = I2C_ADDRESS) # printed, count, w))
        else scanFrom ip addresses count w)"

definition scanBus :: "'w idf_platform \<Rightarrow> 'w \<Rightarrow> printed list \<times> 'w" where
  "scanBus ip w =
     (case scanFrom ip (map word_of_nat [1..<127]) 0 w of (printed, count, w) \<Rightarrow>
        (printed @ [Out_count count], w))"

definition idfConsole :: "'w idf_platform \<Rightarrow> 'w console_env" where
  "idfConsole ip =
     \<lparr>env_nowMs = idf_nowMs (ip_framework ip),
      env_transfer = idfI2cTransfer (ip_framework ip) (\<lambda>user. if user = 1 then Some (ip_context ip) else None),
      env_transferUser = 1, env_scan = scanBus ip, env_longBits = ip_longBits ip\<rparr>"

record 'w owner =
  o_device :: "'w driver"
  o_config :: "'w Config"
  o_lastResult :: OperationResult
  o_lastResultValid :: bool
  o_nextRequestId :: u32
  o_workflow :: workflow
  o_editor :: editor
  o_world :: 'w
  o_out :: "printed list"

definition owner_init :: "'w \<Rightarrow> 'w owner" where
  "owner_init w = \<lparr>o_device = driver_init, o_config = Config_init, o_lastResult = OperationResult_init,
     o_lastResultValid = False, o_nextRequestId = 1, o_workflow = workflow_init,
     o_editor = editor_init, o_world = w, o_out = []\<rparr>"

definition say :: "printed \<Rightarrow> 'w owner \<Rightarrow> 'w owner" where
  "say x s = s\<lparr>o_out := o_out s @ [x]\<rparr>"

abbreviation printStatus :: "Status \<Rightarrow> 'w owner \<Rightarrow> 'w owner" where
  "printStatus status \<equiv> say (Out_status status)"

abbreviation warn :: "string \<Rightarrow> 'w owner \<Rightarrow> 'w owner" where
  "warn message \<equiv> say (Out_warning message)"

definition ownerNowMs :: "'w console_env \<Rightarrow> 'w owner \<Rightarrow> u32 \<times> 'w owner" where
  "ownerNowMs env s = (case env_nowMs env (o_world s) of (now, w) \<Rightarrow> (now, s\<lparr>o_world := w\<rparr>))"

definition operationBudgetMs :: "'w Config \<Rightarrow> OperationKind \<Rightarrow> u32" where
  "operationBudgetMs config kind =
     lim_maxWaitMs (limits kind) + ucast (lim_maxCallbacks (limits kind)) * cfg_transferTimeoutMs config + 1000"

subsection \<open>Starting, polling and taking results\<close>

definition printWorkflowUpdate :: "'w owner \<Rightarrow> 'w owner" where
  "printWorkflowUpdate s =
     (if wf_kind (o_workflow s) = Workflow_NONE then s
      else (let s = say (Out_workflow (o_workflow s)) s
            in if wf_finished (o_workflow s)
               then (say (Out_workflow_summary (o_workflow s)) s)\<lparr>o_workflow := workflow_init\<rparr>
               else s))"

definition takeAndPrint :: "OperationId \<Rightarrow> 'w owner \<Rightarrow> 'w owner" where
  "takeAndPrint oid s =
     (case takeResult oid OperationResult_init (o_device s) of (status, result, d) \<Rightarrow>
        let s = s\<lparr>o_device := d\<rparr>
        in if \<not> ok status then printStatus status s
           else
             (let s = say (Out_result result) (s\<lparr>o_lastResult := result, o_lastResultValid := True\<rparr>);
                  (accepted, f) = acceptResult result (o_workflow s);
                  s = s\<lparr>o_workflow := f\<rparr>
              in if accepted then printWorkflowUpdate s else s))"

definition pollDriver :: "'w console_env \<Rightarrow> 'w owner \<Rightarrow> 'w owner" where
  "pollDriver env s =
     (case ownerNowMs env s of (now, s) \<Rightarrow>
      case poll now 1 (o_world s) (o_device s) of (result, fr) \<Rightarrow>
        let s = s\<lparr>o_device := fr_drv fr, o_world := fr_world fr\<rparr>
        in if pr_state result = Slot_RESULT_PENDING then takeAndPrint (pr_id result) s
           else if \<not> ok (pr_status result) \<and> \<not> inProgress (pr_status result)
           then printStatus (pr_status result) s else s)"

definition ownerConfig :: "'w console_env \<Rightarrow> 'w Config" where
  "ownerConfig env = Config_init
     \<lparr>cfg_transfer := Some (env_transfer env), cfg_transferUser := env_transferUser env,
      cfg_transferTimeoutMs := 50\<rparr>"

definition bindDriver :: "'w console_env \<Rightarrow> 'w owner \<Rightarrow> bool \<times> 'w owner" where
  "bindDriver env s =
     (let s = s\<lparr>o_config := ownerConfig env\<rparr>
      in case driverBegin (o_config s) (o_device s) of (status, d) \<Rightarrow>
           (ok status, printStatus status (s\<lparr>o_device := d\<rparr>)))"

definition startOperation ::
    "'w console_env \<Rightarrow> OperationRequest \<Rightarrow> bool \<Rightarrow> 'w owner \<Rightarrow> Status \<times> OperationId \<times> 'w owner" where
  "startOperation env request workflowRequest s =
     (if workflowActive (o_workflow s) \<and> \<not> workflowRequest then
        (let status = Status_Error Err_BUSY ''Diagnostic workflow active'' 0
         in (status, OperationId_init, printStatus status s))
      else
        (case ownerNowMs env s of (now, s) \<Rightarrow>
         let options = \<lparr>op_requestId = o_nextRequestId s, op_nowMs = now,
               op_deadlineMs = now + operationBudgetMs (o_config s) (rq_kind request)\<rparr>;
             s = s\<lparr>o_nextRequestId := o_nextRequestId s + 1\<rparr>;
             s = (if o_nextRequestId s = 0 then s\<lparr>o_nextRequestId := 1\<rparr> else s)
         in case start request options OperationId_init (o_device s) of (status, oid, d) \<Rightarrow>
            let s = printStatus status (s\<lparr>o_device := d\<rparr>)
            in if inProgress status
               then (status, oid, say (Out_started oid (rq_kind request) (op_deadlineMs options)) s)
               else (status, OperationId_init, s)))"

definition serviceWorkflow :: "'w console_env \<Rightarrow> 'w owner \<Rightarrow> 'w owner" where
  "serviceWorkflow env s =
     (if \<not> workflowActive (o_workflow s) \<or> wf_waiting (o_workflow s) then s
      else
        (case ownerNowMs env s of (nowMs, s) \<Rightarrow>
         let runtime = runtimeSnapshot (o_device s)
         in if rs_operationState runtime \<noteq> Slot_IDLE \<or>
               (rs_nextSafeCommandValid runtime \<and> \<not> timeReached nowMs (rs_nextSafeCommandMs runtime)) then s
            else
              (case nextRequest OperationRequest_init (o_workflow s) of (offered, request) \<Rightarrow>
                 if \<not> offered then s
                 else
                   (case startOperation env request True s of (status, oid, s) \<Rightarrow>
                      if inProgress status
                      then s\<lparr>o_workflow := snd (markStarted oid (rq_kind request) (o_workflow s))\<rparr>
                      else printWorkflowUpdate (s\<lparr>o_workflow := markStartFailure (o_workflow s)\<rparr>)))))"

definition startWorkflow :: "'w console_env \<Rightarrow> WorkflowKind \<Rightarrow> u32 \<Rightarrow> 'w owner \<Rightarrow> 'w owner" where
  "startWorkflow env kind cycles s =
     (let runtime = runtimeSnapshot (o_device s)
      in if rs_operationState runtime \<noteq> Slot_IDLE then
           printStatus (Status_Error Err_BUSY ''Operation active'' 0) s
         else
           (case workflowBegin kind cycles (rs_operatingMode runtime) (o_workflow s) of (begun, f) \<Rightarrow>
              let s = s\<lparr>o_workflow := f\<rparr>
              in if \<not> begun then
                   printStatus (Status_Error Err_BUSY
                     (if kind = Workflow_SELFCHECK then ''Selfcheck requires attached idle mode''
                      else ''Workflow requires an attached active sensor'') 0) s
                 else serviceWorkflow env
                   (say (Out_workflow_start kind (wf_cyclesTotal f) (wf_totalSteps f)) s)))"

subsection \<open>Commands\<close>

definition startRequest :: "'w console_env \<Rightarrow> OperationRequest \<Rightarrow> 'w owner \<Rightarrow> 'w owner" where
  "startRequest env request s = snd (snd (startOperation env request False s))"

abbreviation startKind :: "'w console_env \<Rightarrow> OperationKind \<Rightarrow> 'w owner \<Rightarrow> 'w owner" where
  "startKind env kind \<equiv> startRequest env (makeRequest kind)"

definition command_scan :: "'w console_env \<Rightarrow> 'w owner \<Rightarrow> 'w owner" where
  "command_scan env s =
     (case ownerNowMs env s of (nowMs, s) \<Rightarrow>
      let runtime = runtimeSnapshot (o_device s)
      in if rs_operationState runtime \<noteq> Slot_IDLE then
           printStatus (Status_Error Err_BUSY ''Operation active'' 0) s
         else if rs_nextSafeCommandValid runtime \<and> \<not> timeReached nowMs (rs_nextSafeCommandMs runtime) then
           printStatus (Status_Error Err_BUSY ''Sensor safety window active'' 0) s
         else (case env_scan env (o_world s) of (printed, w) \<Rightarrow>
                 s\<lparr>o_world := w, o_out := o_out s @ printed\<rparr>))"

definition command_end :: "'w owner \<Rightarrow> 'w owner" where
  "command_end s =
     (let before = runtimeSnapshot (o_device s);
          s = s\<lparr>o_device := driverEnd (o_device s)\<rparr>
      in if rs_operationState before \<noteq> Slot_IDLE then takeAndPrint (rs_operationId before) s else s)"

definition command_begin :: "'w console_env \<Rightarrow> 'w owner \<Rightarrow> 'w owner" where
  "command_begin env s =
     (case bindDriver env (command_end s) of (bound, s) \<Rightarrow>
        if bound then startKind env Kind_ATTACH s else s)"

definition command_probe :: "'w console_env \<Rightarrow> 'w owner \<Rightarrow> 'w owner" where
  "command_probe env s =
     (case (if rs_bound (runtimeSnapshot (o_device s)) then (True, s) else bindDriver env s) of (bound, s) \<Rightarrow>
        if \<not> bound then s
        else (let runtime = runtimeSnapshot (o_device s)
              in startKind env
                   (if rs_attached runtime \<and> \<not> rs_reconciliationRequired runtime
                    then Kind_READ_IDENTITY else Kind_ATTACH) s))"

definition command_cancel :: "'w console_env \<Rightarrow> 'w owner \<Rightarrow> 'w owner" where
  "command_cancel env s =
     (let runtime = runtimeSnapshot (o_device s);
          wasActive = workflowActive (o_workflow s);
          s = (if wasActive then s\<lparr>o_workflow := requestStop (o_workflow s)\<rparr> else s)
      in if wasActive \<and> \<not> wf_waiting (o_workflow s) then printWorkflowUpdate s
         else
           (case ownerNowMs env s of (now, s) \<Rightarrow>
            case cancel (rs_operationId runtime) now (o_device s) of (status, d) \<Rightarrow>
              let s = printStatus status (s\<lparr>o_device := d\<rparr>)
              in if ok status then takeAndPrint (rs_operationId runtime) s else s))"

definition command_periodic :: "'w console_env \<Rightarrow> Line \<Rightarrow> 'w owner \<Rightarrow> 'w owner" where
  "command_periodic env arg s =
     (if lineIs arg ''on'' then startKind env Kind_START_PERIODIC s
      else if lineIs arg ''lp'' then startKind env Kind_START_LOW_POWER_PERIODIC s
      else if lineIs arg ''off'' then startKind env Kind_STOP_PERIODIC s
      else warn ''Usage: periodic on|lp|off'' s)"

definition command_single :: "'w console_env \<Rightarrow> Line \<Rightarrow> 'w owner \<Rightarrow> 'w owner" where
  "command_single env arg s =
     (if lineIs arg ''full'' then startKind env Kind_SINGLE_SHOT s
      else if lineIs arg ''rht'' then startKind env Kind_SINGLE_SHOT_RHT_ONLY s
      else warn ''Usage: single full|rht'' s)"

definition command_sample :: "'w owner \<Rightarrow> 'w owner" where
  "command_sample s =
     (case peekLatestSample FixedSample_init (o_device s) of (status, sample) \<Rightarrow>
        if ok status then say (Out_sample sample) s else printStatus status s)"

definition command_toffset :: "'w console_env \<Rightarrow> Line \<Rightarrow> 'w owner \<Rightarrow> 'w owner" where
  "command_toffset env arg s =
     (if arg = [] then startKind env Kind_READ_TEMPERATURE_OFFSET s
      else case parseI32 (env_longBits env) arg 0 of (parsed, value) \<Rightarrow>
        if parsed then
          startRequest env (setTemperatureOffsetMilliC value)
            (if value > 20000 \<and> value \<le> 175000
             then warn ''Temperature offset exceeds datasheet-recommended 0..20000 mC'' s else s)
        else warn ''Usage: toffset [mC]'' s)"

text \<open>The commands with one unsigned argument, or none to read the setting.\<close>

definition command_number :: "'w console_env \<Rightarrow> Line \<Rightarrow> Line \<Rightarrow> 'w owner \<Rightarrow> 'w owner" where
  "command_number env head arg s =
     (let supplied = (arg \<noteq> []);
          (parsed, value) = (if supplied then parseU32 (env_longBits env) arg 0 else (True, 0))
      in if supplied \<and> \<not> parsed then warn ''Expected an unsigned integer'' s
         else if supplied \<and> \<not> lineIs head ''pressure'' \<and> value > 65535 then
           warn ''Value must fit in 16 bits'' s
         else startRequest env
           (if lineIs head ''altitude'' then
              (if supplied then setSensorAltitudeM (ucast value) else makeRequest Kind_READ_SENSOR_ALTITUDE)
            else if lineIs head ''pressure'' then
              (if supplied then setAmbientPressurePa value else makeRequest Kind_READ_AMBIENT_PRESSURE)
            else if lineIs head ''asc_target'' then
              (if supplied then setAscTargetPpm (ucast value) else makeRequest Kind_READ_ASC_TARGET)
            else if lineIs head ''asc_initial'' then
              (if supplied then setAscInitialPeriodHours (ucast value)
               else makeRequest Kind_READ_ASC_INITIAL_PERIOD)
            else
              (if supplied then setAscStandardPeriodHours (ucast value)
               else makeRequest Kind_READ_ASC_STANDARD_PERIOD)) s)"

definition command_asc_enabled :: "'w console_env \<Rightarrow> Line \<Rightarrow> 'w owner \<Rightarrow> 'w owner" where
  "command_asc_enabled env arg s =
     (if arg = [] then startKind env Kind_READ_ASC_ENABLED s
      else case parseBool arg False of (parsed, enabled) \<Rightarrow>
        if parsed then startRequest env (setAscEnabled enabled) s
        else warn ''Usage: asc_enabled [0|1]'' s)"

definition command_frc :: "'w console_env \<Rightarrow> Line \<Rightarrow> 'w owner \<Rightarrow> 'w owner" where
  "command_frc env arg s =
     (case splitHeadTail arg of (found, confirm, reference) \<Rightarrow>
      case parseU16 (env_longBits env) reference 0 of (parsed, ppm) \<Rightarrow>
        if \<not> found \<or> \<not> lineIs confirm ''confirm'' \<or> \<not> parsed
        then warn ''use 'frc confirm <reference_ppm>' to update calibration history'' s
        else startRequest env (forcedRecalibration ppm) s)"

definition command_persist :: "'w console_env \<Rightarrow> Line \<Rightarrow> 'w owner \<Rightarrow> 'w owner" where
  "command_persist env arg s =
     (if \<not> lineIs arg ''confirm'' then warn ''use 'persist confirm' to write EEPROM'' s
      else startRequest env persistSettings s)"

definition command_factory_reset :: "'w console_env \<Rightarrow> Line \<Rightarrow> 'w owner \<Rightarrow> 'w owner" where
  "command_factory_reset env arg s =
     (if \<not> lineIs arg ''confirm'' then warn ''use 'factory_reset confirm' to erase/reset settings'' s
      else startRequest env factoryReset s)"

definition raw_read_words :: "'w console_env \<Rightarrow> Line \<Rightarrow> 'w owner \<Rightarrow> 'w owner" where
  "raw_read_words env arguments s =
     (case splitHeadTail arguments of (found1, commandText, remainder) \<Rightarrow>
      case splitHeadTail remainder of (found2, countText, confirm) \<Rightarrow>
      case parseU16 (env_longBits env) commandText 0 of (parsed1, command) \<Rightarrow>
      case parseU32 (env_longBits env) countText 0 of (parsed2, count) \<Rightarrow>
        if \<not> found1 \<or> \<not> found2 \<or> \<not> parsed1 \<or> \<not> parsed2 \<or> count = 0 \<or> count > 3 \<or> \<not> lineIs confirm ''confirm''
        then warn ''use 'command read_words <cmd> <count> confirm' for a raw read'' s
        else startRequest env (diagnosticReadWords command (ucast count)) s)"

definition raw_write :: "'w console_env \<Rightarrow> Line \<Rightarrow> 'w owner \<Rightarrow> 'w owner" where
  "raw_write env arguments s =
     (case splitHeadTail arguments of (found, commandText, confirm) \<Rightarrow>
      case parseU16 (env_longBits env) commandText 0 of (parsed, command) \<Rightarrow>
        if \<not> found \<or> \<not> parsed \<or> \<not> lineIs confirm ''confirm''
        then warn ''use 'command write <cmd> confirm' for a raw command'' s
        else startRequest env (diagnosticWriteCommand command) s)"

definition raw_write_word :: "'w console_env \<Rightarrow> Line \<Rightarrow> 'w owner \<Rightarrow> 'w owner" where
  "raw_write_word env arguments s =
     (case splitHeadTail arguments of (found1, commandText, remainder) \<Rightarrow>
      case splitHeadTail remainder of (found2, wordText, confirm) \<Rightarrow>
      case parseU16 (env_longBits env) commandText 0 of (parsed1, command) \<Rightarrow>
      case parseU16 (env_longBits env) wordText 0 of (parsed2, word) \<Rightarrow>
        if \<not> found1 \<or> \<not> found2 \<or> \<not> parsed1 \<or> \<not> parsed2 \<or> \<not> lineIs confirm ''confirm''
        then warn ''use 'command write_word <cmd> <word> confirm' for raw data'' s
        else startRequest env (diagnosticWriteWord command word) s)"

definition command_raw :: "'w console_env \<Rightarrow> Line \<Rightarrow> 'w owner \<Rightarrow> 'w owner" where
  "command_raw env arg s =
     (case splitHeadTail arg of (found, sub, arguments) \<Rightarrow>
        if \<not> found then warn ''Usage: command read_words|write|write_word ...'' s
        else if lineIs sub ''read_words'' then raw_read_words env arguments s
        else if lineIs sub ''write'' then raw_write env arguments s
        else if lineIs sub ''write_word'' then raw_write_word env arguments s
        else warn ''Usage: command read_words|write|write_word ...'' s)"

definition command_stress :: "'w console_env \<Rightarrow> Line \<Rightarrow> Line \<Rightarrow> 'w owner \<Rightarrow> 'w owner" where
  "command_stress env head arg s =
     (case (if arg = [] then (True, DEFAULT_STRESS_CYCLES)
            else parseU32 (env_longBits env) arg DEFAULT_STRESS_CYCLES) of (parsed, cycles) \<Rightarrow>
        if \<not> parsed then warn ''Usage: stress [1..1000] / stress_mix [1..1000]'' s
        else if cycles = 0 \<or> cycles > MAX_STRESS_CYCLES then warn ''Stress cycle count must be 1..1000'' s
        else startWorkflow env (if lineIs head ''stress'' then Workflow_STRESS else Workflow_STRESS_MIX) cycles s)"

text \<open>The commands that are answered while a workflow is active.\<close>

definition allowedDuringWorkflow :: "Line \<Rightarrow> bool" where
  "allowedDuringWorkflow head \<longleftrightarrow>
     lineIs head ''help'' \<or> lineIs head ''?'' \<or> lineIs head ''version'' \<or> lineIs head ''ver'' \<or>
     lineIs head ''status'' \<or> lineIs head ''drv'' \<or> lineIs head ''health'' \<or> lineIs head ''result'' \<or>
     lineIs head ''cancel''"

text \<open>The chain of comparisons after the test for an active workflow.\<close>

definition dispatch :: "'w console_env \<Rightarrow> Line \<Rightarrow> Line \<Rightarrow> 'w owner \<Rightarrow> 'w owner" where
  "dispatch env head arg s =
     (if lineIs head ''help'' \<or> lineIs head ''?'' then say Out_help s
      else if lineIs head ''version'' \<or> lineIs head ''ver'' then say Out_version s
      else if lineIs head ''scan'' then command_scan env s
      else if lineIs head ''begin'' then command_begin env s
      else if lineIs head ''probe'' then command_probe env s
      else if lineIs head ''attach'' \<or> lineIs head ''recover'' then startKind env Kind_ATTACH s
      else if lineIs head ''end'' then command_end s
      else if lineIs head ''status'' \<or> lineIs head ''drv'' \<or> lineIs head ''health''
      then say (Out_runtime (runtimeSnapshot (o_device s)) (d_health (o_device s))) s
      else if lineIs head ''result''
      then (if o_lastResultValid s then say (Out_result (o_lastResult s)) s else say Out_no_result s)
      else if lineIs head ''cancel'' then command_cancel env s
      else if lineIs head ''identity'' then startKind env Kind_READ_IDENTITY s
      else if lineIs head ''variant'' then startKind env Kind_READ_SENSOR_VARIANT s
      else if lineIs head ''periodic'' then command_periodic env arg s
      else if lineIs head ''dataready'' then startKind env Kind_READ_DATA_READY s
      else if lineIs head ''read'' then startKind env Kind_FETCH_SAMPLE s
      else if lineIs head ''single'' then command_single env arg s
      else if lineIs head ''sample'' then command_sample s
      else if lineIs head ''settings'' \<or> lineIs head ''cfg'' then startKind env Kind_READ_CONFIGURATION s
      else if lineIs head ''sleep'' then startKind env Kind_POWER_DOWN s
      else if lineIs head ''wake'' then startKind env Kind_WAKE_UP s
      else if lineIs head ''toffset'' then command_toffset env arg s
      else if lineIs head ''altitude'' \<or> lineIs head ''pressure'' \<or> lineIs head ''asc_target'' \<or>
              lineIs head ''asc_initial'' \<or> lineIs head ''asc_standard''
      then command_number env head arg s
      else if lineIs head ''asc_enabled'' then command_asc_enabled env arg s
      else if lineIs head ''reinit'' then startKind env Kind_REINIT s
      else if lineIs head ''selftest'' then startKind env Kind_SELF_TEST s
      else if lineIs head ''selfcheck''
      then (if arg \<noteq> [] then warn ''Usage: selfcheck'' s else startWorkflow env Workflow_SELFCHECK 1 s)
      else if lineIs head ''frc'' then command_frc env arg s
      else if lineIs head ''persist'' then command_persist env arg s
      else if lineIs head ''factory_reset'' then command_factory_reset env arg s
      else if lineIs head ''command'' then command_raw env arg s
      else if lineIs head ''stress'' \<or> lineIs head ''stress_mix'' then command_stress env head arg s
      else warn (''Unknown command: '' @ c_str head) s)"

definition processCommand :: "'w console_env \<Rightarrow> Line \<Rightarrow> 'w owner \<Rightarrow> 'w owner" where
  "processCommand env line s =
     (case splitHeadTail line of (found, head, arg) \<Rightarrow>
        if \<not> found then s
        else if workflowActive (o_workflow s) \<and> \<not> allowedDuringWorkflow head then
          printStatus (Status_Error Err_BUSY ''Diagnostic workflow active'' 0) s
        else dispatch env head arg s)"

subsection \<open>The program\<close>

text \<open>
  \<open>app_main\<close> up to its loop, and one turn of the loop; \<open>input\<close> is what standard input holds, and
  what of it is not read yet is returned.
\<close>

definition appStart :: "'w console_env \<Rightarrow> 'w \<Rightarrow> 'w owner" where
  "appStart env w =
     (case bindDriver env (say (Out_info ''SCD41 owner-safe bring-up CLI'') (owner_init w)) of (bound, s) \<Rightarrow>
        say Out_prompt (say Out_help (if bound then startKind env Kind_ATTACH s else s)))"

definition answer :: "'w console_env \<Rightarrow> Line option \<Rightarrow> 'w owner \<Rightarrow> 'w owner" where
  "answer env line s = (case line of None \<Rightarrow> s | Some l \<Rightarrow> say Out_prompt (processCommand env l s))"

definition ownerTurn :: "'w console_env \<Rightarrow> string \<Rightarrow> 'w owner \<Rightarrow> 'w owner \<times> string" where
  "ownerTurn env input s =
     (let s = serviceWorkflow env (pollDriver env s)
      in case readLine input (o_editor s) of (line, discarded, ed, rest) \<Rightarrow>
           let s = s\<lparr>o_editor := ed\<rparr>;
               s = (if discarded then warn ''Command too long; discarded'' s else s)
           in (answer env line s, rest))"

text \<open>
  The program as a state machine: between two turns the world, which is the bus, the sensor, the
  timer and the keyboard, may do anything.
\<close>

inductive console_reachable :: "'w console_env \<Rightarrow> 'w owner \<Rightarrow> bool" for env where
  console_start: "console_reachable env (appStart env w)"
| console_turn: "console_reachable env s \<Longrightarrow> console_reachable env (fst (ownerTurn env input (s\<lparr>o_world := w\<rparr>)))"

end
