(* ===== verification/Scd_Console_Invariant.thy ===== *)
theory Scd_Console_Invariant
  imports Scd_Console Scd_Lifecycle
begin

text \<open>
The invariant of the example program, kept by every function that its main loop calls: the driver and the workflow are in reachable states, and what the workflow waits for is what the driver does.
\<close>

definition owner_ok :: "'w owner \<Rightarrow> bool" where
  "owner_ok s \<longleftrightarrow> reachable (o_device s) \<and> workflow_inv (o_workflow s) \<and> \<not> wf_finished (o_workflow s) \<and>
     o_nextRequestId s \<noteq> 0 \<and> cfg_transferTimeoutMs (o_config s) = 50 \<and>
     length (ed_buffer (o_editor s)) < CLI_LINE_CAPACITY"

definition matched :: "slot \<Rightarrow> workflow \<Rightarrow> bool" where
  "matched sl f \<longleftrightarrow> (\<forall>i k. sl \<noteq> Slot_done i k) \<and>
     (wf_waiting f \<longrightarrow> sl = Slot_busy (wf_operationId f) (wf_operation f))"

definition console_inv :: "'w owner \<Rightarrow> bool" where
  "console_inv s \<longleftrightarrow> owner_ok s \<and> matched (slotOf (o_device s)) (o_workflow s)"

lemma console_inv_frame [simp]:
  "console_inv (say x s) = console_inv s" "console_inv (s\<lparr>o_world := w\<rparr>) = console_inv s"
  "console_inv (s\<lparr>o_lastResult := r, o_lastResultValid := b\<rparr>) = console_inv s"
  "console_inv (s\<lparr>o_out := out\<rparr>) = console_inv s"
  by (simp_all add: console_inv_def owner_ok_def say_def)

lemma owner_ok_frame [simp]:
  "owner_ok (say x s) = owner_ok s" "owner_ok (s\<lparr>o_world := w\<rparr>) = owner_ok s"
  "owner_ok (s\<lparr>o_lastResult := r, o_lastResultValid := b\<rparr>) = owner_ok s"
  by (simp_all add: owner_ok_def say_def)

lemma say_simps [simp]:
  "o_device (say x s) = o_device s" "o_workflow (say x s) = o_workflow s" "o_config (say x s) = o_config s"
  "o_world (say x s) = o_world s" "o_nextRequestId (say x s) = o_nextRequestId s" "o_editor (say x s) = o_editor s"
  by (simp_all add: say_def)

lemma ownerNowMs_eq: "ownerNowMs env s = (fst (env_nowMs env (o_world s)), s\<lparr>o_world := snd (env_nowMs env (o_world s))\<rparr>)"
  by (simp add: ownerNowMs_def split: prod.split)

lemma waiting_active: "owner_ok s \<Longrightarrow> wf_waiting (o_workflow s) \<Longrightarrow> workflowActive (o_workflow s)"
  by (simp add: owner_ok_def workflow_inv_def)

lemma matched_idle: "\<not> wf_waiting f \<Longrightarrow> (\<And>i k. sl \<noteq> Slot_done i k) \<Longrightarrow> matched sl f"
  by (simp add: matched_def)

lemma slotOf_done: "slotOf d = Slot_done i k \<longleftrightarrow> d_terminalValid d \<and> i = res_id (d_terminal d) \<and> k = res_kind (d_terminal d)"
  by (auto simp: slotOf_def)

text \<open>A finished workflow is summarised and cleared.\<close>

lemma printWorkflowUpdate_ok:
  assumes "reachable (o_device s)" and "workflow_inv (o_workflow s)" and "o_nextRequestId s \<noteq> 0"
    and "cfg_transferTimeoutMs (o_config s) = 50" and "length (ed_buffer (o_editor s)) < CLI_LINE_CAPACITY"
    and "wf_kind (o_workflow s) \<noteq> Workflow_NONE"
    and "matched (slotOf (o_device s)) (o_workflow s)"
  shows "console_inv (printWorkflowUpdate s)"
proof -
  have "\<not> wf_waiting workflow_init" "\<not> wf_finished workflow_init" by (simp_all add: workflow_init_def)
  then show ?thesis
    using assms workflow_inv_init
    by (auto simp: printWorkflowUpdate_def Let_def console_inv_def owner_ok_def matched_def)
qed

lemma takeAndPrint_inv:
  assumes "owner_ok s" and "slotOf (o_device s) = Slot_done oid k"
    and "wf_waiting (o_workflow s) \<Longrightarrow> wf_operationId (o_workflow s) = oid \<and> wf_operation (o_workflow s) = k"
  shows "console_inv (takeAndPrint oid s)"
proof -
  define r where "r = d_terminal (o_device s)"
  define d where "d = (o_device s)\<lparr>d_terminal := OperationResult_init, d_terminalValid := False\<rparr>"
  define f where "f = snd (acceptResult r (o_workflow s))"
  define s' where "s' = (say (Out_result r) (s\<lparr>o_device := d, o_lastResult := r, o_lastResultValid := True\<rparr>))\<lparr>o_workflow := f\<rparr>"
  have t: "takeResult oid OperationResult_init (o_device s) = (Status_Ok, r, d)" and k: "res_id r = oid" "res_kind r = k"
    using assms(2) by (auto simp: takeResult_def slotOf_done r_def d_def)
  have e: "takeAndPrint oid s = (if fst (acceptResult r (o_workflow s)) then printWorkflowUpdate s' else s')"
    by (simp add: takeAndPrint_def t Let_def s'_def f_def split: prod.split)
  have reach: "reachable d"
    using reachable_step [OF _ step_take, of "o_device s" oid OperationResult_init] assms(1) t by (simp add: owner_ok_def)
  have free: "slotOf d \<noteq> Slot_done i k" for i k by (simp add: d_def slotOf_def)
  have inv: "workflow_inv f" unfolding f_def using assms(1) workflow_inv_accepted by (simp add: owner_ok_def)
  have fields: "o_device s' = d" "o_workflow s' = f" "o_nextRequestId s' = o_nextRequestId s" "o_config s' = o_config s"
    "o_editor s' = o_editor s" by (simp_all add: s'_def)
  show ?thesis
  proof (cases "wf_waiting (o_workflow s)")
    case True
    have acc: "fst (acceptResult r (o_workflow s))" "\<not> wf_waiting f" "wf_kind f = wf_kind (o_workflow s)"
      using assms(3) k True by (auto simp: f_def acceptResult_def Let_def)
    have "wf_kind (o_workflow s) \<noteq> Workflow_NONE"
      using waiting_active [OF assms(1) True] by (simp add: workflowActive_def)
    then have "console_inv (printWorkflowUpdate s')"
      using assms(1) acc reach inv free
      by (intro printWorkflowUpdate_ok) (simp_all add: fields owner_ok_def matched_idle)
    then show ?thesis unfolding e using acc(1) by simp
  next
    case False
    then have same: "f = o_workflow s" "\<not> fst (acceptResult r (o_workflow s))"
      by (simp_all add: f_def acceptResult_def)
    have "matched (slotOf d) f" using False free by (simp add: same(1) matched_idle)
    then have "console_inv s'"
      using assms(1) reach inv same(1) by (simp add: console_inv_def owner_ok_def fields)
    then show ?thesis unfolding e using same(2) by simp
  qed
qed

lemma poll_pending:
  "pr_state (fst (poll t n w d)) = Slot_RESULT_PENDING \<longleftrightarrow> d_terminalValid (fr_drv (snd (poll t n w d)))"
  "d_terminalValid (fr_drv (snd (poll t n w d))) \<Longrightarrow> pr_id (fst (poll t n w d)) = res_id (d_terminal (fr_drv (snd (poll t n w d))))"
  by (auto simp: poll_def Let_def pollSummary_def pendingResult_def activeResult_def PollResult_init_def frameFor_def)

text \<open>One poll, and the result it may have left.\<close>

lemma pollDriver_inv:
  assumes "console_inv s"
  shows "console_inv (pollDriver env s)"
proof -
  let ?t = "fst (env_nowMs env (o_world s))" and ?w = "snd (env_nowMs env (o_world s))"
  let ?d = "o_device s"
  obtain result fr where p: "poll ?t 1 ?w ?d = (result, fr)" by (metis surj_pair)
  define s' where "s' = s\<lparr>o_device := fr_drv fr, o_world := fr_world fr\<rparr>"
  have e: "pollDriver env s =
     (if pr_state result = Slot_RESULT_PENDING then takeAndPrint (pr_id result) s'
      else if \<not> ok (pr_status result) \<and> \<not> inProgress (pr_status result) then printStatus (pr_status result) s' else s')"
    by (simp add: pollDriver_def ownerNowMs_eq p s'_def Let_def)
  have r: "reachable ?d" and m: "matched (slotOf ?d) (o_workflow s)" using assms by (auto simp: console_inv_def owner_ok_def)
  have "reachable (fr_drv fr)" using reachable_step [OF r step_poll, of ?t 1 ?w] p by simp
  then have ok': "owner_ok s'" using assms by (simp add: s'_def console_inv_def owner_ok_def)
  have "slot_step (slotOf ?d) (slotOf (fr_drv fr))"
    using slot_poll [OF reachable_inv [OF r], of ?t 1 ?w] p by simp
  then have step: "slotOf (fr_drv fr) = slotOf ?d \<or> (\<exists>i k. slotOf ?d = Slot_free \<and> slotOf (fr_drv fr) = Slot_busy i k) \<or>
      (\<exists>i k. slotOf ?d = Slot_busy i k \<and> slotOf (fr_drv fr) = Slot_done i k)"
    using m by (auto simp: matched_def elim!: slot_step.cases)
  show ?thesis
  proof (cases "d_terminalValid (fr_drv fr)")
    case True
    then have done': "slotOf (fr_drv fr) = Slot_done (pr_id result) (res_kind (d_terminal (fr_drv fr)))"
      using poll_pending(2) [of ?t 1 ?w ?d] p by (simp add: slotOf_done)
    have "slotOf ?d \<noteq> Slot_done i k" for i k using m by (simp add: matched_def)
    then have "slotOf ?d = Slot_busy (pr_id result) (res_kind (d_terminal (fr_drv fr)))"
      using step done' slot.distinct slot.inject by metis
    then have "wf_waiting (o_workflow s) \<Longrightarrow> wf_operationId (o_workflow s) = pr_id result \<and>
        wf_operation (o_workflow s) = res_kind (d_terminal (fr_drv fr))"
      using m done' by (auto simp: matched_def)
    then have "console_inv (takeAndPrint (pr_id result) s')"
      by (intro takeAndPrint_inv [OF ok']) (simp_all add: s'_def done')
    then show ?thesis using True poll_pending(1) [of ?t 1 ?w ?d] p by (simp add: e)
  next
    case False
    have "matched (slotOf (fr_drv fr)) (o_workflow s)"
      using step m False by (auto simp: matched_def slotOf_done)
    then have "console_inv s'" using ok' by (simp add: console_inv_def s'_def)
    then show ?thesis using False poll_pending(1) [of ?t 1 ?w ?d] p by (simp add: e)
  qed
qed

lemma start_slot:
  assumes "start request options assigned d = (status, oid, d')"
  shows "if inProgress status then slotOf d = Slot_free \<and> slotOf d' = Slot_busy oid (rq_kind request) else d' = d"
proof (cases "ok (validateStart request options d)")
  case True
  have "status = fst (start request options assigned d)" "oid = fst (snd (start request options assigned d))"
    "d' = snd (snd (start request options assigned d))" using assms by simp_all
  then show ?thesis using validateStart_ok(2,3) [OF True]
    by (simp add: start_eq True Let_def slotOf_def admittedActive_def)
next
  case False
  then show ?thesis using assms validateStart_code [of request options d]
    by (auto simp: start_eq inProgress_def)
qed

lemma startOperation_inv:
  assumes "console_inv s" and "wf_waiting (o_workflow s) \<Longrightarrow> \<not> workflowRequest"
    and "startOperation env request workflowRequest s = (status, oid, s')"
  shows "console_inv s' \<and> o_workflow s' = o_workflow s \<and>
    (inProgress status \<longrightarrow> slotOf (o_device s') = Slot_busy oid (rq_kind request))"
proof (cases "workflowActive (o_workflow s) \<and> \<not> workflowRequest")
  case True
  then show ?thesis using assms(1,3) by (auto simp: startOperation_def Let_def)
next
  case False
  then have w: "\<not> wf_waiting (o_workflow s)" using assms(1,2) waiting_active [of s] by (auto simp: console_inv_def)
  define now where "now = fst (env_nowMs env (o_world s))"
  define options where "options = \<lparr>op_requestId = o_nextRequestId s, op_nowMs = now,
      op_deadlineMs = now + operationBudgetMs (o_config s) (rq_kind request)\<rparr>"
  obtain st i d where st: "start request options OperationId_init (o_device s) = (st, i, d)" by (metis surj_pair)
  note slot = start_slot [OF st]
  have r: "reachable d"
    using reachable_step [OF _ step_start, of "o_device s" request options OperationId_init] assms(1) st
    by (simp add: console_inv_def owner_ok_def)
  have fields: "o_device s' = d" "o_workflow s' = o_workflow s" "o_config s' = o_config s" "o_editor s' = o_editor s"
    "o_nextRequestId s' \<noteq> 0" "status = st" "inProgress st \<longrightarrow> oid = i"
    using assms(3) False st
    by (auto simp: startOperation_def ownerNowMs_eq Let_def now_def [symmetric] options_def split: if_splits)
  have "matched (slotOf d) (o_workflow s)"
    using w slot assms(1) by (intro matched_idle) (auto simp: console_inv_def matched_def split: if_splits)
  then show ?thesis using r slot assms(1) by (auto simp: console_inv_def owner_ok_def fields)
qed

lemma startRequest_inv [intro]: "console_inv s \<Longrightarrow> console_inv (startRequest env request s)"
  using startOperation_inv [of s False env request] unfolding startRequest_def by (metis prod.collapse)

lemma workflow_start_failure:
  assumes "workflowActive f" and "\<not> wf_waiting f"
  shows "wf_kind (markStartFailure f) \<noteq> Workflow_NONE" "\<not> wf_waiting (markStartFailure f)"
  using assms by (simp_all add: markStartFailure_def workflowActive_def)

lemma serviceWorkflow_inv [intro]:
  assumes "console_inv s" shows "console_inv (serviceWorkflow env s)"
proof (cases "workflowActive (o_workflow s) \<and> \<not> wf_waiting (o_workflow s)")
  case False
  then show ?thesis using assms by (auto simp: serviceWorkflow_def)
next
  case True
  define t where "t = s\<lparr>o_world := snd (env_nowMs env (o_world s))\<rparr>"
  have t: "console_inv t" "o_workflow t = o_workflow s" using assms by (simp_all add: t_def)
  obtain offered request where n: "nextRequest OperationRequest_init (o_workflow t) = (offered, request)" by fastforce
  obtain status oid u where u: "startOperation env request True t = (status, oid, u)" by (metis surj_pair)
  have ui: "console_inv u" "o_workflow u = o_workflow s"
    "inProgress status \<Longrightarrow> slotOf (o_device u) = Slot_busy oid (rq_kind request)"
    using startOperation_inv [OF t(1) _ u] True t(2) by simp_all
  define f where "f = snd (markStarted oid (rq_kind request) (o_workflow u))"
  show ?thesis
  proof (cases "serviceWorkflow env s = t")
    case True
    then show ?thesis using t by simp
  next
    case False
    then have "offered" and e: "serviceWorkflow env s = (if inProgress status then u\<lparr>o_workflow := f\<rparr>
        else printWorkflowUpdate (u\<lparr>o_workflow := markStartFailure (o_workflow u)\<rparr>))"
      using True n u by (auto simp: serviceWorkflow_def ownerNowMs_eq t_def [symmetric] Let_def f_def split: if_splits)
    show ?thesis
    proof (cases "inProgress status")
      case True
      have "workflow_inv f" using ui(1) unfolding f_def by (intro workflow_inv_started) (simp add: console_inv_def owner_ok_def)
      moreover have "\<not> wf_finished f" using ui(1) by (auto simp: f_def markStarted_def console_inv_def owner_ok_def)
      moreover have "matched (slotOf (o_device u)) f"
        using n \<open>offered\<close> t(2) ui(2) \<open>workflowActive (o_workflow s) \<and> \<not> wf_waiting (o_workflow s)\<close>
        by (simp add: matched_def ui(3) [OF True] f_def markStarted_def nextRequest_True makeRequest_def)
      ultimately show ?thesis using True ui(1) by (simp add: e console_inv_def owner_ok_def)
    next
      case False
      have "workflow_inv (markStartFailure (o_workflow u))"
        using ui(1) by (intro workflow_inv_startFailure) (simp add: console_inv_def owner_ok_def)
      moreover have "matched (slotOf (o_device u)) (markStartFailure (o_workflow u))"
        using ui True workflow_start_failure by (intro matched_idle) (auto simp: console_inv_def matched_def)
      ultimately have "console_inv (printWorkflowUpdate (u\<lparr>o_workflow := markStartFailure (o_workflow u)\<rparr>))"
        using ui True workflow_start_failure
        by (intro printWorkflowUpdate_ok) (auto simp: console_inv_def owner_ok_def)
      then show ?thesis using False by (simp add: e)
    qed
  qed
qed

lemma startWorkflow_inv [intro]:
  assumes "console_inv s" shows "console_inv (startWorkflow env kind cycles s)"
proof -
  obtain begun f where b: "workflowBegin kind cycles (rs_operatingMode (runtimeSnapshot (o_device s))) (o_workflow s) = (begun, f)"
    by fastforce
  have f: "workflow_inv f" using workflow_inv_begin [of "o_workflow s"] assms b
    by (metis console_inv_def owner_ok_def snd_conv)
  show ?thesis
  proof (cases begun)
    case True
    then have "workflowBegin kind cycles (rs_operatingMode (runtimeSnapshot (o_device s))) (o_workflow s) = (True, f)"
      using b by simp
    note ready = workflowBegin_ready [OF this]
    have "console_inv (s\<lparr>o_workflow := f\<rparr>)"
      using assms f ready by (auto simp: console_inv_def owner_ok_def matched_def)
    then show ?thesis using assms True b by (auto simp: startWorkflow_def Let_def)
  next
    case False
    then have "f = o_workflow s" using workflowBegin_False b by (metis fst_conv snd_conv)
    then show ?thesis using assms False b by (auto simp: startWorkflow_def Let_def)
  qed
qed

lemma bindDriver_inv: "console_inv s \<Longrightarrow> console_inv (snd (bindDriver env s))"
proof -
  assume s: "console_inv s"
  obtain status d where d: "driverBegin (ownerConfig env) (o_device s) = (status, d)" by fastforce
  have "reachable d" "slotOf d = slotOf (o_device s)"
    using reachable_step [OF _ step_begin, of "o_device s" "ownerConfig env"] slot_begin [of "ownerConfig env" "o_device s"] s d
    by (simp_all add: console_inv_def owner_ok_def)
  then show ?thesis using s d by (simp add: bindDriver_def console_inv_def owner_ok_def ownerConfig_def)
qed

text \<open>\<open>end\<close> and \<open>cancel\<close> finish the active operation, and its result is taken at once.\<close>

lemma slot_ids:
  assumes "reachable d" and "slotOf d \<noteq> Slot_done i k"
  shows "rs_operationState (runtimeSnapshot d) = Slot_IDLE \<longleftrightarrow> slotOf d = Slot_free"
    and "slotOf d = Slot_busy a b \<Longrightarrow> rs_operationId (runtimeSnapshot d) = a"
  using driver_inv_slot(1) [OF reachable_inv [OF assms(1)]]
  by (auto simp: runtimeSnapshot_def operationState_def slotOf_def split: if_splits)

lemma slot_step_done: "slot_step (Slot_busy i k) (slotOf d) \<Longrightarrow> d_terminalValid d \<Longrightarrow> slotOf d = Slot_done i k"
  by (erule slot_step.cases) (auto simp: slotOf_def split: if_splits)

lemma cancelForEnd_slot:
  assumes "driver_inv d"
  shows "slotOf d = Slot_busy i k \<Longrightarrow> slotOf (cancelForEnd d) = Slot_done i k"
    and "slotOf d = Slot_free \<Longrightarrow> slotOf (cancelForEnd d) = Slot_free"
proof -
  assume "slotOf d = Slot_busy i k"
  then have a: "alive d" by (auto simp: slotOf_def alive_def split: if_splits)
  have "slot_step (Slot_busy i k) (slotOf (cancelForEnd d))"
  proof -
    have "slotOf (driverEnd d) = slotOf (cancelForEnd d)" by (simp add: driverEnd_def Let_def slotOf_def)
    then show ?thesis using slot_end [of d] \<open>slotOf d = Slot_busy i k\<close> by simp
  qed
  moreover have "d_terminalValid (cancelForEnd d)"
    using a by (simp add: cancelForEnd_def Let_def finishOperation_alive(2) flip: alive_def)
  ultimately show "slotOf (cancelForEnd d) = Slot_done i k" by (blast intro: slot_step_done)
next
  assume "slotOf d = Slot_free"
  then show "slotOf (cancelForEnd d) = Slot_free" by (auto simp: slotOf_def cancelForEnd_def split: if_splits)
qed

lemma cancel_slot:
  assumes "driver_inv d" and "cancel oid t d = (status, d')"
  shows "if ok status then \<exists>k. slotOf d = Slot_busy oid k \<and> slotOf d' = Slot_done oid k else d' = d"
proof (cases "d_activeValid d \<and> a_id (d_active d) = oid")
  case True
  then have a: "alive d" using slot_alive [OF assms(1)] by blast
  then have "\<exists>k. slotOf d = Slot_busy oid k" using True by (simp add: slotOf_def alive_def)
  then obtain k where k: "slotOf d = Slot_busy oid k" ..
  define t' where "t' = (if d_lastOwnerNowValid d \<and> \<not> timeReached t (d_lastOwnerNowMs d) then d_lastOwnerNowMs d else t)"
  obtain e d1 where c: "cancelEffect (d\<lparr>d_lastOwnerNowMs := t', d_lastOwnerNowValid := True\<rparr>) = (e, d1)"
    by (metis surj_pair)
  have "alive d1" using cancelEffect_slot [OF c] a by (simp add: alive_def)
  moreover have eq: "(status, d') = (Status_Ok, finishOperation Outcome_CANCELLED e
      (Status_Error Err_CANCELLED ''Operation cancelled'' 0) t' (doubtPersistence d1))"
    using True c assms(2) by (simp add: cancel_def Let_def t'_def [symmetric])
  ultimately have "d_terminalValid d'" by (simp add: finishOperation_alive(2))
  moreover have "slot_step (Slot_busy oid k) (slotOf d')"
    using slot_cancel [OF assms(1), of oid t] assms(2) k by simp
  ultimately have "slotOf d' = Slot_done oid k" by (blast intro: slot_step_done)
  then show ?thesis using k eq by simp
next
  case False
  then show ?thesis using assms(2) by (auto simp: cancel_def split: if_splits)
qed

lemma command_end_inv [intro]:
  assumes "console_inv s" and "\<not> wf_waiting (o_workflow s)"
  shows "console_inv (command_end s)"
proof -
  let ?d = "o_device s"
  have r: "reachable ?d" and free: "slotOf ?d \<noteq> Slot_done i k" for i k
    using assms(1) by (auto simp: console_inv_def owner_ok_def matched_def)
  define s' where "s' = s\<lparr>o_device := driverEnd ?d\<rparr>"
  have r': "owner_ok s'"
    using assms(1) reachable_step [OF r step_end] by (simp add: s'_def console_inv_def owner_ok_def)
  have sl: "slotOf (driverEnd ?d) = slotOf (cancelForEnd ?d)" by (simp add: driverEnd_def Let_def slotOf_def)
  show ?thesis
  proof (cases "slotOf ?d")
    case Slot_free
    then have "matched (slotOf (driverEnd ?d)) (o_workflow s)"
      using cancelForEnd_slot(2) [OF reachable_inv [OF r]] sl assms(2) by (simp add: matched_def)
    moreover have "command_end s = s'"
      using slot_ids(1) [OF r free] Slot_free by (simp add: command_end_def Let_def s'_def)
    ultimately show ?thesis using r' by (simp add: console_inv_def) (simp add: s'_def)
  next
    case (Slot_busy i k)
    then have "slotOf (driverEnd ?d) = Slot_done i k" using cancelForEnd_slot(1) [OF reachable_inv [OF r]] sl by simp
    then have "console_inv (takeAndPrint i s')"
      using assms(2) by (intro takeAndPrint_inv [OF r']) (simp_all add: s'_def)
    moreover have "command_end s = takeAndPrint i s'"
      using slot_ids [OF r free] Slot_busy by (simp add: command_end_def Let_def s'_def)
    ultimately show ?thesis by simp
  qed (use free in blast)
qed

lemma command_begin_inv [intro]:
  "console_inv s \<Longrightarrow> \<not> wf_waiting (o_workflow s) \<Longrightarrow> console_inv (command_begin env s)"
  using bindDriver_inv [OF command_end_inv, of s env]
  by (auto simp: command_begin_def split: prod.splits)

lemma command_probe_inv [intro]: "console_inv s \<Longrightarrow> console_inv (command_probe env s)"
  using bindDriver_inv [of s env] by (auto simp: command_probe_def Let_def split: prod.splits if_splits)

lemma command_scan_inv [intro]: "console_inv s \<Longrightarrow> console_inv (command_scan env s)"
  by (auto simp: command_scan_def ownerNowMs_eq Let_def split: prod.split)

lemma cancel_device_inv:
  assumes "console_inv s" and "cancel (rs_operationId (runtimeSnapshot (o_device s))) now (o_device s) = (status, d)"
  shows "console_inv (let s' = printStatus status (s\<lparr>o_device := d\<rparr>)
    in if ok status then takeAndPrint (rs_operationId (runtimeSnapshot (o_device s))) s' else s')"
proof -
  let ?oid = "rs_operationId (runtimeSnapshot (o_device s))"
  have r: "reachable (o_device s)" using assms(1) by (simp add: console_inv_def owner_ok_def)
  note slot = cancel_slot [OF reachable_inv [OF r] assms(2)]
  have r': "owner_ok (s\<lparr>o_device := d\<rparr>)"
    using assms reachable_step [OF r step_cancel, of ?oid now] by (simp add: console_inv_def owner_ok_def)
  show ?thesis
  proof (cases "ok status")
    case True
    then obtain k where k: "slotOf (o_device s) = Slot_busy ?oid k" "slotOf d = Slot_done ?oid k" using slot by auto
    then have "console_inv (takeAndPrint ?oid (printStatus status (s\<lparr>o_device := d\<rparr>)))"
      using assms(1) r' by (intro takeAndPrint_inv [where k = k]) (auto simp: console_inv_def matched_def)
    then show ?thesis using True by (simp add: Let_def)
  next
    case False
    then have "d = o_device s" using slot by simp
    then show ?thesis using assms(1) False by (simp add: Let_def)
  qed
qed

lemma command_cancel_inv [intro]:
  assumes "console_inv s" shows "console_inv (command_cancel env s)"
proof -
  define f where "f = (if workflowActive (o_workflow s) then requestStop (o_workflow s) else o_workflow s)"
  define s' where "s' = s\<lparr>o_workflow := f\<rparr>"
  have fi: "workflow_inv f" using assms workflow_inv_stop by (simp add: f_def console_inv_def owner_ok_def)
  have ff: "wf_waiting f = wf_waiting (o_workflow s)" "wf_operationId f = wf_operationId (o_workflow s)"
    "wf_operation f = wf_operation (o_workflow s)" "wf_kind f = wf_kind (o_workflow s)"
    "wf_finished f \<longleftrightarrow> wf_finished (o_workflow s) \<or> workflowActive (o_workflow s) \<and> \<not> wf_waiting (o_workflow s)"
    by (auto simp: f_def requestStop_def Let_def)
  show ?thesis
  proof (cases "workflowActive (o_workflow s) \<and> \<not> wf_waiting f")
    case True
    then have "console_inv (printWorkflowUpdate s')"
      using assms fi ff by (intro printWorkflowUpdate_ok)
        (auto simp: s'_def console_inv_def owner_ok_def matched_def workflowActive_def)
    moreover have "command_cancel env s = printWorkflowUpdate s'"
      using True by (auto simp: command_cancel_def Let_def s'_def f_def)
    ultimately show ?thesis by simp
  next
    case False
    define u where "u = s'\<lparr>o_world := snd (env_nowMs env (o_world s'))\<rparr>"
    have "console_inv s'"
      using assms fi ff False by (auto simp: s'_def console_inv_def owner_ok_def matched_def)
    then have u: "console_inv u" "o_device u = o_device s" by (simp_all add: u_def s'_def)
    obtain status d where c: "cancel (rs_operationId (runtimeSnapshot (o_device u)))
        (fst (env_nowMs env (o_world s'))) (o_device u) = (status, d)" by fastforce
    have e: "(if workflowActive (o_workflow s) then s\<lparr>o_workflow := requestStop (o_workflow s)\<rparr> else s) = s'"
      by (simp add: s'_def f_def)
    have n: "\<not> (workflowActive (o_workflow s) \<and> \<not> wf_waiting (o_workflow s'))"
      using False by (simp add: s'_def)
    have "command_cancel env s = (let s' = printStatus status (u\<lparr>o_device := d\<rparr>)
      in if ok status then takeAndPrint (rs_operationId (runtimeSnapshot (o_device u))) s' else s')"
      unfolding command_cancel_def Let_def e if_not_P [OF n] ownerNowMs_eq prod.case u_def [symmetric] c [unfolded u(2)] u(2)
      by (rule refl)
    then show ?thesis using cancel_device_inv [OF u(1) c] by simp
  qed
qed

lemmas argument_commands = command_periodic_def command_single_def command_sample_def command_toffset_def
  command_number_def command_asc_enabled_def command_frc_def command_persist_def command_factory_reset_def
  raw_read_words_def raw_write_def raw_write_word_def command_raw_def command_stress_def

lemma argument_commands_inv [intro]:
  assumes "console_inv s"
  shows "console_inv (command_periodic env arg s)" "console_inv (command_single env arg s)"
    "console_inv (command_sample s)" "console_inv (command_toffset env arg s)"
    "console_inv (command_number env head arg s)" "console_inv (command_asc_enabled env arg s)"
    "console_inv (command_frc env arg s)" "console_inv (command_persist env arg s)"
    "console_inv (command_factory_reset env arg s)" "console_inv (command_raw env arg s)"
    "console_inv (command_stress env head arg s)"
  using assms by (auto simp: argument_commands Let_def split: prod.split)

lemma console_inv_if: "(b \<Longrightarrow> console_inv x) \<Longrightarrow> (\<not> b \<Longrightarrow> console_inv y) \<Longrightarrow> console_inv (if b then x else y)"
  by simp

lemma dispatch_inv:
  assumes "console_inv s" and "workflowActive (o_workflow s) \<Longrightarrow> allowedDuringWorkflow head"
  shows "console_inv (dispatch env head arg s)"
proof (cases "lineIs head ''begin'' \<or> lineIs head ''end''")
  case True
  then have "\<not> allowedDuringWorkflow head" by (auto simp: allowedDuringWorkflow_def lineIs_def)
  then have "\<not> wf_waiting (o_workflow s)" using assms waiting_active by (auto simp: console_inv_def)
  then show ?thesis using assms(1) True by (auto simp: dispatch_def lineIs_def)
next
  case False
  have frames: "console_inv (say x s)" "\<And>env request. console_inv (startRequest env request s)" for x
    using assms(1) by auto
  show ?thesis unfolding dispatch_def
    by (intro console_inv_if)
      (use False assms(1) in \<open>blast intro: frames argument_commands_inv command_scan_inv command_probe_inv
         command_cancel_inv startWorkflow_inv\<close>)+
qed

lemma processCommand_inv [intro]: "console_inv s \<Longrightarrow> console_inv (processCommand env line s)"
  by (auto simp: processCommand_def split: prod.split intro!: dispatch_inv)

text \<open>The editor never writes past its buffer.\<close>

lemma readLoop_bound:
  "length (ed_buffer ed) < CLI_LINE_CAPACITY \<Longrightarrow>
   length (ed_buffer (fst (snd (snd (readLoop n input ed))))) < CLI_LINE_CAPACITY"
proof (induction n input ed rule: readLoop.induct)
  case (3 n c input ed)
  have "length (ed_buffer (editKey c ed)) < CLI_LINE_CAPACITY"
    using 3(2) by (auto simp: editKey_def)
  then show ?case using 3 by (simp add: Let_def editor_init_def)
qed simp_all

lemma console_inv_editor:
  "console_inv s \<Longrightarrow> length (ed_buffer ed) < CLI_LINE_CAPACITY \<Longrightarrow> console_inv (s\<lparr>o_editor := ed\<rparr>)"
  by (simp add: console_inv_def owner_ok_def)

lemma ownerTurn_inv:
  assumes "console_inv s" shows "console_inv (fst (ownerTurn env input s))"
proof -
  define t where "t = serviceWorkflow env (pollDriver env s)"
  have t: "console_inv t" using assms by (simp add: t_def serviceWorkflow_inv pollDriver_inv)
  obtain line discarded ed rest where r: "readLine input (o_editor t) = (line, discarded, ed, rest)"
    by (metis surj_pair)
  have "length (ed_buffer ed) < CLI_LINE_CAPACITY"
    using t readLoop_bound [of "o_editor t" CLI_LINE_CAPACITY input] r
    by (simp add: readLine_def console_inv_def owner_ok_def)
  then have "console_inv (t\<lparr>o_editor := ed\<rparr>)" by (rule console_inv_editor [OF t])
  then show ?thesis by (auto simp: ownerTurn_def answer_def t_def [symmetric] r Let_def split: option.split)
qed

lemma slotOf_init [simp]: "slotOf driver_init = Slot_free"
  by (simp add: slotOf_def driver_init_def)

lemma console_inv_init: "console_inv (owner_init w)"
proof -
  have "\<not> wf_waiting workflow_init" "\<not> wf_finished workflow_init" by (simp_all add: workflow_init_def)
  then show ?thesis
    by (simp add: owner_init_def console_inv_def owner_ok_def reachable_init workflow_inv_init matched_def
        Config_init_def editor_init_def)
qed

lemma appStart_inv: "console_inv (appStart env w)"
  using bindDriver_inv [of "say (Out_info ''SCD41 owner-safe bring-up CLI'') (owner_init w)" env]
  by (auto simp: appStart_def console_inv_init split: prod.split)

lemma console_reachable_inv: "console_reachable env s \<Longrightarrow> console_inv s"
  by (induction rule: console_reachable.induct) (simp_all add: appStart_inv ownerTurn_inv)

end
