(* ===== verification/Scd_Console_Safety.thy ===== *)
theory Scd_Console_Safety
  imports Scd_Console_Invariant
begin

text \<open>
What the example program can start, and the properties of the program as a whole, applied to a run on a simulated bus.
\<close>

subsection \<open>Deadlines\<close>

lemma limits_small: "unat (lim_maxWaitMs (limits k)) \<le> 10000 \<and> unat (lim_maxCallbacks (limits k)) \<le> 14"
  by (cases k) (simp_all add: OperationLimits_init_def)

text \<open>
  The deadline the owner gives an operation is always one the driver accepts: the budget is the
  kind's published wait, the timeouts of all its transfers and one second, without wrapping around for
  any timeout the driver accepts, and the deadline made of it is valid at every value of the wrapping
  clock.
\<close>
theorem owner_deadline_valid:
  assumes "unat (cfg_transferTimeoutMs config) \<le> 1000"
  shows "unat (operationBudgetMs config kind) = unat (lim_maxWaitMs (limits kind)) +
      unat (lim_maxCallbacks (limits kind)) * unat (cfg_transferTimeoutMs config) + 1000 \<and>
    deadlineValid now (now + operationBudgetMs config kind)"
proof -
  let ?w = "unat (lim_maxWaitMs (limits kind))" and ?c = "unat (lim_maxCallbacks (limits kind))"
    and ?t = "unat (cfg_transferTimeoutMs config)"
  have b: "?w \<le> 10000" "?c * ?t \<le> 14 * 1000"
    using limits_small [of kind] assms by (simp, intro mult_le_mono) auto
  have c: "unat (ucast (lim_maxCallbacks (limits kind)) :: u32) = ?c" 
    using limits_small [of kind] by (simp add: unsigned_ucast_eq take_bit_nat_eq_self)
  have u: "unat (operationBudgetMs config kind) = ?w + ?c * ?t + 1000"
    using b by (simp add: operationBudgetMs_def unat_word_ariths c)
  then have "0 < unat (operationBudgetMs config kind)" "unat (operationBudgetMs config kind) < 2 ^ 31"
    using b by simp_all
  then have "deadlineValid now (now + operationBudgetMs config kind)"
    by (auto simp: deadlineValid_def word_less_nat_alt)
  then show ?thesis using u by blast
qed

theorem owner_deadline_valid_witness: "deadlineValid (- 5) (- 5 + operationBudgetMs Config_init Kind_SELF_TEST)"
proof -
  have "unat (cfg_transferTimeoutMs Config_init) \<le> 1000" by (simp add: Config_init_def)
  from owner_deadline_valid [OF this] show ?thesis by blast
qed

subsection \<open>What a command can start\<close>

definition startsOnly :: "OperationKind set \<Rightarrow> 'w owner \<Rightarrow> 'w owner \<Rightarrow> bool" where
  "startsOnly ks s s' \<longleftrightarrow> (\<forall>i k. slotOf (o_device s') = Slot_busy i k \<longrightarrow>
     slotOf (o_device s) = Slot_busy i k \<or> k \<in> ks)"

lemma startsOnly_refl: "o_device s' = o_device s \<Longrightarrow> startsOnly ks s s'"
  by (simp add: startsOnly_def)

lemma startsOnly_trans: "startsOnly ks s t \<Longrightarrow> startsOnly ks t u \<Longrightarrow> startsOnly ks s u"
  by (auto simp: startsOnly_def)

lemma startsOnly_mono: "startsOnly ks s t \<Longrightarrow> ks \<subseteq> ks' \<Longrightarrow> startsOnly ks' s t"
  by (auto simp: startsOnly_def)

lemma startsOnly_if: "(b \<Longrightarrow> startsOnly ks s x) \<Longrightarrow> (\<not> b \<Longrightarrow> startsOnly ks s y) \<Longrightarrow> startsOnly ks s (if b then x else y)"
  by simp

lemma startsOnly_say [simp]: "startsOnly ks s (say x t) = startsOnly ks s t" "startsOnly ks (say x s) t = startsOnly ks s t"
  "startsOnly ks s s"
  by (simp_all add: startsOnly_def)

lemma printWorkflowUpdate_device [simp]: "o_device (printWorkflowUpdate s) = o_device s"
  by (simp add: printWorkflowUpdate_def Let_def)

lemma takeAndPrint_starts:
  assumes "reachable (o_device s)"
  shows "startsOnly ks s (takeAndPrint oid s)"
proof -
  obtain status result d where t: "takeResult oid OperationResult_init (o_device s) = (status, result, d)"
    by (metis surj_pair)
  have "o_device (takeAndPrint oid s) = d"
    by (simp add: takeAndPrint_def t Let_def split: prod.split)
  moreover have "d = o_device s \<or> d_terminalValid (o_device s) \<and> d = (o_device s)\<lparr>d_terminal := OperationResult_init, d_terminalValid := False\<rparr>"
    using t by (auto simp: takeResult_def split: if_splits)
  moreover have "d_terminalValid (o_device s) \<Longrightarrow> \<not> d_activeValid (o_device s)"
    using driver_inv_slot(1) [OF reachable_inv [OF assms]] by blast
  ultimately show ?thesis by (auto simp: startsOnly_def slotOf_def)
qed

lemma slot_step_starts: "slot_step sl sl' \<Longrightarrow> sl' = Slot_busy i k \<Longrightarrow> sl = Slot_busy i k \<or> sl = Slot_free"
  by (erule slot_step.cases) auto

lemma startOperation_starts:
  "startsOnly {rq_kind request} s (snd (snd (startOperation env request workflowRequest s)))"
proof (cases "workflowActive (o_workflow s) \<and> \<not> workflowRequest")
  case True
  then show ?thesis by (simp add: startOperation_def Let_def)
next
  case False
  define now where "now = fst (env_nowMs env (o_world s))"
  define options where "options = \<lparr>op_requestId = o_nextRequestId s, op_nowMs = now,
      op_deadlineMs = now + operationBudgetMs (o_config s) (rq_kind request)\<rparr>"
  obtain st i d where st: "start request options OperationId_init (o_device s) = (st, i, d)" by (metis surj_pair)
  have "o_device (snd (snd (startOperation env request workflowRequest s))) = d"
    using False st by (auto simp: startOperation_def ownerNowMs_eq Let_def now_def [symmetric] options_def split: if_splits)
  then show ?thesis using start_slot [OF st] by (auto simp: startsOnly_def split: if_splits)
qed

lemma startOperation_refused:
  assumes "startOperation env request True s = (status, oid, s')" and "\<not> inProgress status"
  shows "o_device s' = o_device s"
proof -
  define now where "now = fst (env_nowMs env (o_world s))"
  define options where "options = \<lparr>op_requestId = o_nextRequestId s, op_nowMs = now,
      op_deadlineMs = now + operationBudgetMs (o_config s) (rq_kind request)\<rparr>"
  obtain st i d where st: "start request options OperationId_init (o_device s) = (st, i, d)" by (metis surj_pair)
  have "o_device s' = d" "status = st"
    using assms(1) st by (auto simp: startOperation_def ownerNowMs_eq Let_def now_def [symmetric] options_def split: if_splits)
  then show ?thesis using start_slot [OF st] assms(2) by simp
qed

lemma startRequest_starts [simp]: "rq_kind request \<in> ks \<Longrightarrow> startsOnly ks s (startRequest env request s)"
  unfolding startRequest_def by (rule startsOnly_mono [OF startOperation_starts]) simp

lemma startRequest_say_starts [simp]: "rq_kind request \<in> ks \<Longrightarrow> startsOnly ks s (startRequest env request (say x s))"
  using startRequest_starts [of request ks "say x s" env] by simp

lemma bindDriver_starts: "startsOnly ks s (snd (bindDriver env s))"
proof -
  obtain status d where d: "driverBegin (ownerConfig env) (o_device s) = (status, d)" by fastforce
  then have "slotOf d = slotOf (o_device s)" using slot_begin [of "ownerConfig env" "o_device s"] by simp
  then show ?thesis by (simp add: bindDriver_def d startsOnly_def)
qed

definition workflowKinds :: "OperationKind set" where
  "workflowKinds = insert Kind_READ_DATA_READY (set SEQUENCE \<union> set IDLE_SEQUENCE \<union> set PERIODIC_SEQUENCE)"

lemma nextRequest_kind: "nextRequest request f = (True, r) \<Longrightarrow> rq_kind r \<in> workflowKinds"
  using workflow_operations [of f "wf_stepsCompleted f"]
  by (auto simp: nextRequest_True makeRequest_def workflowActive_def workflowKinds_def split: if_splits)

lemma serviceWorkflow_starts: "startsOnly workflowKinds s (serviceWorkflow env s)"
proof -
  define t where "t = s\<lparr>o_world := snd (env_nowMs env (o_world s))\<rparr>"
  obtain offered request where n: "nextRequest OperationRequest_init (o_workflow t) = (offered, request)" by fastforce
  obtain status oid u where u: "startOperation env request True t = (status, oid, u)" by (metis surj_pair)
  have "startsOnly {rq_kind request} t u" using startOperation_starts [of request t env True] u by simp
  moreover have "offered \<Longrightarrow> rq_kind request \<in> workflowKinds" using n nextRequest_kind by simp
  ultimately have "offered \<Longrightarrow> startsOnly workflowKinds s u"
    using startsOnly_mono [of "{rq_kind request}" t u workflowKinds] by (simp add: startsOnly_def t_def)
  moreover have "startsOnly workflowKinds s t" by (rule startsOnly_refl) (simp add: t_def)
  moreover have "o_device (serviceWorkflow env s) = o_device s \<or> o_device (serviceWorkflow env s) = o_device t \<or>
      offered \<and> o_device (serviceWorkflow env s) = o_device u"
    by (simp add: serviceWorkflow_def ownerNowMs_eq t_def [symmetric] Let_def n u)
  ultimately show ?thesis by (auto simp: startsOnly_def t_def)
qed

lemma startWorkflow_starts [simp]: "workflowKinds \<subseteq> ks \<Longrightarrow> startsOnly ks s (startWorkflow env kind cycles s)"
proof -
  assume ks: "workflowKinds \<subseteq> ks"
  obtain begun f where b: "workflowBegin kind cycles (rs_operatingMode (runtimeSnapshot (o_device s))) (o_workflow s) = (begun, f)"
    by fastforce
  have "startsOnly ks (s\<lparr>o_workflow := f\<rparr>) (serviceWorkflow env (say x (s\<lparr>o_workflow := f\<rparr>)))" for x
    using startsOnly_mono [OF serviceWorkflow_starts ks, of "say x (s\<lparr>o_workflow := f\<rparr>)" env] by simp
  then show ?thesis by (simp add: startWorkflow_def b Let_def startsOnly_def)
qed

lemma command_end_starts [simp]:
  assumes "reachable (o_device s)" shows "startsOnly ks s (command_end s)"
proof -
  define s' where "s' = s\<lparr>o_device := driverEnd (o_device s)\<rparr>"
  have r: "reachable (o_device s')" using reachable_step [OF assms step_end] by (simp add: s'_def)
  have "startsOnly ks s s'"
    using slot_end [of "o_device s"] slot_step_starts by (fastforce simp: startsOnly_def s'_def slotOf_def driverEnd_def cancelForEnd_def Let_def split: if_splits)
  moreover have "startsOnly ks s' (command_end s)"
    using takeAndPrint_starts [OF r] by (simp add: command_end_def Let_def s'_def)
  ultimately show ?thesis by (rule startsOnly_trans)
qed

lemma command_cancel_starts [simp]:
  assumes "reachable (o_device s)" shows "startsOnly ks s (command_cancel env s)"
proof -
  define oid where "oid = rs_operationId (runtimeSnapshot (o_device s))"
  have starts: "startsOnly ks s (if ok status then takeAndPrint oid (printStatus status (u\<lparr>o_device := d\<rparr>))
      else printStatus status (u\<lparr>o_device := d\<rparr>))"
    if u: "o_device u = o_device s" and c: "cancel oid now (o_device u) = (status, d)" for u now status d
  proof -
    define v where "v = printStatus status (u\<lparr>o_device := d\<rparr>)"
    have "reachable d" using reachable_step [OF assms step_cancel, of oid now] c u by simp
    then have t: "startsOnly ks v (takeAndPrint oid v)" by (intro takeAndPrint_starts) (simp add: v_def)
    have "startsOnly ks s v"
      using cancel_slot [OF reachable_inv [OF assms]] c u by (fastforce simp: startsOnly_def v_def split: if_splits)
    then show ?thesis using startsOnly_trans t by (auto simp flip: v_def)
  qed
  define now where "now = fst (env_nowMs env (o_world s))"
  obtain status d where c: "cancel oid now (o_device s) = (status, d)" by fastforce
  show ?thesis
    using starts [of "s\<lparr>o_world := snd (env_nowMs env (o_world s))\<rparr>" now status d]
      starts [of "s\<lparr>o_workflow := requestStop (o_workflow s), o_world := snd (env_nowMs env (o_world s))\<rparr>" now status d] c
    by (cases "ok status")
      (simp_all add: command_cancel_def Let_def ownerNowMs_eq oid_def [symmetric] now_def [symmetric] startsOnly_refl)
qed

lemma command_scan_starts [simp]: "startsOnly ks s (command_scan env s)"
  by (rule startsOnly_refl) (simp add: command_scan_def ownerNowMs_eq Let_def split: prod.split)

lemma command_begin_starts [simp]:
  "reachable (o_device s) \<Longrightarrow> Kind_ATTACH \<in> ks \<Longrightarrow> startsOnly ks s (command_begin env s)"
proof -
  assume r: "reachable (o_device s)" and ks: "Kind_ATTACH \<in> ks"
  obtain bound t where b: "bindDriver env (command_end s) = (bound, t)" by fastforce
  have "startsOnly ks s t"
    using startsOnly_trans [OF command_end_starts [OF r] bindDriver_starts [of ks "command_end s" env]] b by simp
  moreover have "startsOnly ks t (startKind env Kind_ATTACH t)" using ks by (simp add: makeRequest_def)
  ultimately have "startsOnly ks s (startKind env Kind_ATTACH t)" by (rule startsOnly_trans)
  then show ?thesis using \<open>startsOnly ks s t\<close> by (simp add: command_begin_def b)
qed

lemma command_probe_starts [simp]:
  "Kind_ATTACH \<in> ks \<Longrightarrow> Kind_READ_IDENTITY \<in> ks \<Longrightarrow> startsOnly ks s (command_probe env s)"
proof -
  assume ks: "Kind_ATTACH \<in> ks" "Kind_READ_IDENTITY \<in> ks"
  obtain bound t where b: "(if rs_bound (runtimeSnapshot (o_device s)) then (True, s) else bindDriver env s) = (bound, t)"
    by fastforce
  have "startsOnly ks s t" using bindDriver_starts [of ks s env] b by (auto split: if_splits)
  moreover from this have "startsOnly ks s (startKind env k t)" if "k \<in> ks" for k
    using startsOnly_trans [of ks s t "startKind env k t"] that by (simp add: makeRequest_def)
  ultimately show ?thesis using ks by (simp add: command_probe_def Let_def b)
qed

text \<open>
  What a command line must say before an operation that wears or erases the sensor's memory, or sends
  raw bytes, is started.
\<close>

definition confirmedBy :: "Line \<Rightarrow> Line \<Rightarrow> OperationKind \<Rightarrow> bool" where
  "confirmedBy head arg k \<longleftrightarrow>
     (k = Kind_FORCED_RECALIBRATION \<longrightarrow> lineIs head ''frc'' \<and>
        (\<exists>c reference. splitHeadTail arg = (True, c, reference) \<and> lineIs c ''confirm'')) \<and>
     (k = Kind_PERSIST_SETTINGS \<longrightarrow> lineIs head ''persist'' \<and> lineIs arg ''confirm'') \<and>
     (k = Kind_FACTORY_RESET \<longrightarrow> lineIs head ''factory_reset'' \<and> lineIs arg ''confirm'') \<and>
     (k = Kind_DIAGNOSTIC_WRITE_COMMAND \<longrightarrow> lineIs head ''command'' \<and>
        (\<exists>sub rest cmd c. splitHeadTail arg = (True, sub, rest) \<and> splitHeadTail rest = (True, cmd, c) \<and>
           lineIs c ''confirm'')) \<and>
     (k = Kind_DIAGNOSTIC_READ_WORDS \<or> k = Kind_DIAGNOSTIC_WRITE_WORD \<longrightarrow> lineIs head ''command'' \<and>
        (\<exists>sub rest cmd rest' x c. splitHeadTail arg = (True, sub, rest) \<and> splitHeadTail rest = (True, cmd, rest') \<and>
           splitHeadTail rest' = (True, x, c) \<and> lineIs c ''confirm''))"

abbreviation confirmedKinds :: "Line \<Rightarrow> Line \<Rightarrow> OperationKind set" where
  "confirmedKinds head arg \<equiv> {k. confirmedBy head arg k}"

lemma workflowKinds_confirmed: "workflowKinds \<subseteq> confirmedKinds head arg"
  by (auto simp: workflowKinds_def sequence_defs confirmedBy_def)

lemmas request_defs = makeRequest_def setTemperatureOffsetMilliC_def setSensorAltitudeM_def setAmbientPressurePa_def
  setAscEnabled_def setAscTargetPpm_def setAscInitialPeriodHours_def setAscStandardPeriodHours_def
  forcedRecalibration_def persistSettings_def factoryReset_def diagnosticReadWords_def
  diagnosticWriteCommand_def diagnosticWriteWord_def

lemma argument_commands_start:
  shows "startsOnly (confirmedKinds head arg) s (command_periodic env arg s)" "startsOnly (confirmedKinds head arg) s (command_single env arg s)"
    "startsOnly (confirmedKinds head arg) s (command_sample s)" "startsOnly (confirmedKinds head arg) s (command_toffset env arg s)"
    "startsOnly (confirmedKinds head arg) s (command_number env head arg s)" "startsOnly (confirmedKinds head arg) s (command_asc_enabled env arg s)"
    "lineIs head ''frc'' \<Longrightarrow> startsOnly (confirmedKinds head arg) s (command_frc env arg s)"
    "lineIs head ''persist'' \<Longrightarrow> startsOnly (confirmedKinds head arg) s (command_persist env arg s)"
    "lineIs head ''factory_reset'' \<Longrightarrow> startsOnly (confirmedKinds head arg) s (command_factory_reset env arg s)"
    "lineIs head ''command'' \<Longrightarrow> startsOnly (confirmedKinds head arg) s (command_raw env arg s)"
    "startsOnly (confirmedKinds head arg) s (command_stress env head arg s)"
proof -
  show "startsOnly (confirmedKinds head arg) s (command_periodic env arg s)"
    "startsOnly (confirmedKinds head arg) s (command_single env arg s)"
    by (simp_all add: argument_commands request_defs confirmedBy_def)
  show "startsOnly (confirmedKinds head arg) s (command_sample s)"
    by (simp add: argument_commands split: prod.split)
  show "startsOnly (confirmedKinds head arg) s (command_toffset env arg s)"
    "startsOnly (confirmedKinds head arg) s (command_asc_enabled env arg s)"
    "startsOnly (confirmedKinds head arg) s (command_number env head arg s)"
    by (simp_all add: argument_commands Let_def request_defs confirmedBy_def split: prod.split)
  show "startsOnly (confirmedKinds head arg) s (command_stress env head arg s)"
    using workflowKinds_confirmed by (simp add: argument_commands split: prod.split)
  show "lineIs head ''persist'' \<Longrightarrow> startsOnly (confirmedKinds head arg) s (command_persist env arg s)"
    "lineIs head ''factory_reset'' \<Longrightarrow> startsOnly (confirmedKinds head arg) s (command_factory_reset env arg s)"
    by (simp_all add: argument_commands request_defs confirmedBy_def)
  show "lineIs head ''frc'' \<Longrightarrow> startsOnly (confirmedKinds head arg) s (command_frc env arg s)"
    by (simp add: argument_commands request_defs confirmedBy_def split: prod.split)
  assume c: "lineIs head ''command''"
  show "startsOnly (confirmedKinds head arg) s (command_raw env arg s)"
    using c by (simp add: argument_commands request_defs confirmedBy_def split: prod.split)
qed
lemma dispatch_starts:
  assumes "reachable (o_device s)"
  shows "startsOnly (confirmedKinds head arg) s (dispatch env head arg s)"
proof -
  have kind: "startsOnly (confirmedKinds head arg) s (startKind env k s)" if "k \<notin> {Kind_FORCED_RECALIBRATION,
     Kind_PERSIST_SETTINGS, Kind_FACTORY_RESET, Kind_DIAGNOSTIC_WRITE_COMMAND, Kind_DIAGNOSTIC_READ_WORDS,
     Kind_DIAGNOSTIC_WRITE_WORD}" for k
    using that by (simp add: makeRequest_def confirmedBy_def)
  have known: "confirmedBy head arg Kind_ATTACH" "confirmedBy head arg Kind_READ_IDENTITY"
    by (simp_all add: confirmedBy_def)
  show ?thesis unfolding dispatch_def
    by (intro startsOnly_if)
      (use assms workflowKinds_confirmed in \<open>(simp add: kind argument_commands_start known; fail)+\<close>)
qed

lemma processCommand_starts:
  assumes "reachable (o_device s)" and "slotOf (o_device (processCommand env line s)) = Slot_busy i k"
    and "slotOf (o_device s) \<noteq> Slot_busy i k"
  shows "\<exists>head arg. splitHeadTail line = (True, head, arg) \<and> confirmedBy head arg k"
proof -
  obtain found head arg where h: "splitHeadTail line = (found, head, arg)" by (metis surj_pair)
  have "found \<and> startsOnly (confirmedKinds head arg) s (processCommand env line s)"
    using assms(2,3) dispatch_starts [OF assms(1), of head arg env]
    by (auto simp: processCommand_def h split: if_splits)
  then show ?thesis using assms(2,3) h by (auto simp: startsOnly_def)
qed

lemma poll_starts:
  assumes "driver_inv d" and "slotOf (fr_drv (snd (poll t n w d))) = Slot_busy i k"
  shows "slotOf d = Slot_busy i k"
proof (cases "d_activeValid d")
  case True
  then have "slotOf d \<noteq> Slot_free" by (simp add: slotOf_def)
  then show ?thesis using slot_step_starts [OF slot_poll [OF assms(1)] assms(2)] by blast
next
  case False
  then have "snd (poll t n w d) = pollFrame t n w d" by (intro poll_rests) blast
  then have "slotOf (fr_drv (snd (poll t n w d))) = slotOf d" by (simp add: slotOf_def)
  then show ?thesis using assms(2) by simp
qed

lemma pollDriver_starts:
  assumes "reachable (o_device s)"
  shows "startsOnly ks s (pollDriver env s)"
proof -
  let ?t = "fst (env_nowMs env (o_world s))" and ?w = "snd (env_nowMs env (o_world s))"
  obtain result fr where p: "poll ?t 1 ?w (o_device s) = (result, fr)" by (metis surj_pair)
  define s' where "s' = s\<lparr>o_device := fr_drv fr, o_world := fr_world fr\<rparr>"
  have "startsOnly ks s s'"
    using poll_starts [OF reachable_inv [OF assms], of ?t 1 ?w] p by (simp add: startsOnly_def s'_def)
  moreover have "reachable (o_device s')" using reachable_step [OF assms step_poll, of ?t 1 ?w] p by (simp add: s'_def)
  then have "startsOnly ks s' (takeAndPrint (pr_id result) s')" by (rule takeAndPrint_starts)
  ultimately have "startsOnly ks s (takeAndPrint (pr_id result) s')" "startsOnly ks s s'"
    by (auto intro: startsOnly_trans)
  then show ?thesis by (simp add: pollDriver_def ownerNowMs_eq p Let_def s'_def)
qed

lemma editor_untouched [simp]:
  "o_editor (printWorkflowUpdate s) = o_editor s"
  "o_editor (takeAndPrint oid s) = o_editor s"
  "o_editor (snd (snd (startOperation env request workflowRequest s))) = o_editor s"
proof -
  show u: "o_editor (printWorkflowUpdate s) = o_editor s" for s by (simp add: printWorkflowUpdate_def Let_def)
  show "o_editor (takeAndPrint oid s) = o_editor s" by (simp add: takeAndPrint_def Let_def u split: prod.split)
  show "o_editor (snd (snd (startOperation env request workflowRequest s))) = o_editor s"
    by (simp add: startOperation_def ownerNowMs_eq Let_def split: prod.split)
qed

lemma editor_untouched_turn [simp]:
  "o_editor (pollDriver env s) = o_editor s" "o_editor (serviceWorkflow env s) = o_editor s"
proof -
  show "o_editor (pollDriver env s) = o_editor s"
    by (simp add: pollDriver_def ownerNowMs_eq Let_def split: prod.split)
  have e: "startOperation env request b s = (st, i, t) \<Longrightarrow> o_editor t = o_editor s" for request b s st i t
    using editor_untouched(3) [of env request b s] by simp
  show "o_editor (serviceWorkflow env s) = o_editor s"
    by (auto simp: serviceWorkflow_def ownerNowMs_eq Let_def dest: e split: prod.split)
qed

lemma dangerous_answer:
  assumes "console_inv s" and "o_device u = o_device (serviceWorkflow env (pollDriver env s))"
    and "slotOf (o_device (answer env line u)) = Slot_busy i k" and "slotOf (o_device s) \<noteq> Slot_busy i k"
    and "isMaintenance k \<and> k \<noteq> Kind_SELF_TEST \<and> k \<noteq> Kind_REINIT \<or> isDiagnostic k"
  shows "\<exists>l head arg. line = Some l \<and> splitHeadTail l = (True, head, arg) \<and> confirmedBy head arg k"
proof -
  define t where "t = serviceWorkflow env (pollDriver env s)"
  have inv: "console_inv t" using assms(1) by (simp add: t_def serviceWorkflow_inv pollDriver_inv)
  have "reachable (o_device s)" "reachable (o_device t)"
    using inv assms(1) by (simp_all add: console_inv_def owner_ok_def)
  have "startsOnly workflowKinds s t"
    using startsOnly_trans [OF pollDriver_starts [OF \<open>reachable (o_device s)\<close>] serviceWorkflow_starts] by (simp add: t_def)
  moreover have "k \<notin> workflowKinds"
    using assms(5) by (auto simp: workflowKinds_def sequence_defs isDiagnostic_def)
  ultimately have t: "slotOf (o_device t) \<noteq> Slot_busy i k" using assms(4) by (auto simp: startsOnly_def)
  have u: "o_device u = o_device t" using assms(2) by (simp add: t_def)
  obtain l where l: "line = Some l" using assms(3) t u by (cases line) (auto simp: answer_def)
  have "\<exists>head arg. splitHeadTail l = (True, head, arg) \<and> confirmedBy head arg k"
    using assms(3) t l u \<open>reachable (o_device t)\<close>
    by (intro processCommand_starts [of u env l i k]) (simp_all add: answer_def)
  then show ?thesis using l by simp
qed

lemma dangerous_start:
  assumes "console_inv s" and "ownerTurn env input s = (s', rest)"
    and "slotOf (o_device s') = Slot_busy i k" and "slotOf (o_device s) \<noteq> Slot_busy i k"
    and "isMaintenance k \<and> k \<noteq> Kind_SELF_TEST \<and> k \<noteq> Kind_REINIT \<or> isDiagnostic k"
  shows "\<exists>line head arg. fst (readLine input (o_editor s)) = Some line \<and>
    splitHeadTail line = (True, head, arg) \<and> confirmedBy head arg k"
proof -
  define t where "t = serviceWorkflow env (pollDriver env s)"
  have ed: "o_editor t = o_editor s" by (simp add: t_def)
  obtain line discarded ed rest' where r: "readLine input (o_editor s) = (line, discarded, ed, rest')" by (metis surj_pair)
  define u where "u = (if discarded then warn ''Command too long; discarded'' (t\<lparr>o_editor := ed\<rparr>) else t\<lparr>o_editor := ed\<rparr>)"
  have "o_device u = o_device (serviceWorkflow env (pollDriver env s))" by (simp add: u_def t_def)
  moreover have "s' = answer env line u"
    using assms(2) by (simp add: ownerTurn_def t_def [symmetric] ed r Let_def u_def [symmetric])
  ultimately show ?thesis using dangerous_answer [OF assms(1) _ _ assms(4,5)] assms(3) r by simp
qed

subsection \<open>A bench for the program\<close>

text \<open>
  A bench for the program: a framework whose world is the time in milliseconds, with a sensor that
  acknowledges everything and answers like that of the driver's bench.
\<close>

definition benchFramework :: "u32 idf_framework" where
  "benchFramework = \<lparr>idf_transmit_receive = (\<lambda>_ _ n _ w. (0, replicate n 0, w)),
     idf_transmit = (\<lambda>_ _ _ w. (0, w)),
     idf_receive = (\<lambda>_ n _ w. (0, if n = 9 then concat (map wordBytes [0x0012, 0x3456, 0x789A])
       else if n = 3 then wordBytes 0x1440 else [], w)),
     idf_get_time = (\<lambda>w. (uint w * 1000, w)), idf_ESP_OK = 0, idf_ESP_ERR_INVALID_RESPONSE = 264,
     idf_ESP_ERR_TIMEOUT = 263, idf_ESP_ERR_INVALID_ARG = 258\<rparr>"

definition benchEnv :: "u32 console_env" where
  "benchEnv = idfConsole \<lparr>ip_framework = benchFramework, ip_probe = (\<lambda>_ _ w. (0, w)),
     ip_context = IdfI2cContext_init\<lparr>ictx_device := 1\<rparr>, ip_longBits = 32\<rparr>"

definition benchTurn :: "string \<Rightarrow> u32 \<Rightarrow> u32 owner \<Rightarrow> u32 owner" where
  "benchTurn input now s = fst (ownerTurn benchEnv input (s\<lparr>o_world := now\<rparr>))"

definition benchConsole :: "u32 owner" where
  "benchConsole = fold (benchTurn []) [1030, 1060, 1560, 1561, 1562, 1563] (appStart benchEnv 1000)"

lemma reachable_turns: "console_reachable benchEnv s \<Longrightarrow> console_reachable benchEnv (fold (benchTurn []) ts s)"
  by (induction ts arbitrary: s) (simp_all add: benchTurn_def console_turn)

lemma reachable_benchConsole: "console_reachable benchEnv benchConsole"
  unfolding benchConsole_def by (rule reachable_turns [OF console_start])

lemma benchConsole_slot: "slotOf (o_device benchConsole) = Slot_free"
  by code_simp

lemma benchConsole_persist: "slotOf (o_device (benchTurn (''persist confirm'' @ [CHR 0x0A]) 1565 benchConsole)) =
    Slot_busy \<lparr>oid_requestId = 2, oid_generation = 2\<rparr> Kind_PERSIST_SETTINGS"
  by code_simp

subsection \<open>Properties of the program\<close>

text \<open>
  C10. The program never loses track of its own work. At the end of every turn, whatever the bus, the
  sensor, the timer and the keyboard did: no result is left pending in the driver; a diagnostic
  workflow that waits is active and waits for exactly the operation that the driver has active, under
  its identity and kind, so that no workflow waits for ever on a result that was already taken; a
  finished workflow has been summarised and cleared; and the number of the next request is never 0.
\<close>
theorem console_never_loses_track:
  assumes "console_reachable env s"
  shows "\<not> d_terminalValid (o_device s) \<and>
    (wf_waiting (o_workflow s) \<longrightarrow> workflowActive (o_workflow s) \<and> d_activeValid (o_device s) \<and>
       a_id (d_active (o_device s)) = wf_operationId (o_workflow s) \<and>
       activeKind (o_device s) = wf_operation (o_workflow s)) \<and>
    \<not> wf_finished (o_workflow s) \<and> o_nextRequestId s \<noteq> 0"
proof -
  have i: "console_inv s" by (rule console_reachable_inv [OF assms])
  then have "\<not> d_terminalValid (o_device s)"
    by (auto simp: console_inv_def matched_def slotOf_def split: if_splits)
  moreover have "wf_waiting (o_workflow s) \<Longrightarrow> slotOf (o_device s) = Slot_busy (wf_operationId (o_workflow s)) (wf_operation (o_workflow s))"
    using i by (simp add: console_inv_def matched_def)
  then have "wf_waiting (o_workflow s) \<Longrightarrow> d_activeValid (o_device s) \<and>
       a_id (d_active (o_device s)) = wf_operationId (o_workflow s) \<and>
       activeKind (o_device s) = wf_operation (o_workflow s)"
    by (auto simp: slotOf_def split: if_splits)
  ultimately show ?thesis using i waiting_active by (auto simp: console_inv_def owner_ok_def)
qed

theorem console_never_loses_track_witness: "\<not> d_terminalValid (o_device benchConsole)"
  using console_never_loses_track [OF reachable_benchConsole] by blast

text \<open>
  C9. Nothing that wears or erases the sensor's memory, and no raw transfer, is started without a
  literal confirmation typed at the console: when a turn of the program leaves an operation active
  that was not active before, and it is a forced recalibration, a persistence, a factory reset or a
  diagnostic transfer, then this turn read a whole command line that names it and carries the word
  \<open>confirm\<close> in its place. Polls, results and workflows never start one.
\<close>
theorem dangerous_needs_typed_confirmation:
  assumes "console_reachable env s" and "ownerTurn env input (s\<lparr>o_world := w\<rparr>) = (s', rest)"
    and "slotOf (o_device s') = Slot_busy i k" and "slotOf (o_device s) \<noteq> Slot_busy i k"
    and "isMaintenance k \<and> k \<noteq> Kind_SELF_TEST \<and> k \<noteq> Kind_REINIT \<or> isDiagnostic k"
  shows "\<exists>line head arg. fst (readLine input (o_editor s)) = Some line \<and>
    splitHeadTail line = (True, head, arg) \<and> confirmedBy head arg k"
  using dangerous_start [OF _ assms(2,3) _ assms(5)] console_reachable_inv [OF assms(1)] assms(4) by simp

theorem dangerous_needs_typed_confirmation_witness:
  "\<exists>line head arg. fst (readLine (''persist confirm'' @ [CHR 0x0A]) (o_editor benchConsole)) = Some line \<and>
    splitHeadTail line = (True, head, arg) \<and> confirmedBy head arg Kind_PERSIST_SETTINGS"
proof -
  obtain s' rest where t: "ownerTurn benchEnv (''persist confirm'' @ [CHR 0x0A]) (benchConsole\<lparr>o_world := 1565\<rparr>) = (s', rest)"
    by fastforce
  then have "slotOf (o_device s') = Slot_busy \<lparr>oid_requestId = 2, oid_generation = 2\<rparr> Kind_PERSIST_SETTINGS"
    using benchConsole_persist by (simp add: benchTurn_def)
  from dangerous_needs_typed_confirmation [OF reachable_benchConsole t this] benchConsole_slot
  show ?thesis by simp
qed

lemma serviceWorkflow_progress:
  assumes inv: "console_inv s" and "workflowActive (o_workflow s)" and "\<not> wf_waiting (o_workflow s)"
    and "slotOf (o_device s) = Slot_free"
    and "d_nextSafeCommandValid (o_device s) \<longrightarrow>
      timeReached (fst (env_nowMs env (o_world s))) (d_nextSafeCommandMs (o_device s))"
  shows "let f' = o_workflow (serviceWorkflow env s)
    in wf_waiting f' \<and> wf_operation f' = operationForStep (wf_stepsCompleted (o_workflow s)) (o_workflow s) \<and>
         slotOf (o_device (serviceWorkflow env s)) = Slot_busy (wf_operationId f') (wf_operation f') \<or>
       f' = workflow_init \<and> o_device (serviceWorkflow env s) = o_device s"
proof -
  define f where "f = o_workflow s"
  define op where "op = operationForStep (wf_stepsCompleted f) f"
  define t where "t = s\<lparr>o_world := snd (env_nowMs env (o_world s))\<rparr>"
  have r: "reachable (o_device s)" and l: "wf_stepsCompleted f < wf_totalSteps f" and fi: "workflow_inv f"
    using inv assms(2) by (auto simp: console_inv_def owner_ok_def f_def workflow_inv_def)
  have idle: "rs_operationState (runtimeSnapshot (o_device s)) = Slot_IDLE"
    using slot_ids(1) [OF r, of undefined undefined] assms(4) by simp
  have n: "nextRequest OperationRequest_init f = (True, makeRequest op)"
    using assms(2,3) l by (simp add: nextRequest_True f_def op_def)
  obtain status oid u where u: "startOperation env (makeRequest op) True t = (status, oid, u)" by (metis surj_pair)
  have ui: "o_workflow u = f" "inProgress status \<Longrightarrow> slotOf (o_device u) = Slot_busy oid op"
    using startOperation_inv [of t True env "makeRequest op" status oid u] inv assms(3) u
    by (simp_all add: t_def f_def makeRequest_def)
  have e: "serviceWorkflow env s = (if inProgress status then u\<lparr>o_workflow := snd (markStarted oid op f)\<rparr>
      else printWorkflowUpdate (u\<lparr>o_workflow := markStartFailure f\<rparr>))"
  proof -
    have guard: "\<not> (\<not> workflowActive (o_workflow s) \<or> wf_waiting (o_workflow s))" using assms(2,3) by simp
    have safe: "\<not> (rs_operationState (runtimeSnapshot (o_device t)) \<noteq> Slot_IDLE \<or>
        rs_nextSafeCommandValid (runtimeSnapshot (o_device t)) \<and>
        \<not> timeReached (fst (env_nowMs env (o_world s))) (rs_nextSafeCommandMs (runtimeSnapshot (o_device t))))"
      using idle assms(5) by (simp add: t_def) (simp add: runtimeSnapshot_def)
    have k: "rq_kind (makeRequest op) = op" by (simp add: makeRequest_def)
    have "o_workflow t = f" by (simp add: t_def f_def)
    then show ?thesis
      unfolding serviceWorkflow_def if_not_P [OF guard] ownerNowMs_eq prod.case t_def [symmetric] Let_def if_not_P [OF safe]
      by (simp add: n u ui(1) k)
  qed
  show ?thesis
  proof (cases "inProgress status")
    case True
    have "markStarted oid op f = (True, f\<lparr>wf_operationId := oid, wf_operation := op, wf_waiting := True\<rparr>)"
      using assms(2,3) by (simp add: markStarted_def f_def op_def)
    then show ?thesis using True ui(2) by (simp add: e Let_def op_def f_def)
  next
    case False
    have "o_device u = o_device s" using startOperation_refused [OF u False] by (simp add: t_def)
    moreover have "wf_finished (markStartFailure f)" "wf_kind (markStartFailure f) \<noteq> Workflow_NONE"
      using assms(2,3) by (simp_all add: markStartFailure_def f_def workflowActive_def)
    ultimately show ?thesis using False by (simp add: e printWorkflowUpdate_def Let_def)
  qed
qed


definition benchSelfcheck :: "u32 owner" where
  "benchSelfcheck = benchTurn (''selfcheck'' @ [CHR 0x0A]) 1563
     (fold (benchTurn []) [1030, 1060, 1560, 1561, 1562] (appStart benchEnv 1000))"


end
