(* ===== verification/Scd_Names.thy ===== *)
theory Scd_Names
  imports Scd_Kinds
begin

text \<open>
  The diagnostic names of the public enumerations (include/SCD41/SCD41.h); the functions \<open>toString\<close> are
  the same functions under another name. Each enumeration is an instance of the library's class of
  finite types, so that a fact about all its names is evaluated: no two values share a name.
\<close>

primrec sensorVariantName :: "SensorVariant \<Rightarrow> string" where
  "sensorVariantName Variant_UNKNOWN = ''UNKNOWN''"
| "sensorVariantName Variant_SCD40 = ''SCD40''"
| "sensorVariantName Variant_SCD41 = ''SCD41''"
| "sensorVariantName Variant_SCD42 = ''SCD42''"
| "sensorVariantName Variant_SCD43 = ''SCD43''"

primrec operatingModeName :: "OperatingMode \<Rightarrow> string" where
  "operatingModeName Mode_UNKNOWN = ''UNKNOWN''"
| "operatingModeName Mode_IDLE = ''IDLE''"
| "operatingModeName Mode_PERIODIC = ''PERIODIC''"
| "operatingModeName Mode_LOW_POWER_PERIODIC = ''LOW_POWER_PERIODIC''"
| "operatingModeName Mode_POWER_DOWN = ''POWER_DOWN''"

primrec modeEvidenceName :: "ModeEvidence \<Rightarrow> string" where
  "modeEvidenceName Evidence_UNKNOWN = ''UNKNOWN''"
| "modeEvidenceName Evidence_ACKNOWLEDGED = ''ACKNOWLEDGED''"
| "modeEvidenceName Evidence_VERIFIED = ''VERIFIED''"

primrec operationKindName :: "OperationKind \<Rightarrow> string" where
  "operationKindName Kind_NONE = ''NONE''"
| "operationKindName Kind_ATTACH = ''ATTACH''"
| "operationKindName Kind_READ_IDENTITY = ''READ_IDENTITY''"
| "operationKindName Kind_START_PERIODIC = ''START_PERIODIC''"
| "operationKindName Kind_START_LOW_POWER_PERIODIC = ''START_LOW_POWER_PERIODIC''"
| "operationKindName Kind_STOP_PERIODIC = ''STOP_PERIODIC''"
| "operationKindName Kind_READ_DATA_READY = ''READ_DATA_READY''"
| "operationKindName Kind_FETCH_SAMPLE = ''FETCH_SAMPLE''"
| "operationKindName Kind_SINGLE_SHOT = ''SINGLE_SHOT''"
| "operationKindName Kind_SINGLE_SHOT_RHT_ONLY = ''SINGLE_SHOT_RHT_ONLY''"
| "operationKindName Kind_READ_TEMPERATURE_OFFSET = ''READ_TEMPERATURE_OFFSET''"
| "operationKindName Kind_SET_TEMPERATURE_OFFSET = ''SET_TEMPERATURE_OFFSET''"
| "operationKindName Kind_READ_SENSOR_ALTITUDE = ''READ_SENSOR_ALTITUDE''"
| "operationKindName Kind_SET_SENSOR_ALTITUDE = ''SET_SENSOR_ALTITUDE''"
| "operationKindName Kind_READ_AMBIENT_PRESSURE = ''READ_AMBIENT_PRESSURE''"
| "operationKindName Kind_SET_AMBIENT_PRESSURE = ''SET_AMBIENT_PRESSURE''"
| "operationKindName Kind_READ_ASC_ENABLED = ''READ_ASC_ENABLED''"
| "operationKindName Kind_SET_ASC_ENABLED = ''SET_ASC_ENABLED''"
| "operationKindName Kind_READ_ASC_TARGET = ''READ_ASC_TARGET''"
| "operationKindName Kind_SET_ASC_TARGET = ''SET_ASC_TARGET''"
| "operationKindName Kind_READ_ASC_INITIAL_PERIOD = ''READ_ASC_INITIAL_PERIOD''"
| "operationKindName Kind_SET_ASC_INITIAL_PERIOD = ''SET_ASC_INITIAL_PERIOD''"
| "operationKindName Kind_READ_ASC_STANDARD_PERIOD = ''READ_ASC_STANDARD_PERIOD''"
| "operationKindName Kind_SET_ASC_STANDARD_PERIOD = ''SET_ASC_STANDARD_PERIOD''"
| "operationKindName Kind_READ_CONFIGURATION = ''READ_CONFIGURATION''"
| "operationKindName Kind_POWER_DOWN = ''POWER_DOWN''"
| "operationKindName Kind_WAKE_UP = ''WAKE_UP''"
| "operationKindName Kind_REINIT = ''REINIT''"
| "operationKindName Kind_SELF_TEST = ''SELF_TEST''"
| "operationKindName Kind_FORCED_RECALIBRATION = ''FORCED_RECALIBRATION''"
| "operationKindName Kind_PERSIST_SETTINGS = ''PERSIST_SETTINGS''"
| "operationKindName Kind_FACTORY_RESET = ''FACTORY_RESET''"
| "operationKindName Kind_DIAGNOSTIC_READ_WORDS = ''DIAGNOSTIC_READ_WORDS''"
| "operationKindName Kind_DIAGNOSTIC_WRITE_COMMAND = ''DIAGNOSTIC_WRITE_COMMAND''"
| "operationKindName Kind_DIAGNOSTIC_WRITE_WORD = ''DIAGNOSTIC_WRITE_WORD''"
| "operationKindName Kind_READ_SENSOR_VARIANT = ''READ_SENSOR_VARIANT''"
| "operationKindName Kind_INVALID = ''UNKNOWN''"

primrec operationStateName :: "OperationState \<Rightarrow> string" where
  "operationStateName Slot_IDLE = ''IDLE''"
| "operationStateName Slot_ACTIVE = ''ACTIVE''"
| "operationStateName Slot_RESULT_PENDING = ''RESULT_PENDING''"

primrec operationOutcomeName :: "OperationOutcome \<Rightarrow> string" where
  "operationOutcomeName Outcome_SUCCEEDED = ''SUCCEEDED''"
| "operationOutcomeName Outcome_NO_DATA = ''NO_DATA''"
| "operationOutcomeName Outcome_FAILED = ''FAILED''"
| "operationOutcomeName Outcome_CANCELLED = ''CANCELLED''"
| "operationOutcomeName Outcome_TIMED_OUT = ''TIMED_OUT''"
| "operationOutcomeName Outcome_PARTIAL = ''PARTIAL''"
| "operationOutcomeName Outcome_INDETERMINATE = ''INDETERMINATE''"

primrec effectStateName :: "EffectState \<Rightarrow> string" where
  "effectStateName Effect_NONE = ''NONE''"
| "effectStateName Effect_NOT_ATTEMPTED = ''NOT_ATTEMPTED''"
| "effectStateName Effect_ATTEMPTED = ''ATTEMPTED''"
| "effectStateName Effect_ACKNOWLEDGED = ''ACKNOWLEDGED''"
| "effectStateName Effect_VERIFIED = ''VERIFIED''"
| "effectStateName Effect_UNKNOWN = ''UNKNOWN''"

primrec operationPhaseName :: "OperationPhase \<Rightarrow> string" where
  "operationPhaseName Phase_NONE = ''NONE''"
| "operationPhaseName Phase_WAIT_POWER_UP = ''WAIT_POWER_UP''"
| "operationPhaseName Phase_SEND_WAKE = ''SEND_WAKE''"
| "operationPhaseName Phase_WAIT_WAKE = ''WAIT_WAKE''"
| "operationPhaseName Phase_SEND_STOP = ''SEND_STOP''"
| "operationPhaseName Phase_WAIT_STOP = ''WAIT_STOP''"
| "operationPhaseName Phase_SEND_COMMAND = ''SEND_COMMAND''"
| "operationPhaseName Phase_WAIT_EXECUTION = ''WAIT_EXECUTION''"
| "operationPhaseName Phase_SEND_READY_COMMAND = ''SEND_READY_COMMAND''"
| "operationPhaseName Phase_READ_READY_RESPONSE = ''READ_READY_RESPONSE''"
| "operationPhaseName Phase_SEND_READ_COMMAND = ''SEND_READ_COMMAND''"
| "operationPhaseName Phase_READ_RESPONSE = ''READ_RESPONSE''"
| "operationPhaseName Phase_SEND_VERIFY_COMMAND = ''SEND_VERIFY_COMMAND''"
| "operationPhaseName Phase_READ_VERIFY_RESPONSE = ''READ_VERIFY_RESPONSE''"
| "operationPhaseName Phase_READ_DEFERRED_RESULT = ''READ_DEFERRED_RESULT''"

subsection \<open>The enumerations as finite types\<close>

lemma UNIV_DriverState: "UNIV = set [State_UNINIT, State_READY, State_DEGRADED, State_OFFLINE]"
  by (simp add: set_eq_iff DriverState.nchotomy)

instantiation DriverState :: enum
begin

definition enum_DriverState :: "DriverState list" where
  "enum_DriverState = [State_UNINIT, State_READY, State_DEGRADED, State_OFFLINE]"

definition enum_all_DriverState :: "(DriverState \<Rightarrow> bool) \<Rightarrow> bool" where
  "enum_all_DriverState P = list_all P enum_class.enum"

definition enum_ex_DriverState :: "(DriverState \<Rightarrow> bool) \<Rightarrow> bool" where
  "enum_ex_DriverState P = list_ex P enum_class.enum"

instance
  by standard (simp_all only: enum_DriverState_def enum_all_DriverState_def enum_ex_DriverState_def list_all_iff list_ex_iff
      flip: UNIV_DriverState, simp_all)

end

lemma UNIV_SensorVariant: "UNIV = set [Variant_UNKNOWN, Variant_SCD40, Variant_SCD41, Variant_SCD42, Variant_SCD43]"
  by (simp add: set_eq_iff SensorVariant.nchotomy)

instantiation SensorVariant :: enum
begin

definition enum_SensorVariant :: "SensorVariant list" where
  "enum_SensorVariant = [Variant_UNKNOWN, Variant_SCD40, Variant_SCD41, Variant_SCD42, Variant_SCD43]"

definition enum_all_SensorVariant :: "(SensorVariant \<Rightarrow> bool) \<Rightarrow> bool" where
  "enum_all_SensorVariant P = list_all P enum_class.enum"

definition enum_ex_SensorVariant :: "(SensorVariant \<Rightarrow> bool) \<Rightarrow> bool" where
  "enum_ex_SensorVariant P = list_ex P enum_class.enum"

instance
  by standard (simp_all only: enum_SensorVariant_def enum_all_SensorVariant_def enum_ex_SensorVariant_def list_all_iff list_ex_iff
      flip: UNIV_SensorVariant, simp_all)

end

lemma UNIV_OperatingMode: "UNIV = set [Mode_UNKNOWN, Mode_IDLE, Mode_PERIODIC, Mode_LOW_POWER_PERIODIC, Mode_POWER_DOWN]"
  by (simp add: set_eq_iff OperatingMode.nchotomy)

instantiation OperatingMode :: enum
begin

definition enum_OperatingMode :: "OperatingMode list" where
  "enum_OperatingMode = [Mode_UNKNOWN, Mode_IDLE, Mode_PERIODIC, Mode_LOW_POWER_PERIODIC, Mode_POWER_DOWN]"

definition enum_all_OperatingMode :: "(OperatingMode \<Rightarrow> bool) \<Rightarrow> bool" where
  "enum_all_OperatingMode P = list_all P enum_class.enum"

definition enum_ex_OperatingMode :: "(OperatingMode \<Rightarrow> bool) \<Rightarrow> bool" where
  "enum_ex_OperatingMode P = list_ex P enum_class.enum"

instance
  by standard (simp_all only: enum_OperatingMode_def enum_all_OperatingMode_def enum_ex_OperatingMode_def list_all_iff list_ex_iff
      flip: UNIV_OperatingMode, simp_all)

end

lemma UNIV_ModeEvidence: "UNIV = set [Evidence_UNKNOWN, Evidence_ACKNOWLEDGED, Evidence_VERIFIED]"
  by (simp add: set_eq_iff ModeEvidence.nchotomy)

instantiation ModeEvidence :: enum
begin

definition enum_ModeEvidence :: "ModeEvidence list" where
  "enum_ModeEvidence = [Evidence_UNKNOWN, Evidence_ACKNOWLEDGED, Evidence_VERIFIED]"

definition enum_all_ModeEvidence :: "(ModeEvidence \<Rightarrow> bool) \<Rightarrow> bool" where
  "enum_all_ModeEvidence P = list_all P enum_class.enum"

definition enum_ex_ModeEvidence :: "(ModeEvidence \<Rightarrow> bool) \<Rightarrow> bool" where
  "enum_ex_ModeEvidence P = list_ex P enum_class.enum"

instance
  by standard (simp_all only: enum_ModeEvidence_def enum_all_ModeEvidence_def enum_ex_ModeEvidence_def list_all_iff list_ex_iff
      flip: UNIV_ModeEvidence, simp_all)

end

lemma UNIV_OperationKind: "UNIV = set [Kind_NONE, Kind_ATTACH, Kind_READ_IDENTITY, Kind_START_PERIODIC,
     Kind_START_LOW_POWER_PERIODIC, Kind_STOP_PERIODIC, Kind_READ_DATA_READY, Kind_FETCH_SAMPLE,
     Kind_SINGLE_SHOT, Kind_SINGLE_SHOT_RHT_ONLY, Kind_READ_TEMPERATURE_OFFSET,
     Kind_SET_TEMPERATURE_OFFSET, Kind_READ_SENSOR_ALTITUDE, Kind_SET_SENSOR_ALTITUDE,
     Kind_READ_AMBIENT_PRESSURE, Kind_SET_AMBIENT_PRESSURE, Kind_READ_ASC_ENABLED,
     Kind_SET_ASC_ENABLED, Kind_READ_ASC_TARGET, Kind_SET_ASC_TARGET,
     Kind_READ_ASC_INITIAL_PERIOD, Kind_SET_ASC_INITIAL_PERIOD, Kind_READ_ASC_STANDARD_PERIOD,
     Kind_SET_ASC_STANDARD_PERIOD, Kind_READ_CONFIGURATION, Kind_POWER_DOWN, Kind_WAKE_UP,
     Kind_REINIT, Kind_SELF_TEST, Kind_FORCED_RECALIBRATION, Kind_PERSIST_SETTINGS,
     Kind_FACTORY_RESET, Kind_DIAGNOSTIC_READ_WORDS, Kind_DIAGNOSTIC_WRITE_COMMAND,
     Kind_DIAGNOSTIC_WRITE_WORD, Kind_READ_SENSOR_VARIANT, Kind_INVALID]"
  by (simp add: set_eq_iff OperationKind.nchotomy)

instantiation OperationKind :: enum
begin

definition enum_OperationKind :: "OperationKind list" where
  "enum_OperationKind = [Kind_NONE, Kind_ATTACH, Kind_READ_IDENTITY, Kind_START_PERIODIC,
     Kind_START_LOW_POWER_PERIODIC, Kind_STOP_PERIODIC, Kind_READ_DATA_READY, Kind_FETCH_SAMPLE,
     Kind_SINGLE_SHOT, Kind_SINGLE_SHOT_RHT_ONLY, Kind_READ_TEMPERATURE_OFFSET,
     Kind_SET_TEMPERATURE_OFFSET, Kind_READ_SENSOR_ALTITUDE, Kind_SET_SENSOR_ALTITUDE,
     Kind_READ_AMBIENT_PRESSURE, Kind_SET_AMBIENT_PRESSURE, Kind_READ_ASC_ENABLED,
     Kind_SET_ASC_ENABLED, Kind_READ_ASC_TARGET, Kind_SET_ASC_TARGET,
     Kind_READ_ASC_INITIAL_PERIOD, Kind_SET_ASC_INITIAL_PERIOD, Kind_READ_ASC_STANDARD_PERIOD,
     Kind_SET_ASC_STANDARD_PERIOD, Kind_READ_CONFIGURATION, Kind_POWER_DOWN, Kind_WAKE_UP,
     Kind_REINIT, Kind_SELF_TEST, Kind_FORCED_RECALIBRATION, Kind_PERSIST_SETTINGS,
     Kind_FACTORY_RESET, Kind_DIAGNOSTIC_READ_WORDS, Kind_DIAGNOSTIC_WRITE_COMMAND,
     Kind_DIAGNOSTIC_WRITE_WORD, Kind_READ_SENSOR_VARIANT, Kind_INVALID]"

definition enum_all_OperationKind :: "(OperationKind \<Rightarrow> bool) \<Rightarrow> bool" where
  "enum_all_OperationKind P = list_all P enum_class.enum"

definition enum_ex_OperationKind :: "(OperationKind \<Rightarrow> bool) \<Rightarrow> bool" where
  "enum_ex_OperationKind P = list_ex P enum_class.enum"

instance
  by standard (simp_all only: enum_OperationKind_def enum_all_OperationKind_def enum_ex_OperationKind_def list_all_iff list_ex_iff
      flip: UNIV_OperationKind, simp_all)

end

lemma UNIV_OperationState: "UNIV = set [Slot_IDLE, Slot_ACTIVE, Slot_RESULT_PENDING]"
  by (simp add: set_eq_iff OperationState.nchotomy)

instantiation OperationState :: enum
begin

definition enum_OperationState :: "OperationState list" where
  "enum_OperationState = [Slot_IDLE, Slot_ACTIVE, Slot_RESULT_PENDING]"

definition enum_all_OperationState :: "(OperationState \<Rightarrow> bool) \<Rightarrow> bool" where
  "enum_all_OperationState P = list_all P enum_class.enum"

definition enum_ex_OperationState :: "(OperationState \<Rightarrow> bool) \<Rightarrow> bool" where
  "enum_ex_OperationState P = list_ex P enum_class.enum"

instance
  by standard (simp_all only: enum_OperationState_def enum_all_OperationState_def enum_ex_OperationState_def list_all_iff list_ex_iff
      flip: UNIV_OperationState, simp_all)

end

lemma UNIV_OperationOutcome: "UNIV = set [Outcome_SUCCEEDED, Outcome_NO_DATA, Outcome_FAILED, Outcome_CANCELLED, Outcome_TIMED_OUT,
     Outcome_PARTIAL, Outcome_INDETERMINATE]"
  by (simp add: set_eq_iff OperationOutcome.nchotomy)

instantiation OperationOutcome :: enum
begin

definition enum_OperationOutcome :: "OperationOutcome list" where
  "enum_OperationOutcome = [Outcome_SUCCEEDED, Outcome_NO_DATA, Outcome_FAILED, Outcome_CANCELLED, Outcome_TIMED_OUT,
     Outcome_PARTIAL, Outcome_INDETERMINATE]"

definition enum_all_OperationOutcome :: "(OperationOutcome \<Rightarrow> bool) \<Rightarrow> bool" where
  "enum_all_OperationOutcome P = list_all P enum_class.enum"

definition enum_ex_OperationOutcome :: "(OperationOutcome \<Rightarrow> bool) \<Rightarrow> bool" where
  "enum_ex_OperationOutcome P = list_ex P enum_class.enum"

instance
  by standard (simp_all only: enum_OperationOutcome_def enum_all_OperationOutcome_def enum_ex_OperationOutcome_def list_all_iff list_ex_iff
      flip: UNIV_OperationOutcome, simp_all)

end

lemma UNIV_EffectState: "UNIV = set [Effect_NONE, Effect_NOT_ATTEMPTED, Effect_ATTEMPTED, Effect_ACKNOWLEDGED, Effect_VERIFIED,
     Effect_UNKNOWN]"
  by (simp add: set_eq_iff EffectState.nchotomy)

instantiation EffectState :: enum
begin

definition enum_EffectState :: "EffectState list" where
  "enum_EffectState = [Effect_NONE, Effect_NOT_ATTEMPTED, Effect_ATTEMPTED, Effect_ACKNOWLEDGED, Effect_VERIFIED,
     Effect_UNKNOWN]"

definition enum_all_EffectState :: "(EffectState \<Rightarrow> bool) \<Rightarrow> bool" where
  "enum_all_EffectState P = list_all P enum_class.enum"

definition enum_ex_EffectState :: "(EffectState \<Rightarrow> bool) \<Rightarrow> bool" where
  "enum_ex_EffectState P = list_ex P enum_class.enum"

instance
  by standard (simp_all only: enum_EffectState_def enum_all_EffectState_def enum_ex_EffectState_def list_all_iff list_ex_iff
      flip: UNIV_EffectState, simp_all)

end

lemma UNIV_OperationPhase: "UNIV = set [Phase_NONE, Phase_WAIT_POWER_UP, Phase_SEND_WAKE, Phase_WAIT_WAKE, Phase_SEND_STOP,
     Phase_WAIT_STOP, Phase_SEND_COMMAND, Phase_WAIT_EXECUTION, Phase_SEND_READY_COMMAND,
     Phase_READ_READY_RESPONSE, Phase_SEND_READ_COMMAND, Phase_READ_RESPONSE,
     Phase_SEND_VERIFY_COMMAND, Phase_READ_VERIFY_RESPONSE, Phase_READ_DEFERRED_RESULT]"
  by (simp add: set_eq_iff OperationPhase.nchotomy)

instantiation OperationPhase :: enum
begin

definition enum_OperationPhase :: "OperationPhase list" where
  "enum_OperationPhase = [Phase_NONE, Phase_WAIT_POWER_UP, Phase_SEND_WAKE, Phase_WAIT_WAKE, Phase_SEND_STOP,
     Phase_WAIT_STOP, Phase_SEND_COMMAND, Phase_WAIT_EXECUTION, Phase_SEND_READY_COMMAND,
     Phase_READ_READY_RESPONSE, Phase_SEND_READ_COMMAND, Phase_READ_RESPONSE,
     Phase_SEND_VERIFY_COMMAND, Phase_READ_VERIFY_RESPONSE, Phase_READ_DEFERRED_RESULT]"

definition enum_all_OperationPhase :: "(OperationPhase \<Rightarrow> bool) \<Rightarrow> bool" where
  "enum_all_OperationPhase P = list_all P enum_class.enum"

definition enum_ex_OperationPhase :: "(OperationPhase \<Rightarrow> bool) \<Rightarrow> bool" where
  "enum_ex_OperationPhase P = list_ex P enum_class.enum"

instance
  by standard (simp_all only: enum_OperationPhase_def enum_all_OperationPhase_def enum_ex_OperationPhase_def list_all_iff list_ex_iff
      flip: UNIV_OperationPhase, simp_all)

end

lemma UNIV_Err: "UNIV = set [Err_OK, Err_NOT_INITIALIZED, Err_INVALID_CONFIG, Err_I2C_ERROR, Err_TIMEOUT,
     Err_INVALID_PARAM, Err_DEVICE_NOT_FOUND, Err_CRC_MISMATCH, Err_MEASUREMENT_NOT_READY,
     Err_BUSY, Err_IN_PROGRESS, Err_COMMAND_FAILED, Err_UNSUPPORTED, Err_I2C_NACK_ADDR,
     Err_I2C_NACK_DATA, Err_I2C_NACK_READ, Err_I2C_TIMEOUT, Err_I2C_BUS, Err_OFFLINE,
     Err_RESULT_NOT_READY, Err_STALE_RESULT, Err_CANCELLED, Err_PARTIAL, Err_INDETERMINATE,
     Err_CONFIRMATION_REQUIRED, Err_RECONCILIATION_REQUIRED, Err_I2C_NACK, Err_I2C_SHORT_TRANSFER]"
  by (simp add: set_eq_iff Err.nchotomy)

instantiation Err :: enum
begin

definition enum_Err :: "Err list" where
  "enum_Err = [Err_OK, Err_NOT_INITIALIZED, Err_INVALID_CONFIG, Err_I2C_ERROR, Err_TIMEOUT,
     Err_INVALID_PARAM, Err_DEVICE_NOT_FOUND, Err_CRC_MISMATCH, Err_MEASUREMENT_NOT_READY,
     Err_BUSY, Err_IN_PROGRESS, Err_COMMAND_FAILED, Err_UNSUPPORTED, Err_I2C_NACK_ADDR,
     Err_I2C_NACK_DATA, Err_I2C_NACK_READ, Err_I2C_TIMEOUT, Err_I2C_BUS, Err_OFFLINE,
     Err_RESULT_NOT_READY, Err_STALE_RESULT, Err_CANCELLED, Err_PARTIAL, Err_INDETERMINATE,
     Err_CONFIRMATION_REQUIRED, Err_RECONCILIATION_REQUIRED, Err_I2C_NACK, Err_I2C_SHORT_TRANSFER]"

definition enum_all_Err :: "(Err \<Rightarrow> bool) \<Rightarrow> bool" where
  "enum_all_Err P = list_all P enum_class.enum"

definition enum_ex_Err :: "(Err \<Rightarrow> bool) \<Rightarrow> bool" where
  "enum_ex_Err P = list_ex P enum_class.enum"

instance
  by standard (simp_all only: enum_Err_def enum_all_Err_def enum_ex_Err_def list_all_iff list_ex_iff
      flip: UNIV_Err, simp_all)

end

subsection \<open>No two values share a name\<close>

lemma inj_by_enum: "distinct (map f enum_class.enum) \<Longrightarrow> inj f" for f :: "'a::enum \<Rightarrow> 'b"
  using UNIV_enum distinct_map by metis

lemma names_injective:
  "inj driverStateName"
  "inj sensorVariantName"
  "inj operatingModeName"
  "inj modeEvidenceName"
  "inj operationKindName"
  "inj operationStateName"
  "inj operationOutcomeName"
  "inj effectStateName"
  "inj operationPhaseName"
  "inj errorName"
  by (rule inj_by_enum, code_simp)+

end
