(* ===== verification/Scd_Format.thy ===== *)
theory Scd_Format
  imports Scd_Line
begin

text \<open>
  Formatted output: the part of C's \<open>printf\<close> that the example programs use, as an interpreter of format
  strings, and the lemmas that read a printed line back: a field without its separator ends where the
  separator is, and no two numbers have the same notation.
\<close>

subsection \<open>Formatted output\<close>

text \<open>
  The part of C's \<open>printf\<close> that the programs use: the conversions \<open>s\<close>, \<open>u\<close>, \<open>d\<close> and \<open>X\<close>, with the flags
  \<open>-\<close> and \<open>0\<close>, a width in digits or as an argument, and the length modifier \<open>l\<close>, which carries no
  information because an argument is a number and not its representation.
\<close>

datatype argument = Arg_s string | Arg_u nat | Arg_d int

record directive =
  dv_left :: bool
  dv_zero :: bool
  dv_width :: nat

definition directive_init :: directive where
  "directive_init = \<lparr>dv_left = False, dv_zero = False, dv_width = 0\<rparr>"

definition hexChar :: "nat \<Rightarrow> char" where
  "hexChar n = ''0123456789ABCDEF'' ! n"

fun hexadecimal :: "nat \<Rightarrow> string" where
  "hexadecimal n = (if n < 16 then [hexChar n] else hexadecimal (n div 16) @ [hexChar (n mod 16)])"

declare hexadecimal.simps [simp del]

fun converted :: "char \<Rightarrow> argument \<Rightarrow> string" where
  "converted c (Arg_s s) = s"
| "converted c (Arg_u n) = (if c = CHR ''X'' then hexadecimal n else decimal n)"
| "converted c (Arg_d i) = signedDecimal i"

definition padded :: "directive \<Rightarrow> string \<Rightarrow> string" where
  "padded d s =
     (if dv_left d then s @ replicate (dv_width d - length s) (CHR '' '')
      else replicate (dv_width d - length s) (if dv_zero d then CHR ''0'' else CHR '' '') @ s)"

fun printfFrom :: "directive option \<Rightarrow> string \<Rightarrow> argument list \<Rightarrow> string" where
  "printfFrom d [] args = []"
| "printfFrom None (c # fmt) args =
     (if c = CHR ''%'' then printfFrom (Some directive_init) fmt args else c # printfFrom None fmt args)"
| "printfFrom (Some d) (c # fmt) args =
     (if c = CHR ''-'' then printfFrom (Some (d\<lparr>dv_left := True\<rparr>)) fmt args
      else if c = CHR ''0'' \<and> dv_width d = 0 then printfFrom (Some (d\<lparr>dv_zero := True\<rparr>)) fmt args
      else if c = CHR ''l'' then printfFrom (Some d) fmt args
      else case digitValue c of
        Some v \<Rightarrow> if v < 10 then printfFrom (Some (d\<lparr>dv_width := dv_width d * 10 + nat v\<rparr>)) fmt args
          else (case args of a # rest \<Rightarrow> padded d (converted c a) @ printfFrom None fmt rest | [] \<Rightarrow> [])
      | None \<Rightarrow>
          (case args of
             [] \<Rightarrow> []
           | a # rest \<Rightarrow>
               (case (c = CHR ''*'', a) of
                  (True, Arg_u w) \<Rightarrow> printfFrom (Some (d\<lparr>dv_width := w\<rparr>)) fmt rest
                | _ \<Rightarrow> padded d (converted c a) @ printfFrom None fmt rest)))"

abbreviation printf :: "string \<Rightarrow> argument list \<Rightarrow> string" where
  "printf \<equiv> printfFrom None"

abbreviation u_arg :: "'a::len word \<Rightarrow> argument" where
  "u_arg w \<equiv> Arg_u (unat w)"

definition newline :: char where
  "newline = CHR 0x0A"

subsection \<open>Reading a line back\<close>

lemmas printf_defs = directive_init_def padded_def digitValue_def newline_def

lemma field [simp]:
  assumes "c \<notin> set a" "c \<notin> set b"
  shows "a @ c # x = b @ c # y \<longleftrightarrow> a = b \<and> x = y"
  using assms
proof (induction a arbitrary: b)
  case Nil
  then show ?case by (cases b) auto
next
  case (Cons d a)
  then show ?case by (cases b) auto
qed

lemmas field2 [simp] = field [where a = "a1 @ a2" and b = "b1 @ b2" for a1 a2 b1 b2, simplified]
lemmas field3 [simp] = field [where a = "a1 @ a2 @ a3" and b = "b1 @ b2 @ b3" for a1 a2 a3 b1 b2 b3, simplified]

lemma decimal_inj [simp]: "decimal m = decimal n \<longleftrightarrow> m = n"
  using digitsValue_decimal by (metis of_nat_eq_iff)

lemma ordinary_digits:
  assumes "c \<in> set (decimal n)" shows "\<exists>v < 10. c = ''0123456789'' ! v"
  using decimal_digits [OF assms] by (auto simp: digitChar_def)

lemma decimal_separators [simp]:
  "CHR '' '' \<notin> set (decimal n)" "CHR 0x0A \<notin> set (decimal n)" "CHR ''-'' \<notin> set (decimal n)"
  by (auto simp: digitChar_def less_Suc_eq numeral_eq_Suc dest!: decimal_digits)

lemma signedDecimal_inj [simp]: "signedDecimal i = signedDecimal j \<longleftrightarrow> i = j"
proof -
  have n: "CHR ''-'' # x \<noteq> decimal n" for x n using decimal_separators(3) by (metis list.set_intros(1))
  show ?thesis by (auto simp: signedDecimal_def n n [symmetric])
qed

lemma signedDecimal_separators [simp]: "CHR '' '' \<notin> set (signedDecimal i)" "CHR 0x0A \<notin> set (signedDecimal i)"
  by (simp_all add: signedDecimal_def)

lemma hexChar_value: "n < 16 \<Longrightarrow> digitValue (hexChar n) = Some (int n)"
  by (auto simp: hexChar_def digitValue_def less_Suc_eq numeral_eq_Suc)

lemma hexadecimal_separators [simp]: "CHR 0x0A \<notin> set (hexadecimal n)" "CHR '' '' \<notin> set (hexadecimal n)"
proof -
  have d: "CHR 0x0A \<noteq> hexChar v" "CHR '' '' \<noteq> hexChar v" if "v < 16" for v
    using that by (auto simp: hexChar_def less_Suc_eq numeral_eq_Suc)
  have "CHR 0x0A \<notin> set (hexadecimal n) \<and> CHR '' '' \<notin> set (hexadecimal n)"
  proof (induction n rule: hexadecimal.induct)
    case (1 n)
    then show ?case using d by (simp add: hexadecimal.simps [of n])
  qed
  then show "CHR 0x0A \<notin> set (hexadecimal n)" "CHR '' '' \<notin> set (hexadecimal n)" by simp_all
qed

lemma digitsValue_hexadecimal: "digitsValue 16 (hexadecimal n) = int n"
proof (induction n rule: hexadecimal.induct)
  case (1 n)
  show ?case
  proof (cases "n < 16")
    case True
    then show ?thesis by (simp add: hexadecimal.simps [of n] digitsValue_def hexChar_value)
  next
    case False
    then have "digitsValue 16 (hexadecimal n) = int (n div 16) * 16 + int (n mod 16)"
      using 1 by (simp add: hexadecimal.simps [of n] digitsValue_snoc hexChar_value)
    then show ?thesis by presburger
  qed
qed

lemma digitsValue_zeros: "digitsValue b (replicate k (CHR ''0'') @ s) = digitsValue b s"
  by (induction k) (simp_all add: digitsValue_def digitValue_def)

lemma padded_hexadecimal_inj [simp]:
  "replicate k (CHR ''0'') @ hexadecimal m = replicate l (CHR ''0'') @ hexadecimal n \<longleftrightarrow>
   m = n \<and> (m = n \<longrightarrow> k = l)"
  using digitsValue_hexadecimal digitsValue_zeros by (metis append_same_eq length_replicate of_nat_eq_iff)

end
