(* ===== verification/Scd_Print.thy ===== *)
theory Scd_Print
  imports Scd_Console Scd_Names Scd_Format
begin

text \<open>
  What the ESP-IDF example (examples/idf/basic/main/main.cpp) prints: the text of every value that the
  console puts out, format string by format string, and that a printed result identifies the result.
\<close>

subsection \<open>What the program prints\<close>

unbundle bit_operations_syntax

definition LOG_COLOR_RESET :: string where "LOG_COLOR_RESET = CHR 0x1B # ''[0m''"
definition LOG_COLOR_RED :: string where "LOG_COLOR_RED = CHR 0x1B # ''[31m''"
definition LOG_COLOR_GREEN :: string where "LOG_COLOR_GREEN = CHR 0x1B # ''[32m''"
definition LOG_COLOR_YELLOW :: string where "LOG_COLOR_YELLOW = CHR 0x1B # ''[33m''"
definition LOG_COLOR_CYAN :: string where "LOG_COLOR_CYAN = CHR 0x1B # ''[36m''"

text \<open>\<open>LOG_PRINT\<close>; the macro joins the format of its caller to its own.\<close>

definition logPrint :: "string \<Rightarrow> string \<Rightarrow> string \<Rightarrow> argument list \<Rightarrow> string" where
  "logPrint color tag fmt args =
     printf (''%s[%s]%s '' @ fmt @ [newline]) ([Arg_s color, Arg_s tag, Arg_s LOG_COLOR_RESET] @ args)"

definition VERSION :: string where
  "VERSION = ''1.3.2''"

text \<open>
  The rest of Version.h: the numbers, and what a build puts in: the date and time of the compiler, the
  commit and the state of the work tree, which are \<open>''unknown''\<close> unless the build says more.
\<close>

definition VERSION_MAJOR :: u16 where "VERSION_MAJOR = 1"
definition VERSION_MINOR :: u16 where "VERSION_MINOR = 3"
definition VERSION_PATCH :: u16 where "VERSION_PATCH = 2"
definition VERSION_CODE :: u32 where "VERSION_CODE = 10302"
definition VERSION_INT :: i32 where "VERSION_INT = 10302"

definition BUILD_TIMESTAMP :: "string \<Rightarrow> string \<Rightarrow> string" where
  "BUILD_TIMESTAMP date time = date @ '' '' @ time"

definition GIT_COMMIT :: string where "GIT_COMMIT = ''unknown''"
definition GIT_STATUS :: string where "GIT_STATUS = ''unknown''"

definition VERSION_FULL :: "string \<Rightarrow> string \<Rightarrow> string" where
  "VERSION_FULL date time =
     VERSION @ '' ('' @ GIT_COMMIT @ '', '' @ BUILD_TIMESTAMP date time @ '', '' @ GIT_STATUS @ '')''"

text \<open>The generated constants describe one version.\<close>

lemma version_consistent:
  "VERSION = decimal (unat VERSION_MAJOR) @ ''.'' @ decimal (unat VERSION_MINOR) @ ''.'' @ decimal (unat VERSION_PATCH)"
  "unat VERSION_CODE = unat VERSION_MAJOR * 10000 + unat VERSION_MINOR * 100 + unat VERSION_PATCH"
  "VERSION_INT = uint VERSION_CODE"
  by (simp_all add: VERSION_def VERSION_MAJOR_def VERSION_MINOR_def VERSION_PATCH_def VERSION_CODE_def
      VERSION_INT_def decimal.simps digitChar_def)

definition yesNo :: "bool \<Rightarrow> argument" where
  "yesNo b = Arg_s (if b then ''yes'' else ''no'')"

definition statusText :: "Status \<Rightarrow> string" where
  "statusText status =
     (let color =
        (if ok status then LOG_COLOR_GREEN
         else if inProgress status then LOG_COLOR_CYAN
         else if st_code status = Err_BUSY \<or> st_code status = Err_MEASUREMENT_NOT_READY then LOG_COLOR_YELLOW
         else LOG_COLOR_RED)
      in printf (''status=%s%s%s detail=%ld msg=%s'' @ [newline])
           [Arg_s color, Arg_s (errorName (st_code status)), Arg_s LOG_COLOR_RESET,
            Arg_d (st_detail status), Arg_s (st_msg status)])"

definition sampleText :: "FixedSample \<Rightarrow> string" where
  "sampleText sample =
     printf (''sample seq=%lu epoch=%lu mode=%s co2=%u temp_mC=%ld rh_mPct=%lu flags=0x%04X at=%lu'' @ [newline])
       [u_arg (fs_sequence sample), u_arg (fs_sensorEpoch sample),
        Arg_s (operatingModeName (fs_mode sample)), u_arg (fs_co2Ppm sample),
        Arg_d (fs_temperatureMilliC sample), u_arg (fs_humidityMilliPercent sample),
        u_arg (fs_flags sample), u_arg (fs_capturedAtMs sample)]"

definition configurationText :: "ConfigurationSnapshot \<Rightarrow> string" where
  "configurationText v =
     printf (''config offset_mC=%ld altitude_m=%u pressure_Pa=%lu asc=%s target_ppm=%u initial_h=%u '' @
         ''standard_h=%u verified=0x%04X dirty=0x%04X persistence_indeterminate=%s'' @ [newline])
       [Arg_d (cs_temperatureOffsetMilliC v), u_arg (cs_sensorAltitudeM v), u_arg (cs_ambientPressurePa v),
        Arg_s (if cs_ascEnabled v then ''on'' else ''off''), u_arg (cs_ascTargetPpm v),
        u_arg (cs_ascInitialPeriodHours v), u_arg (cs_ascStandardPeriodHours v),
        u_arg (cs_verifiedMask v), u_arg (cs_dirtyMask v), yesNo (cs_persistenceIndeterminate v)]"

text \<open>\<open>printResult\<close> in its four parts: two lines for every result, the value, and the settings.\<close>

definition outcomeColor :: "OperationOutcome \<Rightarrow> string" where
  "outcomeColor outcome =
     (if outcome = Outcome_SUCCEEDED then LOG_COLOR_GREEN
      else if outcome = Outcome_NO_DATA \<or> outcome = Outcome_PARTIAL \<or> outcome = Outcome_CANCELLED
      then LOG_COLOR_YELLOW
      else LOG_COLOR_RED)"

definition resultLine :: "OperationResult \<Rightarrow> string" where
  "resultLine result =
     printf (''result request=%lu generation=%lu op=%s outcome=%s%s%s effect=%s status=%s '' @
         ''callbacks=%u reconcile=%s detail=%ld'' @ [newline])
       [u_arg (oid_requestId (res_id result)), u_arg (oid_generation (res_id result)),
        Arg_s (operationKindName (res_kind result)), Arg_s (outcomeColor (res_outcome result)),
        Arg_s (operationOutcomeName (res_outcome result)), Arg_s LOG_COLOR_RESET,
        Arg_s (effectStateName (res_effect result)), Arg_s (errorName (st_code (res_status result))),
        u_arg (res_callbacksUsed result), yesNo (res_reconciliationRequired result),
        Arg_d (st_detail (res_status result))]"

definition timingLine :: "OperationResult \<Rightarrow> string" where
  "timingLine result =
     printf (''timing started=%lu completed=%lu deadline=%lu phase=%s epoch=%lu mode=%s evidence=%s '' @
         ''fields=0x%04X'' @ [newline])
       [u_arg (res_startedMs result), u_arg (res_completedMs result), u_arg (res_deadlineMs result),
        Arg_s (operationPhaseName (res_finalPhase result)), u_arg (res_sensorEpoch result),
        Arg_s (operatingModeName (res_operatingMode result)),
        Arg_s (modeEvidenceName (res_modeEvidence result)), u_arg (res_completedFieldMask result)]"

definition valueText :: "OperationKind \<Rightarrow> OperationValue \<Rightarrow> string" where
  "valueText kind v =
     (if kind = Kind_ATTACH \<or> kind = Kind_READ_IDENTITY \<or> kind = Kind_READ_SENSOR_VARIANT \<or>
         kind = Kind_WAKE_UP \<or> kind = Kind_REINIT \<or> kind = Kind_FACTORY_RESET then
        printf (''identity valid=%s serial=0x%012llX variant=%s variant_word=0x%04X epoch=%lu'' @ [newline])
          [yesNo (idn_valid (ov_identity v)), u_arg (idn_serialNumber (ov_identity v)),
           Arg_s (sensorVariantName (idn_variant (ov_identity v))),
           u_arg (idn_variantWord (ov_identity v)), u_arg (idn_sensorEpoch (ov_identity v))]
      else if kind = Kind_FETCH_SAMPLE \<or> kind = Kind_SINGLE_SHOT \<or> kind = Kind_SINGLE_SHOT_RHT_ONLY then
        (if fs_flags (ov_sample v) AND SAMPLE_FRESH \<noteq> 0 then sampleText (ov_sample v) else [])
      else if kind = Kind_READ_TEMPERATURE_OFFSET \<or> kind = Kind_SET_TEMPERATURE_OFFSET then
        printf (''value signed=%ld'' @ [newline]) [Arg_d (ov_signedValue v)]
      else if kind = Kind_READ_ASC_ENABLED \<or> kind = Kind_SET_ASC_ENABLED then
        printf (''value bool=%s'' @ [newline]) [Arg_s (if ov_boolValue v then ''true'' else ''false'')]
      else if kind = Kind_READ_SENSOR_ALTITUDE \<or> kind = Kind_SET_SENSOR_ALTITUDE \<or>
              kind = Kind_READ_AMBIENT_PRESSURE \<or> kind = Kind_SET_AMBIENT_PRESSURE \<or>
              kind = Kind_READ_ASC_TARGET \<or> kind = Kind_SET_ASC_TARGET \<or>
              kind = Kind_READ_ASC_INITIAL_PERIOD \<or> kind = Kind_SET_ASC_INITIAL_PERIOD \<or>
              kind = Kind_READ_ASC_STANDARD_PERIOD \<or> kind = Kind_SET_ASC_STANDARD_PERIOD then
        printf (''value unsigned=%lu'' @ [newline]) [u_arg (ov_value v)]
      else if kind = Kind_SELF_TEST then
        printf (''selftest raw=0x%04X'' @ [newline]) [u_arg (ov_rawWords v ! 0)]
      else if kind = Kind_FORCED_RECALIBRATION then
        printf (''frc correction_ppm=%ld raw=0x%04X'' @ [newline])
          [Arg_d (ov_signedValue v), u_arg (ov_rawWords v ! 0)]
      else if kind = Kind_READ_CONFIGURATION then configurationText (ov_configuration v)
      else if kind = Kind_READ_DATA_READY then
        printf (''data_ready=%s raw=0x%04X'' @ [newline])
          [yesNo (dr_ready (ov_dataReady v)), u_arg (dr_raw (ov_dataReady v))]
      else if kind = Kind_DIAGNOSTIC_READ_WORDS then
        concat (map (\<lambda>i. printf (''word[%u]=0x%04X'' @ [newline]) [Arg_u i, u_arg (ov_rawWords v ! i)])
          [0..<unat (ov_wordCount v)])
      else [])"

definition printsConfiguration :: "OperationKind \<Rightarrow> bool" where
  "printsConfiguration kind \<longleftrightarrow>
     kind = Kind_READ_TEMPERATURE_OFFSET \<or> kind = Kind_SET_TEMPERATURE_OFFSET \<or>
     kind = Kind_READ_SENSOR_ALTITUDE \<or> kind = Kind_SET_SENSOR_ALTITUDE \<or>
     kind = Kind_READ_AMBIENT_PRESSURE \<or> kind = Kind_SET_AMBIENT_PRESSURE \<or>
     kind = Kind_READ_ASC_ENABLED \<or> kind = Kind_SET_ASC_ENABLED \<or>
     kind = Kind_READ_ASC_TARGET \<or> kind = Kind_SET_ASC_TARGET \<or>
     kind = Kind_READ_ASC_INITIAL_PERIOD \<or> kind = Kind_SET_ASC_INITIAL_PERIOD \<or>
     kind = Kind_READ_ASC_STANDARD_PERIOD \<or> kind = Kind_SET_ASC_STANDARD_PERIOD \<or>
     kind = Kind_PERSIST_SETTINGS \<or> kind = Kind_FACTORY_RESET"

definition resultText :: "OperationResult \<Rightarrow> string" where
  "resultText result =
     resultLine result @ timingLine result @ valueText (res_kind result) (res_value result) @
     (if printsConfiguration (res_kind result)
      then configurationText (ov_configuration (res_value result)) else [])"

definition workflowColor :: "workflow \<Rightarrow> string" where
  "workflowColor f =
     (if wf_failed f \<noteq> 0 then LOG_COLOR_RED
      else if wf_warnings f \<noteq> 0 then LOG_COLOR_YELLOW else LOG_COLOR_GREEN)"

definition workflowText :: "workflow \<Rightarrow> string" where
  "workflowText f =
     printf (''workflow name=%s progress=%lu/%lu cycles=%lu/%lu pass=%lu warn=%lu fail=%lu'' @ [newline])
       [Arg_s (workflowName (wf_kind f)), u_arg (wf_stepsCompleted f), u_arg (wf_totalSteps f),
        u_arg (wf_cyclesCompleted f), u_arg (wf_cyclesTotal f), u_arg (wf_passed f),
        u_arg (wf_warnings f), u_arg (wf_failed f)]"

definition workflowSummaryText :: "workflow \<Rightarrow> string" where
  "workflowSummaryText f =
     (let outcome = (if wf_failed f \<noteq> 0 then ''FAIL'' else if wf_warnings f \<noteq> 0 then ''WARN'' else ''PASS'')
      in printf (''workflow_summary name=%s outcome=%s%s%s'' @ [newline])
           [Arg_s (workflowName (wf_kind f)), Arg_s (workflowColor f), Arg_s outcome, Arg_s LOG_COLOR_RESET])"

definition runtimeLines :: "RuntimeSnapshot \<Rightarrow> string" where
  "runtimeLines r =
     (let stateColor =
        (if rs_driverState r = State_READY then LOG_COLOR_GREEN
         else if rs_driverState r = State_DEGRADED then LOG_COLOR_YELLOW else LOG_COLOR_RED)
      in printf (''runtime bound=%s attached=%s state=%s%s%s mode=%s evidence=%s epoch=%lu reconcile=%s '' @
             ''sample=%s'' @ [newline])
           [yesNo (rs_bound r), yesNo (rs_attached r), Arg_s stateColor,
            Arg_s (driverStateName (rs_driverState r)), Arg_s LOG_COLOR_RESET,
            Arg_s (operatingModeName (rs_operatingMode r)), Arg_s (modeEvidenceName (rs_modeEvidence r)),
            u_arg (rs_sensorEpoch r), yesNo (rs_reconciliationRequired r), yesNo (rs_sampleAvailable r)] @
         printf (''slot state=%s request=%lu generation=%lu operation=%s next_due=%lu next_safe=%s%lu'' @ [newline])
           [Arg_s (operationStateName (rs_operationState r)), u_arg (oid_requestId (rs_operationId r)),
            u_arg (oid_generation (rs_operationId r)), Arg_s (operationKindName (rs_operationKind r)),
            u_arg (rs_nextDueMs r), Arg_s (if rs_nextSafeCommandValid r then [] else ''invalid/''),
            u_arg (rs_nextSafeCommandMs r)])"

definition healthLines :: "HealthSnapshot \<Rightarrow> string" where
  "healthLines h =
     printf (''health transfer_ok=%lu transfer_fail=%lu consecutive=%u expected_nack=%lu protocol_fail=%lu '' @
         ''crc_fail=%lu operation_ok=%lu operation_fail=%lu cancelled=%lu'' @ [newline])
       [u_arg (hs_totalTransferSuccess h), u_arg (hs_totalTransferFailures h),
        u_arg (hs_consecutiveTransferFailures h), u_arg (hs_expectedNacks h),
        u_arg (hs_totalProtocolFailures h), u_arg (hs_totalCrcFailures h),
        u_arg (hs_totalOperationSuccess h), u_arg (hs_totalOperationFailures h),
        u_arg (hs_totalOperationCancelled h)] @
     printf (''last_errors transfer=%s@%lu protocol=%s@%lu operation=%s@%lu op=%s request=%lu generation=%lu'' @ [newline])
       [Arg_s (errorName (st_code (hs_lastTransferError h))), u_arg (hs_lastTransferErrorMs h),
        Arg_s (errorName (st_code (hs_lastProtocolError h))), u_arg (hs_lastProtocolErrorMs h),
        Arg_s (errorName (st_code (hs_lastOperationError h))), u_arg (hs_lastOperationErrorMs h),
        Arg_s (operationKindName (hs_lastOperationErrorKind h)),
        u_arg (oid_requestId (hs_lastOperationErrorId h)), u_arg (oid_generation (hs_lastOperationErrorId h))]"

definition startedText :: "OperationId \<Rightarrow> OperationKind \<Rightarrow> u32 \<Rightarrow> string" where
  "startedText oid kind deadlineMs =
     printf (''started request=%lu generation=%lu op=%s deadline=%lu'' @ [newline])
       [u_arg (oid_requestId oid), u_arg (oid_generation oid), Arg_s (operationKindName kind), u_arg deadlineMs]"

definition workflowStartText :: "WorkflowKind \<Rightarrow> u32 \<Rightarrow> u32 \<Rightarrow> string" where
  "workflowStartText kind cycles steps =
     printf (''workflow_start name=%s cycles=%lu steps=%lu'' @ [newline])
       [Arg_s (workflowName kind), u_arg cycles, u_arg steps]"

definition foundText :: "u8 \<Rightarrow> bool \<Rightarrow> string" where
  "foundText address target =
     printf (''  Found device at 0x%02X%s'' @ [newline])
       [u_arg address, Arg_s (if target then ''  <target>'' else [])]"

definition HELP_COMMAND_WIDTH :: nat where
  "HELP_COMMAND_WIDTH = 44"

definition helpHeader :: "string \<Rightarrow> string" where
  "helpHeader title = printf (''%s=== %s ===%s'' @ [newline]) [Arg_s LOG_COLOR_CYAN, Arg_s title, Arg_s LOG_COLOR_RESET]"

definition helpSection :: "string \<Rightarrow> string" where
  "helpSection title =
     printf ([newline] @ ''%s[%s]%s'' @ [newline]) [Arg_s LOG_COLOR_GREEN, Arg_s title, Arg_s LOG_COLOR_RESET]"

definition helpItem :: "string \<Rightarrow> string \<Rightarrow> string" where
  "helpItem command description =
     printf (''  %s%-*s%s - %s'' @ [newline])
       [Arg_s LOG_COLOR_CYAN, Arg_u HELP_COMMAND_WIDTH, Arg_s command, Arg_s LOG_COLOR_RESET, Arg_s description]"

definition helpText :: string where
  "helpText = concat
    [helpHeader ''SCD41 Owner-Safe CLI v2'',
     helpSection ''Lifecycle'',
     helpItem ''help / ?'' ''Show this help'',
     helpItem ''version / ver'' ''Show library version'',
     helpItem ''scan'' ''Scan the example-owned I2C bus while idle'',
     helpItem ''probe'' ''CRC-check identity, attaching first when needed'',
     helpItem ''begin'' ''Zero-I2C bind, then start attach'',
     helpItem ''attach / recover'' ''Wake/stop and verify identity/state'',
     helpItem ''end'' ''Cancel active work and unbind without I2C'',
     helpItem ''status / drv / health'' ''Show cache-only runtime and health'',
     helpItem ''result'' ''Show the example's last consumed result'',
     helpItem ''cancel'' ''Cancel the active operation without I2C'',
     helpSection ''Measurement'',
     helpItem ''identity'' ''Read serial number and variant'',
     helpItem ''variant'' ''Read the dedicated sensor-variant word'',
     helpItem ''periodic on|lp|off'' ''Change periodic mode'',
     helpItem ''dataready'' ''Read data-ready status'',
     helpItem ''read'' ''Fetch one periodic sample'',
     helpItem ''single full|rht'' ''Run one bounded single-shot job'',
     helpItem ''sample'' ''Show the latest cached fixed-point sample'',
     helpItem ''settings / cfg'' ''Read all live configuration fields'',
     helpItem ''sleep'' ''Enter sensor power-down mode'',
     helpItem ''wake'' ''Wake and verify the sensor'',
     helpSection ''Configuration'',
     helpItem ''toffset [mC]'' ''Read or set temperature offset'',
     helpItem ''altitude [m]'' ''Read or set sensor altitude'',
     helpItem ''pressure [Pa]'' ''Read or set ambient pressure'',
     helpItem ''asc_enabled [0|1]'' ''Read or set ASC enable'',
     helpItem ''asc_target [ppm]'' ''Read or set ASC target'',
     helpItem ''asc_initial [h]'' ''Read or set ASC initial period'',
     helpItem ''asc_standard [h]'' ''Read or set ASC standard period'',
     helpSection ''Maintenance'',
     helpItem ''reinit'' ''Reload persisted sensor settings'',
     helpItem ''selftest'' ''Run the 10-second sensor self-test'',
     helpItem ''selfcheck'' ''Run identity/config/variant/sensor checks'',
     helpItem ''frc confirm <reference_ppm>'' ''Run forced recalibration'',
     helpItem ''persist confirm'' ''Write current settings to EEPROM'',
     helpItem ''factory_reset confirm'' ''Reset persisted sensor state'',
     helpSection ''Diagnostics'',
     helpItem ''stress [N]'' ''Run 1..1000 cooperative readiness reads (default 50)'',
     helpItem ''stress_mix [N]'' ''Run 1..1000 cooperative mixed read cycles (default 50)'',
     helpItem ''command read_words <cmd> <count> confirm'' ''CRC-check 1..3 words; then reattach'',
     helpItem ''command write <cmd> confirm'' ''Write a raw command; then reattach'',
     helpItem ''command write_word <cmd> <word> confirm'' ''Write a CRC word; then reattach'']"

text \<open>The message of a warning has no conversions of its own, or is its format with the argument put in.\<close>

primrec textOf :: "printed \<Rightarrow> string" where
  "textOf (Out_status status) = statusText status"
| "textOf (Out_result result) = resultText result"
| "textOf (Out_sample sample) = sampleText sample"
| "textOf (Out_started oid kind deadlineMs) = startedText oid kind deadlineMs"
| "textOf (Out_workflow f) = workflowText f"
| "textOf (Out_workflow_summary f) = workflowSummaryText f"
| "textOf (Out_workflow_start kind cycles steps) = workflowStartText kind cycles steps"
| "textOf (Out_runtime r h) = runtimeLines r @ healthLines h"
| "textOf (Out_found address target) = foundText address target"
| "textOf (Out_count n) = logPrint LOG_COLOR_CYAN ''I'' ''Found %d device(s)'' [Arg_d (int n)]"
| "textOf Out_no_result = ''result=none'' @ [newline]"
| "textOf Out_help = helpText"
| "textOf Out_version = printf (''SCD41 version=%s'' @ [newline]) [Arg_s VERSION]"
| "textOf Out_prompt = ''> ''"
| "textOf (Out_info message) = logPrint LOG_COLOR_CYAN ''I'' ''%s'' [Arg_s message]"
| "textOf (Out_warning message) = logPrint LOG_COLOR_YELLOW ''W'' ''%s'' [Arg_s message]"
| "textOf (Out_error message) = logPrint LOG_COLOR_RED ''E'' ''%s'' [Arg_s message]"

subsection \<open>Printed lines are read back\<close>

lemma names_eq [simp]:
  "driverStateName a = driverStateName a' \<longleftrightarrow> a = a'"
  "sensorVariantName b = sensorVariantName b' \<longleftrightarrow> b = b'"
  "operatingModeName c = operatingModeName c' \<longleftrightarrow> c = c'"
  "modeEvidenceName d = modeEvidenceName d' \<longleftrightarrow> d = d'"
  "operationKindName e = operationKindName e' \<longleftrightarrow> e = e'"
  "operationStateName f = operationStateName f' \<longleftrightarrow> f = f'"
  "operationOutcomeName g = operationOutcomeName g' \<longleftrightarrow> g = g'"
  "effectStateName h = effectStateName h' \<longleftrightarrow> h = h'"
  "operationPhaseName i = operationPhaseName i' \<longleftrightarrow> i = i'"
  "errorName j = errorName j' \<longleftrightarrow> j = j'"
  by (simp_all add: names_injective [THEN inj_eq])

lemma printf_status: "statusText s = ''status='' @
    (if ok s then LOG_COLOR_GREEN else if inProgress s then LOG_COLOR_CYAN
      else if st_code s = Err_BUSY \<or> st_code s = Err_MEASUREMENT_NOT_READY then LOG_COLOR_YELLOW else LOG_COLOR_RED) @
     errorName (st_code s) @ LOG_COLOR_RESET @ '' detail='' @ signedDecimal (st_detail s) @ '' msg='' @ st_msg s @ [CHR 0x0A]"
  by (simp add: statusText_def printf_defs yesNo_def Let_def)

lemma printf_result: "resultLine r = ''result request='' @ decimal (unat (oid_requestId (res_id r))) @
    '' generation='' @ decimal (unat (oid_generation (res_id r))) @ '' op='' @ operationKindName (res_kind r) @
    '' outcome='' @ outcomeColor (res_outcome r) @ operationOutcomeName (res_outcome r) @ LOG_COLOR_RESET @
    '' effect='' @ effectStateName (res_effect r) @ '' status='' @ errorName (st_code (res_status r)) @
    '' callbacks='' @ decimal (unat (res_callbacksUsed r)) @
    '' reconcile='' @ (if res_reconciliationRequired r then ''yes'' else ''no'') @
    '' detail='' @ signedDecimal (st_detail (res_status r)) @ [CHR 0x0A]"
  by (simp add: resultLine_def printf_defs yesNo_def)

lemma printf_timing: "timingLine r = ''timing started='' @ decimal (unat (res_startedMs r)) @
    '' completed='' @ decimal (unat (res_completedMs r)) @ '' deadline='' @ decimal (unat (res_deadlineMs r)) @
    '' phase='' @ operationPhaseName (res_finalPhase r) @ '' epoch='' @ decimal (unat (res_sensorEpoch r)) @
    '' mode='' @ operatingModeName (res_operatingMode r) @ '' evidence='' @ modeEvidenceName (res_modeEvidence r) @
    '' fields=0x'' @ replicate (4 - length (hexadecimal (unat (res_completedFieldMask r)))) (CHR ''0'') @
    hexadecimal (unat (res_completedFieldMask r)) @ [CHR 0x0A]"
  by (simp add: timingLine_def printf_defs yesNo_def Let_def)

lemma names_separators [simp]:
  "CHR '' '' \<notin> set (operatingModeName c)" "CHR '' '' \<notin> set (modeEvidenceName d)"
  "CHR '' '' \<notin> set (operationKindName e)" "CHR '' '' \<notin> set (operationOutcomeName g)"
  "CHR '' '' \<notin> set (effectStateName h)" "CHR '' '' \<notin> set (operationPhaseName i)"
  "CHR '' '' \<notin> set (errorName j)"
  by (cases c; simp) (cases d; simp; fail | cases e; simp; fail | cases g; simp; fail | cases h; simp; fail |
     cases i; simp; fail | cases j; simp; fail)+

lemmas color_defs = LOG_COLOR_RED_def LOG_COLOR_GREEN_def LOG_COLOR_YELLOW_def LOG_COLOR_CYAN_def LOG_COLOR_RESET_def

lemma color_separators [simp]:
  "CHR '' '' \<notin> set (outcomeColor out)" "CHR '' '' \<notin> set LOG_COLOR_RED" "CHR '' '' \<notin> set LOG_COLOR_GREEN"
  "CHR '' '' \<notin> set LOG_COLOR_YELLOW" "CHR '' '' \<notin> set LOG_COLOR_CYAN" "CHR '' '' \<notin> set LOG_COLOR_RESET"
  by (simp_all add: outcomeColor_def color_defs)

lemma length_colors [simp]:
  "length LOG_COLOR_RED = 5" "length LOG_COLOR_GREEN = 5" "length LOG_COLOR_YELLOW = 5"
  "length LOG_COLOR_CYAN = 5" "length (outcomeColor out) = 5"
  by (simp_all add: color_defs outcomeColor_def)

lemma OperationId_eq: "a = b \<longleftrightarrow> oid_requestId a = oid_requestId b \<and> oid_generation a = oid_generation b"
  for a b :: OperationId
  by (auto intro: OperationId.equality)

lemma outcome_inj [simp]:
  "outcomeColor a @ operationOutcomeName a @ x = outcomeColor b @ operationOutcomeName b @ x \<longleftrightarrow> a = b"
  using append_eq_append_conv [of "outcomeColor a" "outcomeColor b"] by auto

text \<open>
  C40. Results are told apart by what is printed: two results with the same text have the same
  identity, kind, outcome, effect, status code and detail, number of callbacks, times, phase, epoch,
  mode, evidence and field mask. The fields are separated without ambiguity, and no two values of an
  enumeration share a name.
\<close>
theorem printed_results_identify:
  assumes "resultText r = resultText r'"
  shows "res_id r = res_id r' \<and> res_kind r = res_kind r' \<and> res_outcome r = res_outcome r' \<and>
    res_effect r = res_effect r' \<and> st_code (res_status r) = st_code (res_status r') \<and>
    st_detail (res_status r) = st_detail (res_status r') \<and> res_callbacksUsed r = res_callbacksUsed r' \<and>
    res_reconciliationRequired r = res_reconciliationRequired r' \<and> res_startedMs r = res_startedMs r' \<and>
    res_completedMs r = res_completedMs r' \<and> res_deadlineMs r = res_deadlineMs r' \<and>
    res_finalPhase r = res_finalPhase r' \<and> res_sensorEpoch r = res_sensorEpoch r' \<and>
    res_operatingMode r = res_operatingMode r' \<and> res_modeEvidence r = res_modeEvidence r' \<and>
    res_completedFieldMask r = res_completedFieldMask r'"
  using assms
  by (simp add: resultText_def printf_result printf_timing OperationId_eq word_unat_eq_iff [symmetric]
      split: if_splits)

theorem printed_results_identify_witness:
  "res_kind OperationResult_init = res_kind (OperationResult_init\<lparr>res_status := Status_Error Err_RESULT_NOT_READY ''gone'' 0\<rparr>)"
proof -
  have "resultText OperationResult_init =
      resultText (OperationResult_init\<lparr>res_status := Status_Error Err_RESULT_NOT_READY ''gone'' 0\<rparr>)"
    by (simp add: resultText_def resultLine_def timingLine_def OperationResult_init_def)
  from printed_results_identify [OF this] show ?thesis by blast
qed

lemma statusText_inj: "inj statusText"
  by (rule injI) (simp add: printf_status)

end
