(* ===== verification/Scd_Arduino.thy ===== *)
theory Scd_Arduino
  imports Scd_Console
begin

text \<open>
  The Arduino example program (examples/01_basic_bringup_cli/main.cpp) and its helpers: the parsing
  functions of examples/common/CommandHandler.h, the line reader of CliShell.h, the bus scanner of
  I2cScanner.h and the board of BoardConfig.h. Its functions work on the state of the ESP-IDF program,
  \<open>owner\<close>, because both have the same globals; what differs is the platform: Wire and \<open>millis\<close> instead
  of the ESP-IDF calls, and Arduino's String instead of fixed lines.
\<close>

subsection \<open>The platform\<close>

text \<open>
  The class String of the Arduino core is not part of the repository: its methods are arguments. A
  String stands for its characters; \<open>sl_remove s i\<close> is what \<open>s.remove(i)\<close> leaves and \<open>sl_append s c\<close>
  what \<open>s += c\<close> makes of it.
\<close>

record string_class =
  sl_length :: "string \<Rightarrow> nat"
  sl_charAt :: "string \<Rightarrow> nat \<Rightarrow> char"
  sl_equals :: "string \<Rightarrow> string \<Rightarrow> bool"
  sl_indexOf :: "string \<Rightarrow> char \<Rightarrow> int"
  sl_substring :: "string \<Rightarrow> nat \<Rightarrow> nat \<Rightarrow> string"
  sl_substringFrom :: "string \<Rightarrow> nat \<Rightarrow> string"
  sl_trim :: "string \<Rightarrow> string"
  sl_remove :: "string \<Rightarrow> nat \<Rightarrow> string"
  sl_append :: "string \<Rightarrow> char \<Rightarrow> string"
  sl_c_str :: "string \<Rightarrow> string"

record 'w arduino_platform =
  ap_wire :: "'w wire_framework"
  ap_getTimeOut :: "'w \<Rightarrow> u16 \<times> 'w"
  ap_string :: string_class
  ap_longBits :: nat

abbreviation same :: "'w arduino_platform \<Rightarrow> string \<Rightarrow> string \<Rightarrow> bool" where
  "same ap \<equiv> sl_equals (ap_string ap)"

subsection \<open>Parsing\<close>

definition ch_splitHeadTail :: "string_class \<Rightarrow> string \<Rightarrow> bool \<times> string \<times> string" where
  "ch_splitHeadTail sl input =
     (let split = sl_indexOf sl input (CHR '' '')
      in if split < 0 then (let head = sl_trim sl input in (sl_length sl head > 0, head, []))
         else (let head = sl_trim sl (sl_substring sl input 0 (nat split));
                   tail = sl_trim sl (sl_substringFrom sl input (nat split + 1))
               in (sl_length sl head > 0, head, tail)))"

definition ch_parseInt32 :: "string_class \<Rightarrow> nat \<Rightarrow> string \<Rightarrow> i32 \<Rightarrow> bool \<times> i32" where
  "ch_parseInt32 sl longBits token outValue =
     (if sl_length sl token = 0 then (False, outValue)
      else case strtol longBits (sl_c_str sl token) of (value, rest, erange) \<Rightarrow>
        if erange \<or> rest = sl_c_str sl token \<or> rest \<noteq> [] \<or> value < - (2 ^ 31) \<or> value > 2 ^ 31 - 1
        then (False, outValue) else (True, value))"

definition ch_parseU16 :: "string_class \<Rightarrow> nat \<Rightarrow> string \<Rightarrow> u16 \<Rightarrow> bool \<times> u16" where
  "ch_parseU16 sl longBits token outValue =
     (if sl_length sl token = 0 \<or> sl_charAt sl token 0 = CHR ''-'' then (False, outValue)
      else case strtoul longBits (sl_c_str sl token) of (value, rest, erange) \<Rightarrow>
        if erange \<or> rest = sl_c_str sl token \<or> rest \<noteq> [] \<or> value > 0xFFFF
        then (False, outValue) else (True, word_of_int value))"

definition ch_parseU32 :: "string_class \<Rightarrow> nat \<Rightarrow> string \<Rightarrow> u32 \<Rightarrow> bool \<times> u32" where
  "ch_parseU32 sl longBits token outValue =
     (if sl_length sl token = 0 \<or> sl_charAt sl token 0 = CHR ''-'' then (False, outValue)
      else case strtoul longBits (sl_c_str sl token) of (value, rest, erange) \<Rightarrow>
        if erange \<or> rest = sl_c_str sl token \<or> rest \<noteq> [] \<or> value > 0xFFFFFFFF
        then (False, outValue) else (True, word_of_int value))"

definition ch_parseBool01 :: "string_class \<Rightarrow> string \<Rightarrow> bool \<Rightarrow> bool \<times> bool" where
  "ch_parseBool01 sl token outValue =
     (if sl_equals sl token ''1'' \<or> sl_equals sl token ''on'' \<or> sl_equals sl token ''true'' \<or>
         sl_equals sl token ''enable'' then (True, True)
      else if sl_equals sl token ''0'' \<or> sl_equals sl token ''off'' \<or> sl_equals sl token ''false'' \<or>
              sl_equals sl token ''disable'' then (True, False)
      else (False, outValue))"

subsection \<open>Reading lines\<close>

text \<open>
  The static variables of \<open>readLine\<close>, and its loop over what the serial port holds; like the loop of
  the other program it gives up after 128 characters.
\<close>

abbreviation MAX_LINE_LENGTH :: nat where "MAX_LINE_LENGTH \<equiv> 127"

record shell =
  sh_buffer :: string
  sh_overflowed :: bool

definition shell_init :: shell where
  "shell_init = \<lparr>sh_buffer = [], sh_overflowed = False\<rparr>"

fun shellLoop :: "string_class \<Rightarrow> nat \<Rightarrow> string \<Rightarrow> shell \<Rightarrow> string option \<times> shell \<times> string" where
  "shellLoop sl 0 input sh = (None, sh, input)"
| "shellLoop sl (Suc n) [] sh = (None, sh, [])"
| "shellLoop sl (Suc n) (c # input) sh =
     (if c = CHR 0x08 \<or> c = CHR 0x7F then
        shellLoop sl n input
          (if \<not> sh_overflowed sh \<and> sl_length sl (sh_buffer sh) > 0
           then sh\<lparr>sh_buffer := sl_remove sl (sh_buffer sh) (sl_length sl (sh_buffer sh) - 1)\<rparr> else sh)
      else if c = CHR 0x0D \<or> c = CHR 0x0A then
        (if sh_overflowed sh then shellLoop sl n input shell_init
         else if sl_length sl (sh_buffer sh) = 0 then shellLoop sl n input sh
         else (let outLine = sl_trim sl (sh_buffer sh)
               in (if sl_length sl outLine > 0 then Some outLine else None, sh\<lparr>sh_buffer := []\<rparr>, input)))
      else if sh_overflowed sh then shellLoop sl n input sh
      else if sl_length sl (sh_buffer sh) < MAX_LINE_LENGTH
      then shellLoop sl n input (sh\<lparr>sh_buffer := sl_append sl (sh_buffer sh) c\<rparr>)
      else shellLoop sl n input \<lparr>sh_buffer = [], sh_overflowed = True\<rparr>)"

definition shellReadLine :: "string_class \<Rightarrow> string \<Rightarrow> shell \<Rightarrow> string option \<times> shell \<times> string" where
  "shellReadLine sl input sh = shellLoop sl (MAX_LINE_LENGTH + 1) input sh"

subsection \<open>The bus\<close>

fun wireScanFrom :: "'w wire_framework \<Rightarrow> u8 list \<Rightarrow> nat \<Rightarrow> 'w \<Rightarrow> printed list \<times> nat \<times> 'w" where
  "wireScanFrom fw [] count w = ([], count, w)"
| "wireScanFrom fw (address # addresses) count w =
     (case wire_endTransmission fw True (wire_beginTransmission fw address w) of (error, w) \<Rightarrow>
        if error = 0
        then (case wireScanFrom fw addresses (count + 1) w of (printed, count, w) \<Rightarrow>
                (Out_found address (address = 0x62) # printed, count, w))
        else wireScanFrom fw addresses count w)"

definition wireScan :: "'w arduino_platform \<Rightarrow> 'w \<Rightarrow> printed list \<times> 'w" where
  "wireScan ap w =
     (case ap_getTimeOut ap w of (previousTimeout, w) \<Rightarrow>
      case wireScanFrom (ap_wire ap) (map word_of_nat [1..<127]) 0 (wire_setTimeOut (ap_wire ap) 50 w) of
        (printed, count, w) \<Rightarrow>
          (Out_info ''Scanning I2C bus...'' # printed @
             [if count = 0 then Out_warning ''No I2C devices found'' else Out_count count],
           wire_setTimeOut (ap_wire ap) previousTimeout w))"

definition initI2c :: "'w arduino_platform \<Rightarrow> 'w \<Rightarrow> bool \<times> 'w" where
  "initI2c ap w = initWire (ap_wire ap) 8 9 400000 50 w"

subsection \<open>The program\<close>

definition ard_millis :: "'w arduino_platform \<Rightarrow> 'w owner \<Rightarrow> u32 \<times> 'w owner" where
  "ard_millis ap s = (case wire_millis (ap_wire ap) (o_world s) of (now, w) \<Rightarrow> (now, s\<lparr>o_world := w\<rparr>))"

definition ard_operationBudgetMs :: "'w Config \<Rightarrow> OperationKind \<Rightarrow> u32" where
  "ard_operationBudgetMs config kind =
     lim_maxWaitMs (limits kind) + ucast (lim_maxCallbacks (limits kind)) * cfg_transferTimeoutMs config + 1000"

definition ard_printWorkflowUpdate :: "'w owner \<Rightarrow> 'w owner" where
  "ard_printWorkflowUpdate s =
     (if wf_kind (o_workflow s) = Workflow_NONE then s
      else (let s = say (Out_workflow (o_workflow s)) s
            in if wf_finished (o_workflow s)
               then (say (Out_workflow_summary (o_workflow s)) s)\<lparr>o_workflow := workflow_init\<rparr>
               else s))"

definition ard_takeAndPrint :: "OperationId \<Rightarrow> 'w owner \<Rightarrow> 'w owner" where
  "ard_takeAndPrint oid s =
     (case takeResult oid OperationResult_init (o_device s) of (status, result, d) \<Rightarrow>
        let s = s\<lparr>o_device := d\<rparr>
        in if \<not> ok status then printStatus status s
           else
             (let s = say (Out_result result) (s\<lparr>o_lastResult := result, o_lastResultValid := True\<rparr>);
                  (accepted, f) = acceptResult result (o_workflow s);
                  s = s\<lparr>o_workflow := f\<rparr>
              in if accepted then ard_printWorkflowUpdate s else s))"

definition ard_pollDriver :: "'w arduino_platform \<Rightarrow> 'w owner \<Rightarrow> 'w owner" where
  "ard_pollDriver ap s =
     (case ard_millis ap s of (now, s) \<Rightarrow>
      case poll now 1 (o_world s) (o_device s) of (result, fr) \<Rightarrow>
        let s = s\<lparr>o_device := fr_drv fr, o_world := fr_world fr\<rparr>
        in if pr_state result = Slot_RESULT_PENDING then ard_takeAndPrint (pr_id result) s
           else if \<not> ok (pr_status result) \<and> \<not> inProgress (pr_status result)
           then printStatus (pr_status result) s else s)"

definition ard_ownerConfig :: "'w arduino_platform \<Rightarrow> 'w Config" where
  "ard_ownerConfig ap = Config_init
     \<lparr>cfg_transfer := Some (wireTransfer (ap_wire ap)), cfg_transferUser := 1,
      cfg_transferTimeoutMs := 50\<rparr>"

definition ard_bindDriver :: "'w arduino_platform \<Rightarrow> 'w owner \<Rightarrow> bool \<times> 'w owner" where
  "ard_bindDriver ap s =
     (let s = s\<lparr>o_config := ard_ownerConfig ap\<rparr>
      in case driverBegin (o_config s) (o_device s) of (status, d) \<Rightarrow>
           (ok status, printStatus status (s\<lparr>o_device := d\<rparr>)))"

definition ard_startOperation ::
    "'w arduino_platform \<Rightarrow> OperationRequest \<Rightarrow> bool \<Rightarrow> 'w owner \<Rightarrow> Status \<times> OperationId \<times> 'w owner" where
  "ard_startOperation ap request workflowRequest s =
     (if workflowActive (o_workflow s) \<and> \<not> workflowRequest then
        (let status = Status_Error Err_BUSY ''Diagnostic workflow active'' 0
         in (status, OperationId_init, printStatus status s))
      else
        (case ard_millis ap s of (now, s) \<Rightarrow>
         let options = \<lparr>op_requestId = o_nextRequestId s, op_nowMs = now,
               op_deadlineMs = now + ard_operationBudgetMs (o_config s) (rq_kind request)\<rparr>;
             s = s\<lparr>o_nextRequestId := o_nextRequestId s + 1\<rparr>;
             s = (if o_nextRequestId s = 0 then s\<lparr>o_nextRequestId := 1\<rparr> else s)
         in case start request options OperationId_init (o_device s) of (status, oid, d) \<Rightarrow>
            let s = printStatus status (s\<lparr>o_device := d\<rparr>)
            in if inProgress status
               then (status, oid, say (Out_started oid (rq_kind request) (op_deadlineMs options)) s)
               else (status, OperationId_init, s)))"

definition ard_serviceWorkflow :: "'w arduino_platform \<Rightarrow> 'w owner \<Rightarrow> 'w owner" where
  "ard_serviceWorkflow ap s =
     (if \<not> workflowActive (o_workflow s) \<or> wf_waiting (o_workflow s) then s
      else
        (case ard_millis ap s of (nowMs, s) \<Rightarrow>
         let runtime = runtimeSnapshot (o_device s)
         in if rs_operationState runtime \<noteq> Slot_IDLE \<or>
               (rs_nextSafeCommandValid runtime \<and> \<not> timeReached nowMs (rs_nextSafeCommandMs runtime)) then s
            else
              (case nextRequest OperationRequest_init (o_workflow s) of (offered, request) \<Rightarrow>
                 if \<not> offered then s
                 else
                   (case ard_startOperation ap request True s of (status, oid, s) \<Rightarrow>
                      if inProgress status
                      then s\<lparr>o_workflow := snd (markStarted oid (rq_kind request) (o_workflow s))\<rparr>
                      else ard_printWorkflowUpdate (s\<lparr>o_workflow := markStartFailure (o_workflow s)\<rparr>)))))"

definition ard_startWorkflow :: "'w arduino_platform \<Rightarrow> WorkflowKind \<Rightarrow> u32 \<Rightarrow> 'w owner \<Rightarrow> 'w owner" where
  "ard_startWorkflow ap kind cycles s =
     (let runtime = runtimeSnapshot (o_device s)
      in if rs_operationState runtime \<noteq> Slot_IDLE then
           printStatus (Status_Error Err_BUSY ''Operation active'' 0) s
         else
           (case workflowBegin kind cycles (rs_operatingMode runtime) (o_workflow s) of (begun, f) \<Rightarrow>
              let s = s\<lparr>o_workflow := f\<rparr>
              in if \<not> begun then
                   printStatus (Status_Error Err_BUSY
                     (if kind = Workflow_SELFCHECK then ''Selfcheck requires attached idle mode''
                      else ''Workflow requires an attached active sensor'') 0) s
                 else ard_serviceWorkflow ap
                   (say (Out_workflow_start kind (wf_cyclesTotal f) (wf_totalSteps f)) s)))"

subsection \<open>Its commands\<close>

definition ard_startRequest :: "'w arduino_platform \<Rightarrow> OperationRequest \<Rightarrow> 'w owner \<Rightarrow> 'w owner" where
  "ard_startRequest ap request s = snd (snd (ard_startOperation ap request False s))"

abbreviation ard_startKind :: "'w arduino_platform \<Rightarrow> OperationKind \<Rightarrow> 'w owner \<Rightarrow> 'w owner" where
  "ard_startKind ap kind \<equiv> ard_startRequest ap (makeRequest kind)"

definition ard_command_scan :: "'w arduino_platform \<Rightarrow> 'w owner \<Rightarrow> 'w owner" where
  "ard_command_scan ap s =
     (case ard_millis ap s of (nowMs, s) \<Rightarrow>
      let runtime = runtimeSnapshot (o_device s)
      in if rs_operationState runtime \<noteq> Slot_IDLE then
           printStatus (Status_Error Err_BUSY ''Operation active'' 0) s
         else if rs_nextSafeCommandValid runtime \<and> \<not> timeReached nowMs (rs_nextSafeCommandMs runtime) then
           printStatus (Status_Error Err_BUSY ''Sensor safety window active'' 0) s
         else (case wireScan ap (o_world s) of (printed, w) \<Rightarrow>
                 s\<lparr>o_world := w, o_out := o_out s @ printed\<rparr>))"

definition ard_command_end :: "'w owner \<Rightarrow> 'w owner" where
  "ard_command_end s =
     (let before = runtimeSnapshot (o_device s);
          s = s\<lparr>o_device := driverEnd (o_device s)\<rparr>
      in if rs_operationState before \<noteq> Slot_IDLE then ard_takeAndPrint (rs_operationId before) s else s)"

definition ard_command_begin :: "'w arduino_platform \<Rightarrow> 'w owner \<Rightarrow> 'w owner" where
  "ard_command_begin ap s =
     (case ard_bindDriver ap (ard_command_end s) of (bound, s) \<Rightarrow>
        if bound then ard_startKind ap Kind_ATTACH s else s)"

definition ard_command_probe :: "'w arduino_platform \<Rightarrow> 'w owner \<Rightarrow> 'w owner" where
  "ard_command_probe ap s =
     (case (if rs_bound (runtimeSnapshot (o_device s)) then (True, s) else ard_bindDriver ap s) of (bound, s) \<Rightarrow>
        if \<not> bound then s
        else (let runtime = runtimeSnapshot (o_device s)
              in ard_startKind ap
                   (if rs_attached runtime \<and> \<not> rs_reconciliationRequired runtime
                    then Kind_READ_IDENTITY else Kind_ATTACH) s))"

definition ard_command_cancel :: "'w arduino_platform \<Rightarrow> 'w owner \<Rightarrow> 'w owner" where
  "ard_command_cancel ap s =
     (let runtime = runtimeSnapshot (o_device s);
          wasActive = workflowActive (o_workflow s);
          s = (if wasActive then s\<lparr>o_workflow := requestStop (o_workflow s)\<rparr> else s)
      in if wasActive \<and> \<not> wf_waiting (o_workflow s) then ard_printWorkflowUpdate s
         else
           (case ard_millis ap s of (now, s) \<Rightarrow>
            case cancel (rs_operationId runtime) now (o_device s) of (status, d) \<Rightarrow>
              let s = printStatus status (s\<lparr>o_device := d\<rparr>)
              in if ok status then ard_takeAndPrint (rs_operationId runtime) s else s))"

definition ard_command_periodic :: "'w arduino_platform \<Rightarrow> string \<Rightarrow> 'w owner \<Rightarrow> 'w owner" where
  "ard_command_periodic ap arg s =
     (if same ap arg ''on'' then ard_startKind ap Kind_START_PERIODIC s
      else if same ap arg ''lp'' then ard_startKind ap Kind_START_LOW_POWER_PERIODIC s
      else if same ap arg ''off'' then ard_startKind ap Kind_STOP_PERIODIC s
      else warn ''Usage: periodic on|lp|off'' s)"

definition ard_command_single :: "'w arduino_platform \<Rightarrow> string \<Rightarrow> 'w owner \<Rightarrow> 'w owner" where
  "ard_command_single ap arg s =
     (let kind = (if same ap arg ''rht'' then Kind_SINGLE_SHOT_RHT_ONLY else Kind_SINGLE_SHOT)
      in if same ap arg ''full'' \<or> same ap arg ''rht'' then ard_startKind ap kind s
         else warn ''Usage: single full|rht'' s)"

definition ard_command_sample :: "'w owner \<Rightarrow> 'w owner" where
  "ard_command_sample s =
     (case peekLatestSample FixedSample_init (o_device s) of (status, sample) \<Rightarrow>
        if ok status then say (Out_sample sample) s else printStatus status s)"

definition ard_command_toffset :: "'w arduino_platform \<Rightarrow> string \<Rightarrow> 'w owner \<Rightarrow> 'w owner" where
  "ard_command_toffset ap arg s =
     (if sl_length (ap_string ap) arg = 0 then ard_startKind ap Kind_READ_TEMPERATURE_OFFSET s
      else case ch_parseInt32 (ap_string ap) (ap_longBits ap) arg 0 of (parsed, value) \<Rightarrow>
        if parsed then
          ard_startRequest ap (setTemperatureOffsetMilliC value)
            (if value > 20000 \<and> value \<le> 175000
             then warn ''Temperature offset exceeds datasheet-recommended 0..20000 mC'' s else s)
        else warn ''Usage: toffset [mC]'' s)"

definition parseOptionalU32 :: "'w arduino_platform \<Rightarrow> string \<Rightarrow> u32 \<Rightarrow> bool \<times> u32" where
  "parseOptionalU32 ap text value =
     (if sl_length (ap_string ap) text > 0 then ch_parseU32 (ap_string ap) (ap_longBits ap) text value
      else (False, value))"

text \<open>The commands with one unsigned argument, or none to read the setting.\<close>

definition ard_command_number :: "'w arduino_platform \<Rightarrow> string \<Rightarrow> string \<Rightarrow> 'w owner \<Rightarrow> 'w owner" where
  "ard_command_number ap head arg s =
     (case parseOptionalU32 ap arg 0 of (supplied, value) \<Rightarrow>
         if sl_length (ap_string ap) arg > 0 \<and> \<not> supplied then warn ''Expected an unsigned integer'' s
         else if supplied \<and> \<not> same ap head ''pressure'' \<and> value > 65535 then
           warn ''Value must fit in 16 bits'' s
         else ard_startRequest ap
           (if same ap head ''altitude'' then
              (if supplied then setSensorAltitudeM (ucast value) else makeRequest Kind_READ_SENSOR_ALTITUDE)
            else if same ap head ''pressure'' then
              (if supplied then setAmbientPressurePa value else makeRequest Kind_READ_AMBIENT_PRESSURE)
            else if same ap head ''asc_target'' then
              (if supplied then setAscTargetPpm (ucast value) else makeRequest Kind_READ_ASC_TARGET)
            else if same ap head ''asc_initial'' then
              (if supplied then setAscInitialPeriodHours (ucast value)
               else makeRequest Kind_READ_ASC_INITIAL_PERIOD)
            else
              (if supplied then setAscStandardPeriodHours (ucast value)
               else makeRequest Kind_READ_ASC_STANDARD_PERIOD)) s)"

definition ard_command_asc_enabled :: "'w arduino_platform \<Rightarrow> string \<Rightarrow> 'w owner \<Rightarrow> 'w owner" where
  "ard_command_asc_enabled ap arg s =
     (if sl_length (ap_string ap) arg = 0 then ard_startKind ap Kind_READ_ASC_ENABLED s
      else case ch_parseBool01 (ap_string ap) arg False of (parsed, enabled) \<Rightarrow>
        if parsed then ard_startRequest ap (setAscEnabled enabled) s
        else warn ''Usage: asc_enabled [0|1]'' s)"

definition ard_command_frc :: "'w arduino_platform \<Rightarrow> string \<Rightarrow> 'w owner \<Rightarrow> 'w owner" where
  "ard_command_frc ap arg s =
     (case ch_splitHeadTail (ap_string ap) arg of (found, confirm, reference) \<Rightarrow>
      case ch_parseU16 (ap_string ap) (ap_longBits ap) reference 0 of (parsed, ppm) \<Rightarrow>
        if \<not> found \<or> \<not> same ap confirm ''confirm'' \<or> \<not> parsed
        then warn ''use 'frc confirm <reference_ppm>' to update calibration history'' s
        else ard_startRequest ap (forcedRecalibration ppm) s)"

definition ard_command_persist :: "'w arduino_platform \<Rightarrow> string \<Rightarrow> 'w owner \<Rightarrow> 'w owner" where
  "ard_command_persist ap arg s =
     (if \<not> same ap arg ''confirm'' then warn ''use 'persist confirm' to write EEPROM'' s
      else ard_startRequest ap persistSettings s)"

definition ard_command_factory_reset :: "'w arduino_platform \<Rightarrow> string \<Rightarrow> 'w owner \<Rightarrow> 'w owner" where
  "ard_command_factory_reset ap arg s =
     (if \<not> same ap arg ''confirm'' then warn ''use 'factory_reset confirm' to erase/reset settings'' s
      else ard_startRequest ap factoryReset s)"

definition ard_raw_read_words :: "'w arduino_platform \<Rightarrow> string \<Rightarrow> 'w owner \<Rightarrow> 'w owner" where
  "ard_raw_read_words ap arguments s =
     (case ch_splitHeadTail (ap_string ap) arguments of (found1, commandText, remainder) \<Rightarrow>
      case ch_splitHeadTail (ap_string ap) remainder of (found2, countText, confirm) \<Rightarrow>
      case ch_parseU16 (ap_string ap) (ap_longBits ap) commandText 0 of (parsed1, command) \<Rightarrow>
      case ch_parseU32 (ap_string ap) (ap_longBits ap) countText 0 of (parsed2, count) \<Rightarrow>
        if \<not> found1 \<or> \<not> found2 \<or> \<not> parsed1 \<or> \<not> parsed2 \<or> count = 0 \<or> count > 3 \<or> \<not> same ap confirm ''confirm''
        then warn ''use 'command read_words <cmd> <count> confirm' for a raw read'' s
        else ard_startRequest ap (diagnosticReadWords command (ucast count)) s)"

definition ard_raw_write :: "'w arduino_platform \<Rightarrow> string \<Rightarrow> 'w owner \<Rightarrow> 'w owner" where
  "ard_raw_write ap arguments s =
     (case ch_splitHeadTail (ap_string ap) arguments of (found, commandText, confirm) \<Rightarrow>
      case ch_parseU16 (ap_string ap) (ap_longBits ap) commandText 0 of (parsed, command) \<Rightarrow>
        if \<not> found \<or> \<not> parsed \<or> \<not> same ap confirm ''confirm''
        then warn ''use 'command write <cmd> confirm' for a raw command'' s
        else ard_startRequest ap (diagnosticWriteCommand command) s)"

definition ard_raw_write_word :: "'w arduino_platform \<Rightarrow> string \<Rightarrow> 'w owner \<Rightarrow> 'w owner" where
  "ard_raw_write_word ap arguments s =
     (case ch_splitHeadTail (ap_string ap) arguments of (found1, commandText, remainder) \<Rightarrow>
      case ch_splitHeadTail (ap_string ap) remainder of (found2, wordText, confirm) \<Rightarrow>
      case ch_parseU16 (ap_string ap) (ap_longBits ap) commandText 0 of (parsed1, command) \<Rightarrow>
      case ch_parseU16 (ap_string ap) (ap_longBits ap) wordText 0 of (parsed2, word) \<Rightarrow>
        if \<not> found1 \<or> \<not> found2 \<or> \<not> parsed1 \<or> \<not> parsed2 \<or> \<not> same ap confirm ''confirm''
        then warn ''use 'command write_word <cmd> <word> confirm' for raw data'' s
        else ard_startRequest ap (diagnosticWriteWord command word) s)"

definition ard_command_raw :: "'w arduino_platform \<Rightarrow> string \<Rightarrow> 'w owner \<Rightarrow> 'w owner" where
  "ard_command_raw ap arg s =
     (case ch_splitHeadTail (ap_string ap) arg of (found, sub, arguments) \<Rightarrow>
        if \<not> found then warn ''Usage: command read_words|write|write_word ...'' s
        else if same ap sub ''read_words'' then ard_raw_read_words ap arguments s
        else if same ap sub ''write'' then ard_raw_write ap arguments s
        else if same ap sub ''write_word'' then ard_raw_write_word ap arguments s
        else warn ''Usage: command read_words|write|write_word ...'' s)"

definition ard_command_stress :: "'w arduino_platform \<Rightarrow> string \<Rightarrow> string \<Rightarrow> 'w owner \<Rightarrow> 'w owner" where
  "ard_command_stress ap head arg s =
     (case (if sl_length (ap_string ap) arg = 0 then (True, DEFAULT_STRESS_CYCLES)
            else ch_parseU32 (ap_string ap) (ap_longBits ap) arg DEFAULT_STRESS_CYCLES) of (parsed, cycles) \<Rightarrow>
        if \<not> parsed then warn ''Usage: stress [1..1000] / stress_mix [1..1000]'' s
        else if cycles = 0 \<or> cycles > MAX_STRESS_CYCLES then warn ''Stress cycle count must be 1..1000'' s
        else ard_startWorkflow ap (if same ap head ''stress'' then Workflow_STRESS else Workflow_STRESS_MIX) cycles s)"

text \<open>The commands that are answered while a workflow is active.\<close>

definition ard_allowedDuringWorkflow :: "'w arduino_platform \<Rightarrow> string \<Rightarrow> bool" where
  "ard_allowedDuringWorkflow ap head \<longleftrightarrow>
     same ap head ''help'' \<or> same ap head ''?'' \<or> same ap head ''version'' \<or> same ap head ''ver'' \<or>
     same ap head ''status'' \<or> same ap head ''drv'' \<or> same ap head ''health'' \<or> same ap head ''result'' \<or>
     same ap head ''cancel''"

text \<open>The chain of comparisons after the test for an active workflow.\<close>

definition ard_dispatch :: "'w arduino_platform \<Rightarrow> string \<Rightarrow> string \<Rightarrow> 'w owner \<Rightarrow> 'w owner" where
  "ard_dispatch ap head arg s =
     (if same ap head ''help'' \<or> same ap head ''?'' then say Out_help s
      else if same ap head ''version'' \<or> same ap head ''ver'' then say Out_version s
      else if same ap head ''scan'' then ard_command_scan ap s
      else if same ap head ''begin'' then ard_command_begin ap s
      else if same ap head ''probe'' then ard_command_probe ap s
      else if same ap head ''attach'' \<or> same ap head ''recover'' then ard_startKind ap Kind_ATTACH s
      else if same ap head ''end'' then ard_command_end s
      else if same ap head ''status'' \<or> same ap head ''drv'' \<or> same ap head ''health''
      then say (Out_runtime (runtimeSnapshot (o_device s)) (d_health (o_device s))) s
      else if same ap head ''result''
      then (if o_lastResultValid s then say (Out_result (o_lastResult s)) s else say Out_no_result s)
      else if same ap head ''cancel'' then ard_command_cancel ap s
      else if same ap head ''identity'' then ard_startKind ap Kind_READ_IDENTITY s
      else if same ap head ''variant'' then ard_startKind ap Kind_READ_SENSOR_VARIANT s
      else if same ap head ''periodic'' then ard_command_periodic ap arg s
      else if same ap head ''dataready'' then ard_startKind ap Kind_READ_DATA_READY s
      else if same ap head ''read'' then ard_startKind ap Kind_FETCH_SAMPLE s
      else if same ap head ''single'' then ard_command_single ap arg s
      else if same ap head ''sample'' then ard_command_sample s
      else if same ap head ''settings'' \<or> same ap head ''cfg'' then ard_startKind ap Kind_READ_CONFIGURATION s
      else if same ap head ''sleep'' then ard_startKind ap Kind_POWER_DOWN s
      else if same ap head ''wake'' then ard_startKind ap Kind_WAKE_UP s
      else if same ap head ''toffset'' then ard_command_toffset ap arg s
      else if same ap head ''altitude'' \<or> same ap head ''pressure'' \<or> same ap head ''asc_target'' \<or>
              same ap head ''asc_initial'' \<or> same ap head ''asc_standard''
      then ard_command_number ap head arg s
      else if same ap head ''asc_enabled'' then ard_command_asc_enabled ap arg s
      else if same ap head ''reinit'' then ard_startKind ap Kind_REINIT s
      else if same ap head ''selftest'' then ard_startKind ap Kind_SELF_TEST s
      else if same ap head ''selfcheck''
      then (if sl_length (ap_string ap) arg \<noteq> 0 then warn ''Usage: selfcheck'' s else ard_startWorkflow ap Workflow_SELFCHECK 1 s)
      else if same ap head ''frc'' then ard_command_frc ap arg s
      else if same ap head ''persist'' then ard_command_persist ap arg s
      else if same ap head ''factory_reset'' then ard_command_factory_reset ap arg s
      else if same ap head ''command'' then ard_command_raw ap arg s
      else if same ap head ''stress'' \<or> same ap head ''stress_mix'' then ard_command_stress ap head arg s
      else warn (''Unknown command: '' @ sl_c_str (ap_string ap) head) s)"

definition ard_processCommand :: "'w arduino_platform \<Rightarrow> string \<Rightarrow> 'w owner \<Rightarrow> 'w owner" where
  "ard_processCommand ap line s =
     (case ch_splitHeadTail (ap_string ap) line of (found, head, arg) \<Rightarrow>
        if \<not> found then s
        else if workflowActive (o_workflow s) \<and> \<not> ard_allowedDuringWorkflow ap head then
          printStatus (Status_Error Err_BUSY ''Diagnostic workflow active'' 0) s
        else ard_dispatch ap head arg s)"

subsection \<open>Setup and loop\<close>

text \<open>\<open>setup\<close> after the serial port is open, and one turn of \<open>loop\<close>.\<close>

definition ard_setup :: "'w arduino_platform \<Rightarrow> 'w \<Rightarrow> 'w owner" where
  "ard_setup ap w =
     (let s = say (Out_info ''SCD41 owner-safe bring-up CLI'') (owner_init w)
      in case initI2c ap (o_world s) of (initialised, w) \<Rightarrow>
        let s = s\<lparr>o_world := w\<rparr>;
            s = (if \<not> initialised then say (Out_error ''I2C initialization failed'') s
                 else case ard_bindDriver ap s of (bound, s) \<Rightarrow> if bound then ard_startKind ap Kind_ATTACH s else s)
        in say Out_prompt (say Out_help s))"

definition ard_turn :: "'w arduino_platform \<Rightarrow> string \<Rightarrow> shell \<Rightarrow> 'w owner \<Rightarrow> 'w owner \<times> shell \<times> string" where
  "ard_turn ap input sh s =
     (let s = ard_serviceWorkflow ap (ard_pollDriver ap s)
      in case shellReadLine (ap_string ap) input sh of (line, sh, rest) \<Rightarrow>
           (case line of None \<Rightarrow> s | Some l \<Rightarrow> say Out_prompt (ard_processCommand ap l s), sh, rest))"

end
