(* ===== verification/Scd_Arduino_Same.thy ===== *)
theory Scd_Arduino_Same
  imports Scd_Arduino
begin

text \<open>
  The Arduino program does what the ESP-IDF program does: function by function, on the platform
  \<open>arduinoConsole\<close>, and for every command line that is neat, which is to say printable, short and
  without spaces at its ends. What is used of Arduino's String is the predicate \<open>string_laws\<close>, the
  documented behaviour of its methods on text without null characters.
\<close>

subsection \<open>The platform\<close>

definition string_laws :: "string_class \<Rightarrow> bool" where
  "string_laws sl \<longleftrightarrow> (\<forall>s. CHR 0x00 \<notin> set s \<longrightarrow>
     sl_length sl s = length s \<and> sl_c_str sl s = s \<and>
     (\<forall>i < length s. sl_charAt sl s i = s ! i) \<and>
     (\<forall>t. sl_equals sl s t \<longleftrightarrow> s = t) \<and>
     (\<forall>c. sl_indexOf sl s c = (case lineFind c s of None \<Rightarrow> -1 | Some i \<Rightarrow> int i)) \<and>
     (\<forall>a b. a \<le> b \<longrightarrow> b \<le> length s \<longrightarrow> sl_substring sl s a b = take (b - a) (drop a s)) \<and>
     (\<forall>a \<le> length s. sl_substringFrom sl s a = drop a s) \<and>
     sl_trim sl s = rev (dropWhile isSpace (rev (dropWhile isSpace s))) \<and>
     (\<forall>i < length s. sl_remove sl s i = take i s) \<and>
     (\<forall>c. sl_append sl s c = s @ [c]))"

definition arduinoConsole :: "'w arduino_platform \<Rightarrow> 'w console_env" where
  "arduinoConsole ap = \<lparr>env_nowMs = wire_millis (ap_wire ap), env_transfer = wireTransfer (ap_wire ap),
     env_transferUser = 1, env_scan = wireScan ap, env_longBits = ap_longBits ap\<rparr>"

lemma arduinoConsole_sel [simp]:
  "env_nowMs (arduinoConsole ap) = wire_millis (ap_wire ap)" "env_transfer (arduinoConsole ap) = wireTransfer (ap_wire ap)"
  "env_transferUser (arduinoConsole ap) = 1" "env_scan (arduinoConsole ap) = wireScan ap"
  "env_longBits (arduinoConsole ap) = ap_longBits ap"
  by (simp_all add: arduinoConsole_def)

subsection \<open>Functions of the platform alone\<close>

lemma same_functions:
  "ard_printWorkflowUpdate = printWorkflowUpdate"
  "ard_takeAndPrint = takeAndPrint"
  "ard_operationBudgetMs = operationBudgetMs"
  "ard_millis ap = ownerNowMs (arduinoConsole ap)"
  "ard_ownerConfig ap = ownerConfig (arduinoConsole ap)"
proof -
  show p: "ard_printWorkflowUpdate = printWorkflowUpdate"
    by (rule ext) (simp only: ard_printWorkflowUpdate_def printWorkflowUpdate_def)
  show "ard_takeAndPrint = takeAndPrint" by (intro ext) (simp only: ard_takeAndPrint_def takeAndPrint_def p)
  show "ard_operationBudgetMs = operationBudgetMs" by (intro ext) (simp only: ard_operationBudgetMs_def operationBudgetMs_def)
  show "ard_millis ap = ownerNowMs (arduinoConsole ap)" by (rule ext) (simp add: ard_millis_def ownerNowMs_def)
  show "ard_ownerConfig ap = ownerConfig (arduinoConsole ap)" by (simp add: ard_ownerConfig_def ownerConfig_def)
qed

lemma same_operations:
  "ard_pollDriver ap = pollDriver (arduinoConsole ap)"
  "ard_bindDriver ap = bindDriver (arduinoConsole ap)"
  "ard_startOperation ap = startOperation (arduinoConsole ap)"
  by (intro ext; simp only: same_functions ard_pollDriver_def pollDriver_def ard_bindDriver_def bindDriver_def
     ard_startOperation_def startOperation_def)+

lemma same_workflows:
  "ard_serviceWorkflow ap = serviceWorkflow (arduinoConsole ap)"
  "ard_startWorkflow ap = startWorkflow (arduinoConsole ap)"
  "ard_startRequest ap = startRequest (arduinoConsole ap)"
proof -
  show s: "ard_serviceWorkflow ap = serviceWorkflow (arduinoConsole ap)"
    by (rule ext) (simp only: ard_serviceWorkflow_def serviceWorkflow_def same_functions same_operations)
  show "ard_startWorkflow ap = startWorkflow (arduinoConsole ap)"
    by (intro ext) (simp only: ard_startWorkflow_def startWorkflow_def s)
  show "ard_startRequest ap = startRequest (arduinoConsole ap)"
    by (intro ext) (simp only: ard_startRequest_def startRequest_def same_operations)
qed

lemmas same_platform = same_functions same_operations same_workflows

lemma same_simple_commands:
  "ard_command_scan ap = command_scan (arduinoConsole ap)"
  "ard_command_begin ap = command_begin (arduinoConsole ap)"
  "ard_command_probe ap = command_probe (arduinoConsole ap)"
  "ard_command_end = command_end"
  "ard_command_cancel ap = command_cancel (arduinoConsole ap)"
  "ard_command_sample = command_sample"
proof -
  show e: "ard_command_end = command_end" by (rule ext) (simp only: ard_command_end_def command_end_def same_platform)
  show "ard_command_scan ap = command_scan (arduinoConsole ap)"
    by (rule ext) (simp only: ard_command_scan_def command_scan_def same_platform arduinoConsole_sel)
  show "ard_command_begin ap = command_begin (arduinoConsole ap)"
    by (rule ext) (simp only: ard_command_begin_def command_begin_def same_platform e)
  show "ard_command_probe ap = command_probe (arduinoConsole ap)"
    by (rule ext) (simp only: ard_command_probe_def command_probe_def same_platform)
  show "ard_command_cancel ap = command_cancel (arduinoConsole ap)"
    by (rule ext) (simp only: ard_command_cancel_def command_cancel_def same_platform)
  show "ard_command_sample = command_sample" by (rule ext) (simp only: ard_command_sample_def command_sample_def)
qed

subsection \<open>Neat lines\<close>

definition printable :: "char \<Rightarrow> bool" where
  "printable c \<longleftrightarrow> 32 \<le> (of_char c :: int) \<and> (of_char c :: int) \<le> 126"

definition plainText :: "string \<Rightarrow> bool" where
  "plainText s \<longleftrightarrow> (\<forall>c \<in> set s. printable c) \<and> length s < CLI_LINE_CAPACITY"

definition neat :: "string \<Rightarrow> bool" where
  "neat s \<longleftrightarrow> plainText s \<and> tight s"

lemma printable_facts: "printable c \<Longrightarrow> c \<noteq> CHR 0x00 \<and> (isSpace c \<longleftrightarrow> blank c) \<and> (blank c \<longleftrightarrow> c = CHR '' '')"
  by (auto simp: printable_def isSpace_def blank_def)

lemma plain_facts:
  assumes "plainText s"
  shows "CHR 0x00 \<notin> set s" "c_str s = s" "lineIs s x \<longleftrightarrow> s = x"
    "rev (dropWhile isSpace (rev (dropWhile isSpace s))) = trimmed s" "trimCopy s = trimmed s"
proof -
  show n: "CHR 0x00 \<notin> set s" using assms printable_facts by (auto simp: plainText_def)
  show c: "c_str s = s" using n by (auto simp: c_str_def takeWhile_eq_all_conv)
  show "lineIs s x \<longleftrightarrow> s = x" by (simp add: lineIs_def c)
  show "trimCopy s = trimmed s" using assms by (simp add: plainText_def trimCopy_eq)
  have d: "dropWhile isSpace t = dropWhile blank t" if "\<forall>c \<in> set t. printable c" for t
    using that printable_facts by (induction t) auto
  have "\<forall>c \<in> set (rev (dropWhile blank s)). printable c"
    using assms by (auto simp: plainText_def dest: set_dropWhileD)
  then show "rev (dropWhile isSpace (rev (dropWhile isSpace s))) = trimmed s"
    using assms d by (simp add: plainText_def trimmed_def)
qed

lemma plain_take: "plainText s \<Longrightarrow> plainText (take n s)" and plain_drop: "plainText s \<Longrightarrow> plainText (drop n s)"
  by (auto simp: plainText_def dest: in_set_takeD in_set_dropD)

lemma set_trimmed: "set (trimmed s) \<subseteq> set s"
  by (auto simp: trimmed_def dest!: set_dropWhileD)

lemma tight_trimmed: "tight (trimmed s)"
proof -
  define r where "r = rev (dropWhile blank s)"
  have e: "trimmed s = rev (dropWhile blank r)" by (simp add: trimmed_def r_def)
  show ?thesis
  proof (cases "dropWhile blank r = []")
    case True
    then show ?thesis by (simp add: e tight_def)
  next
    case False
    then have l: "\<not> blank (last (trimmed s))" using hd_dropWhile [of blank r] by (simp add: e last_rev)
    have "last (dropWhile blank r) = last r" using False by (metis takeWhile_dropWhile_id last_appendR)
    moreover have "r \<noteq> []" using False by auto
    ultimately have "hd (trimmed s) = hd (dropWhile blank s)" using False by (simp add: e hd_rev r_def last_rev)
    moreover have "dropWhile blank s \<noteq> []" using \<open>r \<noteq> []\<close> by (simp add: r_def)
    ultimately show ?thesis using l hd_dropWhile [of blank s] by (simp add: tight_def)
  qed
qed

lemma neat_trimmed: "plainText s \<Longrightarrow> neat (trimmed s)"
  using set_trimmed [of s] length_trimmed [of s] tight_trimmed [of s] by (auto simp: neat_def plainText_def)

lemma trimmed_tight: "tight s \<Longrightarrow> trimmed s = s"
  using trimmed_pad [of "[]" "[]" s] by simp

lemma lineFind_Some: "lineFind c l = Some i \<Longrightarrow> i < length l \<and> l ! i = c \<and> c \<notin> set (take i l)"
proof (induction l arbitrary: i)
  case (Cons d l)
  then show ?case by (cases i) (auto split: if_splits)
qed simp

lemma neat_head: "neat s \<Longrightarrow> CHR '' '' \<notin> set (take i s) \<Longrightarrow> neat (take i s)"
proof -
  assume s: "neat s" and n: "CHR '' '' \<notin> set (take i s)"
  have "\<not> blank c" if "c \<in> set (take i s)" for c
    using that n s printable_facts in_set_takeD [OF that] by (auto simp: neat_def plainText_def)
  then have "tight (take i s)" unfolding tight_def by (metis hd_in_set last_in_set)
  then show "neat (take i s)" using s by (simp add: neat_def plain_take)
qed

lemma same_splitHeadTail:
  assumes laws: "string_laws sl" and s: "neat s"
  shows "ch_splitHeadTail sl s = splitHeadTail s"
    and "splitHeadTail s = (found, head, arg) \<Longrightarrow> neat head \<and> neat arg"
proof -
  have p: "plainText s" "tight s" using s by (simp_all add: neat_def)
  note f = plain_facts [OF p(1)]
  have ts: "trimCopy s = s" using f p by (simp add: trimmed_tight)
  have L: "sl_trim sl t = trimmed t" "sl_length sl t = length t" if "plainText t" for t
    using that plain_facts [OF that] laws by (simp_all add: string_laws_def)
  have "neat []" by (simp add: neat_def plainText_def tight_def)
  have "ch_splitHeadTail sl s = splitHeadTail s \<and>
    (splitHeadTail s = (found, head, arg) \<longrightarrow> neat head \<and> neat arg)"
  proof (cases "lineFind (CHR '' '') s")
    case None
    then have "sl_indexOf sl s (CHR '' '') = -1" using f(1) laws by (simp add: string_laws_def)
    then show ?thesis using None s \<open>neat []\<close> p by (auto simp: ch_splitHeadTail_def splitHeadTail_def ts L trimmed_tight)
  next
    case (Some i)
    then have i: "i < length s" "CHR '' '' \<notin> set (take i s)" using lineFind_Some by blast+
    have x: "sl_indexOf sl s (CHR '' '') = int i" "sl_substring sl s 0 i = take i s"
      "sl_substringFrom sl s (Suc i) = drop (Suc i) s"
      using f(1) laws Some i(1) by (simp_all add: string_laws_def)
    have h: "neat (take i s)" by (rule neat_head [OF s i(2)])
    have d: "plainText (drop (Suc i) s)" by (rule plain_drop [OF p(1)])
    note t = neat_trimmed [OF d]
    have n: "trimmed (take i s) = take i s" using h by (simp add: neat_def trimmed_tight)
    have a: "lineAssign (take i s) = (True, take i s)" "lineAssign (drop (Suc i) s) = (True, drop (Suc i) s)"
      using p(1) by (auto simp: lineAssign_def plainText_def)
    have pt: "plainText (take i s)" "plainText (trimmed (drop (Suc i) s))" using h t by (simp_all add: neat_def)
    show ?thesis using t h
      by (auto simp: ch_splitHeadTail_def splitHeadTail_def ts Some x L d n a plain_facts(5) pt Let_def)
  qed
  then show "ch_splitHeadTail sl s = splitHeadTail s"
    and "splitHeadTail s = (found, head, arg) \<Longrightarrow> neat head \<and> neat arg" by blast+
qed

subsection \<open>Commands\<close>

lemma digitsValue_nonneg:
  assumes "\<forall>c \<in> set cs. isDigitOf b c" and "0 \<le> b"
  shows "0 \<le> digitsValue b cs"
  using assms(1)
proof (induction cs rule: rev_induct)
  case Nil
  then show ?case by (simp add: digitsValue_def)
next
  case (snoc c cs)
  have "0 \<le> the (digitValue c)" using snoc.prems by (auto simp: isDigitOf_def digitValue_def Let_def split: if_splits)
  then show ?case using snoc assms(2) by (simp add: digitsValue_snoc)
qed

lemma numberPrefix_base: "numberPrefix s = (b, t) \<Longrightarrow> 0 \<le> b"
  by (auto simp: numberPrefix_def split: list.splits if_splits)

lemma scanNumber_nonneg: "0 \<le> fst (scanNumber s)"
proof -
  define t where "t = dropWhile isSpace s"
  define u where "u = (if t \<noteq> [] \<and> (hd t = CHR ''-'' \<or> hd t = CHR ''+'') then tl t else t)"
  obtain b r where r: "numberPrefix u = (b, r)" by fastforce
  have "0 \<le> digitsValue b (takeWhile (isDigitOf b) r)"
    using numberPrefix_base [OF r] by (intro digitsValue_nonneg) (auto dest: set_takeWhileD)
  then show ?thesis by (simp add: scanNumber_def t_def [symmetric] u_def [symmetric] r Let_def)
qed

lemma same_parsers:
  assumes "string_laws sl" and "neat s"
  shows "ch_parseInt32 sl n s v32 = parseI32 n s v32" "ch_parseU32 sl n s w32 = parseU32 n s w32"
    "ch_parseU16 sl n s w16 = parseU16 n s w16" "ch_parseBool01 sl s b = parseBool s b"
    "sl_length sl s = length s" "sl_c_str sl s = c_str s" "sl_equals sl s x \<longleftrightarrow> lineIs s x"
proof -
  have p: "plainText s" using assms(2) by (simp add: neat_def)
  note f = plain_facts [OF p]
  have L: "sl_length sl s = length s" "sl_c_str sl s = s" "\<And>i. i < length s \<Longrightarrow> sl_charAt sl s i = s ! i"
    "\<And>t. sl_equals sl s t \<longleftrightarrow> s = t"
    using assms(1) f(1) by (simp_all add: string_laws_def)
  show "sl_length sl s = length s" "sl_c_str sl s = c_str s" "sl_equals sl s x \<longleftrightarrow> lineIs s x" by (simp_all add: L f)
  have c: "sl_length sl s = 0 \<or> sl_charAt sl s 0 = CHR ''-'' \<longleftrightarrow> s = [] \<or> lineAt s 0 = CHR ''-''"
    using L(1) L(3) [of 0] by (auto simp: lineAt_def)
  show "ch_parseInt32 sl n s v32 = parseI32 n s v32" by (simp add: ch_parseInt32_def parseI32_def L f)
  show "ch_parseU32 sl n s w32 = parseU32 n s w32"
    unfolding ch_parseU32_def parseU32_def c by (simp add: L f)
  show "ch_parseBool01 sl s b = parseBool s b" by (simp add: ch_parseBool01_def parseBool_def L f)
  obtain num rest erange where v: "strtoul n s = (num, rest, erange)" by (metis surj_pair)
  have nonneg: "0 \<le> num"
    using v scanNumber_nonneg [of s] by (auto simp: strtoul_def split: if_splits prod.splits)
  have w: "(word_of_int num :: u32) > 0xFFFF \<longleftrightarrow> num > 0xFFFF" if "num \<le> 0xFFFFFFFF"
    using that nonneg by (simp add: word_less_alt uint_word_of_int)
  have u: "ucast (word_of_int num :: u32) = (word_of_int num :: u16)"
    by (simp add: ucast_eq uint_word_of_int_eq word_of_int_eq_iff)
  show "ch_parseU16 sl n s w16 = parseU16 n s w16"
    unfolding ch_parseU16_def parseU16_def parseU32_def c
    using w u by (auto simp: L f v)
qed

lemma same_argument_commands:
  assumes laws: "string_laws (ap_string ap)" and head: "neat head" and arg: "neat arg"
  shows "ard_command_periodic ap arg = command_periodic (arduinoConsole ap) arg"
    "ard_command_single ap arg = command_single (arduinoConsole ap) arg"
    "ard_command_toffset ap arg = command_toffset (arduinoConsole ap) arg"
    "ard_command_number ap head arg = command_number (arduinoConsole ap) head arg"
    "ard_command_asc_enabled ap arg = command_asc_enabled (arduinoConsole ap) arg"
    "ard_command_persist ap arg = command_persist (arduinoConsole ap) arg"
    "ard_command_factory_reset ap arg = command_factory_reset (arduinoConsole ap) arg"
    "ard_command_stress ap head arg = command_stress (arduinoConsole ap) head arg"
proof -
  note h = same_parsers [OF laws head] and a = same_parsers [OF laws arg]
  note f = plain_facts(3) [OF arg [unfolded neat_def, THEN conjunct1]]
  show "ard_command_periodic ap arg = command_periodic (arduinoConsole ap) arg"
    by (rule ext) (simp only: ard_command_periodic_def command_periodic_def same_platform a)
  show "ard_command_single ap arg = command_single (arduinoConsole ap) arg"
    by (rule ext) (auto simp: ard_command_single_def command_single_def same_platform a f)
  show "ard_command_toffset ap arg = command_toffset (arduinoConsole ap) arg"
    by (rule ext) (simp only: ard_command_toffset_def command_toffset_def same_platform a length_0_conv arduinoConsole_sel)
  show "ard_command_number ap head arg = command_number (arduinoConsole ap) head arg"
  proof
    fix s
    obtain parsed num where n: "parseU32 (ap_longBits ap) arg 0 = (parsed, num)" by fastforce
    show "ard_command_number ap head arg s = command_number (arduinoConsole ap) head arg s"
    proof (cases "arg = []")
      case True
      have o: "parseOptionalU32 ap arg 0 = (False, 0)"
        by (simp only: parseOptionalU32_def a) (simp add: True)
      show ?thesis unfolding ard_command_number_def command_number_def o prod.case h a same_platform
        by (simp add: True)
    next
      case False
      then have o: "parseOptionalU32 ap arg 0 = (parsed, num)" by (simp add: parseOptionalU32_def a n)
      show ?thesis unfolding ard_command_number_def command_number_def o prod.case h a same_platform
        by (cases parsed) (simp_all add: False n)
    qed
  qed
  show "ard_command_asc_enabled ap arg = command_asc_enabled (arduinoConsole ap) arg"
    by (rule ext) (simp only: ard_command_asc_enabled_def command_asc_enabled_def same_platform a length_0_conv)
  show "ard_command_persist ap arg = command_persist (arduinoConsole ap) arg"
    by (rule ext) (simp only: ard_command_persist_def command_persist_def same_platform a)
  show "ard_command_factory_reset ap arg = command_factory_reset (arduinoConsole ap) arg"
    by (rule ext) (simp only: ard_command_factory_reset_def command_factory_reset_def same_platform a)
  show "ard_command_stress ap head arg = command_stress (arduinoConsole ap) head arg"
    by (rule ext) (simp only: ard_command_stress_def command_stress_def same_platform a h length_0_conv arduinoConsole_sel)
qed

lemma same_frc:
  assumes laws: "string_laws (ap_string ap)" and arg: "neat arg"
  shows "ard_command_frc ap arg = command_frc (arduinoConsole ap) arg"
proof
  fix s
  obtain found confirm reference where p: "splitHeadTail arg = (found, confirm, reference)" by (metis surj_pair)
  note n = same_splitHeadTail(2) [OF laws arg p]
  show "ard_command_frc ap arg s = command_frc (arduinoConsole ap) arg s"
    by (simp only: ard_command_frc_def command_frc_def same_platform same_splitHeadTail(1) [OF laws arg] p prod.case
        same_parsers [OF laws n [THEN conjunct1]] same_parsers [OF laws n [THEN conjunct2]] arduinoConsole_sel)
qed

lemma same_raw_write:
  assumes laws: "string_laws (ap_string ap)" and arg: "neat arg"
  shows "ard_raw_write ap arg = raw_write (arduinoConsole ap) arg"
proof
  fix s
  obtain found commandText confirm where p: "splitHeadTail arg = (found, commandText, confirm)" by (metis surj_pair)
  note n = same_splitHeadTail(2) [OF laws arg p]
  show "ard_raw_write ap arg s = raw_write (arduinoConsole ap) arg s"
    by (simp only: ard_raw_write_def raw_write_def same_platform same_splitHeadTail(1) [OF laws arg] p prod.case
        same_parsers [OF laws n [THEN conjunct1]] same_parsers [OF laws n [THEN conjunct2]] arduinoConsole_sel)
qed

lemma same_raw_words:
  assumes laws: "string_laws (ap_string ap)" and arg: "neat arg"
  shows "ard_raw_read_words ap arg = raw_read_words (arduinoConsole ap) arg"
    and "ard_raw_write_word ap arg = raw_write_word (arduinoConsole ap) arg"
proof -
  obtain f1 commandText remainder where p: "splitHeadTail arg = (f1, commandText, remainder)" by (metis surj_pair)
  note n = same_splitHeadTail(2) [OF laws arg p]
  obtain f2 number confirm where q: "splitHeadTail remainder = (f2, number, confirm)" by (metis surj_pair)
  note m = same_splitHeadTail(2) [OF laws n [THEN conjunct2] q]
  note facts = same_platform same_splitHeadTail(1) [OF laws arg] same_splitHeadTail(1) [OF laws n [THEN conjunct2]] p q prod.case
    same_parsers [OF laws n [THEN conjunct1]] same_parsers [OF laws m [THEN conjunct1]]
    same_parsers [OF laws m [THEN conjunct2]] arduinoConsole_sel
  show "ard_raw_read_words ap arg = raw_read_words (arduinoConsole ap) arg"
    by (rule ext) (simp only: ard_raw_read_words_def raw_read_words_def facts)
  show "ard_raw_write_word ap arg = raw_write_word (arduinoConsole ap) arg"
    by (rule ext) (simp only: ard_raw_write_word_def raw_write_word_def facts)
qed

lemma same_raw:
  assumes laws: "string_laws (ap_string ap)" and arg: "neat arg"
  shows "ard_command_raw ap arg = command_raw (arduinoConsole ap) arg"
proof
  fix s
  obtain found sub arguments where p: "splitHeadTail arg = (found, sub, arguments)" by (metis surj_pair)
  note n = same_splitHeadTail(2) [OF laws arg p]
  show "ard_command_raw ap arg s = command_raw (arduinoConsole ap) arg s"
    by (simp only: ard_command_raw_def command_raw_def same_splitHeadTail(1) [OF laws arg] p prod.case
        same_parsers [OF laws n [THEN conjunct1]] same_raw_words [OF laws n [THEN conjunct2]]
        same_raw_write [OF laws n [THEN conjunct2]])
qed

lemma same_processCommand:
  assumes laws: "string_laws (ap_string ap)" and line: "neat line"
  shows "ard_processCommand ap line = processCommand (arduinoConsole ap) line"
proof
  fix s
  obtain found head arg where p: "splitHeadTail line = (found, head, arg)" by (metis surj_pair)
  note n = same_splitHeadTail(2) [OF laws line p]
  note h = same_parsers [OF laws n [THEN conjunct1]] and a = same_parsers [OF laws n [THEN conjunct2]]
  have d: "ard_dispatch ap head arg = dispatch (arduinoConsole ap) head arg"
    by (rule ext) (simp only: ard_dispatch_def dispatch_def h a length_0_conv same_platform same_simple_commands
        same_argument_commands [OF laws n [THEN conjunct1] n [THEN conjunct2]]
        same_frc [OF laws n [THEN conjunct2]] same_raw [OF laws n [THEN conjunct2]])
  have w: "ard_allowedDuringWorkflow ap head = allowedDuringWorkflow head"
    by (simp only: ard_allowedDuringWorkflow_def allowedDuringWorkflow_def h)
  show "ard_processCommand ap line s = processCommand (arduinoConsole ap) line s"
    by (simp only: ard_processCommand_def processCommand_def same_splitHeadTail(1) [OF laws line] p prod.case d w)
qed

end
