(* ===== verification/Scd_Arduino_Program.thy ===== *)
theory Scd_Arduino_Program
  imports Scd_Arduino_Same Scd_Console_Safety
begin

text \<open>
  The turns of the Arduino program: its reader delivers neat lines only, so that every turn is one of the
  ESP-IDF program on Arduino's platform, and inherits its invariant and its promises.
\<close>

subsection \<open>The reader\<close>

definition typed :: "char \<Rightarrow> bool" where
  "typed c \<longleftrightarrow> printable c \<or> c = CHR 0x08 \<or> c = CHR 0x7F \<or> c = CHR 0x0D \<or> c = CHR 0x0A"

lemma plain_append: "plainText s \<Longrightarrow> printable c \<Longrightarrow> length s < MAX_LINE_LENGTH \<Longrightarrow> plainText (s @ [c])"
  by (auto simp: plainText_def)

lemma shellLoop_neat:
  assumes "string_laws sl" and "\<forall>c \<in> set input. typed c" and "plainText (sh_buffer sh)"
  shows "plainText (sh_buffer (fst (snd (shellLoop sl n input sh)))) \<and>
    (\<forall>l. fst (shellLoop sl n input sh) = Some l \<longrightarrow> neat l)"
  using assms
proof (induction sl n input sh rule: shellLoop.induct)
  case (3 sl n c input sh)
  note laws = "3.prems"(1)
  have b: "CHR 0x00 \<notin> set (sh_buffer sh)" by (rule plain_facts(1) [OF "3.prems"(3)])
  have L: "sl_length sl (sh_buffer sh) = length (sh_buffer sh)"
    "sl_append sl (sh_buffer sh) c = sh_buffer sh @ [c]"
    "\<And>i. i < length (sh_buffer sh) \<Longrightarrow> sl_remove sl (sh_buffer sh) i = take i (sh_buffer sh)"
    "sl_trim sl (sh_buffer sh) = trimmed (sh_buffer sh)"
    using laws b plain_facts(4) [OF "3.prems"(3)] by (simp_all add: string_laws_def)
  have t: "neat (trimmed (sh_buffer sh))" by (rule neat_trimmed [OF "3.prems"(3)])
  have e: "plainText []" by (simp add: plainText_def)
  have p: "plainText (take i (sh_buffer sh))" for i by (rule plain_take [OF "3.prems"(3)])
  have i: "\<forall>c \<in> set input. typed c" "typed c" using "3.prems"(2) by simp_all
  have ap: "plainText (sh_buffer sh @ [c])" if "length (sh_buffer sh) < MAX_LINE_LENGTH"
    "\<not> (c = CHR 0x08 \<or> c = CHR 0x7F)" "\<not> (c = CHR 0x0D \<or> c = CHR 0x0A)"
    using that i(2) plain_append [OF "3.prems"(3) _ that(1)] by (auto simp: typed_def)
  consider (erase) "c = CHR 0x08 \<or> c = CHR 0x7F"
    | (line) "\<not> (c = CHR 0x08 \<or> c = CHR 0x7F)" "c = CHR 0x0D \<or> c = CHR 0x0A"
    | (key) "\<not> (c = CHR 0x08 \<or> c = CHR 0x7F)" "\<not> (c = CHR 0x0D \<or> c = CHR 0x0A)" by blast
  then show ?case
  proof cases
    case erase
    show ?thesis using "3.IH"(1) [OF erase laws i(1)] erase "3.prems"(3) p L
      by (simp only: shellLoop.simps if_True) (auto)
  next
    case line
    show ?thesis
      using "3.IH"(2) [OF line _ laws i(1)] "3.IH"(3) [OF line _ _ laws i(1)] line(2) "3.prems"(3) e t L
      by (simp only: shellLoop.simps if_not_P [OF line(1)] if_True Let_def) (auto simp: shell_init_def)
  next
    case key
    show ?thesis
      using "3.IH"(4) [OF key _ laws i(1)] "3.IH"(5,6) [OF key _ _ laws i(1)] "3.prems"(3) e ap [OF _ key] L
      by (simp only: shellLoop.simps if_not_P [OF key(1)] if_not_P [OF key(2)]) auto
  qed
qed simp_all

subsection \<open>Reachable states\<close>

inductive ard_reachable :: "'w arduino_platform \<Rightarrow> 'w owner \<Rightarrow> shell \<Rightarrow> bool" for ap where
  ard_start: "ard_reachable ap (ard_setup ap w) shell_init"
| ard_next: "ard_reachable ap s sh \<Longrightarrow> \<forall>c \<in> set input. typed c \<Longrightarrow>
    ard_turn ap input sh (s\<lparr>o_world := w\<rparr>) = (s', sh', rest) \<Longrightarrow> ard_reachable ap s' sh'"

lemma same_turn:
  assumes "string_laws (ap_string ap)" and "plainText (sh_buffer sh)" and "\<forall>c \<in> set input. typed c"
  shows "fst (ard_turn ap input sh s) =
    answer (arduinoConsole ap) (fst (shellReadLine (ap_string ap) input sh))
      (serviceWorkflow (arduinoConsole ap) (pollDriver (arduinoConsole ap) s))"
    and "plainText (sh_buffer (fst (snd (ard_turn ap input sh s))))"
proof -
  obtain line sh' rest where r: "shellReadLine (ap_string ap) input sh = (line, sh', rest)" by (metis surj_pair)
  then have n: "plainText (sh_buffer sh')" "\<forall>l. line = Some l \<longrightarrow> neat l"
    using shellLoop_neat [OF assms(1,3,2), of "MAX_LINE_LENGTH + 1"] by (simp_all add: shellReadLine_def)
  have "(case line of None \<Rightarrow> t | Some l \<Rightarrow> say Out_prompt (ard_processCommand ap l t)) = answer (arduinoConsole ap) line t" for t
    using n(2) by (simp add: answer_def same_processCommand [OF assms(1)] split: option.split)
  then show "fst (ard_turn ap input sh s) =
    answer (arduinoConsole ap) (fst (shellReadLine (ap_string ap) input sh))
      (serviceWorkflow (arduinoConsole ap) (pollDriver (arduinoConsole ap) s))"
    by (simp add: ard_turn_def same_platform r Let_def)
  show "plainText (sh_buffer (fst (snd (ard_turn ap input sh s))))"
    using n(1) by (simp add: ard_turn_def r Let_def)
qed

lemma answer_inv: "console_inv s \<Longrightarrow> console_inv (answer env line s)"
  by (auto simp: answer_def processCommand_inv split: option.split)

lemma ard_setup_inv: "console_inv (ard_setup ap w)"
proof -
  let ?s = "say (Out_info ''SCD41 owner-safe bring-up CLI'') (owner_init w)"
  have i: "console_inv (?s\<lparr>o_world := w'\<rparr>)" for w' using console_inv_init [of w] by simp
  have "console_inv (case ard_bindDriver ap (?s\<lparr>o_world := w'\<rparr>) of (bound, s) \<Rightarrow>
      if bound then ard_startKind ap Kind_ATTACH s else s)" for w'
  proof -
    obtain bound t where b: "bindDriver (arduinoConsole ap) (?s\<lparr>o_world := w'\<rparr>) = (bound, t)" by fastforce
    then have "console_inv t" using bindDriver_inv [OF i, of "arduinoConsole ap" w'] by simp
    then show ?thesis by (auto simp: same_platform b)
  qed
  then show ?thesis using i by (auto simp: ard_setup_def Let_def split: prod.split)
qed

lemma ard_reachable_inv:
  assumes "string_laws (ap_string ap)" and "ard_reachable ap s sh"
  shows "console_inv s \<and> plainText (sh_buffer sh)"
  using assms(2)
proof induction
  case (ard_start w)
  then show ?case by (simp add: ard_setup_inv shell_init_def plainText_def)
next
  case (ard_next s sh input w s' sh' rest)
  have t: "s' = fst (ard_turn ap input sh (s\<lparr>o_world := w\<rparr>))" "sh' = fst (snd (ard_turn ap input sh (s\<lparr>o_world := w\<rparr>)))"
    using ard_next(3) by simp_all
  show ?case using ard_next(2,4)
    by (simp add: t same_turn [OF assms(1)] answer_inv serviceWorkflow_inv pollDriver_inv)
qed

text \<open>
  C11. The two example programs are one program on two platforms. In every state that the Arduino
  program reaches on printable input, a turn of its loop does exactly what the ESP-IDF program does
  on Arduino's platform when it polls, serves the workflow and then answers the line that the
  Arduino reader delivered. So it keeps the same promises: no result is left unread, and nothing that
  wears or erases the sensor's memory and no raw transfer starts without the word \<open>confirm\<close>.
\<close>
theorem arduino_is_same_program:
  assumes "string_laws (ap_string ap)" and "ard_reachable ap s sh" and "\<forall>c \<in> set input. typed c"
    and "line = fst (shellReadLine (ap_string ap) input sh)" and "s' = fst (ard_turn ap input sh (s\<lparr>o_world := w\<rparr>))"
  shows "s' = answer (arduinoConsole ap) line
      (serviceWorkflow (arduinoConsole ap) (pollDriver (arduinoConsole ap) (s\<lparr>o_world := w\<rparr>))) \<and>
    \<not> d_terminalValid (o_device s') \<and>
    (slotOf (o_device s') = Slot_busy i k \<and> slotOf (o_device s) \<noteq> Slot_busy i k \<and>
     (isMaintenance k \<and> k \<noteq> Kind_SELF_TEST \<and> k \<noteq> Kind_REINIT \<or> isDiagnostic k) \<longrightarrow>
     (\<exists>l head arg. line = Some l \<and> splitHeadTail l = (True, head, arg) \<and> confirmedBy head arg k))"
proof -
  note i = ard_reachable_inv [OF assms(1,2)]
  have w: "console_inv (s\<lparr>o_world := w\<rparr>)" using i by simp
  have t: "s' = answer (arduinoConsole ap) line
      (serviceWorkflow (arduinoConsole ap) (pollDriver (arduinoConsole ap) (s\<lparr>o_world := w\<rparr>)))"
    using same_turn(1) [OF assms(1) _ assms(3)] i assms(4,5) by simp
  have "console_inv s'" using w by (simp add: t answer_inv serviceWorkflow_inv pollDriver_inv)
  then have "\<not> d_terminalValid (o_device s')"
    by (auto simp: console_inv_def matched_def slotOf_def split: if_splits)
  then show ?thesis using t dangerous_answer [OF w refl, of "arduinoConsole ap" line i k] by simp
qed

text \<open>A String made of lists, and a bus on which every call succeeds.\<close>

definition plainString :: string_class where
  "plainString = \<lparr>sl_length = length, sl_charAt = (\<lambda>s i. s ! i), sl_equals = (=),
     sl_indexOf = (\<lambda>s c. case lineFind c s of None \<Rightarrow> -1 | Some i \<Rightarrow> int i),
     sl_substring = (\<lambda>s a b. take (b - a) (drop a s)), sl_substringFrom = (\<lambda>s a. drop a s),
     sl_trim = (\<lambda>s. rev (dropWhile isSpace (rev (dropWhile isSpace s)))),
     sl_remove = (\<lambda>s i. take i s), sl_append = (\<lambda>s c. s @ [c]), sl_c_str = (\<lambda>s. s)\<rparr>"

definition benchArduino :: "u32 arduino_platform" where
  "benchArduino = \<lparr>ap_wire = \<lparr>wire_begin = (\<lambda>_ _ w. (True, w)), wire_setClock = (\<lambda>_ w. (True, w)),
       wire_setTimeOut = (\<lambda>_ w. w), wire_beginTransmission = (\<lambda>_ w. w), wire_write = (\<lambda>bs w. (length bs, w)),
       wire_endTransmission = (\<lambda>_ w. (0, w)), wire_requestFrom = (\<lambda>_ _ _ w. (0, w)),
       wire_available = (\<lambda>w. (0, w)), wire_read = (\<lambda>w. (0, w)), wire_millis = (\<lambda>w. (w, w))\<rparr>,
     ap_getTimeOut = (\<lambda>w. (50, w)), ap_string = plainString, ap_longBits = 32\<rparr>"

lemma laws_plainString: "string_laws plainString"
  by (simp add: string_laws_def plainString_def)

theorem arduino_is_same_program_witness:
  "\<not> d_terminalValid (o_device (fst (ard_turn benchArduino (''status'' @ [CHR 0x0A]) shell_init
     ((ard_setup benchArduino 1000)\<lparr>o_world := 1030\<rparr>))))"
proof -
  have l: "string_laws (ap_string benchArduino)" by (simp add: benchArduino_def laws_plainString)
  have "\<forall>c \<in> set (''status'' @ [CHR 0x0A]). typed c" by (simp add: typed_def printable_def)
  from arduino_is_same_program [OF l ard_start this refl refl] show ?thesis by blast
qed

end
