(* ===== verification/Scd_Arduino_Print.thy ===== *)
theory Scd_Arduino_Print
  imports Scd_Print
begin

text \<open>
  What the Arduino example (examples/01_basic_bringup_cli/main.cpp, common/Log.h, common/CliStyle.h,
  common/I2cScanner.h) prints, in the structure of that program: its log macros, its help, and the
  switches of \<open>printResult\<close>. Every text is the one of the ESP-IDF program, but for the end of one line.
\<close>

subsection \<open>The log and the help\<close>

text \<open>\<open>BuildConfig.h\<close> sets the level when the build does not.\<close>

definition LOG_LEVEL :: nat where "LOG_LEVEL = 2"

definition printWithTag :: "string \<Rightarrow> string \<Rightarrow> string \<Rightarrow> argument list \<Rightarrow> string" where
  "printWithTag tagColor tag fmt args =
     printf (tagColor @ ''['' @ tag @ '']'' @ LOG_COLOR_RESET @ '' '' @ fmt @ [newline]) args"

definition LOGE :: "string \<Rightarrow> argument list \<Rightarrow> string" where
  "LOGE fmt args = (if LOG_LEVEL \<ge> 1 then printWithTag LOG_COLOR_RED ''E'' fmt args else [])"

definition LOGW :: "string \<Rightarrow> argument list \<Rightarrow> string" where
  "LOGW fmt args = (if LOG_LEVEL \<ge> 2 then printWithTag LOG_COLOR_YELLOW ''W'' fmt args else [])"

definition LOGI :: "string \<Rightarrow> argument list \<Rightarrow> string" where
  "LOGI fmt args = (if LOG_LEVEL \<ge> 2 then printWithTag LOG_COLOR_CYAN ''I'' fmt args else [])"

definition CLI_HELP_COMMAND_WIDTH :: nat where "CLI_HELP_COMMAND_WIDTH = 44"

definition printHelpHeader :: "string \<Rightarrow> string" where
  "printHelpHeader title =
     printf (''%s=== %s ===%s'' @ [newline]) [Arg_s LOG_COLOR_CYAN, Arg_s title, Arg_s LOG_COLOR_RESET]"

definition printHelpSection :: "string \<Rightarrow> string" where
  "printHelpSection title =
     printf ([newline] @ ''%s[%s]%s'' @ [newline]) [Arg_s LOG_COLOR_GREEN, Arg_s title, Arg_s LOG_COLOR_RESET]"

definition printHelpItem :: "string \<Rightarrow> string \<Rightarrow> string" where
  "printHelpItem command description =
     printf (''  %s%-*s%s - %s'' @ [newline])
       [Arg_s LOG_COLOR_CYAN, Arg_u CLI_HELP_COMMAND_WIDTH, Arg_s command, Arg_s LOG_COLOR_RESET, Arg_s description]"

definition printPrompt :: string where "printPrompt = ''> ''"

definition printUnknownCommand :: "string option \<Rightarrow> string" where
  "printUnknownCommand command =
     LOGW ''Unknown command: %s'' [Arg_s (case command of None \<Rightarrow> ''(null)'' | Some c \<Rightarrow> c)]"

definition printHelp :: string where
  "printHelp = concat
    [printHelpHeader ''SCD41 Owner-Safe CLI v2'',
     printHelpSection ''Lifecycle'',
     printHelpItem ''help / ?'' ''Show this help'',
     printHelpItem ''version / ver'' ''Show library version'',
     printHelpItem ''scan'' ''Scan the example-owned I2C bus while idle'',
     printHelpItem ''probe'' ''CRC-check identity, attaching first when needed'',
     printHelpItem ''begin'' ''Zero-I2C bind, then start attach'',
     printHelpItem ''attach / recover'' ''Wake/stop and verify identity/state'',
     printHelpItem ''end'' ''Cancel active work and unbind without I2C'',
     printHelpItem ''status / drv / health'' ''Show cache-only runtime and health'',
     printHelpItem ''result'' ''Show the example's last consumed result'',
     printHelpItem ''cancel'' ''Cancel the active operation without I2C'',
     printHelpSection ''Measurement'',
     printHelpItem ''identity'' ''Read serial number and variant'',
     printHelpItem ''variant'' ''Read the dedicated sensor-variant word'',
     printHelpItem ''periodic on|lp|off'' ''Change periodic mode'',
     printHelpItem ''dataready'' ''Read data-ready status'',
     printHelpItem ''read'' ''Fetch one periodic sample'',
     printHelpItem ''single full|rht'' ''Run one bounded single-shot job'',
     printHelpItem ''sample'' ''Show the latest cached fixed-point sample'',
     printHelpItem ''settings / cfg'' ''Read all live configuration fields'',
     printHelpItem ''sleep'' ''Enter sensor power-down mode'',
     printHelpItem ''wake'' ''Wake and verify the sensor'',
     printHelpSection ''Configuration'',
     printHelpItem ''toffset [mC]'' ''Read or set temperature offset'',
     printHelpItem ''altitude [m]'' ''Read or set sensor altitude'',
     printHelpItem ''pressure [Pa]'' ''Read or set ambient pressure'',
     printHelpItem ''asc_enabled [0|1]'' ''Read or set ASC enable'',
     printHelpItem ''asc_target [ppm]'' ''Read or set ASC target'',
     printHelpItem ''asc_initial [h]'' ''Read or set ASC initial period'',
     printHelpItem ''asc_standard [h]'' ''Read or set ASC standard period'',
     printHelpSection ''Maintenance'',
     printHelpItem ''reinit'' ''Reload persisted sensor settings'',
     printHelpItem ''selftest'' ''Run the 10-second sensor self-test'',
     printHelpItem ''selfcheck'' ''Run identity/config/variant/sensor checks'',
     printHelpItem ''frc confirm <reference_ppm>'' ''Run forced recalibration'',
     printHelpItem ''persist confirm'' ''Write current settings to EEPROM'',
     printHelpItem ''factory_reset confirm'' ''Reset persisted sensor state'',
     printHelpSection ''Diagnostics'',
     printHelpItem ''stress [N]'' ''Run 1..1000 cooperative readiness reads (default 50)'',
     printHelpItem ''stress_mix [N]'' ''Run 1..1000 cooperative mixed read cycles (default 50)'',
     printHelpItem ''command read_words <cmd> <count> confirm'' ''CRC-check 1..3 words; then reattach'',
     printHelpItem ''command write <cmd> confirm'' ''Write a raw command; then reattach'',
     printHelpItem ''command write_word <cmd> <word> confirm'' ''Write a CRC word; then reattach'']"

subsection \<open>Values\<close>

definition ard_statusText :: "Status \<Rightarrow> string" where
  "ard_statusText status =
     printf (''status=%s%s%s detail=%ld msg=%s'' @ [newline])
       [Arg_s (if ok status then LOG_COLOR_GREEN
               else if inProgress status then LOG_COLOR_CYAN
               else if st_code status = Err_BUSY \<or> st_code status = Err_MEASUREMENT_NOT_READY
               then LOG_COLOR_YELLOW else LOG_COLOR_RED),
        Arg_s (errorName (st_code status)), Arg_s LOG_COLOR_RESET, Arg_d (st_detail status), Arg_s (st_msg status)]"

definition ard_sampleText :: "FixedSample \<Rightarrow> string" where
  "ard_sampleText sample =
     printf (''sample seq=%lu epoch=%lu mode=%s co2=%u temp_mC=%ld rh_mPct=%lu flags=0x%04X at=%lu'' @ [newline])
       [u_arg (fs_sequence sample), u_arg (fs_sensorEpoch sample), Arg_s (operatingModeName (fs_mode sample)),
        u_arg (fs_co2Ppm sample), Arg_d (fs_temperatureMilliC sample), u_arg (fs_humidityMilliPercent sample),
        u_arg (fs_flags sample), u_arg (fs_capturedAtMs sample)]"

definition ard_configurationText :: "ConfigurationSnapshot \<Rightarrow> string" where
  "ard_configurationText snapshot =
     printf (''config offset_mC=%ld altitude_m=%u pressure_Pa=%lu asc=%s target_ppm=%u initial_h=%u '' @
         ''standard_h=%u verified=0x%04X dirty=0x%04X persistence_indeterminate=%s'' @ [newline])
       [Arg_d (cs_temperatureOffsetMilliC snapshot), u_arg (cs_sensorAltitudeM snapshot),
        u_arg (cs_ambientPressurePa snapshot), Arg_s (if cs_ascEnabled snapshot then ''on'' else ''off''),
        u_arg (cs_ascTargetPpm snapshot), u_arg (cs_ascInitialPeriodHours snapshot),
        u_arg (cs_ascStandardPeriodHours snapshot), u_arg (cs_verifiedMask snapshot),
        u_arg (cs_dirtyMask snapshot), yesNo (cs_persistenceIndeterminate snapshot)]"

definition ard_resultLines :: "OperationResult \<Rightarrow> string" where
  "ard_resultLines result =
     (let successful = (res_outcome result = Outcome_SUCCEEDED);
          color = (if successful then LOG_COLOR_GREEN
                   else if res_outcome result \<in> {Outcome_NO_DATA, Outcome_PARTIAL, Outcome_CANCELLED}
                   then LOG_COLOR_YELLOW else LOG_COLOR_RED)
      in printf (''result request=%lu generation=%lu op=%s outcome=%s%s%s effect=%s status=%s '' @
             ''callbacks=%u reconcile=%s detail=%ld'' @ [newline])
           [u_arg (oid_requestId (res_id result)), u_arg (oid_generation (res_id result)),
            Arg_s (operationKindName (res_kind result)), Arg_s color,
            Arg_s (operationOutcomeName (res_outcome result)), Arg_s LOG_COLOR_RESET,
            Arg_s (effectStateName (res_effect result)), Arg_s (errorName (st_code (res_status result))),
            u_arg (res_callbacksUsed result), yesNo (res_reconciliationRequired result),
            Arg_d (st_detail (res_status result))] @
         printf (''timing started=%lu completed=%lu deadline=%lu phase=%s epoch=%lu mode=%s evidence=%s '' @
             ''fields=0x%04X'' @ [newline])
           [u_arg (res_startedMs result), u_arg (res_completedMs result), u_arg (res_deadlineMs result),
            Arg_s (operationPhaseName (res_finalPhase result)), u_arg (res_sensorEpoch result),
            Arg_s (operatingModeName (res_operatingMode result)),
            Arg_s (modeEvidenceName (res_modeEvidence result)), u_arg (res_completedFieldMask result)])"

text \<open>The cases of the first switch of \<open>printResult\<close>, which share their statements, and the switch.\<close>

definition identityText :: "Identity \<Rightarrow> string" where
  "identityText identity =
     printf (''identity valid=%s serial=0x%012llX variant=%s variant_word=0x%04X epoch=%lu'' @ [newline])
       [yesNo (idn_valid identity), u_arg (idn_serialNumber identity),
        Arg_s (sensorVariantName (idn_variant identity)), u_arg (idn_variantWord identity),
        u_arg (idn_sensorEpoch identity)]"

definition freshSampleText :: "FixedSample \<Rightarrow> string" where
  "freshSampleText sample = (if fs_flags sample AND SAMPLE_FRESH \<noteq> 0 then ard_sampleText sample else [])"

definition unsignedText :: "u32 \<Rightarrow> string" where
  "unsignedText v = printf (''value unsigned=%lu'' @ [newline]) [u_arg v]"

definition signedText :: "i32 \<Rightarrow> string" where
  "signedText v = printf (''value signed=%ld'' @ [newline]) [Arg_d v]"

definition boolText :: "bool \<Rightarrow> string" where
  "boolText v = printf (''value bool=%s'' @ [newline]) [Arg_s (if v then ''true'' else ''false'')]"

fun wordsText :: "nat \<Rightarrow> u16 list \<Rightarrow> nat \<Rightarrow> string" where
  "wordsText i words 0 = []"
| "wordsText i words (Suc n) =
     printf (''word[%u]=0x%04X'' @ [newline]) [Arg_u i, u_arg (words ! i)] @ wordsText (Suc i) words n"

fun ard_valueText :: "OperationKind \<Rightarrow> OperationValue \<Rightarrow> string" where
  "ard_valueText Kind_ATTACH v = identityText (ov_identity v)"
| "ard_valueText Kind_READ_IDENTITY v = identityText (ov_identity v)"
| "ard_valueText Kind_READ_SENSOR_VARIANT v = identityText (ov_identity v)"
| "ard_valueText Kind_WAKE_UP v = identityText (ov_identity v)"
| "ard_valueText Kind_REINIT v = identityText (ov_identity v)"
| "ard_valueText Kind_FACTORY_RESET v = identityText (ov_identity v)"
| "ard_valueText Kind_FETCH_SAMPLE v = freshSampleText (ov_sample v)"
| "ard_valueText Kind_SINGLE_SHOT v = freshSampleText (ov_sample v)"
| "ard_valueText Kind_SINGLE_SHOT_RHT_ONLY v = freshSampleText (ov_sample v)"
| "ard_valueText Kind_READ_TEMPERATURE_OFFSET v = signedText (ov_signedValue v)"
| "ard_valueText Kind_SET_TEMPERATURE_OFFSET v = signedText (ov_signedValue v)"
| "ard_valueText Kind_READ_ASC_ENABLED v = boolText (ov_boolValue v)"
| "ard_valueText Kind_SET_ASC_ENABLED v = boolText (ov_boolValue v)"
| "ard_valueText Kind_READ_SENSOR_ALTITUDE v = unsignedText (ov_value v)"
| "ard_valueText Kind_SET_SENSOR_ALTITUDE v = unsignedText (ov_value v)"
| "ard_valueText Kind_READ_AMBIENT_PRESSURE v = unsignedText (ov_value v)"
| "ard_valueText Kind_SET_AMBIENT_PRESSURE v = unsignedText (ov_value v)"
| "ard_valueText Kind_READ_ASC_TARGET v = unsignedText (ov_value v)"
| "ard_valueText Kind_SET_ASC_TARGET v = unsignedText (ov_value v)"
| "ard_valueText Kind_READ_ASC_INITIAL_PERIOD v = unsignedText (ov_value v)"
| "ard_valueText Kind_SET_ASC_INITIAL_PERIOD v = unsignedText (ov_value v)"
| "ard_valueText Kind_READ_ASC_STANDARD_PERIOD v = unsignedText (ov_value v)"
| "ard_valueText Kind_SET_ASC_STANDARD_PERIOD v = unsignedText (ov_value v)"
| "ard_valueText Kind_SELF_TEST v = printf (''selftest raw=0x%04X'' @ [newline]) [u_arg (ov_rawWords v ! 0)]"
| "ard_valueText Kind_FORCED_RECALIBRATION v =
     printf (''frc correction_ppm=%ld raw=0x%04X'' @ [newline]) [Arg_d (ov_signedValue v), u_arg (ov_rawWords v ! 0)]"
| "ard_valueText Kind_READ_CONFIGURATION v = ard_configurationText (ov_configuration v)"
| "ard_valueText Kind_READ_DATA_READY v =
     printf (''data_ready=%s raw=0x%04X'' @ [newline])
       [yesNo (dr_ready (ov_dataReady v)), u_arg (dr_raw (ov_dataReady v))]"
| "ard_valueText Kind_DIAGNOSTIC_READ_WORDS v = wordsText 0 (ov_rawWords v) (unat (ov_wordCount v))"
| "ard_valueText _ v = []"

text \<open>The second switch.\<close>

fun ard_printsConfiguration :: "OperationKind \<Rightarrow> bool" where
  "ard_printsConfiguration Kind_READ_TEMPERATURE_OFFSET = True"
| "ard_printsConfiguration Kind_SET_TEMPERATURE_OFFSET = True"
| "ard_printsConfiguration Kind_READ_SENSOR_ALTITUDE = True"
| "ard_printsConfiguration Kind_SET_SENSOR_ALTITUDE = True"
| "ard_printsConfiguration Kind_READ_AMBIENT_PRESSURE = True"
| "ard_printsConfiguration Kind_SET_AMBIENT_PRESSURE = True"
| "ard_printsConfiguration Kind_READ_ASC_ENABLED = True"
| "ard_printsConfiguration Kind_SET_ASC_ENABLED = True"
| "ard_printsConfiguration Kind_READ_ASC_TARGET = True"
| "ard_printsConfiguration Kind_SET_ASC_TARGET = True"
| "ard_printsConfiguration Kind_READ_ASC_INITIAL_PERIOD = True"
| "ard_printsConfiguration Kind_SET_ASC_INITIAL_PERIOD = True"
| "ard_printsConfiguration Kind_READ_ASC_STANDARD_PERIOD = True"
| "ard_printsConfiguration Kind_SET_ASC_STANDARD_PERIOD = True"
| "ard_printsConfiguration Kind_PERSIST_SETTINGS = True"
| "ard_printsConfiguration Kind_FACTORY_RESET = True"
| "ard_printsConfiguration _ = False"

definition ard_resultText :: "OperationResult \<Rightarrow> string" where
  "ard_resultText result =
     ard_resultLines result @ ard_valueText (res_kind result) (res_value result) @
     (if ard_printsConfiguration (res_kind result) then ard_configurationText (ov_configuration (res_value result))
      else [])"

definition ard_workflowText :: "workflow \<Rightarrow> string" where
  "ard_workflowText f =
     printf (''workflow name=%s progress=%lu/%lu cycles=%lu/%lu pass=%lu warn=%lu fail=%lu'' @ [newline])
       [Arg_s (workflowName (wf_kind f)), u_arg (wf_stepsCompleted f), u_arg (wf_totalSteps f),
        u_arg (wf_cyclesCompleted f), u_arg (wf_cyclesTotal f), u_arg (wf_passed f),
        u_arg (wf_warnings f), u_arg (wf_failed f)]"

definition ard_workflowSummaryText :: "workflow \<Rightarrow> string" where
  "ard_workflowSummaryText f =
     (let color = (if wf_failed f \<noteq> 0 then LOG_COLOR_RED
                   else if wf_warnings f \<noteq> 0 then LOG_COLOR_YELLOW else LOG_COLOR_GREEN);
          outcome = (if wf_failed f \<noteq> 0 then ''FAIL'' else if wf_warnings f \<noteq> 0 then ''WARN'' else ''PASS'')
      in printf (''workflow_summary name=%s outcome=%s%s%s'' @ [newline])
           [Arg_s (workflowName (wf_kind f)), Arg_s color, Arg_s outcome, Arg_s LOG_COLOR_RESET])"

definition ard_startedText :: "OperationId \<Rightarrow> OperationKind \<Rightarrow> u32 \<Rightarrow> string" where
  "ard_startedText oid kind deadlineMs =
     printf (''started request=%lu generation=%lu op=%s deadline=%lu'' @ [newline])
       [u_arg (oid_requestId oid), u_arg (oid_generation oid), Arg_s (operationKindName kind), u_arg deadlineMs]"

definition ard_workflowStartText :: "WorkflowKind \<Rightarrow> u32 \<Rightarrow> u32 \<Rightarrow> string" where
  "ard_workflowStartText kind cycles steps =
     printf (''workflow_start name=%s cycles=%lu steps=%lu'' @ [newline])
       [Arg_s (workflowName kind), u_arg cycles, u_arg steps]"

definition ard_runtimeText :: "RuntimeSnapshot \<Rightarrow> HealthSnapshot \<Rightarrow> string" where
  "ard_runtimeText runtime health =
     (let stateColor = (if rs_driverState runtime = State_READY then LOG_COLOR_GREEN
                        else if rs_driverState runtime = State_DEGRADED then LOG_COLOR_YELLOW else LOG_COLOR_RED)
      in printf (''runtime bound=%s attached=%s state=%s%s%s mode=%s evidence=%s epoch=%lu reconcile=%s '' @
             ''sample=%s'' @ [newline])
           [yesNo (rs_bound runtime), yesNo (rs_attached runtime), Arg_s stateColor,
            Arg_s (driverStateName (rs_driverState runtime)), Arg_s LOG_COLOR_RESET,
            Arg_s (operatingModeName (rs_operatingMode runtime)),
            Arg_s (modeEvidenceName (rs_modeEvidence runtime)), u_arg (rs_sensorEpoch runtime),
            yesNo (rs_reconciliationRequired runtime), yesNo (rs_sampleAvailable runtime)] @
         printf (''slot state=%s request=%lu generation=%lu operation=%s next_due=%lu next_safe=%s%lu'' @ [newline])
           [Arg_s (operationStateName (rs_operationState runtime)), u_arg (oid_requestId (rs_operationId runtime)),
            u_arg (oid_generation (rs_operationId runtime)), Arg_s (operationKindName (rs_operationKind runtime)),
            u_arg (rs_nextDueMs runtime), Arg_s (if rs_nextSafeCommandValid runtime then [] else ''invalid/''),
            u_arg (rs_nextSafeCommandMs runtime)] @
         printf (''health transfer_ok=%lu transfer_fail=%lu consecutive=%u expected_nack=%lu protocol_fail=%lu '' @
             ''crc_fail=%lu operation_ok=%lu operation_fail=%lu cancelled=%lu'' @ [newline])
           [u_arg (hs_totalTransferSuccess health), u_arg (hs_totalTransferFailures health),
            u_arg (hs_consecutiveTransferFailures health), u_arg (hs_expectedNacks health),
            u_arg (hs_totalProtocolFailures health), u_arg (hs_totalCrcFailures health),
            u_arg (hs_totalOperationSuccess health), u_arg (hs_totalOperationFailures health),
            u_arg (hs_totalOperationCancelled health)] @
         printf (''last_errors transfer=%s@%lu protocol=%s@%lu operation=%s@%lu op=%s request=%lu generation=%lu'' @
             [newline])
           [Arg_s (errorName (st_code (hs_lastTransferError health))), u_arg (hs_lastTransferErrorMs health),
            Arg_s (errorName (st_code (hs_lastProtocolError health))), u_arg (hs_lastProtocolErrorMs health),
            Arg_s (errorName (st_code (hs_lastOperationError health))), u_arg (hs_lastOperationErrorMs health),
            Arg_s (operationKindName (hs_lastOperationErrorKind health)),
            u_arg (oid_requestId (hs_lastOperationErrorId health)),
            u_arg (oid_generation (hs_lastOperationErrorId health))])"

definition ard_foundText :: "u8 \<Rightarrow> bool \<Rightarrow> string" where
  "ard_foundText address preferred =
     printf (''  Found device at 0x%02X%s'' @ [newline])
       [u_arg address, Arg_s (if preferred then ''  <target>'' else [])]"

text \<open>\<open>println\<close> ends its line with a carriage return and a newline.\<close>

definition println :: "string \<Rightarrow> string" where
  "println s = s @ [CHR 0x0D, CHR 0x0A]"

primrec ard_textOf :: "printed \<Rightarrow> string" where
  "ard_textOf (Out_status status) = ard_statusText status"
| "ard_textOf (Out_result result) = ard_resultText result"
| "ard_textOf (Out_sample sample) = ard_sampleText sample"
| "ard_textOf (Out_started oid kind deadlineMs) = ard_startedText oid kind deadlineMs"
| "ard_textOf (Out_workflow f) = ard_workflowText f"
| "ard_textOf (Out_workflow_summary f) = ard_workflowSummaryText f"
| "ard_textOf (Out_workflow_start kind cycles steps) = ard_workflowStartText kind cycles steps"
| "ard_textOf (Out_runtime r h) = ard_runtimeText r h"
| "ard_textOf (Out_found address target) = ard_foundText address target"
| "ard_textOf (Out_count n) = LOGI ''Found %d device(s)'' [Arg_d (int n)]"
| "ard_textOf Out_no_result = println ''result=none''"
| "ard_textOf Out_help = printHelp"
| "ard_textOf Out_version = printf (''SCD41 version=%s'' @ [newline]) [Arg_s VERSION]"
| "ard_textOf Out_prompt = printPrompt"
| "ard_textOf (Out_info message) = LOGI ''%s'' [Arg_s message]"
| "ard_textOf (Out_warning message) = LOGW ''%s'' [Arg_s message]"
| "ard_textOf (Out_error message) = LOGE ''%s'' [Arg_s message]"

subsection \<open>The two programs print the same\<close>

lemma log_same:
  "LOGI fmt args = logPrint LOG_COLOR_CYAN ''I'' fmt args"
  "LOGW fmt args = logPrint LOG_COLOR_YELLOW ''W'' fmt args"
  "LOGE fmt args = logPrint LOG_COLOR_RED ''E'' fmt args"
  by (simp_all add: LOGI_def LOGW_def LOGE_def LOG_LEVEL_def printWithTag_def logPrint_def color_defs
      directive_init_def padded_def digitValue_def)

lemma unknown_same:
  "printUnknownCommand (Some c) = ard_textOf (Out_warning (''Unknown command: '' @ c))"
  by (simp add: printUnknownCommand_def log_same logPrint_def color_defs directive_init_def padded_def digitValue_def)

lemma help_same: "printHelp = helpText"
  by (simp only: printHelp_def helpText_def printHelpHeader_def printHelpSection_def printHelpItem_def
      helpHeader_def helpSection_def helpItem_def HELP_COMMAND_WIDTH_def CLI_HELP_COMMAND_WIDTH_def)

lemma wordsText_upt: "wordsText i words n =
    concat (map (\<lambda>j. printf (''word[%u]=0x%04X'' @ [newline]) [Arg_u j, u_arg (words ! j)]) [i..<i + n])"
proof (induction i words n rule: wordsText.induct)
  case (2 i words n)
  have "[i..<i + Suc n] = i # [Suc i..<Suc i + n]" by (simp add: upt_rec)
  with 2 show ?case by (simp del: printfFrom.simps append.simps)
qed simp

lemma sampleText_same: "ard_sampleText s = sampleText s"
  by (simp only: ard_sampleText_def sampleText_def)

lemma configurationText_same: "ard_configurationText c = configurationText c"
  by (simp only: ard_configurationText_def configurationText_def)

lemma resultLines_same: "ard_resultLines r = resultLine r @ timingLine r"
  by (simp only: ard_resultLines_def resultLine_def timingLine_def outcomeColor_def Let_def insert_iff
      empty_iff simp_thms)

lemma valueText_same: "ard_valueText k v = valueText k v"
  by (cases k) (simp_all only: ard_valueText.simps valueText_def OperationKind.distinct simp_thms if_True if_False
      identityText_def freshSampleText_def signedText_def boolText_def unsignedText_def sampleText_same
      configurationText_same wordsText_upt add_0)

lemma printsConfiguration_same: "ard_printsConfiguration k = printsConfiguration k"
  by (cases k) (simp_all add: printsConfiguration_def)

text \<open>
  Both programs print the same text for everything they print, except that the Arduino program ends
  the line that says there is no result with a carriage return before the newline.
\<close>

lemma ard_textOf_same:
  "ard_textOf p = (if p = Out_no_result then ''result=none'' @ [CHR 0x0D, CHR 0x0A] else textOf p)"
proof (cases p)
  case (Out_result r)
  then show ?thesis
    by (simp add: ard_resultText_def resultText_def resultLines_same valueText_same printsConfiguration_same
        configurationText_same)
next
  case (Out_runtime r h)
  then show ?thesis
    by (simp only: ard_textOf.simps textOf.simps ard_runtimeText_def runtimeLines_def healthLines_def Let_def
        append_assoc printed.distinct if_False)
qed (simp_all only: ard_textOf.simps textOf.simps ard_statusText_def statusText_def Let_def sampleText_same
    ard_startedText_def startedText_def ard_workflowText_def workflowText_def ard_workflowSummaryText_def
    workflowSummaryText_def workflowColor_def ard_workflowStartText_def workflowStartText_def
    ard_foundText_def foundText_def log_same help_same println_def printPrompt_def printed.distinct simp_thms if_False if_True)

end
