(* ===== verification/Scd_Boot.thy ===== *)
theory Scd_Boot
  imports Scd_Calls_Of_Poll Scd_Adapters Scd_Console_Safety
begin

text \<open>
  The driver, an adapter and a program put together: \<open>app_main\<close> of the ESP-IDF example
  (examples/idf/basic/main/main.cpp) from its first line, and that no request of the driver is one that
  an adapter rejects.
\<close>

unbundle bit_operations_syntax

subsection \<open>The start of the ESP-IDF program\<close>

text \<open>
  What the program asks of the framework before its loop: the flags of standard input, the bus and the
  device on it. A handle is a number; 0 is the null handle.
\<close>

record i2c_master_bus_config_t =
  bc_i2c_port :: int
  bc_sda_io_num :: int
  bc_scl_io_num :: int
  bc_clk_source :: int
  bc_glitch_ignore_cnt :: nat
  bc_enable_internal_pullup :: bool

record i2c_device_config_t =
  dc_dev_addr_length :: int
  dc_device_address :: u8
  dc_scl_speed_hz :: u32

record 'w idf_boot =
  ib_getFlags :: "'w \<Rightarrow> int \<times> 'w"
  ib_setFlags :: "int \<Rightarrow> 'w \<Rightarrow> int \<times> 'w"
  ib_O_NONBLOCK :: int
  ib_I2C_NUM_0 :: int
  ib_I2C_CLK_SRC_DEFAULT :: int
  ib_I2C_ADDR_BIT_LEN_7 :: int
  ib_errno :: "'w \<Rightarrow> int \<times> 'w"
  ib_new_master_bus :: "i2c_master_bus_config_t \<Rightarrow> 'w \<Rightarrow> i32 \<times> nat \<times> 'w"
  ib_bus_add_device :: "nat \<Rightarrow> i2c_device_config_t \<Rightarrow> 'w \<Rightarrow> i32 \<times> nat \<times> 'w"

definition createBus :: "'w idf_boot \<Rightarrow> 'w \<Rightarrow> i32 \<times> nat \<times> 'w" where
  "createBus ib w = ib_new_master_bus ib
     \<lparr>bc_i2c_port = ib_I2C_NUM_0 ib, bc_sda_io_num = 8, bc_scl_io_num = 9,
      bc_clk_source = ib_I2C_CLK_SRC_DEFAULT ib, bc_glitch_ignore_cnt = 7, bc_enable_internal_pullup = True\<rparr> w"

definition addSensor :: "'w idf_boot \<Rightarrow> nat \<Rightarrow> 'w \<Rightarrow> i32 \<times> nat \<times> 'w" where
  "addSensor ib bus w =
     ib_bus_add_device ib bus
       \<lparr>dc_dev_addr_length = ib_I2C_ADDR_BIT_LEN_7 ib, dc_device_address = I2C_ADDRESS, dc_scl_speed_hz = 400000\<rparr> w"

text \<open>
  \<open>app_main\<close> returns when standard input cannot be made nonblocking, aborts in \<open>ESP_ERROR_CHECK\<close>, or
  enters its loop on a platform whose context holds the device.
\<close>

datatype 'w boot = Boot_returned printed | Boot_aborted i32 | Boot_running "'w idf_platform" "'w owner"

definition inputFailed :: "'w idf_boot \<Rightarrow> 'w \<Rightarrow> 'w boot" where
  "inputFailed ib w = Boot_returned
     (Out_error (''Cannot configure nonblocking console input: errno='' @ signedDecimal (fst (ib_errno ib w))))"

definition app_main :: "'w idf_boot \<Rightarrow> 'w idf_platform \<Rightarrow> 'w \<Rightarrow> 'w boot" where
  "app_main ib ip w =
     (case ib_getFlags ib w of (inputFlags, w) \<Rightarrow>
        if inputFlags < 0 then inputFailed ib w
        else case ib_setFlags ib (inputFlags OR ib_O_NONBLOCK ib) w of (changed, w) \<Rightarrow>
          if changed < 0 then inputFailed ib w
          else case createBus ib w of (error, bus, w) \<Rightarrow>
            if error \<noteq> idf_ESP_OK (ip_framework ip) then Boot_aborted error
            else case addSensor ib bus w of (error, sensorHandle, w) \<Rightarrow>
              if error \<noteq> idf_ESP_OK (ip_framework ip) then Boot_aborted error
              else (let ip = ip\<lparr>ip_context := \<lparr>ictx_device = sensorHandle, ictx_address = I2C_ADDRESS\<rparr>\<rparr>
                    in Boot_running ip (appStart (idfConsole ip) w)))"

lemma app_main_runs:
  "app_main ib ip w = Boot_running ip' s \<Longrightarrow>
   console_reachable (idfConsole ip') s \<and> ictx_address (ip_context ip') = I2C_ADDRESS"
  by (auto simp: app_main_def inputFailed_def Let_def intro: console_start split: prod.splits if_splits)

subsection \<open>What the adapters are asked\<close>

lemma permitted_bytes: "permitted q req \<Longrightarrow> tq_writeData req \<noteq> [] \<or> 0 < tq_readLength req"
  by (auto simp: permitted_def commandBytes_def)

lemma trace_timeout:
  assumes "driver_inv d" and "(at, req) \<in> set (fr_trace (snd (poll t n w d)))"
  shows "tq_timeoutMs req \<noteq> 0" and "\<not> tq_timeoutMs req > 65535"
proof -
  note c = trace_call [OF assms]
  show "tq_timeoutMs req \<noteq> 0" using c(4) by (simp add: called_def)
  have "cfg_transferTimeoutMs (d_config d) \<le> 1000"
    using assms(1) driver_inv_slot(2) [OF assms(1) c(1)] by (auto simp: driver_inv_def bound_ok_def validateConfig_def split: if_splits)
  then have "tq_timeoutMs req \<le> 1000"
    using c(6) by (auto simp: transferTimeout_def Let_def split: if_splits)
  moreover have "(1000 :: u32) \<le> 65535" by simp
  ultimately have "tq_timeoutMs req \<le> 65535" by (rule order.trans)
  then show "\<not> tq_timeoutMs req > 65535" by (simp add: not_less)
qed

text \<open>
  C21. Nothing the driver asks for is refused: every request that a poll of a reachable driver makes is
  attempted by the ESP-IDF adapter, given the context that \<open>app_main\<close> fills and a device in it, and by
  the Arduino adapter on any bus object; neither ever reports it as NOT_STARTED.
\<close>
theorem adapters_attempt_every_request:
  assumes "reachable d" and "(at, req) \<in> set (fr_trace (snd (poll t n w d)))"
    and "app_main ib ip w0 = Boot_running ip' s" and "ictx_device (ip_context ip') \<noteq> 0"
    and "\<And>a m b v. fst (wire_requestFrom fw a m b v) \<le> m" and "user \<noteq> 0"
  shows "tr_disposition (fst (env_transfer (idfConsole ip') req (env_transferUser (idfConsole ip')) v)) \<noteq> Disp_NOT_STARTED \<and>
    tr_disposition (fst (wireTransfer fw req user v')) \<noteq> Disp_NOT_STARTED"
proof -
  have inv: "driver_inv d" by (rule reachable_inv [OF assms(1)])
  have p: "permitted (a_request (d_active d)) req" by (rule trace_call(5) [OF inv assms(2)])
  have q: "tq_address req = I2C_ADDRESS" "tq_writeData req \<noteq> [] \<or> 0 < tq_readLength req" "tq_timeoutMs req \<noteq> 0"
    "\<not> tq_timeoutMs req > 65535"
    using p permitted_bytes [OF p] trace_timeout [OF inv assms(2)] by (simp_all add: permitted_def)
  obtain r1 b1 w1 where i: "env_transfer (idfConsole ip') req (env_transferUser (idfConsole ip')) v = (r1, b1, w1)"
    by (metis prod_cases3)
  obtain r2 b2 w2 where a: "wireTransfer fw req user v' = (r2, b2, w2)" by (metis prod_cases3)
  show ?thesis
    using idf_attempts [OF i [unfolded idfConsole_def, simplified]] wire_attempts [OF assms(5) a] q assms(4,6)
      app_main_runs [OF assms(3)] by (auto simp: i a)
qed

definition benchBoot :: "u32 idf_boot" where
  "benchBoot = \<lparr>ib_getFlags = (\<lambda>w. (2, w)), ib_setFlags = (\<lambda>_ w. (0, w)), ib_O_NONBLOCK = 2048,
     ib_I2C_NUM_0 = 0, ib_I2C_CLK_SRC_DEFAULT = 4, ib_I2C_ADDR_BIT_LEN_7 = 0, ib_errno = (\<lambda>w. (0, w)),
     ib_new_master_bus = (\<lambda>_ w. (0, 1, w)), ib_bus_add_device = (\<lambda>_ _ w. (0, 1, w))\<rparr>"

definition benchPlatform :: "u32 idf_platform" where
  "benchPlatform = \<lparr>ip_framework = benchFramework, ip_probe = (\<lambda>_ _ w. (0, w)),
     ip_context = IdfI2cContext_init, ip_longBits = 32\<rparr>"

definition benchWakeUp :: TransferRequest where
  "benchWakeUp = \<lparr>tq_address = I2C_ADDRESS, tq_writeData = commandBytes CMD_WAKE_UP, tq_readLength = 0,
     tq_timeoutMs = 50, tq_intent = Intent_EXPECTED_WRITE_NACK\<rparr>"

theorem adapters_attempt_every_request_witness:
  "tr_disposition (fst (wireTransfer benchWire benchWakeUp 1 0)) \<noteq> Disp_NOT_STARTED"
proof -
  define ip' where "ip' = benchPlatform\<lparr>ip_context := \<lparr>ictx_device = 1, ictx_address = I2C_ADDRESS\<rparr>\<rparr>"
  have c: "(1030, benchWakeUp) \<in> set (fr_trace (snd (poll 1030 1 1030 benchAttaching)))" by code_simp
  have b: "app_main benchBoot benchPlatform 1000 = Boot_running ip' (appStart (idfConsole ip') 1000)"
    by (simp add: app_main_def createBus_def addSensor_def benchBoot_def benchPlatform_def benchFramework_def
        Let_def ip'_def)
  have d: "ictx_device (ip_context ip') \<noteq> 0" by (simp add: ip'_def)
  have f: "\<And>a m b v. fst (wire_requestFrom benchWire a m b v) \<le> m" by (simp add: benchWire_def)
  from adapters_attempt_every_request [OF reachable_benchAttaching c b d f, of 1 0 0] show ?thesis by simp
qed

end
