(* ===== verification/Scd_Owner.thy ===== *)
theory Scd_Owner
  imports Scd_Calls_Of_Poll
begin

text \<open>
  The caller's side of the engine: a caller that polls at the times the driver asks for. A poll at the
  due time makes its call or ends the operation, unless the sensor still settles, and then the new due
  time is the end of the settling time. So the number of polls an operation takes is bounded by twice
  the number of its calls, whatever the transport does.
\<close>

subsection \<open>A step that is due\<close>

definition ready :: "'w frame \<Rightarrow> bool" where
  "ready fr \<longleftrightarrow> \<not> window (fr_drv fr) (fr_now fr) \<and> dueNow fr \<and> fr_budget fr \<noteq> 0"

lemma loopHead_restart: "loopHead (a, u, fr0) fr \<Longrightarrow> loopHead (a, u, fr) fr"
proof -
  assume h: "loopHead (a, u, fr0) fr"
  then have "binding (fr_drv fr) = binding (fr_drv fr0)"
    by (simp add: sensor_inv_def sound_def)
  moreover have "encoded (fr_drv fr)"
    using h encoded_running [OF staged_running [of a u "fr_drv fr0"] staged_running [of a u "fr_drv fr"]] by simp
  ultimately show ?thesis
    using h by (simp add: hasCallback_def binding_def)
qed

lemma head_disciplined: "loopHead (a, u, fr0) fr \<Longrightarrow> disciplined fr (step fr)"
  using loopHead_restart [of a u fr0 fr] step_disciplined [of fr a u] by simp

text \<open>Nothing is called only on the way from a wait to the phase that follows it.\<close>

lemma step_moves:
  assumes h: "loopHead (a, u, fr0) fr" and st: "step fr = (status, fr')" and r: "ready fr"
    and al: "alive (fr_drv fr')" and o: "ok status \<or> inProgress status" and q: "quiet fr fr'"
  shows "waits (activePhase (fr_drv fr)) \<and> \<not> waits (activePhase (fr_drv fr')) \<and> ready fr' \<and>
    continues fr status fr'"
proof -
  have "inProgress status"
    using step_loop(3) [OF h st] al o finished_not_alive by (auto simp: advances_def)
  moreover have "disciplined fr (status, fr')"
    using head_disciplined [OF h] st by simp
  moreover have "\<not> called req fr fr'" for req
    using q by (simp add: called_def quiet_def silent_def)
  ultimately have "fr_drv fr' = fr_drv fr \<and> \<not> dueNow fr \<or>
      waits (activePhase (fr_drv fr)) \<and> \<not> waits (activePhase (fr_drv fr')) \<and>
      a_nextDueMs (d_active (fr_drv fr')) = a_nextDueMs (d_active (fr_drv fr))"
    using r al unfolding disciplined_def ready_def fst_conv snd_conv by blast
  then have w: "waits (activePhase (fr_drv fr))" "\<not> waits (activePhase (fr_drv fr'))"
    and d: "a_nextDueMs (d_active (fr_drv fr')) = a_nextDueMs (d_active (fr_drv fr))"
    using r by (simp_all add: ready_def)
  have "ready fr'"
    using r q d quiet_window [OF q] by (simp add: ready_def dueNow_def quiet_def silent_def)
  moreover have "\<not> stalled fr fr'"
    using w by (auto simp: stalled_def)
  ultimately show ?thesis
    using w al o by (simp add: continues_def ready_def dueNow_def)
qed

text \<open>After the call of a poll the loop calls nothing more.\<close>

lemma loop_after_call:
  assumes h: "loopHead (a, u, fr0) fr" and s: "spent fr0 fr"
  shows "spent fr0 (pollLoop n fr)"
proof -
  have "\<not> quiet fr0 fr"
    using s by (auto simp: spent_def called_def quiet_def silent_def)
  then have "window (fr_drv fr) (fr_now fr)" using h by simp
  then have "\<not> spent fr (pollLoop n fr)"
    by (auto simp: spent_def called_def)
  then have "quiet fr (pollLoop n fr)"
    using engine.loop_settles [OF loopHead_restart [OF h], of n] by simp
  then show ?thesis by (rule spent_quiet [OF s])
qed

lemma pollLoop_moves:
  "loopHead (a, u, fr0) fr \<Longrightarrow> ready fr \<Longrightarrow> (if waits (activePhase (fr_drv fr)) then 1 else 0) < n \<Longrightarrow>
   finished a u (fr_drv (pollLoop n fr)) \<or> spent fr0 (pollLoop n fr)"
proof (induction n arbitrary: fr)
  case 0
  then show ?case by simp
next
  case (Suc n)
  note h = Suc.prems(1) and r = Suc.prems(2)
  obtain status fr' where st: "step fr = (status, fr')" by (metis surj_pair)
  note s = step_loop [OF h st]
  have head: "d_activeValid (fr_drv fr)" "\<not> settling fr"
    using h r staged_running [of a u "fr_drv fr"] by (auto simp: running_def settling_def ready_def window_def)
  consider (ended) "\<not> alive (fr_drv fr')" | (failed) "alive (fr_drv fr')" "\<not> ok status" "\<not> inProgress status"
    | (quiet) "alive (fr_drv fr')" "ok status \<or> inProgress status" "quiet fr fr'"
    | (called) "alive (fr_drv fr')" "ok status \<or> inProgress status" "\<not> quiet fr fr'"
    by blast
  then show ?case
  proof cases
    case ended
    then have "finished a u (fr_drv fr')"
      using s(3) staged_alive [of a u] running_alive [of a u "fr_drv fr'"]
      by (auto simp: advances_def split: if_splits)
    with ended head show ?thesis by (simp add: pollLoop_Suc st)
  next
    case failed
    then have "running a u (fr_drv fr')"
      using s(3) finished_not_alive by (auto simp: advances_def)
    with failed head show ?thesis
      by (simp add: pollLoop_Suc st finished_finishOperationFailure)
  next
    case quiet
    note m = step_moves [OF h st r quiet]
    have "finished a u (fr_drv (pollLoop n fr')) \<or> spent fr0 (pollLoop n fr')"
      using m Suc.prems(3) by (intro Suc.IH [OF s(4) [OF quiet(1,2)]]) simp_all
    with m quiet head show ?thesis by (auto simp: pollLoop_Suc st)
  next
    case called
    obtain req where c: "called req fr fr'"
      using called(3) head_disciplined [OF h] by (auto simp: st disciplined_def)
    have "\<not> spent fr0 fr"
      using h r by (auto simp: ready_def spent_def called_def quiet_def silent_def)
    then have "\<not> quiet fr0 fr'"
      using h c by (auto simp: called_def quiet_def silent_def)
    then have "spent fr0 fr'" using s(1) by blast
    with called head show ?thesis
      using loop_after_call [OF s(4) [OF called(1,2)]] by (auto simp: pollLoop_Suc st)
  qed
qed

subsection \<open>A poll that is due\<close>

lemma window_noteOwnerClock:
  "ownerClockOk t d \<Longrightarrow> window (noteOwnerClock t d) t = window d t"
  by (auto simp: window_def noteOwnerClock_def Let_def)

lemma poll_head:
  assumes inv: "driver_inv d" and act: "d_activeValid d" and dl: "\<not> timeReached t (a_deadlineMs (d_active d))"
  shows "loopHead (d_active d, allowance (activeKind d), pollFrame t n w d) (pollFrame t n w d)"
proof -
  have i: "driver_inv (noteOwnerClock t d)" by (rule noteOwnerClock_inv [OF inv])
  have a: "d_activeValid (noteOwnerClock t d)" using act by simp
  show ?thesis
    using driver_inv_slot [OF i a] i dl by (simp add: sensor_inv_self driver_inv_def)
qed

lemma poll_moves:
  assumes inv: "driver_inv d" and act: "d_activeValid d" and clk: "ownerClockOk t d" and n: "n \<noteq> 0"
    and due: "timeReached t (a_nextDueMs (d_active d))" and nw: "\<not> window d t"
  shows "finished (d_active d) (allowance (activeKind d)) (fr_drv (snd (poll t n w d))) \<or>
    spent (pollFrame t n w d) (snd (poll t n w d))"
proof (cases "timeReached t (a_deadlineMs (d_active d))")
  case True
  then show ?thesis using poll_settled(2) [OF inv act clk] by blast
next
  case False
  have "ready (pollFrame t n w d)"
    using n due nw by (simp add: ready_def dueNow_def window_noteOwnerClock [OF clk])
  from pollLoop_moves [OF poll_head [OF inv act False] this, of 3] show ?thesis
    using poll_settled(3) [OF inv act clk False, of 3] by simp
qed

lemma poll_blocked:
  assumes inv: "driver_inv d" and act: "d_activeValid d" and clk: "ownerClockOk t d"
    and due: "timeReached t (a_nextDueMs (d_active d))" and w: "window d t"
    and dl: "\<not> timeReached t (a_deadlineMs (d_active d))"
  shows "fr_drv (snd (poll t n x d)) = setDue (d_nextSafeCommandMs d) (noteOwnerClock t d)"
proof -
  let ?fr = "pollFrame t n x d"
  have win: "window (fr_drv ?fr) (fr_now ?fr)" "d_nextSafeCommandMs (noteOwnerClock t d) = d_nextSafeCommandMs d"
    using w window_noteOwnerClock [OF clk] by (simp_all add: noteOwnerClock_def Let_def)
  have st: "step ?fr = (progressing ''Sensor busy window active'', inDrv (\<lambda>d. setDue (d_nextSafeCommandMs d) d) ?fr)"
    using win(1) dl by (simp add: step_def window_def Let_def)
  have "\<not> settling ?fr" "\<not> timeReached t (d_nextSafeCommandMs d)"
    using due w by (simp_all add: settling_def window_def)
  moreover have "alive (setDue (d_nextSafeCommandMs d) (noteOwnerClock t d))"
    using act driver_inv_slot(1) [OF inv act] by (simp add: alive_def setDue_def)
  moreover have "a_nextDueMs (d_active (setDue m d')) = m" for m and d' :: "'a driver"
    by (simp add: setDue_def)
  ultimately have "pollLoop 3 ?fr = inDrv (\<lambda>d. setDue (d_nextSafeCommandMs d) d) ?fr"
    using act by (simp add: numeral_3_eq_3 pollLoop_Suc st continues_def win(2))
  moreover have "snd (poll t n x d) = pollLoop 3 ?fr"
    using poll_settled(3) [OF inv act clk dl, of 3] by simp
  ultimately show ?thesis using win(2) by simp
qed

text \<open>What a poll answers about an operation it leaves active: the time it wants the next poll at.\<close>

lemma poll_asks:
  assumes "poll t n w d = (result, fr)" and "d_activeValid (fr_drv fr)" and "\<not> d_terminalValid (fr_drv fr)"
  shows "pr_state result = Slot_ACTIVE" and "pr_id result = a_id (d_active (fr_drv fr))"
    and "pr_nextDueMs result = nextPollDueMs (fr_drv fr)"
  using assms
  by (auto simp: poll_def Let_def frameFor_def activeResult_def pollSummary_def split: if_splits)

subsection \<open>A caller that polls in time\<close>

text \<open>A poll: its time, its budget and what the transport finds.\<close>

fun servePolls :: "(u32 \<times> u8 \<times> 'w) list \<Rightarrow> 'w driver \<Rightarrow> 'w driver" where
  "servePolls [] d = d"
| "servePolls ((t, n, w) # ps) d = servePolls ps (fr_drv (snd (poll t n w d)))"

text \<open>Each poll has a budget and comes at or after the time the driver asked for.\<close>

fun onTime :: "(u32 \<times> u8 \<times> 'w) list \<Rightarrow> 'w driver \<Rightarrow> bool" where
  "onTime [] d \<longleftrightarrow> True"
| "onTime ((t, n, w) # ps) d \<longleftrightarrow>
     (d_activeValid d \<longrightarrow> n \<noteq> 0 \<and> ownerClockOk t d \<and> timeReached t (nextPollDueMs d)) \<and>
     onTime ps (fr_drv (snd (poll t n w d)))"

text \<open>
  The polls an operation may still need to make its calls: two for each call it has left, one less
  when it already waits for the end of the settling time.
\<close>

definition effort :: "'w driver \<Rightarrow> nat" where
  "effort d = 2 * (allowance (activeKind d) - unat (a_callbacksUsed (d_active d))) +
     (if d_nextSafeCommandValid d \<and> d_nextSafeCommandMs d \<noteq> a_nextDueMs (d_active d) then 1 else 0)"

lemma effort_bounds:
  "effort d \<le> 2 * (allowance (activeKind d) - unat (a_callbacksUsed (d_active d))) + 1"
  "2 * (allowance (activeKind d) - unat (a_callbacksUsed (d_active d))) \<le> effort d"
  by (simp_all add: effort_def)

lemma finished_same:
  "running a u d \<Longrightarrow> finished (d_active d) v d' = finished a v d'"
  by (simp add: finished_def running_def)

lemma running_allowance:
  "running (d_active d) u d' \<Longrightarrow> activeKind d' = activeKind d"
  by (simp add: running_def)

lemma allowance_small: "allowance k \<le> 14"
  by (cases k) (simp_all add: allowance_def OperationLimits_init_def)

lemma poll_on_time:
  assumes inv: "driver_inv d" and act: "d_activeValid d" and clk: "ownerClockOk t d" and n: "n \<noteq> 0"
    and due: "timeReached t (nextPollDueMs d)" and d': "d' = fr_drv (snd (poll t n w d))"
    and nf: "\<not> finished (d_active d) (allowance (activeKind d)) d'"
  shows "running (d_active d) (allowance (activeKind d)) d'" and "effort d' < effort d"
proof -
  let ?u = "allowance (activeKind d)"
  have dl: "\<not> timeReached t (a_deadlineMs (d_active d))"
    using poll_settled(2) [OF inv act clk] nf by (auto simp: d')
  then have due': "timeReached t (a_nextDueMs (d_active d))"
    using due by (simp add: nextPollDueMs_def split: if_splits)
  show run: "running (d_active d) ?u d'"
    using poll_settled(1) [OF inv act clk, of n w] nf staged_running by (auto simp: d')
  note kd = running_allowance [OF run]
  show "effort d' < effort d"
  proof (cases "window d t")
    case True
    have "d' = setDue (d_nextSafeCommandMs d) (noteOwnerClock t d)"
      unfolding d' by (rule poll_blocked [OF inv act clk due' True dl])
    moreover have "d_nextSafeCommandMs (noteOwnerClock t d) = d_nextSafeCommandMs d"
      by (simp add: noteOwnerClock_def Let_def)
    moreover have "d_nextSafeCommandValid d" "d_nextSafeCommandMs d \<noteq> a_nextDueMs (d_active d)"
      using True due' by (auto simp: window_def)
    ultimately show ?thesis
      by (simp add: effort_def setDue_def)
  next
    case False
    have "spent (pollFrame t n w d) (snd (poll t n w d))"
      using poll_moves [OF inv act clk n due' False] nf by (auto simp: d')
    then have "used d' = incrementSaturating (used (noteOwnerClock t d))"
      by (auto simp: spent_def d')
    then have "a_callbacksUsed (d_active d') = incrementSaturating (a_callbacksUsed (d_active d))"
      using act run by (simp add: used_def running_def)
    moreover have "unat (a_callbacksUsed (d_active d')) \<le> ?u" "unat (a_callbacksUsed (d_active d)) \<le> ?u"
      using run staged_running [OF driver_inv_slot(5) [OF inv act]] by (simp_all add: running_def)
    ultimately show ?thesis
      using allowance_small [of "activeKind d"]
        effort_bounds(1) [of d'] effort_bounds(2) [of d]
      by (simp add: kd unat_incrementSaturating)
  qed
qed

lemma servePolls_finished:
  "finished a u d \<Longrightarrow> finished a u (servePolls ps d)"
proof (induction ps d rule: servePolls.induct)
  case (2 t n w ps d)
  then have "snd (poll t n w d) = pollFrame t n w d"
    by (intro poll_rests) (simp add: finished_def)
  with 2 show ?case by (simp add: finished_def)
qed simp

lemma servePolls_ends:
  "driver_inv d \<Longrightarrow> d_activeValid d \<Longrightarrow> onTime ps d \<Longrightarrow> effort d < length ps \<Longrightarrow>
   finished (d_active d) (allowance (activeKind d)) (servePolls ps d)"
proof (induction ps d rule: servePolls.induct)
  case (2 t n w ps d)
  let ?d' = "fr_drv (snd (poll t n w d))" and ?u = "allowance (activeKind d)"
  show ?case
  proof (cases "finished (d_active d) ?u ?d'")
    case True
    then show ?thesis by (simp add: servePolls_finished)
  next
    case False
    have time: "n \<noteq> 0" "ownerClockOk t d" "timeReached t (nextPollDueMs d)"
      using 2 by simp_all
    note p = poll_on_time [OF 2(2,3) time(2,1,3) refl False]
    have "finished (d_active ?d') (allowance (activeKind ?d')) (servePolls ps ?d')"
      using 2 p running_alive [OF p(1)] driver_inv_poll [OF 2(2)]
      by (intro 2(1)) (simp_all add: alive_def)
    then show ?thesis
      using p(1) by (simp add: finished_same running_allowance)
  qed
qed simp

text \<open>
  C14. Every operation ends: when the caller polls at the times the driver asks for, or later within
  half the range of the clock, and with a budget, then after twice the published number of calls of
  the operation's kind and two more polls the operation's result is pending, under its own identity,
  whatever the transport does.
\<close>
theorem diligent_owner_finishes:
  assumes "reachable d" and "d_activeValid d" and "onTime ps d"
    and "2 * unat (lim_maxCallbacks (limits (activeKind d))) + 2 \<le> length ps"
  shows "operationState (servePolls ps d) = Slot_RESULT_PENDING \<and>
    res_id (d_terminal (servePolls ps d)) = a_id (d_active d) \<and>
    res_kind (d_terminal (servePolls ps d)) = activeKind d"
proof -
  have "effort d < length ps"
    using effort_bounds(1) [of d] assms(4) by (simp add: allowance_def)
  from servePolls_ends [OF reachable_inv [OF assms(1)] assms(2,3) this]
  show ?thesis by (simp add: finished_def operationState_def)
qed

definition punctualPolls :: "(u32 \<times> u8 \<times> u32) list" where
  "punctualPolls = map (\<lambda>t. (t, 1, t)) ([1030, 1060, 1560, 1561, 1562, 1563] @ replicate 8 1563)"

theorem diligent_owner_finishes_witness:
  "res_id (d_terminal (servePolls punctualPolls benchAttaching)) = a_id (d_active benchAttaching)"
proof -
  have "d_activeValid benchAttaching" "onTime punctualPolls benchAttaching"
    "2 * unat (lim_maxCallbacks (limits (activeKind benchAttaching))) + 2 \<le> length punctualPolls"
    by code_simp+
  then show ?thesis using diligent_owner_finishes [OF reachable_benchAttaching] by blast
qed

end
