(* ===== verification/Scd_Float.thy ===== *)
theory Scd_Float
  imports Scd_Codec "HOL-Library.Log_Nat"
begin

text \<open>
  The floating-point conveniences of src/SCD41.cpp. A \<open>float\<close> is IEEE binary32 in round-to-nearest-even:
  a finite value is the rational number it stands for, and every operation is the exact one followed by
  \<open>round32\<close>. The sign of a zero is not kept, nothing here can see it, and no operation here overflows.
\<close>

subsection \<open>IEEE binary32\<close>

datatype float32 = Finite rat | Infinite bool | NaN

text \<open>The exponent of the binade of a number, \<open>2 ^ e \<le> |x| < 2 ^ (e + 1)\<close>, and the spacing of the floats in it.\<close>

definition binade :: "rat \<Rightarrow> int" where
  "binade x =
     (let (a, b) = quotient_of \<bar>x\<bar>;
          e = bitlen a - bitlen b
      in if 2 powi e \<le> \<bar>x\<bar> then e else e - 1)"

definition spacing :: "rat \<Rightarrow> rat" where
  "spacing x = 2 powi (max (binade x - 23) (- 149))"

definition roundEven :: "rat \<Rightarrow> int" where
  "roundEven q =
     (let f = \<lfloor>q\<rfloor>; r = q - of_int f
      in if r < 1 / 2 \<or> r = 1 / 2 \<and> even f then f else f + 1)"

definition round32 :: "rat \<Rightarrow> rat" where
  "round32 x = of_int (roundEven (x / spacing x)) * spacing x"

text \<open>\<open>static_cast<float>\<close> of an integer and \<open>static_cast<int32_t>\<close> of a float.\<close>

definition toFloat :: "int \<Rightarrow> rat" where
  "toFloat i = round32 (of_int i)"

definition truncated :: "rat \<Rightarrow> int" where
  "truncated x = (if x < 0 then \<lceil>x\<rceil> else \<lfloor>x\<rfloor>)"

subsection \<open>The conveniences\<close>

definition convertTemperatureC :: "u16 \<Rightarrow> rat" where
  "convertTemperatureC raw =
     round32 (- 45 + round32 (round32 (175 * toFloat (uint raw)) / 65535))"

definition convertHumidityPct :: "u16 \<Rightarrow> rat" where
  "convertHumidityPct raw = round32 (round32 (100 * toFloat (uint raw)) / 65535)"

text \<open>
  C++ lets a compiler contract the product and the sum into one operation that rounds once; \<open>fused\<close>
  says whether it does.
\<close>

definition encodeTemperatureOffsetC :: "bool \<Rightarrow> float32 \<Rightarrow> u16 \<Rightarrow> Status \<times> u16" where
  "encodeTemperatureOffsetC fused offsetC out =
     (case offsetC of
        Finite x \<Rightarrow>
          if x < 0 \<or> x > 175
          then (Status_Error Err_INVALID_PARAM ''Temperature offset out of range'' 0, out)
          else (let milli = truncated (if fused then round32 (x * 1000 + 1 / 2)
                                       else round32 (round32 (x * 1000) + 1 / 2))
                in encodeTemperatureOffsetMilliC milli out)
      | _ \<Rightarrow> (Status_Error Err_INVALID_PARAM ''Temperature offset out of range'' 0, out))"

definition decodeTemperatureOffsetC :: "u16 \<Rightarrow> rat" where
  "decodeTemperatureOffsetC raw = round32 (toFloat (decodeTemperatureOffsetMilliC raw) / 1000)"

subsection \<open>The error of a rounding\<close>

lemma roundEven_error: "\<bar>of_int (roundEven q) - q\<bar> \<le> 1 / 2"
proof -
  define f where "f = \<lfloor>q\<rfloor>"
  have "of_int f \<le> q" "q < of_int f + 1" unfolding f_def by linarith+
  then show ?thesis by (auto simp: roundEven_def Let_def abs_le_iff simp flip: f_def)
qed

lemma spacing_pos: "0 < spacing x"
  by (simp add: spacing_def)

lemma round32_spacing: "\<bar>round32 x - x\<bar> \<le> spacing x / 2"
proof -
  have "\<bar>of_int (roundEven (x / spacing x)) - x / spacing x\<bar> * spacing x \<le> 1 / 2 * spacing x"
    using spacing_pos [of x] by (intro mult_right_mono [OF roundEven_error]) simp
  moreover have "\<bar>of_int (roundEven (x / spacing x)) - x / spacing x\<bar> * spacing x = \<bar>round32 x - x\<bar>"
    using spacing_pos [of x] by (simp add: round32_def abs_mult_pos' [symmetric] left_diff_distrib abs_mult_pos)
  ultimately show ?thesis by simp
qed

lemma bitlen_powers:
  assumes "0 < n"
  shows "2 powi (bitlen n - 1) \<le> (of_int n :: rat)" and "(of_int n :: rat) < 2 powi bitlen n"
proof -
  have f: "2 ^ nat (bitlen n - 1) \<le> n" "n < 2 ^ nat (bitlen n)" and pos: "0 < bitlen n"
    using bitlen_bounds [OF assms] bitlen_nonneg [of n] bitlen_eq_zero_iff [of n] assms by simp_all
  have "(of_int (2 ^ nat (bitlen n - 1)) :: rat) \<le> of_int n" "(of_int n :: rat) < of_int (2 ^ nat (bitlen n))"
    using f by (simp_all only: of_int_le_iff of_int_less_iff)
  then show "2 powi (bitlen n - 1) \<le> (of_int n :: rat)" "(of_int n :: rat) < 2 powi bitlen n"
    using pos by (simp_all add: power_int_def)
qed

lemma binade_le: "x \<noteq> 0 \<Longrightarrow> 2 powi binade x \<le> \<bar>x\<bar>"
proof -
  assume x: "x \<noteq> 0"
  obtain a b where q: "quotient_of \<bar>x\<bar> = (a, b)" by (metis surj_pair)
  then have b: "0 < b" and ab: "\<bar>x\<bar> = of_int a / of_int b"
    using quotient_of_denom_pos quotient_of_div by blast+
  from x have "0 < \<bar>x\<bar>" by simp
  then have a: "0 < a"
    unfolding ab using b by (simp add: zero_less_divide_iff)
  let ?e = "bitlen a - bitlen b"
  have "2 powi (?e - 1) * of_int b \<le> 2 powi (?e - 1) * (2 powi bitlen b :: rat)"
    using bitlen_powers(2) [OF b] by (intro mult_left_mono) simp_all
  also have "\<dots> = 2 powi (bitlen a - 1)"
    by (subst power_int_add [symmetric]) simp_all
  also have "\<dots> \<le> of_int a" by (rule bitlen_powers(1) [OF a])
  finally have "2 powi (?e - 1) \<le> \<bar>x\<bar>"
    using b by (simp add: ab pos_le_divide_eq)
  then show ?thesis by (simp add: binade_def q Let_def)
qed

lemma round32_error: "\<bar>round32 x - x\<bar> \<le> \<bar>x\<bar> / 2 ^ 24 + 1 / 2 ^ 100"
proof (cases "x = 0")
  case True
  then show ?thesis by (simp add: round32_def roundEven_def)
next
  case False
  have nn: "0 \<le> \<bar>x\<bar> / 2 ^ 23" "(0 :: rat) \<le> 1 / 2 ^ 99" by simp_all
  have "spacing x \<le> 1 / 2 ^ 99 \<or> spacing x \<le> \<bar>x\<bar> / 2 ^ 23"
  proof (cases "binade x - 23 \<le> - 149")
    case True
    then have "spacing x = 2 powi (- 149)" by (simp add: spacing_def max_def)
    also have "\<dots> \<le> 1 / 2 ^ 99" by (simp add: power_int_minus)
    finally show ?thesis by blast
  next
    case False
    then have "spacing x = 2 powi binade x / 2 ^ 23"
      by (simp add: spacing_def max_def power_int_diff)
    also have "\<dots> \<le> \<bar>x\<bar> / 2 ^ 23"
      by (rule divide_right_mono [OF binade_le [OF \<open>x \<noteq> 0\<close>]]) simp
    finally show ?thesis by blast
  qed
  then have "spacing x \<le> \<bar>x\<bar> / 2 ^ 23 + 1 / 2 ^ 99" using nn by linarith
  then show ?thesis using round32_spacing [of x] by simp
qed

lemma round32_within:
  assumes "- b \<le> x" "x \<le> b"
  shows "x - (b / 16777216 + 1 / 1000000000) \<le> round32 x" "round32 x \<le> x + (b / 16777216 + 1 / 1000000000)"
proof -
  have "\<bar>x\<bar> / 2 ^ 24 \<le> b / 2 ^ 24" using assms by (intro divide_right_mono) auto
  then have "\<bar>round32 x - x\<bar> \<le> b / 16777216 + 1 / 1000000000" using round32_error [of x] by simp
  then show "x - (b / 16777216 + 1 / 1000000000) \<le> round32 x" "round32 x \<le> x + (b / 16777216 + 1 / 1000000000)"
    by (simp_all add: abs_le_iff)
qed

lemma truncated_near: "of_int m - 1 / 2 < x \<Longrightarrow> x < of_int m + 1 / 2 \<Longrightarrow> 0 \<le> m \<Longrightarrow> truncated (x + 1 / 2) = m"
  using of_int_0_le_iff [of m, where ?'a = rat] by (auto simp: truncated_def floor_eq_iff)

subsection \<open>The conveniences agree with the fixed-point conversions\<close>

lemma u16_range: "(0 :: rat) \<le> of_int (uint (w :: u16))" "(of_int (uint (w :: u16)) :: rat) \<le> of_int 65535"
  using uint_u16 [of w] by (simp_all only: of_int_le_iff of_int_0_le_iff)

lemma nearest_rat:
  assumes "2 * \<bar>65535 * j - k * i\<bar> \<le> 65535"
  shows "of_int k * of_int i - 32767 \<le> 65535 * (of_int j :: rat)" "65535 * (of_int j :: rat) \<le> of_int k * of_int i + 32767"
proof -
  have "\<bar>65535 * j - k * i\<bar> \<le> 32767" using assms by simp
  then have "k * i - 32767 \<le> 65535 * j" "65535 * j \<le> k * i + 32767"
    by (simp_all add: abs_le_iff)
  then have "(of_int (k * i - 32767) :: rat) \<le> of_int (65535 * j)" "(of_int (65535 * j) :: rat) \<le> of_int (k * i + 32767)"
    by (simp_all only: of_int_le_iff)
  then show "of_int k * of_int i - 32767 \<le> 65535 * (of_int j :: rat)" "65535 * (of_int j :: rat) \<le> of_int k * of_int i + 32767"
    by simp_all
qed

lemma convertTemperatureC_near:
  "\<bar>convertTemperatureC raw - of_int (convertTemperatureMilliC raw) / 1000\<bar> < 6 / 10000"
proof -
  define u :: rat where "u = of_int (uint raw)"
  define m :: rat where "m = of_int (convertTemperatureMilliC raw)"
  define a where "a = toFloat (uint raw)"
  define p where "p = round32 (175 * a)"
  define q where "q = round32 (p / 65535)"
  define t where "t = convertTemperatureC raw"
  have t: "t = round32 (- 45 + q)"
    by (simp only: t_def convertTemperatureC_def q_def p_def a_def)
  have u: "0 \<le> u" "u \<le> 65535"
    using u16_range [of raw] by (simp_all only: u_def of_int_numeral)
  have "2 * \<bar>65535 * (convertTemperatureMilliC raw + 45000) - 175000 * uint raw\<bar> \<le> 65535"
    using nearest_quotient [of "uint raw" 175000] by (simp only: convertTemperatureMilliC_eq diff_add_cancel)
  from nearest_rat [OF this] have m: "175000 * u - 32767 \<le> 65535 * (m + 45000)" "65535 * (m + 45000) \<le> 175000 * u + 32767"
    by (simp_all only: u_def m_def of_int_add of_int_numeral)
  have a: "u - 4 / 1000 \<le> a" "a \<le> u + 4 / 1000"
    using u round32_within [of 65535 u] by (simp_all add: a_def toFloat_def u_def)
  then have p: "175 * a - 69 / 100 \<le> p" "p \<le> 175 * a + 69 / 100"
    using u round32_within [of 11468626 "175 * a"] by (simp_all add: p_def)
  then have q: "p / 65535 - 11 / 1000000 \<le> q" "q \<le> p / 65535 + 11 / 1000000"
    using a u round32_within [of 176 "p / 65535"] by (simp_all add: q_def)
  then have t: "- 45 + q - 11 / 1000000 \<le> t" "t \<le> - 45 + q + 11 / 1000000"
    using p a u round32_within [of 176 "- 45 + q"] by (simp_all add: t)
  have "175 * u / 65535 - 33 / 1000000 \<le> q" "q \<le> 175 * u / 65535 + 33 / 1000000"
    using q p a by simp_all
  moreover have "175 * u / 65535 - 51 / 100000 \<le> m / 1000 + 45" "m / 1000 + 45 \<le> 175 * u / 65535 + 51 / 100000"
    using m by simp_all
  ultimately have "\<bar>t - m / 1000\<bar> < 6 / 10000"
    using t unfolding abs_less_iff by (intro conjI) linarith+
  then show ?thesis by (simp only: t_def m_def)
qed

lemma convertHumidityPct_near:
  "\<bar>convertHumidityPct raw - of_int (uint (convertHumidityMilliPercent raw)) / 1000\<bar> < 6 / 10000"
proof -
  define u :: rat where "u = of_int (uint raw)"
  define m :: rat where "m = of_int (uint (convertHumidityMilliPercent raw))"
  define a where "a = toFloat (uint raw)"
  define p where "p = round32 (100 * a)"
  define t where "t = convertHumidityPct raw"
  have t: "t = round32 (p / 65535)"
    by (simp only: t_def convertHumidityPct_def p_def a_def)
  have u: "0 \<le> u" "u \<le> 65535"
    using u16_range [of raw] by (simp_all only: u_def of_int_numeral)
  have "2 * \<bar>65535 * uint (convertHumidityMilliPercent raw) - 100000 * uint raw\<bar> \<le> 65535"
    using nearest_quotient [of "uint raw" 100000] by (simp only: convertHumidityMilliPercent_eq)
  from nearest_rat [OF this] have m: "100000 * u - 32767 \<le> 65535 * m" "65535 * m \<le> 100000 * u + 32767"
    by (simp_all only: u_def m_def of_int_numeral)
  have a: "u - 4 / 1000 \<le> a" "a \<le> u + 4 / 1000"
    using u round32_within [of 65535 u] by (simp_all add: a_def toFloat_def u_def)
  then have p: "100 * a - 4 / 10 \<le> p" "p \<le> 100 * a + 4 / 10"
    using u round32_within [of 6553501 "100 * a"] by (simp_all add: p_def)
  then have "p / 65535 - 11 / 1000000 \<le> t" "t \<le> p / 65535 + 11 / 1000000"
    using a u round32_within [of 101 "p / 65535"] by (simp_all add: t)
  then have "\<bar>t - m / 1000\<bar> < 6 / 10000"
    using p a m unfolding abs_less_iff by (intro conjI) linarith+
  then show ?thesis by (simp only: t_def m_def)
qed

lemma decodeTemperatureOffsetC_near:
  fixes m c :: rat
  assumes "m = of_int (decodeTemperatureOffsetMilliC raw)" and "c = decodeTemperatureOffsetC raw"
  shows "m / 1000 - 3 / 100000 \<le> c" "c \<le> m / 1000 + 3 / 100000" "0 \<le> c" "c \<le> 175" "0 \<le> m" "m \<le> 175000"
proof -
  define a where "a = toFloat (decodeTemperatureOffsetMilliC raw)"
  have i: "0 \<le> decodeTemperatureOffsetMilliC raw" "decodeTemperatureOffsetMilliC raw \<le> 175000"
    using temperature.dec_valid [of raw] by simp_all
  then show m: "0 \<le> m" "m \<le> 175000" by (simp_all add: assms(1))
  have c: "c = round32 (a / 1000)"
    by (simp add: assms(2) decodeTemperatureOffsetC_def a_def)
  have a: "m - 11 / 1000 \<le> a" "a \<le> m + 11 / 1000"
    using m round32_within [of 175000 m] by (simp_all add: a_def toFloat_def assms(1))
  then have near: "a / 1000 - 11 / 1000000 \<le> c" "c \<le> a / 1000 + 11 / 1000000"
    using m round32_within [of 176 "a / 1000"] by (simp_all add: c)
  then show "m / 1000 - 3 / 100000 \<le> c" "c \<le> m / 1000 + 3 / 100000"
    using a by linarith+
  show "0 \<le> c"
  proof (cases "decodeTemperatureOffsetMilliC raw = 0")
    case True
    have "round32 (toFloat 0 / 1000) = 0" by code_simp
    then show ?thesis using True by (simp add: c a_def)
  next
    case False
    then have "1 \<le> m" using i by (simp add: assms(1))
    then show ?thesis using a near by linarith
  qed
  show "c \<le> 175"
  proof (cases "decodeTemperatureOffsetMilliC raw = 175000")
    case True
    have "round32 (toFloat 175000 / 1000) = 175" by code_simp
    then show ?thesis using True by (simp add: c a_def)
  next
    case False
    then have "decodeTemperatureOffsetMilliC raw \<le> 174999" using i by simp
    then have "m \<le> of_int 174999" by (simp only: assms(1) of_int_le_iff)
    then show ?thesis using a near by simp
  qed
qed

text \<open>The number that is truncated, whether the product is rounded before the sum or not.\<close>

lemma encode_argument:
  assumes "0 \<le> x" "x \<le> 175"
  shows "x * 1000 - 25 / 1000 \<le> (if fused then round32 (x * 1000 + 1 / 2) else round32 (round32 (x * 1000) + 1 / 2)) - 1 / 2"
    and "(if fused then round32 (x * 1000 + 1 / 2) else round32 (round32 (x * 1000) + 1 / 2)) - 1 / 2 \<le> x * 1000 + 25 / 1000"
proof -
  define p where "p = round32 (x * 1000)"
  have p: "x * 1000 - 11 / 1000 \<le> p" "p \<le> x * 1000 + 11 / 1000"
    using assms round32_within [of 175000 "x * 1000"] by (simp_all add: p_def)
  note once = round32_within [of 176000 "x * 1000 + 1 / 2"] and twice = round32_within [of 176000 "p + 1 / 2"]
  show "x * 1000 - 25 / 1000 \<le> (if fused then round32 (x * 1000 + 1 / 2) else round32 (round32 (x * 1000) + 1 / 2)) - 1 / 2"
    unfolding p_def [symmetric] using assms p once twice by (cases fused) simp_all
  show "(if fused then round32 (x * 1000 + 1 / 2) else round32 (round32 (x * 1000) + 1 / 2)) - 1 / 2 \<le> x * 1000 + 25 / 1000"
    unfolding p_def [symmetric] using assms p once twice by (cases fused) simp_all
qed

lemma encode_decode_float:
  "encodeTemperatureOffsetC fused (Finite (decodeTemperatureOffsetC raw)) out = (Status_Ok, raw)"
proof -
  define c where "c = decodeTemperatureOffsetC raw"
  define s where "s = (if fused then round32 (c * 1000 + 1 / 2) else round32 (round32 (c * 1000) + 1 / 2))"
  note near = decodeTemperatureOffsetC_near [OF refl c_def]
  note arg = encode_argument [OF near(3,4), of fused, folded s_def]
  have "truncated (s - 1 / 2 + 1 / 2) = decodeTemperatureOffsetMilliC raw"
    using near arg temperature.dec_valid [of raw] by (intro truncated_near) simp_all
  then have "encodeTemperatureOffsetC fused (Finite c) out = encodeTemperatureOffsetMilliC (decodeTemperatureOffsetMilliC raw) out"
    using near(3,4) by (simp add: encodeTemperatureOffsetC_def Let_def flip: s_def)
  then show ?thesis
    using temperature.roundtrip [of raw out] by (simp add: c_def)
qed

lemma ok_encode_float:
  assumes "0 \<le> x" "x \<le> 175"
  shows "ok (fst (encodeTemperatureOffsetC fused (Finite x) out))"
proof -
  define s where "s = (if fused then round32 (x * 1000 + 1 / 2) else round32 (round32 (x * 1000) + 1 / 2))"
  note arg = encode_argument [OF assms, of fused, folded s_def]
  then have "0 \<le> s" "s < 175001" using assms by linarith+
  then have "0 \<le> truncated s \<and> truncated s \<le> 175000"
    by (simp add: truncated_def floor_le_iff)
  then show ?thesis
    using assms by (simp add: encodeTemperatureOffsetC_def Let_def ok_encodeTemperatureOffsetMilliC flip: s_def)
qed

text \<open>
  C30. The floating-point conveniences agree with the fixed-point conversions of the driver: a decoded
  temperature offset encodes back to the same word, whether the compiler fuses the product and the sum
  or not; temperature and humidity differ from the fixed-point values by less than 0.6 thousandths of a
  unit; and only finite offsets from 0 to 175 degrees are encoded, anything else is refused and leaves
  the output alone.
\<close>
theorem float_conveniences_agree:
  "encodeTemperatureOffsetC fused (Finite (decodeTemperatureOffsetC raw)) out = (Status_Ok, raw) \<and>
   \<bar>convertTemperatureC raw - of_int (convertTemperatureMilliC raw) / 1000\<bar> < 6 / 10000 \<and>
   \<bar>convertHumidityPct raw - of_int (uint (convertHumidityMilliPercent raw)) / 1000\<bar> < 6 / 10000 \<and>
   (if \<exists>x. offsetC = Finite x \<and> 0 \<le> x \<and> x \<le> 175
    then ok (fst (encodeTemperatureOffsetC fused offsetC out))
    else st_code (fst (encodeTemperatureOffsetC fused offsetC out)) = Err_INVALID_PARAM \<and>
      snd (encodeTemperatureOffsetC fused offsetC out) = out)"
proof -
  have "if \<exists>x. offsetC = Finite x \<and> 0 \<le> x \<and> x \<le> 175
    then ok (fst (encodeTemperatureOffsetC fused offsetC out))
    else st_code (fst (encodeTemperatureOffsetC fused offsetC out)) = Err_INVALID_PARAM \<and>
      snd (encodeTemperatureOffsetC fused offsetC out) = out"
    using ok_encode_float by (cases offsetC) (auto simp: encodeTemperatureOffsetC_def)
  then show ?thesis
    using encode_decode_float convertTemperatureC_near convertHumidityPct_near by blast
qed

end
