(* ===== verification/Spec2Isabelle.thy ===== *)
theory Spec2Isabelle
  imports Scd_Crc Scd_Calls_Of_Poll Scd_Reference Scd_Doubt Scd_Console_Safety Scd_Print
    Scd_Arduino_Program Scd_Arduino_Print Scd_Boot Scd_Owner Scd_Float
begin

text \<open>
  A verification library of the SCD41 CO2 sensor driver and of the programs that come with it.

  The program. The driver (src/SCD41.cpp, include/SCD41) runs typed operations on a Sensirion
  SCD41 over I2C without ever blocking: its owner binds it to a transport callback with \<open>begin\<close>,
  admits one operation at a time with \<open>start\<close>, drives it with \<open>poll\<close>, which makes at most as many
  callbacks as it is allowed and never sleeps, ends it early with \<open>cancel\<close> or \<open>end\<close>, and takes the one
  retained result with \<open>takeResult\<close>. Between a command and its response the sensor needs time, so an
  operation is a state machine of phases with due times on a clock that wraps at 2^32 ms. The
  examples own a driver: a diagnostic sequencer, a transport adapter for each of two frameworks,
  and a console program on each.

  Conventions. A C++ struct is a record with a short prefix on its members, an enumeration a
  datatype, an integer a word of its width (signed ones int, where nothing overflows), an array or a
  buffer a list, a char* a string. A method takes the object as its last argument and returns it
  updated. The callback is a function from the request, the opaque pointer and the state \<open>'w\<close> of the
  world behind it to the result, the bytes and the new world: everything outside the driver is \<open>'w\<close>.
  A step of an operation works on a \<open>frame\<close>: the driver, the world, the time and the callbacks left.
  Definitions carry the names of the source; where one function is long, it is one definition per
  phase or branch, composed in the same order.

  The theories, and what they model.
  \<^item> Scd_Prelude: integer types, saturating counters, named collections, lemmas on words and lists.
  \<^item> Scd_Status, Scd_Commands, Scd_Transport, Scd_Types, Scd_Names: Status.h, CommandTable.h, Config.h,
    and the enumerations and structs of SCD41.h with their names.
  \<^item> Scd_Codec, Scd_Crc, Scd_Kinds, Scd_Clock: the pure functions of SCD41.cpp: CRC, conversions, the
    tables over operation kinds, the tests on the wrapping clock. Scd_Float: its four floating-point
    conveniences, over IEEE binary32 written out as rationals and one rounding.
  \<^item> Scd_Driver, Scd_Finish, Scd_Admission, Scd_Transfer: the driver's state and its small updates, the
    two ways an operation ends, binding and admission, one physical transfer.
  \<^item> Scd_Attach, Scd_ReadLike, Scd_WriteLike, Scd_Measurement, Scd_Maintenance: the step functions.
  \<^item> Scd_Engine, Scd_Api: \<open>poll\<close> and its loop; \<open>cancel\<close>, \<open>takeResult\<close>, \<open>end\<close>, the snapshots and accessors, and the
    relation \<open>driver_step\<close> of all calls with the states it reaches.
  \<^item> Scd_Workflow: DiagnosticWorkflow.h. Scd_Adapters: IdfI2cTransport.cpp and I2cTransport.h.
  \<^item> Scd_Line, Scd_Format, Scd_Console, Scd_Print: the ESP-IDF program (examples/idf/basic/main/main.cpp):
    lines and numbers, \<open>printf\<close>, the program as a state machine of turns, the text it prints and
    Version.h. Scd_Boot: its start in \<open>app_main\<close>, standard input, the bus and the device on it.
  \<^item> Scd_Arduino: the Arduino program (examples/01_basic_bringup_cli/main.cpp) with CommandHandler.h,
    CliShell.h and I2cScanner.h. Scd_Arduino_Print: what it prints, with Log.h, CliStyle.h and
    BuildConfig.h.

  What the lemmas show.
  \<^item> Scd_Steps, Scd_Stages, Scd_Sensor, Scd_Invariant: every step keeps the stage table of operations and
    the consistency of what the driver knows of the sensor; \<open>driver_inv\<close> joins them and holds in every
    reachable state. Scd_Lifecycle reads off what the owner relies on between calls.
  \<^item> Scd_Calls, Scd_Loop, Scd_Calls_Of_Poll: what one poll puts on the bus, when, and that the bound on
    its loop does not matter.
  \<^item> Scd_Owner: an owner that polls when the driver asks for it gets every result after a number of
    polls that only depends on the kind of operation.
  \<^item> Scd_Success, Scd_Failures, Scd_Doubt: what a success has achieved, what a failure of any operation
    that still runs does to the driver, and that no poll hides what its transfer may have done.
  \<^item> Scd_Reference: admission as a table, generations as a cycle, the driver as a slot it refines.
  \<^item> Scd_Crc, Scd_Codec, Scd_Line, Scd_Format, Scd_Print: the CRC as a shift register and what it
    detects, round trips of words, settings, numbers, lines and printed results.
  \<^item> Scd_Workflow, Scd_Adapters: the sequencer only asks for what the driver admits, ends and balances
    its accounts; the adapters keep the contract of the callback.
  \<^item> Scd_Console_Invariant, Scd_Console_Safety: the program never loses track of its driver, and starts
    nothing that wears the sensor without a typed confirmation. Scd_Arduino_Same and
    Scd_Arduino_Program: the Arduino program is the same program on another platform, and
    Scd_Arduino_Print: it prints the same text, but for the end of one line.
  \<^item> Scd_Boot: no request that the driver makes is one that an adapter rejects. Scd_Float: the
    floating-point conveniences agree with the fixed-point conversions.
  \<^item> Scd_Bench: a driver on a simulated sensor, evaluated in the kernel, for the witnesses.

  Interfaces. \<open>wrapping_clock\<close> (Scd_Clock) is what the driver needs of its clock test, \<open>setting_codec\<close>
  (Scd_Codec) what a setting needs of its encoding, interpreted for temperature and pressure, and
  \<open>bounded_loop\<close> (Scd_Loop) the contract between a step and the loop of \<open>poll\<close>, interpreted three
  times on the model's own \<open>step\<close>: for the calls of a poll, for the honesty of a success and for the
  doubt that a transfer leaves.

  Bounds and fuel. \<open>pollLoop\<close> takes the source's own limit of 32 transitions as fuel; three rounds are
  always enough, so the limit is never reached. The readers of the consoles give up after 128
  characters per call, as the source does. Every other recursion is structural or has a measure; no
  definition can run out of fuel silently. \<open>long\<close> has \<open>longBits\<close> bits, 32 on the targets.

  Arguments of the model. The application's callback, the calls of ESP-IDF and of Wire, \<open>fcntl\<close>, the methods
  of Arduino's String and the contents of the input are not in the repository. The theorems hold
  for all of them, except that the two programs are compared under \<open>string_laws\<close>, the documented
  behaviour of String, which \<open>plainString\<close> satisfies.

  Floating point. A finite binary32 is the rational it stands for; every operation is the exact one
  followed by a rounding to nearest, ties to even, with subnormals. The sign of zero is dropped and
  overflow is left out: the arguments of the conveniences are 16-bit words or checked to lie in
  0..175 first, so no operation comes near it. Whether the compiler contracts a product and a sum is
  an argument.

  Not modelled. Opening the Arduino serial port (\<open>log_begin\<close>), a single call of the framework. The
  macros of Version.h for the date and the time of the build. The host tests, scripts and tools.
\<close>

end
